(* ===== verification/Prelude.thy ===== *)
theory Prelude
  imports Main
begin

text \<open>
  Shared vocabulary of the development: the named collections the component theories
  extend, and the generic list operations and lemmas several components use (joining
  and splitting on a separator, which the query-string model needs).
\<close>

named_theorems js_simps \<open>evaluation rules of the JavaScript value helpers\<close>
named_theorems effect_simps \<open>evaluation rules of the effect-trace combinators\<close>

section \<open>Joining and splitting on a separator\<close>

text \<open>\<open>join_sep d [xs1, ..., xsn]\<close> is \<open>xs1 @ [d] @ ... @ [d] @ xsn\<close>, JavaScript's
  \<open>Array.prototype.join\<close> with a one-character separator.\<close>

fun join_sep :: "'a \<Rightarrow> 'a list list \<Rightarrow> 'a list" where
  "join_sep d [] = []"
| "join_sep d [xs] = xs"
| "join_sep d (xs # ys # yss) = xs @ d # join_sep d (ys # yss)"

text \<open>\<open>split_on d xs\<close> cuts \<open>xs\<close> at every \<open>d\<close>; it always returns at least one
  piece (\<open>String.prototype.split\<close> with a one-character separator).\<close>

fun split_on :: "'a \<Rightarrow> 'a list \<Rightarrow> 'a list list" where
  "split_on d [] = [[]]"
| "split_on d (x # xs) =
     (let r = split_on d xs in if x = d then [] # r else (x # hd r) # tl r)"

lemma split_on_not_Nil [simp]: "split_on d xs \<noteq> []"
  by (induction xs) (auto simp: Let_def)

lemma split_on_no_sep:
  "d \<notin> set xs \<Longrightarrow> split_on d (xs @ ys) = (xs @ hd (split_on d ys)) # tl (split_on d ys)"
  by (induction xs) (auto simp: Let_def)

lemma split_on_sep_append:
  "d \<notin> set xs \<Longrightarrow> split_on d (xs @ d # ys) = xs # split_on d ys"
  by (simp add: split_on_no_sep Let_def)

lemma split_on_no_sep_only: "d \<notin> set xs \<Longrightarrow> split_on d xs = [xs]"
  using split_on_no_sep [of d xs "[]"] by simp

lemma split_on_join_sep:
  assumes "\<forall>xs \<in> set xss. d \<notin> set xs" and "xss \<noteq> []"
  shows "split_on d (join_sep d xss) = xss"
  using assms
proof (induction d xss rule: join_sep.induct)
  case (2 d xs)
  then show ?case by (simp add: split_on_no_sep_only)
next
  case (3 d xs ys yss)
  then show ?case by (simp add: split_on_sep_append)
qed simp

lemma join_sep_Nil_iff: "join_sep d xss = [] \<longleftrightarrow> (\<forall>xs \<in> set xss. xs = []) \<and> length xss \<le> 1"
  by (induction d xss rule: join_sep.induct) auto

section \<open>Cutting a list at the first separator\<close>

definition break_at :: "'a \<Rightarrow> 'a list \<Rightarrow> 'a list \<times> 'a list" where
  "break_at d xs = (takeWhile (\<lambda>c. c \<noteq> d) xs, drop 1 (dropWhile (\<lambda>c. c \<noteq> d) xs))"

lemma break_at_append:
  "d \<notin> set xs \<Longrightarrow> break_at d (xs @ d # ys) = (xs, ys)"
  by (induction xs) (auto simp: break_at_def)

section \<open>Substrings\<close>

text \<open>\<open>s.includes(q)\<close>: \<open>q\<close> occurs in \<open>s\<close> as a contiguous piece.\<close>

fun str_includes :: "'a list \<Rightarrow> 'a list \<Rightarrow> bool" where
  "str_includes [] q = (q = [])"
| "str_includes (c # s) q = (take (length q) (c # s) = q \<or> str_includes s q)"

lemma take_eq_prefix: "take (length q) s = q \<longleftrightarrow> (\<exists>ys. s = q @ ys)"
  by (metis append_eq_conv_conj)

lemma str_includes_iff: "str_includes s q \<longleftrightarrow> (\<exists>xs ys. s = xs @ q @ ys)"
proof (induction s)
  case Nil
  then show ?case by simp
next
  case (Cons c s)
  have "(\<exists>xs ys. c # s = xs @ q @ ys) \<longleftrightarrow> (\<exists>ys. c # s = q @ ys) \<or> (\<exists>xs ys. s = xs @ q @ ys)"
    by (auto simp: Cons_eq_append_conv)
  then show ?case using Cons.IH by (simp only: str_includes.simps take_eq_prefix)
qed

section \<open>Options over lists\<close>

text \<open>\<open>those\<close> is a map that may fail at any element, as rendering a list does.\<close>

lemma those_map_defined:
  "\<forall>x \<in> set xs. f x \<noteq> None \<Longrightarrow> \<exists>ys. those (map f xs) = Some ys \<and> length ys = length xs"
  by (induction xs) auto

lemma those_length: "those xs = Some ys \<Longrightarrow> length ys = length xs"
  by (induction xs arbitrary: ys) (auto split: option.splits)

lemma those_map_None: "x \<in> set xs \<Longrightarrow> f x = None \<Longrightarrow> those (map f xs) = None"
  by (induction xs) (auto split: option.splits)

section \<open>Strings as UTF-16 code units\<close>

text \<open>Most strings of the model are byte strings (\<open>string\<close>, one Latin-1 character per
  element). Where the code handles characters outside Latin-1, such as the Turkish
  letters S-cedilla and dotless i, a string is the list of its UTF-16 code units;
  \<open>ascii\<close> writes an ASCII literal in that form.\<close>

type_synonym ustr = "nat list"

definition ascii :: "string \<Rightarrow> ustr" where
  "ascii s = map of_char s"

end
