(* ===== verification/Js_Values.thy ===== *)
theory Js_Values
  imports Prelude
begin

text \<open>
  The JavaScript values the modelled code handles, and the few built-in operations it
  applies to them: truthiness (\<open>||\<close>, \<open>if (x)\<close>), property access with and without
  optional chaining (\<open>o.k\<close>, \<open>o?.k\<close>), integer indexing (\<open>v[i]\<close>), object spread
  (\<open>{...a, ...b}\<close>) and \<open>String(v)\<close>.
  A plain object is an association list from keys to values in property order, so that
  spreading and serialising it keeps the order JavaScript keeps; keys are distinct in
  every object the code builds (\<open>obj_wf\<close>). Numbers are integers: the counts, pages and
  limits that flow through these paths are integral (fractional scores are modelled
  separately, as rationals, where the code reads them).
\<close>

datatype jsv =
    Undef
  | Null
  | Bool bool
  | Num int
  | Str string
  | Arr "jsv list"
  | Obj "(string \<times> jsv) list"

type_synonym jsobj = "(string \<times> jsv) list"

section \<open>Truthiness and the \<open>||\<close> default\<close>

fun truthy :: "jsv \<Rightarrow> bool" where
  "truthy Undef = False"
| "truthy Null = False"
| "truthy (Bool b) = b"
| "truthy (Num n) = (n \<noteq> 0)"
| "truthy (Str s) = (s \<noteq> [])"
| "truthy (Arr xs) = True"
| "truthy (Obj ps) = True"

definition js_or :: "jsv \<Rightarrow> jsv \<Rightarrow> jsv" where
  "js_or a b = (if truthy a then a else b)"

section \<open>Objects\<close>

definition obj_get :: "jsobj \<Rightarrow> string \<Rightarrow> jsv" where
  "obj_get ob k = (case map_of ob k of None \<Rightarrow> Undef | Some v \<Rightarrow> v)"

text \<open>Assigning a property: an existing key keeps its position, a new key goes last.\<close>

fun obj_set :: "jsobj \<Rightarrow> string \<Rightarrow> jsv \<Rightarrow> jsobj" where
  "obj_set [] k v = [(k, v)]"
| "obj_set ((k', v') # ps) k v =
     (if k' = k then (k, v) # ps else (k', v') # obj_set ps k v)"

text \<open>\<open>{...o, ...ps}\<close>: the properties of \<open>ps\<close> are assigned to a copy of \<open>o\<close> in order.\<close>

definition obj_assign :: "jsobj \<Rightarrow> jsobj \<Rightarrow> jsobj" where
  "obj_assign ob ps = foldl (\<lambda>acc (k, v). obj_set acc k v) ob ps"

definition obj_wf :: "jsobj \<Rightarrow> bool" where
  "obj_wf ob \<longleftrightarrow> distinct (map fst ob)"

lemma map_of_obj_set [simp, js_simps]: "map_of (obj_set ob k v) = (map_of ob)(k \<mapsto> v)"
  by (induction ob k v rule: obj_set.induct) (auto simp: fun_eq_iff)

lemma obj_get_obj_set [simp, js_simps]:
  "obj_get (obj_set ob k v) k' = (if k' = k then v else obj_get ob k')"
  by (simp add: obj_get_def)

lemma keys_obj_set [simp]: "fst ` set (obj_set ob k v) = insert k (fst ` set ob)"
  by (induction ob k v rule: obj_set.induct) auto

lemma obj_wf_obj_set [simp]: "obj_wf ob \<Longrightarrow> obj_wf (obj_set ob k v)"
  unfolding obj_wf_def
proof (induction ob k v rule: obj_set.induct)
  case (2 k' v' ps k v)
  have "k' \<notin> fst ` set (obj_set ps k v)" if "k' \<noteq> k"
    using "2.prems" that by simp
  with 2 show ?case by auto
qed simp

lemma obj_set_existing_keys:
  "k \<in> set (map fst ob) \<Longrightarrow> map fst (obj_set ob k v) = map fst ob"
  by (induction ob k v rule: obj_set.induct) auto

lemma obj_assign_Nil [simp, js_simps]: "obj_assign ob [] = ob"
  by (simp add: obj_assign_def)

lemma obj_assign_Cons [simp, js_simps]:
  "obj_assign ob ((k, v) # ps) = obj_assign (obj_set ob k v) ps"
  by (simp add: obj_assign_def)

lemma obj_wf_obj_assign [simp]: "obj_wf ob \<Longrightarrow> obj_wf (obj_assign ob ps)"
  by (induction ps arbitrary: ob) auto

lemma map_of_obj_assign [simp]: "map_of (obj_assign ob ps) = map_of ob ++ map_of (rev ps)"
  by (induction ps arbitrary: ob) (auto simp: map_add_def fun_eq_iff split: option.splits)

lemma obj_get_obj_assign:
  "obj_get (obj_assign ob ps) k = (case map_of (rev ps) k of None \<Rightarrow> obj_get ob k | Some v \<Rightarrow> v)"
  by (simp add: obj_get_def map_add_def split: option.splits)

lemma keys_obj_assign [simp]:
  "fst ` set (obj_assign ob ps) = fst ` set ob \<union> fst ` set ps"
proof (induction ps arbitrary: ob)
  case (Cons p ps)
  then show ?case by (cases p) (simp add: insert_commute)
qed simp

lemma map_of_rev_wf: "obj_wf ob \<Longrightarrow> map_of (rev ob) = map_of ob"
proof (induction ob)
  case (Cons p ob)
  obtain k v where p: "p = (k, v)" by (cases p)
  with Cons.prems have "obj_wf ob" and "map_of ob k = None"
    by (auto simp: obj_wf_def map_of_eq_None_iff)
  with Cons.IH p show ?case by (auto simp: fun_eq_iff map_add_def split: option.splits)
qed simp

text \<open>A spread \<open>{...xs}\<close> reads each key at its last assignment.\<close>

lemma obj_get_spread [js_simps]:
  "obj_get (obj_assign [] xs) k = (case map_of (rev xs) k of None \<Rightarrow> Undef | Some v \<Rightarrow> v)"
  by (simp add: obj_get_obj_assign obj_get_def)

lemma obj_wf_spread [simp]: "obj_wf (obj_assign [] xs)"
  by (rule obj_wf_obj_assign) (simp add: obj_wf_def)

section \<open>Property access and indexing\<close>

text \<open>\<open>v.k\<close>: \<open>None\<close> is the \<open>TypeError\<close> of reading a property of \<open>undefined\<close> or
  \<open>null\<close>; strings and arrays have a \<open>length\<close>, other properties of primitives are
  \<open>undefined\<close>.\<close>

fun get_prop :: "jsv \<Rightarrow> string \<Rightarrow> jsv option" where
  "get_prop Undef k = None"
| "get_prop Null k = None"
| "get_prop (Obj ps) k = Some (obj_get ps k)"
| "get_prop (Arr xs) k = Some (if k = ''length'' then Num (int (length xs)) else Undef)"
| "get_prop (Str s) k = Some (if k = ''length'' then Num (int (length s)) else Undef)"
| "get_prop (Num n) k = Some Undef"
| "get_prop (Bool b) k = Some Undef"

text \<open>\<open>v?.k\<close>: \<open>undefined\<close> instead of the \<open>TypeError\<close>.\<close>

definition opt_prop :: "jsv \<Rightarrow> string \<Rightarrow> jsv" where
  "opt_prop v k = (case get_prop v k of None \<Rightarrow> Undef | Some r \<Rightarrow> r)"

lemma opt_prop_simps [simp, js_simps]:
  "opt_prop Undef k = Undef" "opt_prop Null k = Undef" "opt_prop (Obj ps) k = obj_get ps k"
  "opt_prop (Num n) k = Undef" "opt_prop (Bool b) k = Undef"
  by (simp_all add: opt_prop_def)

section \<open>Decimal notation and \<open>String(v)\<close>\<close>

fun nat_to_dec :: "nat \<Rightarrow> string" where
  "nat_to_dec n =
     (if n < 10 then [char_of (48 + n)] else nat_to_dec (n div 10) @ [char_of (48 + n mod 10)])"

definition int_to_dec :: "int \<Rightarrow> string" where
  "int_to_dec i = (if i < 0 then CHR ''-'' # nat_to_dec (nat (- i)) else nat_to_dec (nat i))"

text \<open>\<open>v[i]\<close> for an integer index: an object is read at the key \<open>String(i)\<close>.\<close>

fun js_index :: "jsv \<Rightarrow> nat \<Rightarrow> jsv option" where
  "js_index Undef i = None"
| "js_index Null i = None"
| "js_index (Arr xs) i = Some (if i < length xs then xs ! i else Undef)"
| "js_index (Obj ps) i = Some (obj_get ps (nat_to_dec i))"
| "js_index (Str s) i = Some (if i < length s then Str [s ! i] else Undef)"
| "js_index (Num n) i = Some Undef"
| "js_index (Bool b) i = Some Undef"

text \<open>\<open>String(v)\<close>: arrays join their elements with commas, \<open>undefined\<close> and
  \<open>null\<close> elements giving the empty string; every plain object prints the same.\<close>

fun js_to_string :: "jsv \<Rightarrow> string" where
  "js_to_string Undef = ''undefined''"
| "js_to_string Null = ''null''"
| "js_to_string (Bool b) = (if b then ''true'' else ''false'')"
| "js_to_string (Num n) = int_to_dec n"
| "js_to_string (Str s) = s"
| "js_to_string (Arr xs) =
     join_sep (CHR '','') (map (\<lambda>v. if v = Undef \<or> v = Null then [] else js_to_string v) xs)"
| "js_to_string (Obj ps) = ''[object Object]''"

declare nat_to_dec.simps [simp del]

lemma nat_to_dec_digits: "set (nat_to_dec n) \<subseteq> {char_of k | k. 48 \<le> k \<and> k < (58::nat)}"
proof (induction n rule: nat_to_dec.induct)
  case (1 n)
  then show ?case
    by (subst nat_to_dec.simps) (auto intro!: exI [where x = "48 + n mod 10"])
qed

lemma nat_to_dec_not_word:
  assumes "c \<in> set s" and "\<not> (48 \<le> (of_char c :: nat) \<and> (of_char c :: nat) < 58)"
  shows "nat_to_dec i \<noteq> s"
proof
  assume "nat_to_dec i = s"
  with assms(1) nat_to_dec_digits [of i] obtain k :: nat where "c = char_of k" "48 \<le> k" "k < 58"
    by auto
  then have "of_char c = k" by simp
  with assms(2) \<open>48 \<le> k\<close> \<open>k < 58\<close> show False by simp
qed

lemma digit_chars [simp]:
  "char_of (48::nat) = CHR ''0''" "char_of (49::nat) = CHR ''1''" "char_of (50::nat) = CHR ''2''"
  "char_of (51::nat) = CHR ''3''" "char_of (52::nat) = CHR ''4''" "char_of (53::nat) = CHR ''5''"
  "char_of (54::nat) = CHR ''6''" "char_of (55::nat) = CHR ''7''" "char_of (56::nat) = CHR ''8''"
  "char_of (57::nat) = CHR ''9''"
  by (rule of_char_eqI [where 'a = nat]; simp)+

lemma nat_to_dec_ne: "nat_to_dec n \<noteq> []"
  by (subst nat_to_dec.simps) simp

section \<open>String methods\<close>

text \<open>\<open>String.prototype.trim\<close> on Latin-1 text: tab, line feed, vertical tab, form
  feed, carriage return, space and no-break space are removed at both ends.\<close>

definition js_space :: "char \<Rightarrow> bool" where
  "js_space c \<longleftrightarrow> c \<in> set [CHR 0x09, CHR 0x0A, CHR 0x0B, CHR 0x0C, CHR 0x0D, CHR 0x20, CHR 0xA0]"

definition js_trim :: "string \<Rightarrow> string" where
  "js_trim s = rev (dropWhile js_space (rev (dropWhile js_space s)))"

text \<open>\<open>String.prototype.toLowerCase\<close> on Latin-1 text: \<open>A\<close>-\<open>Z\<close> and the capitals
  U+00C0 to U+00DE other than U+00D7 move up by 32; nothing else changes.\<close>

definition lower_char :: "char \<Rightarrow> char" where
  "lower_char c =
     (let n = of_char c :: nat in
      if (65 \<le> n \<and> n \<le> 90) \<or> (192 \<le> n \<and> n \<le> 222 \<and> n \<noteq> 215) then char_of (n + 32) else c)"

definition str_lower :: "string \<Rightarrow> string" where
  "str_lower s = map lower_char s"

text \<open>The own enumerable properties that \<open>{...v}\<close> copies: an object's properties, the
  indexed elements of an array or the characters of a string, nothing for the
  other values.\<close>

fun spread_props :: "jsv \<Rightarrow> jsobj" where
  "spread_props (Obj ps) = ps"
| "spread_props (Arr xs) = map (\<lambda>(i, x). (nat_to_dec i, x)) (zip [0..<length xs] xs)"
| "spread_props (Str s) = map (\<lambda>(i, c). (nat_to_dec i, Str [c])) (zip [0..<length s] s)"
| "spread_props v = []"

section \<open>Looking a key up in an object literal\<close>

text \<open>\<open>table[key]\<close> on an object literal finds the literal's own properties and, failing
  those, the members every object inherits from \<open>Object.prototype\<close> (all truthy).\<close>

datatype 'a member = Own 'a | Inherited string | Absent

definition object_prototype_members :: "string list" where
  "object_prototype_members =
     [''constructor'', ''__proto__'', ''toString'', ''toLocaleString'', ''valueOf'', ''hasOwnProperty'',
      ''isPrototypeOf'', ''propertyIsEnumerable'', ''__defineGetter__'', ''__defineSetter__'',
      ''__lookupGetter__'', ''__lookupSetter__'']"

definition literal_get :: "(string \<times> 'a) list \<Rightarrow> string \<Rightarrow> 'a member" where
  "literal_get tbl k =
     (case map_of tbl k of
        Some v \<Rightarrow> Own v
      | None \<Rightarrow> if k \<in> set object_prototype_members then Inherited k else Absent)"

section \<open>Relational comparison\<close>

text \<open>\<open>ToNumber\<close>, with \<open>None\<close> for \<open>NaN\<close>. It is exact on \<open>undefined\<close>, \<open>null\<close>,
  booleans, numbers and the empty string; every other string and every array or object
  is taken as \<open>NaN\<close>. The comparisons the modelled code makes (a page against a page
  count, a score against a score) are between numbers in every state it reaches.\<close>

fun to_number :: "jsv \<Rightarrow> int option" where
  "to_number Undef = None"
| "to_number Null = Some 0"
| "to_number (Bool b) = Some (if b then 1 else 0)"
| "to_number (Num n) = Some n"
| "to_number (Str s) = (if s = [] then Some 0 else None)"
| "to_number (Arr xs) = None"
| "to_number (Obj ps) = None"

text \<open>\<open>a < b\<close> on values converted to numbers: false when either is \<open>NaN\<close>.\<close>

definition js_lt :: "jsv \<Rightarrow> jsv \<Rightarrow> bool" where
  "js_lt a b = (case (to_number a, to_number b) of (Some x, Some y) \<Rightarrow> x < y | _ \<Rightarrow> False)"

lemma js_lt_Num [simp, js_simps]: "js_lt (Num a) (Num b) \<longleftrightarrow> a < b"
  by (simp add: js_lt_def)


section \<open>Addition and locale text\<close>

text \<open>\<open>x?.toLocaleString() || 0\<close>, the text of a value in the browser's locale being the
  parameter \<open>loc\<close>.\<close>

definition locale_or_zero :: "(jsv \<Rightarrow> string) \<Rightarrow> jsv \<Rightarrow> jsv" where
  "locale_or_zero loc v = (if v = Undef \<or> v = Null then Num 0 else js_or (Str (loc v)) (Num 0))"

text \<open>\<open>Object.values(v)\<close>: \<open>None\<close> is the \<open>TypeError\<close> of \<open>undefined\<close> or \<open>null\<close>.\<close>

fun js_values :: "jsv \<Rightarrow> jsv list option" where
  "js_values Undef = None"
| "js_values Null = None"
| "js_values (Obj ps) = Some (map snd ps)"
| "js_values (Arr xs) = Some xs"
| "js_values (Str s) = Some (map (\<lambda>c. Str [c]) s)"
| "js_values (Num n) = Some []"
| "js_values (Bool b) = Some []"

text \<open>\<open>a + b\<close>: strings, arrays and objects concatenate as text; the other values add
  as numbers. \<open>None\<close> is \<open>NaN\<close> (from \<open>undefined\<close> or a string that is not a
  number), a value the model's integers do not hold.\<close>

definition js_textual :: "jsv \<Rightarrow> bool" where
  "js_textual v = (case v of Str s \<Rightarrow> True | Arr xs \<Rightarrow> True | Obj ps \<Rightarrow> True | _ \<Rightarrow> False)"

definition js_add :: "jsv \<Rightarrow> jsv \<Rightarrow> jsv option" where
  "js_add a b =
     (if js_textual a \<or> js_textual b then Some (Str (js_to_string a @ js_to_string b))
      else case (to_number a, to_number b) of (Some x, Some y) \<Rightarrow> Some (Num (x + y)) | _ \<Rightarrow> None)"

text \<open>\<open>xs.reduce((sum, val) => sum + val, 0)\<close>; once the sum is \<open>NaN\<close> the model keeps
  it so.\<close>

definition js_sum :: "jsv list \<Rightarrow> jsv option" where
  "js_sum xs = foldl (\<lambda>acc v. case acc of Some a \<Rightarrow> js_add a v | None \<Rightarrow> None) (Some (Num 0)) xs"

section \<open>Rendering a value in JSX\<close>

text \<open>\<open>{v}\<close> in JSX: strings and numbers are printed, \<open>undefined\<close>, \<open>null\<close> and booleans
  print nothing, an array prints its elements, and an object throws.\<close>

fun react_text :: "jsv \<Rightarrow> string option" where
  "react_text (Str s) = Some s"
| "react_text (Num n) = Some (int_to_dec n)"
| "react_text (Bool b) = Some []"
| "react_text Undef = Some []"
| "react_text Null = Some []"
| "react_text (Obj ps) = None"
| "react_text (Arr xs) = map_option concat (those (map react_text xs))"

lemma js_sum_from_num: "foldl (\<lambda>acc v. case acc of Some a \<Rightarrow> js_add a v | None \<Rightarrow> None) (Some (Num a)) (map Num ns) =
    Some (Num (a + sum_list ns))"
  by (induction ns arbitrary: a) (simp_all add: js_add_def js_textual_def add.assoc)

lemma js_sum_nums [simp]: "js_sum (map Num ns) = Some (Num (sum_list ns))"
  using js_sum_from_num [of 0 ns] by (simp add: js_sum_def)

end
