(* ===== verification/Effects.thy ===== *)
theory Effects
  imports Js_Values
begin

text \<open>
  What the modelled code can observably do, and the combinators that thread it.
  An HTTP request goes to the backend, which is not part of this repository: it is a
  parameter \<open>backend\<close> that answers each request with an outcome (a response with a
  status and a JSON body, no response at all, or a failure to set the request up).
  Every other effect is an event appended to a trace: console output, a toast
  notification, a request handed to the network, the invalidation of a cached query.
  A computation of type \<open>'a act\<close> takes the trace so far and returns either an error
  (\<open>Inl\<close>, a rejected promise) or a value (\<open>Inr\<close>), with the extended trace.
\<close>

datatype http_method = GET | POST | PUT | PATCH | DELETE

record request =
  req_method :: http_method
  req_url :: string
  req_body :: jsv

datatype outcome = Response int jsv | NoResponse | SetupFailure string

type_synonym backend = "request \<Rightarrow> outcome"

text \<open>The error an axios call rejects with, and the error the API client rethrows.\<close>

datatype axios_error = AxHttp int jsv | AxNoResponse | AxSetup string | AxTypeError

datatype api_error = ApiMessage string | ApiAxios axios_error

text \<open>The notifications the modelled code shows, one constructor per message text of the
  source (the Turkish texts are named by what they say).\<close>

datatype msg =
    MsgText jsv
  | MsgInvalidRequest | MsgUnauthorized | MsgForbidden | MsgNotFound | MsgTooManyRequests
  | MsgServerError | MsgUnknownError | MsgUnreachable | MsgUnexpected
  | MsgCommentsLoadFailed | MsgCommentCreated | MsgCommentCreateFailed
  | MsgCommentUpdated | MsgCommentUpdateFailed | MsgMarkedProcessed jsv | MsgBulkUpdateFailed
  | MsgAnalysisDone | MsgAnalysisFailed | MsgBatchDone nat jsv | MsgBatchFailed
  | MsgCommentsProcessed jsv | MsgNothingToProcess | MsgProcessFailed
  | MsgEnterText | MsgTextTooShort | MsgNoTexts | MsgTooManyTexts
  | MsgEnhancedStatsFailed | MsgSummaryLoading | MsgSummaryDone | MsgSummaryFailed
  | MsgTrendInsightsFailed | MsgCategoryStatsFailed | MsgGrokTesting | MsgGrokTestDone
  | MsgGrokTestFailed | MsgAiAnalysisFailed
  | MsgRefreshStarted | MsgDashboardUpdated | MsgDashboardUpdateFailed string
  | MsgRedditCollected | MsgRedditCollectFailed string | MsgYouTubeCollected
  | MsgYouTubeCollectFailed string | MsgStreamRestarted | MsgStreamRestartFailed string
  | MsgAllDone | MsgGeneralError string
  | MsgTrendUpdated string | MsgTrendLoadFailed | MsgReportDownloaded string | MsgReportFailed ustr
  | MsgAiSummaryCreated | MsgAiSummaryFailed string | MsgCollectingComments | MsgCommentsCollected
  | MsgCollectFailed | MsgEnterSomeText

datatype toast_kind = ToastError | ToastSuccess | ToastInfo | ToastLoading

text \<open>\<open>ToastId i k m\<close> is a toast shown with the option \<open>{id: i}\<close>: it replaces the
  toast with the same id, so a success or error toast ends a loading toast.\<close>

datatype event =
    LogRequest http_method string
  | LogError string
  | Send request
  | LogInfo string
  | Toast toast_kind msg
  | ToastId string toast_kind msg
  | Invalidate string

type_synonym 'a act = "event list \<Rightarrow> (api_error + 'a) \<times> event list"

definition ret :: "'a \<Rightarrow> 'a act" where
  "ret a = (\<lambda>tr. (Inr a, tr))"

definition throw_err :: "api_error \<Rightarrow> 'a act" where
  "throw_err e = (\<lambda>tr. (Inl e, tr))"

definition emit :: "event \<Rightarrow> unit act" where
  "emit ev = (\<lambda>tr. (Inr (), tr @ [ev]))"

definition bind_act :: "'a act \<Rightarrow> ('a \<Rightarrow> 'b act) \<Rightarrow> 'b act" where
  "bind_act m f = (\<lambda>tr. case m tr of (Inl e, tr') \<Rightarrow> (Inl e, tr') | (Inr a, tr') \<Rightarrow> f a tr')"

text \<open>\<open>catch_act m h\<close>: a \<open>try\<close>/\<open>catch\<close> around \<open>m\<close> (or a promise's rejection
  handler), the handler seeing the error and the trace as it was when \<open>m\<close> failed.\<close>

definition catch_act :: "'a act \<Rightarrow> (api_error \<Rightarrow> 'a act) \<Rightarrow> 'a act" where
  "catch_act m h = (\<lambda>tr. case m tr of (Inl e, tr') \<Rightarrow> h e tr' | (Inr a, tr') \<Rightarrow> (Inr a, tr'))"

lemma act_simps [effect_simps]:
  "ret a tr = (Inr a, tr)"
  "throw_err e tr = (Inl e, tr)"
  "emit ev tr = (Inr (), tr @ [ev])"
  by (simp_all add: ret_def throw_err_def emit_def)

lemma bind_act_ret [simp, effect_simps]: "bind_act (ret a) f = f a"
  by (simp add: bind_act_def ret_def)

lemma bind_act_throw [simp, effect_simps]: "bind_act (throw_err e) f = throw_err e"
  by (simp add: bind_act_def throw_err_def)

lemma bind_act_emit [simp, effect_simps]: "bind_act (emit ev) f tr = f () (tr @ [ev])"
  by (simp add: bind_act_def emit_def)

lemma bind_act_assoc [simp]: "bind_act (bind_act m f) g = bind_act m (\<lambda>a. bind_act (f a) g)"
  by (auto simp: bind_act_def fun_eq_iff split: prod.splits sum.splits)

lemma bind_act_apply [effect_simps]:
  "bind_act m f tr = (case m tr of (Inl e, tr') \<Rightarrow> (Inl e, tr') | (Inr a, tr') \<Rightarrow> f a tr')"
  by (simp add: bind_act_def)

lemma catch_act_apply [effect_simps]:
  "catch_act m h tr = (case m tr of (Inl e, tr') \<Rightarrow> h e tr' | (Inr a, tr') \<Rightarrow> (Inr a, tr'))"
  by (simp add: catch_act_def)

section \<open>Traces only grow\<close>

definition extends :: "'a act \<Rightarrow> bool" where
  "extends m \<longleftrightarrow> (\<forall>tr. \<exists>new. snd (m tr) = tr @ new)"

lemma extends_ret [intro]: "extends (ret a)"
  and extends_throw [intro]: "extends (throw_err e)"
  and extends_emit [intro]: "extends (emit ev)"
  by (auto simp: extends_def effect_simps)

lemma extends_bind [intro]:
  assumes "extends m" and "\<And>a. extends (f a)"
  shows "extends (bind_act m f)"
  unfolding extends_def
proof
  fix tr
  obtain new where m: "snd (m tr) = tr @ new"
    using assms(1) by (auto simp: extends_def)
  show "\<exists>new. snd (bind_act m f tr) = tr @ new"
  proof (cases "fst (m tr)")
    case (Inl e)
    then show ?thesis using m by (auto simp: bind_act_def split: prod.splits)
  next
    case (Inr a)
    obtain new' where "snd (f a (snd (m tr))) = snd (m tr) @ new'"
      using assms(2) by (auto simp: extends_def)
    then show ?thesis using m Inr by (auto simp: bind_act_def split: prod.splits)
  qed
qed

lemma extends_catch [intro]:
  assumes "extends m" and "\<And>e. extends (h e)"
  shows "extends (catch_act m h)"
  unfolding extends_def
proof
  fix tr
  obtain new where m: "snd (m tr) = tr @ new"
    using assms(1) by (auto simp: extends_def)
  show "\<exists>new. snd (catch_act m h tr) = tr @ new"
  proof (cases "fst (m tr)")
    case (Inl e)
    obtain new' where "snd (h e (snd (m tr))) = snd (m tr) @ new'"
      using assms(2) by (auto simp: extends_def)
    then show ?thesis using m Inl by (auto simp: catch_act_def split: prod.splits)
  next
    case (Inr a)
    then show ?thesis using m by (auto simp: catch_act_def split: prod.splits)
  qed
qed

lemma extends_apply: "extends m \<Longrightarrow> \<exists>new. snd (m tr) = tr @ new"
  by (simp add: extends_def)

end
