(* ===== verification/Gateway.thy ===== *)
theory Gateway
  imports Effects
begin

text \<open>
  The HTTP gateway client, \<open>src/frontend/src/services/api.js\<close>: one axios instance with
  a fixed base URL, timeout and headers (\<open>api_config\<close>); a request interceptor that
  logs every request (\<open>log_request\<close>); a response interceptor that turns every
  failure into a toast keyed by the HTTP status (\<open>response_toast\<close>) and rejects again;
  and the client methods \<open>get\<close>, \<open>post\<close>, \<open>put\<close>, \<open>patch\<close>, \<open>delete\<close>, which unwrap a
  success to its body (\<open>handle_api_response\<close>) and rethrow a failure carrying the
  backend's message when there is one (\<open>handle_api_error\<close>).
  \<open>api_request\<close> is one call through the instance: log, send, and settle the backend's
  outcome through the interceptor and the client's \<open>catch\<close>.
\<close>

record api_config =
  base_url :: string
  timeout_ms :: nat
  headers :: "(string \<times> string) list"

definition api_config :: api_config where
  "api_config =
     \<lparr>base_url = ''http://localhost:8060/api/v1'', timeout_ms = 30000,
      headers = [(''Content-Type'', ''application/json; charset=UTF-8''),
                 (''Accept'', ''application/json; charset=UTF-8''),
                 (''X-API-Key'', ''fan-sentiment-2024-secret'')]\<rparr>"

definition log_request :: "request \<Rightarrow> unit act" where
  "log_request req = emit (LogRequest (req_method req) (req_url req))"

text \<open>The message of the response interceptor's \<open>switch\<close>; \<open>None\<close> is the
  \<open>TypeError\<close> of reading \<open>data.message\<close> when the body is \<open>null\<close>.\<close>

definition message_or :: "jsv \<Rightarrow> msg \<Rightarrow> msg option" where
  "message_or d dflt =
     (case get_prop d ''message'' of None \<Rightarrow> None
      | Some m \<Rightarrow> Some (if truthy m then MsgText m else dflt))"

fun response_toast :: "axios_error \<Rightarrow> msg option" where
  "response_toast (AxHttp s d) =
     (if s = 400 then message_or d MsgInvalidRequest
      else if s = 401 then Some MsgUnauthorized
      else if s = 403 then Some MsgForbidden
      else if s = 404 then Some MsgNotFound
      else if s = 429 then Some MsgTooManyRequests
      else if s = 500 then Some MsgServerError
      else message_or d MsgUnknownError)"
| "response_toast AxNoResponse = Some MsgUnreachable"
| "response_toast (AxSetup m) = Some MsgUnexpected"
| "response_toast AxTypeError = Some MsgUnexpected"

definition handle_api_response :: "int \<Rightarrow> jsv \<Rightarrow> jsv" where
  "handle_api_response s d = (if truthy d then d else Obj [(''data'', d), (''status'', Num s)])"

fun handle_api_error :: "axios_error \<Rightarrow> api_error" where
  "handle_api_error (AxHttp s d) =
     (let m = opt_prop d ''message'' in
      if truthy m then ApiMessage (js_to_string m) else ApiAxios (AxHttp s d))"
| "handle_api_error ax = ApiAxios ax"

text \<open>A rejected request: the interceptor logs, toasts (or fails with a \<open>TypeError\<close>)
  and rejects; the client method's \<open>catch\<close> rethrows through \<open>handle_api_error\<close>.\<close>

definition reject :: "axios_error \<Rightarrow> 'a act" where
  "reject ax =
     bind_act (emit (LogError ''Response error:'')) (\<lambda>_.
       case response_toast ax of
         None \<Rightarrow> throw_err (handle_api_error AxTypeError)
       | Some m \<Rightarrow> bind_act (emit (Toast ToastError m)) (\<lambda>_. throw_err (handle_api_error ax)))"

fun settle :: "outcome \<Rightarrow> jsv act" where
  "settle (Response s d) =
     (if 200 \<le> s \<and> s < 300 then ret (handle_api_response s d) else reject (AxHttp s d))"
| "settle NoResponse = reject AxNoResponse"
| "settle (SetupFailure m) = reject (AxSetup m)"

text \<open>axios's default \<open>validateStatus\<close>: a response with a 2xx status fulfils.\<close>

definition ok_outcome :: "outcome \<Rightarrow> bool" where
  "ok_outcome out = (case out of Response s d \<Rightarrow> 200 \<le> s \<and> s < 300 | _ \<Rightarrow> False)"

definition api_request :: "backend \<Rightarrow> request \<Rightarrow> jsv act" where
  "api_request be req =
     bind_act (log_request req) (\<lambda>_. bind_act (emit (Send req)) (\<lambda>_. settle (be req)))"

definition api_get :: "backend \<Rightarrow> string \<Rightarrow> jsv act" where
  "api_get be url = api_request be \<lparr>req_method = GET, req_url = url, req_body = Undef\<rparr>"

definition api_post :: "backend \<Rightarrow> string \<Rightarrow> jsv \<Rightarrow> jsv act" where
  "api_post be url d = api_request be \<lparr>req_method = POST, req_url = url, req_body = d\<rparr>"

definition api_put :: "backend \<Rightarrow> string \<Rightarrow> jsv \<Rightarrow> jsv act" where
  "api_put be url d = api_request be \<lparr>req_method = PUT, req_url = url, req_body = d\<rparr>"

definition api_patch :: "backend \<Rightarrow> string \<Rightarrow> jsv \<Rightarrow> jsv act" where
  "api_patch be url d = api_request be \<lparr>req_method = PATCH, req_url = url, req_body = d\<rparr>"

definition api_delete :: "backend \<Rightarrow> string \<Rightarrow> jsv act" where
  "api_delete be url = api_request be \<lparr>req_method = DELETE, req_url = url, req_body = Undef\<rparr>"

text \<open>\<open>redditLiveService\<close>: the same client path, on the axios instance directly.\<close>

definition live_subreddits :: "string list" where
  "live_subreddits =
     [''Turkey'', ''superlig'', ''soccer'', ''galatasaray'', ''fenerbahce'', ''besiktas'',
      ''trabzonspor'', ''turkishfootball'', ''SuperLigTurkey'']"

definition reddit_restart_stream :: "backend \<Rightarrow> jsv act" where
  "reddit_restart_stream be =
     api_post be ''/live/reddit/start'' (Obj [(''subreddits'', Arr (map Str live_subreddits))])"

definition reddit_stream_status :: "backend \<Rightarrow> jsv act" where
  "reddit_stream_status be = api_get be ''/live/reddit/status''"

section \<open>Evaluation rules\<close>

lemmas api_method_defs [effect_simps] =
  api_get_def api_post_def api_put_def api_patch_def api_delete_def

lemma api_request_apply [effect_simps]:
  "api_request be req tr =
     settle (be req) (tr @ [LogRequest (req_method req) (req_url req), Send req])"
  by (simp add: api_request_def log_request_def)

lemma settle_success [simp]:
  "200 \<le> s \<Longrightarrow> s < 300 \<Longrightarrow> settle (Response s d) tr = (Inr (handle_api_response s d), tr)"
  by (simp add: effect_simps)

lemma reject_apply [effect_simps]:
  "reject ax tr =
     (case response_toast ax of
        None \<Rightarrow> (Inl (ApiAxios AxTypeError), tr @ [LogError ''Response error:''])
      | Some m \<Rightarrow> (Inl (handle_api_error ax),
                   tr @ [LogError ''Response error:'', Toast ToastError m]))"
  by (simp add: reject_def effect_simps split: option.splits)

lemma reject_Inl: "\<exists>e tr'. reject ax tr = (Inl e, tr')"
  by (simp add: reject_apply split: option.splits)

lemma settle_error: "\<not> (200 \<le> s \<and> s < 300) \<Longrightarrow> settle (Response s d) = reject (AxHttp s d)"
  by auto

lemma extends_settle [intro]: "extends (settle out)"
  by (cases out) (auto simp: extends_def reject_apply effect_simps split: option.splits)

lemma extends_api_request [intro]: "extends (api_request be req)"
  unfolding api_request_def log_request_def by blast

lemma settle_extends: "\<exists>new r. settle out tr = (r, tr @ new)"
  using extends_settle [of out] by (auto simp: extends_def) (metis prod.collapse)

lemma settle_fails: "\<not> ok_outcome out \<Longrightarrow> \<exists>e new. settle out tr = (Inl e, tr @ new)"
  by (cases out) (auto simp: ok_outcome_def reject_apply split: option.splits)

lemma settle_ok: "ok_outcome out \<Longrightarrow> \<exists>v. settle out tr = (Inr v, tr)"
  by (cases out) (auto simp: ok_outcome_def act_simps)

section \<open>Failures\<close>

text \<open>C29: a non-2xx response with an object body is logged, notified once with the
  message of its status (the backend's message for 400 and the unlisted statuses when
  it has one), and rejected with the backend's message when it has one and with the
  HTTP error otherwise.\<close>

theorem http_failure_notifies_and_rejects:
  assumes "be req = Response s (Obj ps)" and "\<not> (200 \<le> s \<and> s < 300)"
  shows "\<exists>m. api_request be req tr =
           (Inl (if truthy (obj_get ps ''message'') then ApiMessage (js_to_string (obj_get ps ''message''))
                 else ApiAxios (AxHttp s (Obj ps))),
            tr @ [LogRequest (req_method req) (req_url req), Send req, LogError ''Response error:'', Toast ToastError m]) \<and>
         (s = 401 \<longrightarrow> m = MsgUnauthorized) \<and> (s = 403 \<longrightarrow> m = MsgForbidden) \<and>
         (s = 404 \<longrightarrow> m = MsgNotFound) \<and> (s = 429 \<longrightarrow> m = MsgTooManyRequests) \<and>
         (s = 500 \<longrightarrow> m = MsgServerError) \<and>
         (s = 400 \<longrightarrow> m = (if truthy (obj_get ps ''message'') then MsgText (obj_get ps ''message'') else MsgInvalidRequest)) \<and>
         (s \<notin> {400, 401, 403, 404, 429, 500} \<longrightarrow>
            m = (if truthy (obj_get ps ''message'') then MsgText (obj_get ps ''message'') else MsgUnknownError))"
proof -
  have r: "settle (be req) = reject (AxHttp s (Obj ps))" using assms(1) settle_error [OF assms(2)] by simp
  show ?thesis by (simp add: api_request_apply r reject_apply message_or_def opt_prop_def Let_def)
qed

theorem http_failure_notifies_and_rejects_witness:
  "api_request (\<lambda>_. Response 404 (Obj [(''message'', Str ''Comment not found'')]))
      \<lparr>req_method = GET, req_url = ''/comments/7'', req_body = Undef\<rparr> [] =
     (Inl (ApiMessage ''Comment not found''),
      [LogRequest GET ''/comments/7'', Send \<lparr>req_method = GET, req_url = ''/comments/7'', req_body = Undef\<rparr>,
       LogError ''Response error:'', Toast ToastError MsgNotFound])"
  using http_failure_notifies_and_rejects [of "\<lambda>_. Response 404 (Obj [(''message'', Str ''Comment not found'')])"
      "\<lparr>req_method = GET, req_url = ''/comments/7'', req_body = Undef\<rparr>" 404 "[(''message'', Str ''Comment not found'')]" "[]"]
  by (auto simp: obj_get_def)

text \<open>With a \<open>null\<close> body, a 400 answer makes the interceptor itself throw reading
  \<open>data.message\<close>: no notification is shown and the caller gets a \<open>TypeError\<close>.\<close>

lemma http_failure_null_body:
  "api_request (\<lambda>_. Response 400 Null) req tr =
     (Inl (ApiAxios AxTypeError),
      tr @ [LogRequest (req_method req) (req_url req), Send req, LogError ''Response error:''])"
  by (simp add: api_request_apply reject_apply message_or_def)

end
