(* ===== verification/Url_Params.thy ===== *)
theory Url_Params
  imports Js_Values
begin

text \<open>
  \<open>new URLSearchParams(record).toString()\<close>, which the resource access functions use to
  put a filter object into a query string: every own property becomes the pair
  \<open>(key, String(value))\<close>, in property order, and the pairs are serialised in the
  \<open>application/x-www-form-urlencoded\<close> format: ASCII letters and digits and \<open>*-._\<close> stay,
  a space becomes \<open>+\<close>, every other byte becomes \<open>%XX\<close> with upper-case hex digits.
  Strings are byte strings here (one \<open>char\<close> per byte), which is exact for the ASCII
  text the filters carry.
  The parser \<open>url_parse\<close> is the receiving side (the backend's query parser), written
  from the same format; the round trip \<open>url_parse_serialize\<close> says that a query string
  built this way is read back as exactly the pairs that went in.
\<close>

section \<open>Percent-encoding\<close>

definition hex_digit :: "nat \<Rightarrow> char" where
  "hex_digit d = (if d < 10 then char_of (48 + d) else char_of (55 + d))"

definition hex_val :: "char \<Rightarrow> nat option" where
  "hex_val c =
     (let n = of_char c :: nat in
      if 48 \<le> n \<and> n \<le> 57 then Some (n - 48)
      else if 65 \<le> n \<and> n \<le> 70 then Some (n - 55)
      else if 97 \<le> n \<and> n \<le> 102 then Some (n - 87)
      else None)"

definition form_unreserved :: "char \<Rightarrow> bool" where
  "form_unreserved c \<longleftrightarrow>
     (let n = of_char c :: nat in
      (48 \<le> n \<and> n \<le> 57) \<or> (65 \<le> n \<and> n \<le> 90) \<or> (97 \<le> n \<and> n \<le> 122)
      \<or> c \<in> set ''*-._'')"

definition form_enc_char :: "char \<Rightarrow> string" where
  "form_enc_char c =
     (if form_unreserved c then [c]
      else if c = CHR '' '' then ''+''
      else [CHR ''%'', hex_digit (of_char c div 16), hex_digit (of_char c mod 16)])"

definition form_enc :: "string \<Rightarrow> string" where
  "form_enc s = concat (map form_enc_char s)"

fun form_dec :: "string \<Rightarrow> string" where
  "form_dec [] = []"
| "form_dec (c # cs) =
     (if c = CHR ''+'' then CHR '' '' # form_dec cs
      else if c = CHR ''%'' then
        (case cs of
          a # b # rest \<Rightarrow>
            (case (hex_val a, hex_val b) of
              (Some x, Some y) \<Rightarrow> char_of (16 * x + y) # form_dec rest
            | _ \<Rightarrow> c # form_dec cs)
        | _ \<Rightarrow> c # form_dec cs)
      else c # form_dec cs)"

section \<open>Serialising and parsing a parameter list\<close>

definition url_serialize :: "(string \<times> string) list \<Rightarrow> string" where
  "url_serialize ps = join_sep (CHR ''&'') (map (\<lambda>(k, v). form_enc k @ CHR ''='' # form_enc v) ps)"

definition url_parse :: "string \<Rightarrow> (string \<times> string) list" where
  "url_parse q =
     map (\<lambda>seg. case break_at (CHR ''='') seg of (k, v) \<Rightarrow> (form_dec k, form_dec v))
       (filter (\<lambda>seg. seg \<noteq> []) (split_on (CHR ''&'') q))"

text \<open>\<open>new URLSearchParams(record)\<close>: the record's properties, values converted by \<open>String\<close>.\<close>

definition search_params :: "jsobj \<Rightarrow> (string \<times> string) list" where
  "search_params ob = map (\<lambda>(k, v). (k, js_to_string v)) ob"

definition query_string :: "jsobj \<Rightarrow> string" where
  "query_string ob = url_serialize (search_params ob)"

section \<open>Properties of the encoding\<close>

lemma hex_val_hex_digit [simp]: "d < 16 \<Longrightarrow> hex_val (hex_digit d) = Some d"
  by (auto simp: hex_digit_def hex_val_def Let_def)

lemma form_unreserved_special:
  "\<not> form_unreserved (CHR ''%'')" "\<not> form_unreserved (CHR ''+'')"
  "\<not> form_unreserved (CHR ''&'')" "\<not> form_unreserved (CHR ''='')"
  by (simp_all add: form_unreserved_def)

lemma hex_digit_special:
  assumes "d < 16"
  shows "hex_digit d \<noteq> CHR ''&''" and "hex_digit d \<noteq> CHR ''=''"
  using assms by (auto simp: hex_digit_def char_of_eq_iff take_bit_eq_mod)

lemma form_enc_char_no_sep:
  "CHR ''&'' \<notin> set (form_enc_char c)" "CHR ''='' \<notin> set (form_enc_char c)"
  using form_unreserved_special hex_digit_special [of "of_char c div 16"]
    hex_digit_special [of "of_char c mod 16"]
  by (auto simp: form_enc_char_def less_mult_imp_div_less)

lemma form_enc_no_sep [simp]:
  "CHR ''&'' \<notin> set (form_enc s)" "CHR ''='' \<notin> set (form_enc s)"
  using form_enc_char_no_sep by (auto simp: form_enc_def)

lemma form_dec_plain:
  "c \<noteq> CHR ''+'' \<Longrightarrow> c \<noteq> CHR ''%'' \<Longrightarrow> form_dec (c # cs) = c # form_dec cs"
  by simp

lemma of_char_div_mod_16: "16 * (of_char c div 16) + of_char c mod 16 = (of_char c :: nat)"
  by simp

lemma form_dec_enc_char: "form_dec (form_enc_char c @ rest) = c # form_dec rest"
proof (cases "form_unreserved c")
  case True
  with form_unreserved_special have "c \<noteq> CHR ''+''" "c \<noteq> CHR ''%''" by auto
  with True show ?thesis by (simp add: form_enc_char_def)
next
  case False
  show ?thesis
  proof (cases "c = CHR '' ''")
    case True
    then show ?thesis by (simp add: form_enc_char_def form_unreserved_def)
  next
    case sp: False
    have "of_char c div 16 < (16::nat)" by (simp add: less_mult_imp_div_less)
    moreover have "of_char c mod 16 < (16::nat)" by simp
    ultimately show ?thesis
      using False sp by (simp add: form_enc_char_def of_char_div_mod_16)
  qed
qed

lemma form_dec_enc_append: "form_dec (form_enc s @ rest) = s @ form_dec rest"
  by (induction s) (simp_all add: form_enc_def form_dec_enc_char)

theorem form_dec_enc [simp]: "form_dec (form_enc s) = s"
  using form_dec_enc_append [of s "[]"] by simp

theorem url_parse_serialize: "url_parse (url_serialize ps) = ps"
proof (cases "ps = []")
  case True
  then show ?thesis by (simp add: url_serialize_def url_parse_def)
next
  case False
  let ?segs = "map (\<lambda>(k, v). form_enc k @ CHR ''='' # form_enc v) ps"
  have split: "split_on (CHR ''&'') (join_sep (CHR ''&'') ?segs) = ?segs"
    using False by (intro split_on_join_sep) auto
  have nonempty: "filter (\<lambda>seg. seg \<noteq> []) ?segs = ?segs"
    by (auto simp: filter_id_conv)
  have "map (\<lambda>seg. case break_at (CHR ''='') seg of (k, v) \<Rightarrow> (form_dec k, form_dec v)) ?segs = ps"
    by (induction ps) (auto simp: break_at_append)
  then show ?thesis
    by (simp add: url_parse_def url_serialize_def split nonempty)
qed

end
