(* ===== verification/Comment_Service.thy ===== *)
theory Comment_Service
  imports Gateway Url_Params
begin

text \<open>
  The comment resource functions, \<open>src/frontend/src/services/commentService.js\<close>:
  stateless, each builds one path (with a query string from a filter object where it
  takes one) and makes one call through the gateway client, propagating what the
  client rejects with. \<open>{...params, k: v}\<close> is \<open>obj_assign [] (params @ [(k, v)])\<close>.
\<close>

definition get_comments :: "backend \<Rightarrow> jsobj \<Rightarrow> jsv act" where
  "get_comments be params = api_get be (''/comments?'' @ query_string params)"

definition create_comment :: "backend \<Rightarrow> jsv \<Rightarrow> jsv act" where
  "create_comment be d = api_post be ''/comments'' d"

definition get_unprocessed_comments :: "backend \<Rightarrow> jsv \<Rightarrow> jsv act" where
  "get_unprocessed_comments be limit =
     api_get be (''/comments/unprocessed?limit='' @
                 js_to_string (if limit = Undef then Num 50 else limit))"

definition get_comment_stats :: "backend \<Rightarrow> jsv act" where
  "get_comment_stats be = api_get be ''/comments/stats''"

definition get_comment :: "backend \<Rightarrow> jsv \<Rightarrow> jsv act" where
  "get_comment be cid = api_get be (''/comments/'' @ js_to_string cid)"

definition update_comment :: "backend \<Rightarrow> jsv \<Rightarrow> jsv \<Rightarrow> jsv act" where
  "update_comment be cid d = api_put be (''/comments/'' @ js_to_string cid) d"

definition bulk_update_processed :: "backend \<Rightarrow> jsv \<Rightarrow> jsv act" where
  "bulk_update_processed be ids = api_post be ''/comments/bulk/processed'' (Obj [(''comment_ids'', ids)])"

definition comments_with :: "backend \<Rightarrow> jsobj \<Rightarrow> jsobj \<Rightarrow> jsv act" where
  "comments_with be params extra = api_get be (''/comments?'' @ query_string (obj_assign [] (params @ extra)))"

definition get_comments_by_team :: "backend \<Rightarrow> jsv \<Rightarrow> jsobj \<Rightarrow> jsv act" where
  "get_comments_by_team be team params = comments_with be params [(''team_id'', team)]"

definition get_comments_by_source :: "backend \<Rightarrow> jsv \<Rightarrow> jsobj \<Rightarrow> jsv act" where
  "get_comments_by_source be src params = comments_with be params [(''source'', src)]"

definition get_comments_by_sentiment :: "backend \<Rightarrow> jsv \<Rightarrow> jsobj \<Rightarrow> jsv act" where
  "get_comments_by_sentiment be snt params = comments_with be params [(''sentiment'', snt)]"

definition get_comments_by_date_range :: "backend \<Rightarrow> jsv \<Rightarrow> jsv \<Rightarrow> jsobj \<Rightarrow> jsv act" where
  "get_comments_by_date_range be a b params =
     comments_with be params [(''start_date'', a), (''end_date'', b)]"

definition search_comments_req :: "backend \<Rightarrow> jsv \<Rightarrow> jsobj \<Rightarrow> jsv act" where
  "search_comments_req be q params = comments_with be params [(''search'', q)]"

definition get_recent_comments :: "backend \<Rightarrow> jsv \<Rightarrow> jsv act" where
  "get_recent_comments be limit =
     api_get be (''/comments?limit='' @ js_to_string (if limit = Undef then Num 10 else limit)
                 @ ''&sort_by=created_at&sort_order=desc'')"

definition export_comments :: "backend \<Rightarrow> jsobj \<Rightarrow> jsv \<Rightarrow> jsv act" where
  "export_comments be params fmt =
     api_get be (''/comments/export?'' @
                 query_string (obj_assign [] (params @ [(''export'', if fmt = Undef then Str ''json'' else fmt)])))"

section \<open>The request a listing sends\<close>

lemma obj_assign_Nil_wf: "obj_wf ob \<Longrightarrow> obj_assign [] ob = ob"
proof (induction ob rule: rev_induct)
  case (snoc p ob)
  obtain k v where p: "p = (k, v)" by (cases p)
  from snoc.prems p have wf: "obj_wf ob" and k: "k \<notin> fst ` set ob"
    by (auto simp: obj_wf_def)
  have "obj_set ob k v = ob @ [(k, v)]" if "k \<notin> fst ` set ob"
    using that by (induction ob k v rule: obj_set.induct) auto
  with snoc.IH wf k p show ?case by (simp add: obj_assign_def)
qed simp

lemma get_comments_apply:
  "get_comments be params tr =
     settle (be \<lparr>req_method = GET, req_url = ''/comments?'' @ query_string params, req_body = Undef\<rparr>)
       (tr @ [LogRequest GET (''/comments?'' @ query_string params),
              Send \<lparr>req_method = GET, req_url = ''/comments?'' @ query_string params, req_body = Undef\<rparr>])"
  by (simp add: get_comments_def effect_simps)

text \<open>C24: every key of the filter object a listing is asked for reaches the request's
  query string, with its value converted by \<open>String\<close>: the query parses back to
  exactly those pairs, in order, a key whose value is \<open>undefined\<close> included (as the
  text \<open>undefined\<close>).\<close>

theorem listing_query_keeps_every_key:
  "\<exists>q new. snd (get_comments be params tr) =
     tr @ [LogRequest GET (''/comments?'' @ q), Send \<lparr>req_method = GET, req_url = ''/comments?'' @ q, req_body = Undef\<rparr>] @ new \<and>
     url_parse q = map (\<lambda>(k, v). (k, js_to_string v)) params"
proof -
  let ?r = "\<lparr>req_method = GET, req_url = ''/comments?'' @ query_string params, req_body = Undef\<rparr>"
  let ?tr1 = "tr @ [LogRequest GET (''/comments?'' @ query_string params), Send ?r]"
  obtain new res where "settle (be ?r) ?tr1 = (res, ?tr1 @ new)" using settle_extends by blast
  then have "snd (get_comments be params tr) = ?tr1 @ new" by (simp add: get_comments_apply)
  moreover have "url_parse (query_string params) = map (\<lambda>(k, v). (k, js_to_string v)) params"
    by (simp add: query_string_def url_parse_serialize search_params_def)
  ultimately show ?thesis by auto
qed

end
