(* ===== verification/Comments_Hook.thy ===== *)
theory Comments_Hook
  imports Comment_Service
begin

text \<open>
  The comment-listing view-model hook, \<open>useComments\<close> in
  \<open>src/frontend/src/hooks/useComments.js\<close>. Its own React state is the filter object
  and the list of selected comment identifiers (\<open>comments_hook\<close>); the fetched page
  (\<open>commentsData\<close>) is the body the listing query last returned.
  \<^item> The filter setters are functions on the filter object, one per \<open>useCallback\<close>,
    written with the spread they perform; \<open>filter_op\<close> names them and \<open>filter_step\<close>
    dispatches, so that invariants are proved once over all of them.
  \<^item> The selection setters are functions on the list of identifiers.
  \<^item> The mutations run the resource call through the gateway, then the \<open>onSuccess\<close> or
    \<open>onError\<close> handler: toasts, cache invalidations and, for the bulk update, the reset of
    the selection. React Query's \<open>mutate\<close> never rejects to its caller, so a mutation
    returns the new hook state and the trace, not an error.
  \<^item> The computed values (\<open>comments\<close>, \<open>totalPages\<close>, \<open>hasNextPage\<close>, ...) read the
    fetched body with optional chaining and \<open>||\<close> defaults.
\<close>

record comments_hook =
  filters :: jsobj
  selected :: "jsv list"

section \<open>Filter state\<close>

definition default_filters :: jsobj where
  "default_filters =
     [(''page'', Num 1), (''limit'', Num 20), (''sort_by'', Str ''created_at''), (''sort_order'', Str ''desc'')]"

definition init_filters :: "jsobj \<Rightarrow> jsobj" where
  "init_filters initial = obj_assign [] (default_filters @ initial)"

definition init_comments_hook :: "jsobj \<Rightarrow> comments_hook" where
  "init_comments_hook initial = \<lparr>filters = init_filters initial, selected = []\<rparr>"

definition update_filters :: "jsobj \<Rightarrow> jsobj \<Rightarrow> jsobj" where
  "update_filters nf f = obj_assign [] (f @ nf @ [(''page'', Num 1)])"

definition set_page :: "jsv \<Rightarrow> jsobj \<Rightarrow> jsobj" where
  "set_page p f = obj_assign [] (f @ [(''page'', p)])"

definition set_limit :: "jsv \<Rightarrow> jsobj \<Rightarrow> jsobj" where
  "set_limit l f = obj_assign [] (f @ [(''limit'', l), (''page'', Num 1)])"

definition set_sorting :: "jsv \<Rightarrow> jsv \<Rightarrow> jsobj \<Rightarrow> jsobj" where
  "set_sorting sort_by sort_order f =
     obj_assign [] (f @ [(''sort_by'', sort_by),
                         (''sort_order'', if sort_order = Undef then Str ''desc'' else sort_order)])"

definition filter_by_team :: "jsv \<Rightarrow> jsobj \<Rightarrow> jsobj" where
  "filter_by_team t = update_filters [(''team_id'', t)]"

definition filter_by_source :: "jsv \<Rightarrow> jsobj \<Rightarrow> jsobj" where
  "filter_by_source s = update_filters [(''source'', s)]"

definition filter_by_sentiment :: "jsv \<Rightarrow> jsobj \<Rightarrow> jsobj" where
  "filter_by_sentiment s = update_filters [(''sentiment'', s)]"

definition filter_by_date_range :: "jsv \<Rightarrow> jsv \<Rightarrow> jsobj \<Rightarrow> jsobj" where
  "filter_by_date_range a b = update_filters [(''start_date'', a), (''end_date'', b)]"

definition search_comments :: "jsv \<Rightarrow> jsobj \<Rightarrow> jsobj" where
  "search_comments q = update_filters [(''search'', q)]"

definition clear_filters :: "jsobj \<Rightarrow> jsobj" where
  "clear_filters f = default_filters"

datatype filter_op =
    UpdateFilters jsobj | SetPage jsv | SetLimit jsv | SetSorting jsv jsv
  | FilterByTeam jsv | FilterBySource jsv | FilterBySentiment jsv
  | FilterByDateRange jsv jsv | SearchComments jsv | ClearFilters

fun filter_step :: "filter_op \<Rightarrow> jsobj \<Rightarrow> jsobj" where
  "filter_step (UpdateFilters nf) = update_filters nf"
| "filter_step (SetPage p) = set_page p"
| "filter_step (SetLimit l) = set_limit l"
| "filter_step (SetSorting b ord) = set_sorting b ord"
| "filter_step (FilterByTeam t) = filter_by_team t"
| "filter_step (FilterBySource s) = filter_by_source s"
| "filter_step (FilterBySentiment s) = filter_by_sentiment s"
| "filter_step (FilterByDateRange a b) = filter_by_date_range a b"
| "filter_step (SearchComments q) = search_comments q"
| "filter_step ClearFilters = clear_filters"

text \<open>The filter object is well formed: distinct keys, and a \<open>page\<close> key.\<close>

definition filters_wf :: "jsobj \<Rightarrow> bool" where
  "filters_wf f \<longleftrightarrow> obj_wf f \<and> ''page'' \<in> fst ` set f"

section \<open>Selection\<close>

definition toggle_selection :: "'a \<Rightarrow> 'a list \<Rightarrow> 'a list" where
  "toggle_selection x sel = (if x \<in> set sel then filter (\<lambda>y. y \<noteq> x) sel else sel @ [x])"

text \<open>\<open>selectAllComments\<close>: with no fetched page the selection stays; otherwise it
  becomes the identifiers of the displayed page, and \<open>None\<close> is the \<open>TypeError\<close>
  thrown when \<open>comments\<close> is not an array or holds \<open>undefined\<close> or \<open>null\<close>.\<close>

definition select_all_comments :: "jsv \<Rightarrow> jsv list \<Rightarrow> jsv list option" where
  "select_all_comments data sel =
     (let cs = opt_prop data ''comments'' in
      if \<not> truthy cs then Some sel
      else case cs of
             Arr xs \<Rightarrow> those (map (\<lambda>c. get_prop c ''id'') xs)
           | _ \<Rightarrow> None)"

definition clear_selection :: "'a list \<Rightarrow> 'a list" where
  "clear_selection sel = []"

section \<open>Mutations\<close>

definition invalidate_comments :: "unit act" where
  "invalidate_comments = bind_act (emit (Invalidate ''comments'')) (\<lambda>_. emit (Invalidate ''comment-stats''))"

definition create_comment_run :: "backend \<Rightarrow> jsv \<Rightarrow> unit act" where
  "create_comment_run be d =
     catch_act
       (bind_act (create_comment be d) (\<lambda>_.
          bind_act (emit (Toast ToastSuccess MsgCommentCreated)) (\<lambda>_. invalidate_comments)))
       (\<lambda>e. bind_act (emit (LogError ''Error creating comment:'')) (\<lambda>_.
              emit (Toast ToastError MsgCommentCreateFailed)))"

definition update_comment_run :: "backend \<Rightarrow> jsv \<Rightarrow> jsv \<Rightarrow> unit act" where
  "update_comment_run be cid d =
     catch_act
       (bind_act (update_comment be cid d) (\<lambda>_.
          bind_act (emit (Toast ToastSuccess MsgCommentUpdated)) (\<lambda>_. invalidate_comments)))
       (\<lambda>e. bind_act (emit (LogError ''Error updating comment:'')) (\<lambda>_.
              emit (Toast ToastError MsgCommentUpdateFailed)))"

text \<open>The bulk mutation: its \<open>onSuccess\<close> toasts the count, invalidates both caches and
  empties the selection; its \<open>onError\<close> logs and toasts, and the selection stays.\<close>

definition bulk_processed_run ::
  "backend \<Rightarrow> jsv list \<Rightarrow> comments_hook \<Rightarrow> event list \<Rightarrow> comments_hook \<times> event list" where
  "bulk_processed_run be ids st tr =
     (case bulk_update_processed be (Arr ids) tr of
        (Inr d, tr') \<Rightarrow>
          (st\<lparr>selected := []\<rparr>,
           tr' @ [Toast ToastSuccess (MsgMarkedProcessed (opt_prop d ''updated_count'')),
                  Invalidate ''comments'', Invalidate ''comment-stats''])
      | (Inl e, tr') \<Rightarrow>
          (st, tr' @ [LogError ''Error bulk updating comments:'', Toast ToastError MsgBulkUpdateFailed]))"

definition mark_as_processed ::
  "backend \<Rightarrow> jsv \<Rightarrow> comments_hook \<Rightarrow> event list \<Rightarrow> comments_hook \<times> event list" where
  "mark_as_processed be x = bulk_processed_run be (case x of Arr xs \<Rightarrow> xs | v \<Rightarrow> [v])"

definition mark_selected_as_processed ::
  "backend \<Rightarrow> comments_hook \<Rightarrow> event list \<Rightarrow> comments_hook \<times> event list" where
  "mark_selected_as_processed be st tr =
     (if selected st \<noteq> [] then bulk_processed_run be (selected st) st tr else (st, tr))"

section \<open>Queries\<close>

text \<open>The listing query's fetch and its \<open>onError\<close> handler; the statistics query,
  whose handler only logs. The cache that holds their results is modelled in
  \<open>Query_Cache\<close>.\<close>

definition fetch_comments :: "backend \<Rightarrow> jsobj \<Rightarrow> jsv act" where
  "fetch_comments be f =
     catch_act (get_comments be f)
       (\<lambda>e. bind_act (emit (LogError ''Error fetching comments:'')) (\<lambda>_.
              bind_act (emit (Toast ToastError MsgCommentsLoadFailed)) (\<lambda>_. throw_err e)))"

definition fetch_comment_stats :: "backend \<Rightarrow> jsv act" where
  "fetch_comment_stats be =
     catch_act (get_comment_stats be)
       (\<lambda>e. bind_act (emit (LogError ''Error fetching comment stats:'')) (\<lambda>_. throw_err e))"

section \<open>Computed values\<close>

definition comments_of :: "jsv \<Rightarrow> jsv" where
  "comments_of data = js_or (opt_prop data ''comments'') (Arr [])"

definition total_comments :: "jsv \<Rightarrow> jsv" where
  "total_comments data = js_or (opt_prop data ''total'') (Num 0)"

definition total_pages :: "jsv \<Rightarrow> jsv" where
  "total_pages data = js_or (opt_prop data ''total_pages'') (Num 0)"

definition has_next_page :: "jsobj \<Rightarrow> jsv \<Rightarrow> bool" where
  "has_next_page f data = js_lt (obj_get f ''page'') (total_pages data)"

definition has_previous_page :: "jsobj \<Rightarrow> bool" where
  "has_previous_page f = js_lt (Num 1) (obj_get f ''page'')"

section \<open>Lemmas on the filter object\<close>

lemma obj_get_spread_append:
  "obj_wf f \<Longrightarrow>
     obj_get (obj_assign [] (f @ xs)) k = (case map_of (rev xs) k of None \<Rightarrow> obj_get f k | Some v \<Rightarrow> v)"
  by (simp add: obj_get_spread map_of_rev_wf map_add_def obj_get_def split: option.splits)

lemma filters_wf_spread: "''page'' \<in> fst ` set xs \<Longrightarrow> filters_wf (obj_assign [] xs)"
  by (simp add: filters_wf_def)

lemma filters_wf_page: "filters_wf f \<Longrightarrow> ''page'' \<in> fst ` set f"
  by (simp add: filters_wf_def)

lemmas filter_op_defs =
  update_filters_def set_page_def set_limit_def set_sorting_def filter_by_team_def
  filter_by_source_def filter_by_sentiment_def filter_by_date_range_def
  search_comments_def clear_filters_def

definition filters_run :: "filter_op list \<Rightarrow> jsobj \<Rightarrow> jsobj" where
  "filters_run ops f = foldl (\<lambda>g op. filter_step op g) f ops"

lemma filters_run_simps [simp]:
  "filters_run [] f = f" "filters_run (op # ops) f = filters_run ops (filter_step op f)"
  by (simp_all add: filters_run_def)

lemma default_filters_wf: "filters_wf default_filters"
  by (simp add: filters_wf_def obj_wf_def default_filters_def)

lemma filters_wf_spread_ext: "filters_wf f \<Longrightarrow> filters_wf (obj_assign [] (f @ xs))"
  by (rule filters_wf_spread) (auto dest: filters_wf_page)

lemma filter_step_wf: "filters_wf f \<Longrightarrow> filters_wf (filter_step op f)"
  by (cases op) (simp_all add: filter_op_defs filters_wf_spread_ext default_filters_wf)

lemma init_filters_wf: "filters_wf (init_filters initial)"
  unfolding init_filters_def by (rule filters_wf_spread) (simp add: default_filters_def)

lemma filters_run_wf: "filters_wf f \<Longrightarrow> filters_wf (filters_run ops f)"
  by (induction ops arbitrary: f) (simp_all add: filter_step_wf)

section \<open>Properties of the hook\<close>

text \<open>C1: \<open>updateFilters\<close> always returns to the first page: whatever predicates are
  merged in, the page of the resulting filter object is 1.\<close>

theorem update_filters_resets_page: "obj_get (update_filters nf f) ''page'' = Num 1"
  by (simp add: update_filters_def obj_get_spread)

text \<open>C2: every filter object the hook holds is well formed (distinct keys, a page):
  the initial object, whatever \<open>initialFilters\<close> are, and every object any sequence
  of the hook's setters produces from it.\<close>

theorem filters_always_wf: "filters_wf (filters_run ops (init_filters initial))"
  by (rule filters_run_wf [OF init_filters_wf])

text \<open>C3: \<open>updateFilters\<close> merges: a key other than the page reads the merged-in value
  when there is one (the last, if given twice) and its previous value otherwise.\<close>

theorem update_filters_merges:
  assumes "obj_wf f" and "k \<noteq> ''page''"
  shows "obj_get (update_filters nf f) k = (case map_of (rev nf) k of None \<Rightarrow> obj_get f k | Some v \<Rightarrow> v)"
  using assms by (simp add: update_filters_def obj_get_spread_append [where xs = "nf @ _"] split: option.splits)

theorem update_filters_merges_witness:
  "obj_wf default_filters \<and> ''limit'' \<noteq> ''page'' \<and>
   obj_get (update_filters [(''team_id'', Str ''gs'')] default_filters) ''limit'' = Num 20"
proof -
  have wf: "obj_wf default_filters" by (simp add: obj_wf_def default_filters_def)
  have "''limit'' \<noteq> ''page''" by simp
  with update_filters_merges [OF wf this, of "[(''team_id'', Str ''gs'')]"] wf show ?thesis
    by (simp add: obj_get_def default_filters_def)
qed

text \<open>\<open>setPage\<close> changes the page and nothing else.\<close>

theorem set_page_keeps_filters:
  assumes "obj_wf f"
  shows "obj_get (set_page p f) k = (if k = ''page'' then p else obj_get f k)"
  using assms by (simp add: set_page_def obj_get_spread_append)

theorem set_page_keeps_filters_witness:
  "obj_wf default_filters \<and> obj_get (set_page (Num 3) default_filters) ''sort_by'' = Str ''created_at''"
proof -
  have wf: "obj_wf default_filters" by (simp add: obj_wf_def default_filters_def)
  with set_page_keeps_filters [OF wf, of "Num 3" "''sort_by''"] show ?thesis
    by (simp add: obj_get_def default_filters_def)
qed


text \<open>Toggling a fresh identifier twice gives back the very same list; toggling a
  selected one twice moves it to the end.\<close>

lemma toggle_selection_twice_fresh:
  "x \<notin> set sel \<Longrightarrow> toggle_selection x (toggle_selection x sel) = sel"
  by (auto simp: toggle_selection_def filter_id_conv)

lemma toggle_selection_twice_moves:
  "toggle_selection x (toggle_selection x [x, y]) = (if x = y then [x] else [y, x])"
  by (simp add: toggle_selection_def)

text \<open>Toggling keeps the selection free of duplicates.\<close>

theorem toggle_selection_distinct: "distinct sel \<Longrightarrow> distinct (toggle_selection x sel)"
  by (auto simp: toggle_selection_def)

theorem toggle_selection_distinct_witness:
  "distinct [Str ''a''] \<and> toggle_selection (Str ''b'') [Str ''a''] = [Str ''a'', Str ''b'']"
  using toggle_selection_distinct [of "[Str ''a'']" "Str ''b''"]
  by (simp add: toggle_selection_def)

text \<open>\<open>selectAllComments\<close> replaces the selection with exactly the identifiers of
  the displayed page, in page order, when the page is an array of comment objects, and
  leaves it alone when no page has been fetched.\<close>

theorem select_all_page_ids:
  assumes "opt_prop data ''comments'' = Arr cs" and "\<forall>c \<in> set cs. \<exists>ps. c = Obj ps"
  shows "select_all_comments data sel = Some (map (\<lambda>c. opt_prop c ''id'') cs)"
proof -
  have "those (map (\<lambda>c. get_prop c ''id'') cs) = Some (map (\<lambda>c. opt_prop c ''id'') cs)"
    using assms(2) by (induction cs) auto
  with assms(1) show ?thesis by (simp add: select_all_comments_def)
qed

theorem select_all_page_ids_witness:
  "opt_prop (Obj [(''comments'', Arr [Obj [(''id'', Str ''c1'')], Obj [(''id'', Str ''c2'')]])]) ''comments''
     = Arr [Obj [(''id'', Str ''c1'')], Obj [(''id'', Str ''c2'')]] \<and>
   select_all_comments (Obj [(''comments'', Arr [Obj [(''id'', Str ''c1'')], Obj [(''id'', Str ''c2'')]])])
     [Str ''old''] = Some [Str ''c1'', Str ''c2'']"
  using select_all_page_ids [of "Obj [(''comments'', Arr [Obj [(''id'', Str ''c1'')], Obj [(''id'', Str ''c2'')]])]"
      "[Obj [(''id'', Str ''c1'')], Obj [(''id'', Str ''c2'')]]" "[Str ''old'']"]
  by (simp add: obj_get_def)

lemma select_all_no_page: "select_all_comments Undef sel = Some sel"
  by (simp add: select_all_comments_def)

text \<open>Marking the selection as processed with an empty selection is a no-op: no
  request, no notification, no change of state.\<close>

theorem mark_selected_empty_noop:
  "selected st = [] \<Longrightarrow> mark_selected_as_processed be st tr = (st, tr)"
  by (simp add: mark_selected_as_processed_def)

theorem mark_selected_empty_noop_witness:
  "selected \<lparr>filters = default_filters, selected = []\<rparr> = [] \<and>
   mark_selected_as_processed (\<lambda>_. NoResponse) \<lparr>filters = default_filters, selected = []\<rparr> [] =
     (\<lparr>filters = default_filters, selected = []\<rparr>, [])"
  using mark_selected_empty_noop [of "\<lparr>filters = default_filters, selected = []\<rparr>" "\<lambda>_. NoResponse" "[]"]
  by simp

definition bulk_request :: "jsv list \<Rightarrow> request" where
  "bulk_request ids =
     \<lparr>req_method = POST, req_url = ''/comments/bulk/processed'', req_body = Obj [(''comment_ids'', Arr ids)]\<rparr>"

lemma bulk_processed_run_apply:
  "bulk_processed_run be ids st tr =
     (case settle (be (bulk_request ids))
             (tr @ [LogRequest POST ''/comments/bulk/processed'', Send (bulk_request ids)]) of
        (Inr d, tr') \<Rightarrow>
          (st\<lparr>selected := []\<rparr>,
           tr' @ [Toast ToastSuccess (MsgMarkedProcessed (opt_prop d ''updated_count'')),
                  Invalidate ''comments'', Invalidate ''comment-stats''])
      | (Inl e, tr') \<Rightarrow>
          (st, tr' @ [LogError ''Error bulk updating comments:'', Toast ToastError MsgBulkUpdateFailed]))"
  by (simp add: bulk_processed_run_def bulk_update_processed_def bulk_request_def effect_simps)

text \<open>C5: a successful bulk update sends the selection in one request, then notifies,
  invalidates the comment list and the comment statistics, and empties the selection.\<close>

theorem mark_selected_success:
  assumes "selected st \<noteq> []" and "be (bulk_request (selected st)) = Response s d"
    and "200 \<le> s" and "s < 300"
  shows "mark_selected_as_processed be st tr =
           (st\<lparr>selected := []\<rparr>,
            tr @ [LogRequest POST ''/comments/bulk/processed'', Send (bulk_request (selected st)),
                  Toast ToastSuccess (MsgMarkedProcessed (opt_prop (handle_api_response s d) ''updated_count'')),
                  Invalidate ''comments'', Invalidate ''comment-stats''])"
  using assms by (simp add: mark_selected_as_processed_def bulk_processed_run_apply effect_simps)

theorem mark_selected_success_witness:
  "selected \<lparr>filters = default_filters, selected = [Str ''c1'']\<rparr> \<noteq> [] \<and>
   (\<lambda>_. Response 200 (Obj [(''updated_count'', Num 1)])) (bulk_request [Str ''c1'']) =
      Response 200 (Obj [(''updated_count'', Num 1)]) \<and> 200 \<le> (200::int) \<and> (200::int) < 300 \<and>
   fst (mark_selected_as_processed (\<lambda>_. Response 200 (Obj [(''updated_count'', Num 1)]))
          \<lparr>filters = default_filters, selected = [Str ''c1'']\<rparr> []) =
     \<lparr>filters = default_filters, selected = []\<rparr>"
  using mark_selected_success [of "\<lparr>filters = default_filters, selected = [Str ''c1'']\<rparr>"
      "\<lambda>_. Response 200 (Obj [(''updated_count'', Num 1)])" 200 "Obj [(''updated_count'', Num 1)]" "[]"]
  by simp

text \<open>C6: a failed bulk update leaves the selection as it was, and the user is told.\<close>

theorem mark_selected_failure:
  assumes "selected st \<noteq> []" and "be (bulk_request (selected st)) = Response s d"
    and "\<not> (200 \<le> s \<and> s < 300)"
  shows "fst (mark_selected_as_processed be st tr) = st \<and>
         last (snd (mark_selected_as_processed be st tr)) = Toast ToastError MsgBulkUpdateFailed"
proof -
  obtain e tr' where r: "(reject (AxHttp s d) :: jsv act)
      (tr @ [LogRequest POST ''/comments/bulk/processed'', Send (bulk_request (selected st))]) = (Inl e, tr')"
    using reject_Inl by blast
  have settle_eq: "settle (Response s d) = reject (AxHttp s d)"
    using assms(3) by (rule settle_error)
  have "settle (be (bulk_request (selected st)))
      (tr @ [LogRequest POST ''/comments/bulk/processed'', Send (bulk_request (selected st))]) = (Inl e, tr')"
    unfolding assms(2) settle_eq by (rule r)
  with assms(1) show ?thesis by (simp add: mark_selected_as_processed_def bulk_processed_run_apply)
qed

theorem mark_selected_failure_witness:
  "selected \<lparr>filters = default_filters, selected = [Str ''c1'']\<rparr> \<noteq> [] \<and>
   (\<lambda>_. Response 500 Null) (bulk_request [Str ''c1'']) = Response 500 Null \<and>
   \<not> (200 \<le> (500::int) \<and> (500::int) < 300) \<and>
   fst (mark_selected_as_processed (\<lambda>_. Response 500 Null)
          \<lparr>filters = default_filters, selected = [Str ''c1'']\<rparr> []) =
     \<lparr>filters = default_filters, selected = [Str ''c1'']\<rparr>"
  using mark_selected_failure [of "\<lparr>filters = default_filters, selected = [Str ''c1'']\<rparr>"
      "\<lambda>_. Response 500 Null" 500 Null "[]"]
  by simp

end
