(* ===== verification/Sentiment_Service.thy ===== *)
theory Sentiment_Service
  imports Comment_Service
begin

text \<open>
  The sentiment resource functions, \<open>src/frontend/src/services/sentimentService.js\<close>.
  All but one build a path and make one gateway call. \<open>processUnprocessedComments\<close>
  chains three stages: it fetches the unprocessed comments, analyses their texts in one
  batch request, then starts one save request per comment whose batch result is truthy
  and awaits them all (\<open>Promise.all\<close>). The saves run in parallel: all of them are
  logged and sent before any settles (\<open>send_all\<close>); their completions are taken in
  list order, and the first failure in that order is the error \<open>Promise.all\<close> rejects
  with, while every save still settles and notifies. Dates computed from the clock are
  parameters (\<open>start_date\<close>, \<open>end_date\<close> strings).
\<close>

definition analyze_text_req :: "backend \<Rightarrow> jsv \<Rightarrow> jsv \<Rightarrow> jsv act" where
  "analyze_text_req be text lang =
     api_post be ''/sentiments/analyze''
       (Obj [(''text'', text), (''language'', if lang = Undef then Str ''tr'' else lang)])"

definition analyze_batch_req :: "backend \<Rightarrow> jsv \<Rightarrow> jsv act" where
  "analyze_batch_req be texts = api_post be ''/sentiments/analyze/batch'' (Obj [(''texts'', texts)])"

definition get_sentiment_stats :: "backend \<Rightarrow> jsv act" where
  "get_sentiment_stats be = api_get be ''/sentiments/stats''"

text \<open>\<open>getTeamReport\<close>: each date is appended only when truthy, and the query string
  only when it is not empty.\<close>

definition team_report_url :: "jsv \<Rightarrow> jsv \<Rightarrow> jsv \<Rightarrow> string" where
  "team_report_url team start_date end_date =
     (let params = (if truthy start_date then [(''start_date'', js_to_string start_date)] else [])
                   @ (if truthy end_date then [(''end_date'', js_to_string end_date)] else []);
          q = url_serialize params;
          url = ''/sentiments/report/'' @ js_to_string team
      in if q \<noteq> [] then url @ CHR ''?'' # q else url)"

definition get_team_report :: "backend \<Rightarrow> jsv \<Rightarrow> jsv \<Rightarrow> jsv \<Rightarrow> jsv act" where
  "get_team_report be team start_date end_date = api_get be (team_report_url team start_date end_date)"

definition save_sentiment :: "jsv \<Rightarrow> jsv \<Rightarrow> jsv \<Rightarrow> request" where
  "save_sentiment cid team result =
     \<lparr>req_method = POST, req_url = ''/sentiments'',
      req_body = Obj [(''comment_id'', cid), (''team_id'', team), (''result'', result)]\<rparr>"

text \<open>\<open>getSentimentTrends(days)\<close> computes a date window from \<open>days\<close> and never uses
  it: the request is the same for every \<open>days\<close>.\<close>

definition get_sentiment_trends :: "backend \<Rightarrow> jsv \<Rightarrow> jsv act" where
  "get_sentiment_trends be days = api_get be ''/dashboard/stats''"

definition get_team_sentiment_breakdown :: "backend \<Rightarrow> jsv act" where
  "get_team_sentiment_breakdown be = api_get be ''/dashboard/comparison''"

definition get_hourly_sentiment_distribution :: "backend \<Rightarrow> jsv \<Rightarrow> string \<Rightarrow> string \<Rightarrow> jsv act" where
  "get_hourly_sentiment_distribution be team start_date end_date =
     get_team_report be team (Str start_date) (Str end_date)"

definition get_sentiment_by_source :: "backend \<Rightarrow> jsv \<Rightarrow> jsobj \<Rightarrow> jsv act" where
  "get_sentiment_by_source be src params =
     api_get be (''/comments?has_sentiment=true&'' @ query_string (obj_assign [] (params @ [(''source'', src)])))"

definition get_model_performance :: "backend \<Rightarrow> jsv act" where
  "get_model_performance be = api_get be ''/sentiments/stats''"

definition get_confidence_distribution :: "backend \<Rightarrow> jsv act" where
  "get_confidence_distribution be = api_get be ''/sentiments/stats''"

definition get_sentiment_summary :: "backend \<Rightarrow> jsv act" where
  "get_sentiment_summary be = api_get be ''/dashboard/data''"

section \<open>Parallel requests\<close>

fun settle_all :: "outcome list \<Rightarrow> jsv list act" where
  "settle_all [] = ret []"
| "settle_all (out # outs) =
     (\<lambda>tr. case settle out tr of
             (r, tr') \<Rightarrow> (case settle_all outs tr' of
                            (rs, tr'') \<Rightarrow>
                              ((case r of Inl e \<Rightarrow> Inl e
                                | Inr v \<Rightarrow> (case rs of Inl e \<Rightarrow> Inl e | Inr vs \<Rightarrow> Inr (v # vs))),
                               tr'')))"

definition send_events :: "request \<Rightarrow> event list" where
  "send_events r = [LogRequest (req_method r) (req_url r), Send r]"

definition send_all :: "backend \<Rightarrow> request list \<Rightarrow> jsv list act" where
  "send_all be rs = (\<lambda>tr. settle_all (map be rs) (tr @ concat (map send_events rs)))"

section \<open>Processing the unprocessed comments\<close>

text \<open>The save requests: one per comment whose batch result \<open>results[index]\<close> is
  truthy; \<open>None\<close> is a \<open>TypeError\<close> (reading a property of a missing comment).\<close>

definition save_requests :: "jsv list \<Rightarrow> jsv \<Rightarrow> request list option" where
  "save_requests cs results =
     map_option concat (those (map (\<lambda>(c, i).
              case js_index results i of
                None \<Rightarrow> None
              | Some r \<Rightarrow>
                  if truthy r then
                    (case (get_prop c ''id'', get_prop c ''team_id'') of
                       (Some cid, Some team) \<Rightarrow> Some [save_sentiment cid team r]
                     | _ \<Rightarrow> None)
                  else Some [])
            (zip cs [0..<length cs])))"

definition type_error :: "'a act" where
  "type_error = throw_err (ApiAxios AxTypeError)"

definition process_unprocessed_comments :: "backend \<Rightarrow> jsv act" where
  "process_unprocessed_comments be =
     bind_act (api_get be ''/comments/unprocessed'') (\<lambda>unprocessed.
       let cs = opt_prop unprocessed ''comments'' in
       if truthy cs \<and> js_lt (Num 0) (opt_prop cs ''length'') then
         (case cs of
            Arr xs \<Rightarrow>
              (case those (map (\<lambda>c. get_prop c ''text'') xs) of
                 None \<Rightarrow> type_error
               | Some texts \<Rightarrow>
                   bind_act (analyze_batch_req be (Arr texts)) (\<lambda>results.
                     case save_requests xs results of
                       None \<Rightarrow> type_error
                     | Some saves \<Rightarrow>
                         bind_act (send_all be saves) (\<lambda>_.
                           ret (Obj [(''processed'', Num (int (length xs)))]))))
          | _ \<Rightarrow> type_error)
       else ret (Obj [(''processed'', Num 0)]))"

section \<open>Properties\<close>

definition unprocessed_request :: request where
  "unprocessed_request = \<lparr>req_method = GET, req_url = ''/comments/unprocessed'', req_body = Undef\<rparr>"

definition batch_request :: "jsv list \<Rightarrow> request" where
  "batch_request texts =
     \<lparr>req_method = POST, req_url = ''/sentiments/analyze/batch'', req_body = Obj [(''texts'', Arr texts)]\<rparr>"

lemma process_unprocessed_apply:
  "process_unprocessed_comments be tr =
     (case settle (be unprocessed_request) (tr @ send_events unprocessed_request) of
        (Inl e, tr') \<Rightarrow> (Inl e, tr')
      | (Inr unprocessed, tr') \<Rightarrow>
          (let cs = opt_prop unprocessed ''comments'' in
           if truthy cs \<and> js_lt (Num 0) (opt_prop cs ''length'') then
             (case cs of
                Arr xs \<Rightarrow>
                  (case those (map (\<lambda>c. get_prop c ''text'') xs) of
                     None \<Rightarrow> type_error tr'
                   | Some texts \<Rightarrow>
                       (case settle (be (batch_request texts)) (tr' @ send_events (batch_request texts)) of
                          (Inl e, tr'') \<Rightarrow> (Inl e, tr'')
                        | (Inr results, tr'') \<Rightarrow>
                            (case save_requests xs results of
                               None \<Rightarrow> type_error tr''
                             | Some saves \<Rightarrow>
                                 bind_act (send_all be saves) (\<lambda>_.
                                   ret (Obj [(''processed'', Num (int (length xs)))])) tr'')))
              | _ \<Rightarrow> type_error tr')
           else (Inr (Obj [(''processed'', Num 0)]), tr')))"
  by (simp add: process_unprocessed_comments_def bind_act_apply api_request_apply api_get_def
      analyze_batch_req_def api_post_def unprocessed_request_def batch_request_def send_events_def
      act_simps Let_def split: prod.splits sum.splits jsv.splits option.splits)

text \<open>The batch endpoint answers with an object \<open>{results, total_texts}\<close> (the shape the
  sentiment hook reads in \<open>analyzeBatchMutation.onSuccess\<close>); indexing that object with
  a comment's position finds nothing, so no save request is made.\<close>

lemma obj_get_batch_body:
  "obj_get [(''results'', rs), (''total_texts'', n)] (nat_to_dec i) = Undef"
proof -
  have "nat_to_dec i \<noteq> ''results''"
    by (rule nat_to_dec_not_word [of "CHR ''r''"]) simp_all
  moreover have "nat_to_dec i \<noteq> ''total_texts''"
    by (rule nat_to_dec_not_word [of "CHR ''t''"]) simp_all
  ultimately show ?thesis by (simp add: obj_get_def)
qed

lemma save_requests_batch_body:
  "save_requests xs (Obj [(''results'', rs), (''total_texts'', n)]) = Some []"
proof -
  have "those (map (\<lambda>(c, i). case js_index (Obj [(''results'', rs), (''total_texts'', n)]) i of
              None \<Rightarrow> None
            | Some r \<Rightarrow> if truthy r then
                  (case (get_prop c ''id'', get_prop c ''team_id'') of
                     (Some cid, Some team) \<Rightarrow> Some [save_sentiment cid team r] | _ \<Rightarrow> None)
                else Some []) ps) = Some (map (\<lambda>_. []) ps)" for ps :: "(jsv \<times> nat) list"
    by (induction ps) (auto simp: obj_get_batch_body)
  then show ?thesis by (simp add: save_requests_def)
qed

lemma send_all_Nil [simp]: "send_all be [] tr = (Inr [], tr)"
  by (simp add: send_all_def act_simps)

text \<open>C7: with comments pending and a batch answer of the shape the hook expects,
  \<open>processUnprocessedComments\<close> makes exactly two requests, saves nothing, and still
  reports every pending comment as processed.\<close>

theorem process_unprocessed_saves_nothing:
  assumes "be unprocessed_request = Response sl (Obj [(''comments'', Arr xs)])"
    and "200 \<le> sl" and "sl < 300" and "xs \<noteq> []"
    and "those (map (\<lambda>c. get_prop c ''text'') xs) = Some texts"
    and "be (batch_request texts) = Response sb (Obj [(''results'', rs), (''total_texts'', n)])"
    and "200 \<le> sb" and "sb < 300"
  shows "process_unprocessed_comments be tr =
           (Inr (Obj [(''processed'', Num (int (length xs)))]),
            tr @ send_events unprocessed_request @ send_events (batch_request texts))"
  using assms
  by (simp add: process_unprocessed_apply handle_api_response_def obj_get_def opt_prop_def Let_def
      save_requests_batch_body bind_act_apply act_simps)

theorem process_unprocessed_saves_nothing_witness:
  "process_unprocessed_comments
     (\<lambda>r. if r = unprocessed_request
          then Response 200 (Obj [(''comments'', Arr [Obj [(''id'', Str ''c1''), (''team_id'', Str ''t1''),
                                                           (''text'', Str ''harika mac'')]])])
          else Response 200 (Obj [(''results'', Arr [Obj [(''label'', Str ''POSITIVE'')]]), (''total_texts'', Num 1)]))
     [] =
   (Inr (Obj [(''processed'', Num 1)]),
    send_events unprocessed_request @ send_events (batch_request [Str ''harika mac'']))"
proof -
  have ne: "batch_request [Str ''harika mac''] \<noteq> unprocessed_request"
    by (simp add: batch_request_def unprocessed_request_def)
  show ?thesis
    using process_unprocessed_saves_nothing [where xs = "[Obj [(''id'', Str ''c1''), (''team_id'', Str ''t1''),
        (''text'', Str ''harika mac'')]]" and sl = 200 and sb = 200 and texts = "[Str ''harika mac'']"
        and rs = "Arr [Obj [(''label'', Str ''POSITIVE'')]]" and n = "Num 1" and tr = "[]"]
    by (simp add: ne obj_get_def)
qed

text \<open>With nothing pending, \<open>processUnprocessedComments\<close> makes the one listing
  request and reports zero processed.\<close>

theorem process_unprocessed_nothing_pending:
  assumes "be unprocessed_request = Response s (Obj [(''comments'', Arr [])])"
    and "200 \<le> s" and "s < 300"
  shows "process_unprocessed_comments be tr =
           (Inr (Obj [(''processed'', Num 0)]), tr @ send_events unprocessed_request)"
  using assms
  by (simp add: process_unprocessed_apply handle_api_response_def obj_get_def opt_prop_def Let_def act_simps)

theorem process_unprocessed_nothing_pending_witness:
  "process_unprocessed_comments (\<lambda>_. Response 200 (Obj [(''comments'', Arr [])])) [] =
     (Inr (Obj [(''processed'', Num 0)]), send_events unprocessed_request)"
  using process_unprocessed_nothing_pending [of "\<lambda>_. Response 200 (Obj [(''comments'', Arr [])])" 200 "[]"]
  by simp

section \<open>Parallel requests: evaluation\<close>

lemma settle_all_extends: "\<exists>new r. settle_all outs tr = (r, tr @ new)"
proof (induction outs arbitrary: tr)
  case (Cons out outs)
  obtain r1 n1 where s1: "settle out tr = (r1, tr @ n1)" using settle_extends by blast
  obtain r2 n2 where s2: "settle_all outs (tr @ n1) = (r2, (tr @ n1) @ n2)" using Cons.IH by blast
  show ?case by (simp add: s1 s2)
qed (simp add: act_simps)

lemma settle_all_fails:
  "\<exists>out\<in>set outs. \<not> ok_outcome out \<Longrightarrow> \<exists>e new. settle_all outs tr = (Inl e, tr @ new)"
proof (induction outs arbitrary: tr)
  case (Cons out outs)
  show ?case
  proof (cases "ok_outcome out")
    case True
    obtain v where s1: "settle out tr = (Inr v, tr)" using settle_ok [OF True] by blast
    from True Cons.prems have "\<exists>out\<in>set outs. \<not> ok_outcome out" by auto
    then obtain e n where s2: "settle_all outs tr = (Inl e, tr @ n)" using Cons.IH by blast
    show ?thesis by (simp add: s1 s2)
  next
    case False
    obtain e n1 where s1: "settle out tr = (Inl e, tr @ n1)" using settle_fails [OF False] by blast
    obtain r2 n2 where s2: "settle_all outs (tr @ n1) = (r2, (tr @ n1) @ n2)"
      using settle_all_extends by blast
    show ?thesis by (simp add: s1 s2)
  qed
qed simp

lemma settle_all_ok:
  "\<forall>out\<in>set outs. ok_outcome out \<Longrightarrow> \<exists>vs. settle_all outs tr = (Inr vs, tr) \<and> length vs = length outs"
proof (induction outs)
  case (Cons out outs)
  obtain v where v: "settle out tr = (Inr v, tr)" using settle_ok [of out tr] Cons.prems by auto
  obtain vs where "settle_all outs tr = (Inr vs, tr) \<and> length vs = length outs" using Cons by auto
  then show ?case by (simp add: v)
qed (simp add: act_simps)

lemma send_all_apply:
  "send_all be rs tr = settle_all (map be rs) (tr @ concat (map send_events rs))"
  by (simp add: send_all_def)

end
