(* ===== verification/Sentiment_Hook.thy ===== *)
theory Sentiment_Hook
  imports Sentiment_Service
begin

text \<open>
  The sentiment view-model hook, \<open>useSentiment\<close> in
  \<open>src/frontend/src/hooks/useSentiment.js\<close>: its own state is the analysis history
  (\<open>sentiment_hook\<close>); its actions validate their input before any request
  (\<open>analyze_text_action\<close>, \<open>analyze_batch_action\<close>), run a mutation and apply its
  \<open>onSuccess\<close> or \<open>onError\<close> handler. Each action returns what the hook's callback
  returns (always \<open>undefined\<close>: \<open>mutate\<close> returns nothing), the new state and the
  trace. The clock (\<open>Date.now()\<close>) is a parameter \<open>now\<close>. The derived metrics are in
  \<open>Sentiment_Metrics\<close>.
\<close>

record history_entry =
  entry_id :: int
  entry_text :: jsv
  entry_result :: jsv
  entry_time :: int

record sentiment_hook =
  history :: "history_entry list"

definition init_sentiment_hook :: sentiment_hook where
  "init_sentiment_hook = \<lparr>history = []\<rparr>"

text \<open>\<open>[entry, ...prev.slice(0, 9)]\<close>: the newest entry first, at most nine older ones.\<close>

definition history_push :: "history_entry \<Rightarrow> history_entry list \<Rightarrow> history_entry list" where
  "history_push e h = e # take 9 h"

definition clear_analysis_history :: "sentiment_hook \<Rightarrow> sentiment_hook" where
  "clear_analysis_history st = st\<lparr>history := []\<rparr>"

section \<open>Validating the text\<close>

text \<open>\<open>text?.trim()\<close>: \<open>undefined\<close> for \<open>undefined\<close> and \<open>null\<close> (taken as the empty
  string, both being falsy), \<open>None\<close> for the \<open>TypeError\<close> of a value that has no
  \<open>trim\<close> method.\<close>

fun trim_opt :: "jsv \<Rightarrow> string option" where
  "trim_opt (Str s) = Some (js_trim s)"
| "trim_opt Undef = Some []"
| "trim_opt Null = Some []"
| "trim_opt v = None"

fun js_length :: "jsv \<Rightarrow> nat" where
  "js_length (Str s) = length s"
| "js_length v = 0"

section \<open>Actions\<close>

definition analyze_request :: "jsv \<Rightarrow> jsv \<Rightarrow> request" where
  "analyze_request text lang =
     \<lparr>req_method = POST, req_url = ''/sentiments/analyze'',
      req_body = Obj [(''text'', text), (''language'', if lang = Undef then Str ''tr'' else lang)]\<rparr>"

text \<open>The analyse-text mutation: on success a notification, the new history entry and
  the invalidation of the statistics; on failure a log line and a notification.\<close>

definition analyze_text_run ::
  "backend \<Rightarrow> int \<Rightarrow> jsv \<Rightarrow> jsv \<Rightarrow> sentiment_hook \<Rightarrow> event list \<Rightarrow> sentiment_hook \<times> event list" where
  "analyze_text_run be now text lang st tr =
     (case analyze_text_req be text lang tr of
        (Inr d, tr') \<Rightarrow>
          (st\<lparr>history := history_push
                 \<lparr>entry_id = now, entry_text = text, entry_result = opt_prop d ''result'', entry_time = now\<rparr>
                 (history st)\<rparr>,
           tr' @ [Toast ToastSuccess MsgAnalysisDone, Invalidate ''sentiment-stats''])
      | (Inl e, tr') \<Rightarrow>
          (st, tr' @ [LogError ''Error analyzing text:'', Toast ToastError MsgAnalysisFailed]))"

definition analyze_text_action ::
  "backend \<Rightarrow> int \<Rightarrow> jsv \<Rightarrow> jsv \<Rightarrow> sentiment_hook \<Rightarrow> event list
     \<Rightarrow> (jsv \<times> sentiment_hook \<times> event list) option" where
  "analyze_text_action be now text lang st tr =
     (case trim_opt text of
        None \<Rightarrow> None
      | Some t \<Rightarrow>
          if t = [] then Some (Undef, st, tr @ [Toast ToastError MsgEnterText])
          else if js_length text < 5 then Some (Undef, st, tr @ [Toast ToastError MsgTextTooShort])
          else (case analyze_text_run be now text lang st tr of (st', tr') \<Rightarrow> Some (Undef, st', tr')))"

text \<open>The batch mutation: its \<open>onSuccess\<close> counts the results that are not \<open>null\<close>; a
  \<open>TypeError\<close> there (no \<open>results\<close> array) sends React Query to \<open>onError\<close>.\<close>

definition analyze_batch_run :: "backend \<Rightarrow> jsv \<Rightarrow> unit act" where
  "analyze_batch_run be texts =
     (\<lambda>tr. case analyze_batch_req be texts tr of
        (Inr d, tr') \<Rightarrow>
          (case opt_prop d ''results'' of
             Arr rs \<Rightarrow>
               (Inr (), tr' @ [Toast ToastSuccess
                                (MsgBatchDone (length (filter (\<lambda>r. r \<noteq> Null) rs)) (opt_prop d ''total_texts'')),
                              Invalidate ''sentiment-stats''])
           | _ \<Rightarrow> (Inr (), tr' @ [LogError ''Error in batch analysis:'', Toast ToastError MsgBatchFailed]))
      | (Inl e, tr') \<Rightarrow>
          (Inr (), tr' @ [LogError ''Error in batch analysis:'', Toast ToastError MsgBatchFailed]))"

definition analyze_batch_action :: "backend \<Rightarrow> jsv \<Rightarrow> event list \<Rightarrow> event list" where
  "analyze_batch_action be texts tr =
     (if \<not> truthy texts \<or> opt_prop texts ''length'' = Num 0 then tr @ [Toast ToastError MsgNoTexts]
      else if js_lt (Num 50) (opt_prop texts ''length'') then tr @ [Toast ToastError MsgTooManyTexts]
      else snd (analyze_batch_run be texts tr))"

definition process_comments_action :: "backend \<Rightarrow> event list \<Rightarrow> event list" where
  "process_comments_action be tr =
     (case process_unprocessed_comments be tr of
        (Inr d, tr') \<Rightarrow>
          (if js_lt (Num 0) (opt_prop d ''processed'')
           then tr' @ [Toast ToastSuccess (MsgCommentsProcessed (opt_prop d ''processed'')),
                       Invalidate ''sentiment-stats'', Invalidate ''comment-stats'']
           else tr' @ [Toast ToastInfo MsgNothingToProcess])
      | (Inl e, tr') \<Rightarrow> tr' @ [LogError ''Error processing comments:'', Toast ToastError MsgProcessFailed])"

section \<open>Display helpers\<close>

datatype sentiment_text = TextPositive | TextNegative | TextNeutral | TextUnknown

definition ascii_upper :: "char \<Rightarrow> char" where
  "ascii_upper c = (let n = of_char c :: nat in if 97 \<le> n \<and> n \<le> 122 then char_of (n - 32) else c)"

text \<open>\<open>sentiment?.toUpperCase()\<close> followed by the \<open>switch\<close> of the three helpers
  (\<open>formatSentimentLabel\<close> returns the label text this names). The callers pass a label
  string or \<open>undefined\<close>; any other value would have no \<open>toUpperCase\<close> and throw.\<close>

definition classify_label :: "jsv \<Rightarrow> sentiment_text" where
  "classify_label v =
     (case v of
        Str s \<Rightarrow> (let u = map ascii_upper s in
                  if u = ''POSITIVE'' then TextPositive
                  else if u = ''NEGATIVE'' then TextNegative
                  else if u = ''NEUTRAL'' then TextNeutral else TextUnknown)
      | _ \<Rightarrow> TextUnknown)"

definition get_sentiment_color :: "jsv \<Rightarrow> string" where
  "get_sentiment_color v =
     (case classify_label v of
        TextPositive \<Rightarrow> ''#10B981'' | TextNegative \<Rightarrow> ''#EF4444''
      | TextNeutral \<Rightarrow> ''#6B7280'' | TextUnknown \<Rightarrow> ''#6B7280'')"

section \<open>Properties\<close>

lemma analyze_text_run_apply:
  "analyze_text_run be now text lang st tr =
     (case settle (be (analyze_request text lang)) (tr @ send_events (analyze_request text lang)) of
        (Inr d, tr') \<Rightarrow>
          (st\<lparr>history := history_push
                 \<lparr>entry_id = now, entry_text = text, entry_result = opt_prop d ''result'', entry_time = now\<rparr>
                 (history st)\<rparr>,
           tr' @ [Toast ToastSuccess MsgAnalysisDone, Invalidate ''sentiment-stats''])
      | (Inl e, tr') \<Rightarrow>
          (st, tr' @ [LogError ''Error analyzing text:'', Toast ToastError MsgAnalysisFailed]))"
  by (simp add: analyze_text_run_def analyze_text_req_def analyze_request_def api_post_def
      api_request_apply send_events_def)

lemma length_history_push [simp]: "length (history_push e h) \<le> 10"
  by (simp add: history_push_def)

text \<open>C8: a blank text (empty, whitespace only, \<open>undefined\<close> or \<open>null\<close>) is rejected
  with a notification before any request, and the history is unchanged.\<close>

theorem analyze_text_blank_rejected:
  "trim_opt text = Some [] \<Longrightarrow>
     analyze_text_action be now text lang st tr = Some (Undef, st, tr @ [Toast ToastError MsgEnterText])"
  by (simp add: analyze_text_action_def)

theorem analyze_text_blank_rejected_witness:
  "trim_opt (Str '' \<newline>  '') = Some [] \<and>
   analyze_text_action (\<lambda>_. NoResponse) 0 (Str '' \<newline>  '') Undef init_sentiment_hook [] =
     Some (Undef, init_sentiment_hook, [Toast ToastError MsgEnterText])"
proof -
  have t: "trim_opt (Str '' \<newline>  '') = Some []" by (simp add: js_trim_def js_space_def)
  show ?thesis
    using t analyze_text_blank_rejected [OF t, of "\<lambda>_. NoResponse" 0 Undef init_sentiment_hook "[]"]
    by simp
qed

text \<open>A text that is not blank but has fewer than five characters is rejected with
  a notification before any request, and the history is unchanged.\<close>

theorem analyze_text_short_rejected:
  "trim_opt text = Some t \<Longrightarrow> t \<noteq> [] \<Longrightarrow> js_length text < 5 \<Longrightarrow>
     analyze_text_action be now text lang st tr = Some (Undef, st, tr @ [Toast ToastError MsgTextTooShort])"
  by (simp add: analyze_text_action_def)

theorem analyze_text_short_rejected_witness:
  "analyze_text_action (\<lambda>_. NoResponse) 0 (Str ''hi'') Undef init_sentiment_hook [] =
     Some (Undef, init_sentiment_hook, [Toast ToastError MsgTextTooShort])"
proof -
  have t: "trim_opt (Str ''hi'') = Some ''hi''" by (simp add: js_trim_def js_space_def)
  show ?thesis
    using analyze_text_short_rejected [OF t, of "\<lambda>_. NoResponse" 0 Undef init_sentiment_hook "[]"]
    by simp
qed

text \<open>A text with a non-blank character and at least five characters is sent to the
  analysis endpoint (the callback still returns \<open>undefined\<close>).\<close>

theorem analyze_text_sends_request:
  assumes "text = Str s" and "js_trim s \<noteq> []" and "5 \<le> length s"
  shows "\<exists>st' new. analyze_text_action be now text lang st tr =
           Some (Undef, st', tr @ send_events (analyze_request text lang) @ new)"
proof -
  obtain new r where "settle (be (analyze_request text lang)) (tr @ send_events (analyze_request text lang))
      = (r, (tr @ send_events (analyze_request text lang)) @ new)"
    using settle_extends by blast
  with assms show ?thesis
    by (cases r) (auto simp: analyze_text_action_def analyze_text_run_apply)
qed

theorem analyze_text_sends_request_witness:
  "\<exists>st' new. analyze_text_action (\<lambda>_. NoResponse) 0 (Str ''hello'') Undef init_sentiment_hook [] =
     Some (Undef, st', send_events (analyze_request (Str ''hello'') Undef) @ new)"
proof -
  have "js_trim ''hello'' \<noteq> []" by (simp add: js_trim_def js_space_def)
  then show ?thesis
    using analyze_text_sends_request [of "Str ''hello''" "''hello''" "\<lambda>_. NoResponse" 0 Undef
        init_sentiment_hook "[]"]
    by simp
qed

text \<open>A padded text passes the length check on its padding: \<open>"   hi   "\<close> has two
  non-blank characters and is still sent.\<close>

lemma analyze_text_padded_short_sent:
  "\<exists>st' new. analyze_text_action (\<lambda>_. NoResponse) 0 (Str ''   hi   '') Undef init_sentiment_hook [] =
     Some (Undef, st', send_events (analyze_request (Str ''   hi   '') Undef) @ new)"
proof -
  have "js_trim ''   hi   '' = ''hi''" by (simp add: js_trim_def js_space_def)
  then show ?thesis
    using analyze_text_sends_request [of "Str ''   hi   ''" "''   hi   ''" "\<lambda>_. NoResponse" 0 Undef
        init_sentiment_hook "[]"]
    by simp
qed

text \<open>C9: the analysis history never holds more than ten entries.\<close>

theorem analyze_text_history_bounded:
  assumes "analyze_text_action be now text lang st tr = Some (v, st', tr')"
    and "length (history st) \<le> 10"
  shows "length (history st') \<le> 10"
proof -
  obtain r tr1 where "settle (be (analyze_request text lang)) (tr @ send_events (analyze_request text lang))
      = (r, tr1)"
    by fastforce
  with assms show ?thesis
    by (cases r) (auto simp: analyze_text_action_def analyze_text_run_apply
                        split: option.splits if_splits)
qed

theorem analyze_text_history_bounded_witness:
  "analyze_text_action (\<lambda>_. Response 200 (Obj [(''result'', Str ''POSITIVE'')])) 7 (Str ''harika mac'') Undef
      init_sentiment_hook [] =
     Some (Undef, \<lparr>history = [\<lparr>entry_id = 7, entry_text = Str ''harika mac'',
                                 entry_result = Str ''POSITIVE'', entry_time = 7\<rparr>]\<rparr>,
           send_events (analyze_request (Str ''harika mac'') Undef) @
           [Toast ToastSuccess MsgAnalysisDone, Invalidate ''sentiment-stats'']) \<and>
   length (history \<lparr>history = [\<lparr>entry_id = 7, entry_text = Str ''harika mac'',
                                 entry_result = Str ''POSITIVE'', entry_time = (7::int)\<rparr>]\<rparr>) \<le> 10"
proof -
  have run: "analyze_text_action (\<lambda>_. Response 200 (Obj [(''result'', Str ''POSITIVE'')])) 7 (Str ''harika mac'') Undef
      init_sentiment_hook [] =
     Some (Undef, \<lparr>history = [\<lparr>entry_id = 7, entry_text = Str ''harika mac'',
                                 entry_result = Str ''POSITIVE'', entry_time = 7\<rparr>]\<rparr>,
           send_events (analyze_request (Str ''harika mac'') Undef) @
           [Toast ToastSuccess MsgAnalysisDone, Invalidate ''sentiment-stats''])"
    by (simp add: analyze_text_action_def analyze_text_run_apply js_trim_def js_space_def
        handle_api_response_def obj_get_def init_sentiment_hook_def history_push_def act_simps)
  have "length (history init_sentiment_hook) \<le> 10" by (simp add: init_sentiment_hook_def)
  with run show ?thesis using analyze_text_history_bounded [OF run] by simp
qed

lemma take_append_take:
  assumes "n \<le> m"
  shows "take n (xs @ take m ys) = take n (xs @ ys)"
proof -
  from assms have "n - length xs \<le> m" by arith
  then show ?thesis by (simp add: min_def)
qed

lemma history_push_fold:
  "length h \<le> 10 \<Longrightarrow> foldl (\<lambda>h e. history_push e h) h es = take 10 (rev es @ h)"
proof (induction es arbitrary: h)
  case (Cons e es)
  have push: "history_push e h = take 10 (e # h)" by (simp add: history_push_def)
  have "foldl (\<lambda>h e. history_push e h) (history_push e h) es = take 10 (rev es @ history_push e h)"
    by (rule Cons.IH) simp
  then have "foldl (\<lambda>h e. history_push e h) h (e # es) = take 10 (rev es @ take 10 (e # h))"
    by (simp only: foldl_Cons push)
  also have "\<dots> = take 10 (rev es @ e # h)"
    by (rule take_append_take) simp
  finally show ?case by simp
qed simp

text \<open>C10: after any sequence of recorded analyses, starting from an empty history, the
  history holds the ten most recent entries, the newest first.\<close>

theorem history_keeps_ten_most_recent: "foldl (\<lambda>h e. history_push e h) [] es = take 10 (rev es)"
  using history_push_fold [of "[]" es] by simp

text \<open>C11: a batch of no texts, or of more than fifty, is rejected with a notification and
  no request.\<close>

theorem analyze_batch_rejects:
  assumes "texts = Arr xs" and "xs = [] \<or> 50 < length xs"
  shows "analyze_batch_action be texts tr =
           tr @ [Toast ToastError (if xs = [] then MsgNoTexts else MsgTooManyTexts)]"
  using assms by (auto simp: analyze_batch_action_def opt_prop_def)

theorem analyze_batch_rejects_witness:
  "analyze_batch_action (\<lambda>_. NoResponse) (Arr (replicate 51 (Str ''gol''))) [] =
     [Toast ToastError MsgTooManyTexts]"
  using analyze_batch_rejects [of "Arr (replicate 51 (Str ''gol''))" "replicate 51 (Str ''gol'')"
      "\<lambda>_. NoResponse" "[]"]
  by simp

text \<open>A batch of one to fifty texts is sent to the batch endpoint.\<close>

theorem analyze_batch_sends:
  assumes "texts = Arr xs" and "xs \<noteq> []" and "length xs \<le> 50"
  shows "\<exists>new. analyze_batch_action be texts tr = tr @ send_events (batch_request xs) @ new"
proof -
  obtain new r where "settle (be (batch_request xs)) (tr @ send_events (batch_request xs))
      = (r, (tr @ send_events (batch_request xs)) @ new)"
    using settle_extends by blast
  with assms show ?thesis
    by (auto simp: analyze_batch_action_def analyze_batch_run_def analyze_batch_req_def api_post_def
        api_request_apply batch_request_def send_events_def opt_prop_def
        split: sum.splits jsv.splits)
qed

theorem analyze_batch_sends_witness:
  "\<exists>new. analyze_batch_action (\<lambda>_. NoResponse) (Arr (replicate 50 (Str ''gol''))) [] =
     send_events (batch_request (replicate 50 (Str ''gol''))) @ new"
  using analyze_batch_sends [of "Arr (replicate 50 (Str ''gol''))" "replicate 50 (Str ''gol'')"
      "\<lambda>_. NoResponse" "[]"]
  by simp

end
