(* ===== verification/Sentiment_Metrics.thy ===== *)
theory Sentiment_Metrics
  imports Complex_Main Prelude
begin

text \<open>
  The derived metrics of \<open>useSentiment\<close> (\<open>src/frontend/src/hooks/useSentiment.js\<close>),
  computed from the statistics the hook fetches: the per-label breakdown with
  percentages (\<open>sentimentBreakdown\<close>), the weighted overall score
  (\<open>overallSentimentScore\<close>) and the trend direction (\<open>sentimentTrend\<close>).
  \<^item> \<open>stats.sentiment_breakdown\<close> is a JSON object from labels to counts: an association
    list with distinct keys, \<open>None\<close> when the statistics have none.
  \<^item> A percentage is the string \<open>(count / total * 100).toFixed(1)\<close>; it is represented by
    its value in tenths. \<open>to_fixed_1 n d\<close> is \<open>(n / d).toFixed(1)\<close> in tenths, computed
    exactly: the nearest tenth, a tie going away from zero. \<open>Math.round(n / d)\<close> is
    \<open>math_round n d\<close>: the nearest integer, a tie going up. Both are taken over the exact
    rational quotient; the rounding error of the double that JavaScript computes first is
    not modelled (it can only move a result that sits exactly on a tie).
  \<^item> The trend points are the numeric scores of \<open>stats.recent_trends\<close>, oldest first.
\<close>

type_synonym breakdown = "(string \<times> int) list"

definition count_of :: "breakdown \<Rightarrow> string \<Rightarrow> int" where
  "count_of b k = (case map_of b k of None \<Rightarrow> 0 | Some n \<Rightarrow> n)"

definition to_fixed_1 :: "int \<Rightarrow> int \<Rightarrow> int" where
  "to_fixed_1 n d = (if n < 0 then - ((20 * (- n) + d) div (2 * d)) else (20 * n + d) div (2 * d))"

definition math_round :: "int \<Rightarrow> int \<Rightarrow> int" where
  "math_round n d = (2 * n + d) div (2 * d)"

record share =
  share_count :: int
  share_pct :: int

record breakdown_view =
  bv_positive :: share
  bv_negative :: share
  bv_neutral :: share
  bv_total :: int

definition share_of :: "breakdown \<Rightarrow> int \<Rightarrow> string \<Rightarrow> share" where
  "share_of b tot k = \<lparr>share_count = count_of b k, share_pct = to_fixed_1 (count_of b k * 100) tot\<rparr>"

definition sentiment_breakdown :: "breakdown option \<Rightarrow> breakdown_view option" where
  "sentiment_breakdown sb =
     (case sb of
        None \<Rightarrow> None
      | Some b \<Rightarrow>
          (let tot = sum_list (map snd b) in
           if tot = 0 then None
           else Some \<lparr>bv_positive = share_of b tot ''POSITIVE'',
                      bv_negative = share_of b tot ''NEGATIVE'',
                      bv_neutral = share_of b tot ''NEUTRAL'',
                      bv_total = tot\<rparr>))"

definition overall_sentiment_score :: "breakdown_view option \<Rightarrow> int" where
  "overall_sentiment_score v =
     (case v of
        None \<Rightarrow> 50
      | Some bv \<Rightarrow>
          math_round (share_count (bv_positive bv) * 100 + share_count (bv_neutral bv) * 50
                      + share_count (bv_negative bv) * 0) (bv_total bv))"

datatype trend = Improving | Declining | Stable

definition sentiment_trend :: "rat list option \<Rightarrow> trend" where
  "sentiment_trend rt =
     (case rt of
        None \<Rightarrow> Stable
      | Some ts \<Rightarrow>
          if length ts < 2 then Stable
          else (let recent = ts ! (length ts - 1); previous = ts ! (length ts - 2) in
                if recent > previous + 5 then Improving
                else if recent < previous - 5 then Declining
                else Stable))"

section \<open>Rounding\<close>

lemma div_bounds:
  fixes x y :: int
  assumes "0 < y"
  shows "y * (x div y) \<le> x" and "x < y * (x div y) + y"
proof -
  have eq: "y * (x div y) + x mod y = x" by (rule mult_div_mod_eq)
  have "0 \<le> x mod y" and "x mod y < y" using assms by simp_all
  with eq show "y * (x div y) \<le> x" and "x < y * (x div y) + y" by linarith+
qed

lemma to_fixed_1_bounds:
  assumes "0 < d" and "0 \<le> n"
  shows "2 * d * to_fixed_1 n d \<le> 20 * n + d" and "20 * n + d < 2 * d * to_fixed_1 n d + 2 * d"
  using div_bounds [of "2 * d" "20 * n + d"] assms by (simp_all add: to_fixed_1_def)

lemma math_round_bounds:
  assumes "0 < d"
  shows "2 * d * math_round n d \<le> 2 * n + d" and "2 * n + d < 2 * d * math_round n d + 2 * d"
  using div_bounds [of "2 * d" "2 * n + d"] assms by (simp_all add: math_round_def)

section \<open>Counts\<close>

text \<open>A breakdown as the backend sends it: distinct labels, counts not negative.\<close>

definition breakdown_wf :: "breakdown \<Rightarrow> bool" where
  "breakdown_wf b \<longleftrightarrow> distinct (map fst b) \<and> (\<forall>(k, n) \<in> set b. 0 \<le> n)"

lemma breakdown_wf_Nil [simp]: "breakdown_wf []"
  by (simp add: breakdown_wf_def)

lemma breakdown_wf_Cons [simp]:
  "breakdown_wf ((k, n) # b) \<longleftrightarrow> k \<notin> fst ` set b \<and> 0 \<le> n \<and> breakdown_wf b"
  by (auto simp: breakdown_wf_def)

lemma count_of_Cons [simp]: "count_of ((k, n) # b) k' = (if k' = k then n else count_of b k')"
  by (simp add: count_of_def)

lemma count_of_Nil [simp]: "count_of [] k = 0"
  by (simp add: count_of_def)

lemma count_of_absent:
  assumes "k \<notin> fst ` set b"
  shows "count_of b k = 0"
proof -
  have "map_of b k = None" using assms by (simp add: map_of_eq_None_iff)
  then show ?thesis by (simp add: count_of_def)
qed

lemma count_of_nonneg: "breakdown_wf b \<Longrightarrow> 0 \<le> count_of b k"
  by (induction b) auto

lemma sum_nonneg: "breakdown_wf b \<Longrightarrow> 0 \<le> sum_list (map snd b)"
  by (induction b) auto

lemma two_counts_le_total:
  "breakdown_wf b \<Longrightarrow> k1 \<noteq> k2 \<Longrightarrow> count_of b k1 + count_of b k2 \<le> sum_list (map snd b)"
proof (induction b)
  case (Cons p b)
  obtain k n where p: "p = (k, n)" by (cases p)
  with Cons show ?case
    using count_of_nonneg [of b] count_of_absent [of k b] by (auto simp: add_increasing)
qed simp

lemma count_le_total: "breakdown_wf b \<Longrightarrow> count_of b k \<le> sum_list (map snd b)"
  using two_counts_le_total [of b k "k @ ''x''"] count_of_nonneg [of b "k @ ''x''"] by simp

lemma three_counts_total:
  assumes "breakdown_wf b" and "fst ` set b \<subseteq> {k1, k2, k3}"
    and "k1 \<noteq> k2" and "k1 \<noteq> k3" and "k2 \<noteq> k3"
  shows "sum_list (map snd b) = count_of b k1 + count_of b k2 + count_of b k3"
  using assms
proof (induction b)
  case (Cons p b)
  obtain k n where p: "p = (k, n)" by (cases p)
  with Cons.prems have "k \<notin> fst ` set b" and "breakdown_wf b" and "fst ` set b \<subseteq> {k1, k2, k3}"
    by auto
  with Cons.IH Cons.prems p show ?case
    using count_of_absent [of k b] by auto
qed simp

section \<open>Properties of the metrics\<close>

lemma share_bounds:
  assumes "0 < t" and "0 \<le> c" and "c \<le> t"
  shows "0 \<le> to_fixed_1 (c * 100) t" and "to_fixed_1 (c * 100) t \<le> 1000"
proof -
  have lo: "2 * t * to_fixed_1 (c * 100) t \<le> 2000 * c + t"
    using to_fixed_1_bounds(1) [of t "c * 100"] assms by simp
  have "2 * t * to_fixed_1 (c * 100) t \<le> 2001 * t"
    using lo assms(3) by linarith
  then have "t * (2 * to_fixed_1 (c * 100) t) \<le> t * 2001"
    by (simp add: algebra_simps)
  then have "2 * to_fixed_1 (c * 100) t \<le> 2001"
    using assms(1) by (rule mult_left_le_imp_le)
  then show "to_fixed_1 (c * 100) t \<le> 1000" by arith
  show "0 \<le> to_fixed_1 (c * 100) t"
    using assms by (simp add: to_fixed_1_def pos_imp_zdiv_nonneg_iff)
qed

lemma sentiment_breakdown_Some:
  "sentiment_breakdown (Some b) = Some v \<Longrightarrow>
     sum_list (map snd b) \<noteq> 0 \<and> bv_total v = sum_list (map snd b) \<and>
     v = \<lparr>bv_positive = share_of b (sum_list (map snd b)) ''POSITIVE'',
          bv_negative = share_of b (sum_list (map snd b)) ''NEGATIVE'',
          bv_neutral = share_of b (sum_list (map snd b)) ''NEUTRAL'', bv_total = sum_list (map snd b)\<rparr>"
  by (auto simp: sentiment_breakdown_def Let_def split: if_splits)

text \<open>The breakdown is absent, not zero-filled, exactly when the statistics carry
  no breakdown or its counts add up to zero.\<close>

theorem breakdown_absent_iff:
  "sentiment_breakdown sb = None \<longleftrightarrow> (case sb of None \<Rightarrow> True | Some b \<Rightarrow> sum_list (map snd b) = 0)"
  by (simp add: sentiment_breakdown_def Let_def split: option.splits)

text \<open>C12: every percentage of a breakdown is between 0.0 and 100.0.\<close>

theorem breakdown_percent_bounds:
  assumes "breakdown_wf b" and "sentiment_breakdown (Some b) = Some v"
  shows "0 \<le> share_pct (bv_positive v) \<and> share_pct (bv_positive v) \<le> 1000 \<and>
         0 \<le> share_pct (bv_negative v) \<and> share_pct (bv_negative v) \<le> 1000 \<and>
         0 \<le> share_pct (bv_neutral v) \<and> share_pct (bv_neutral v) \<le> 1000"
proof -
  let ?t = "sum_list (map snd b)"
  have t: "0 < ?t" using sentiment_breakdown_Some [OF assms(2)] sum_nonneg [OF assms(1)] by simp
  have c: "0 \<le> count_of b k" "count_of b k \<le> ?t" for k
    using count_of_nonneg [OF assms(1)] count_le_total [OF assms(1)] by auto
  show ?thesis
    using sentiment_breakdown_Some [OF assms(2)] share_bounds [OF t c] by (simp add: share_of_def)
qed

theorem breakdown_percent_bounds_witness:
  "breakdown_wf [(''POSITIVE'', 2), (''NEUTRAL'', 1)] \<and>
   sentiment_breakdown (Some [(''POSITIVE'', 2), (''NEUTRAL'', 1)]) =
     Some \<lparr>bv_positive = \<lparr>share_count = 2, share_pct = 667\<rparr>, bv_negative = \<lparr>share_count = 0, share_pct = 0\<rparr>,
           bv_neutral = \<lparr>share_count = 1, share_pct = 333\<rparr>, bv_total = 3\<rparr> \<and>
   share_pct (bv_positive \<lparr>bv_positive = \<lparr>share_count = 2, share_pct = 667\<rparr>,
        bv_negative = \<lparr>share_count = 0, share_pct = 0\<rparr>,
        bv_neutral = \<lparr>share_count = 1, share_pct = (333::int)\<rparr>, bv_total = 3\<rparr>) \<le> 1000"
proof -
  have wf: "breakdown_wf [(''POSITIVE'', 2), (''NEUTRAL'', 1)]" by simp
  have v: "sentiment_breakdown (Some [(''POSITIVE'', 2), (''NEUTRAL'', 1)]) =
     Some \<lparr>bv_positive = \<lparr>share_count = 2, share_pct = 667\<rparr>, bv_negative = \<lparr>share_count = 0, share_pct = 0\<rparr>,
           bv_neutral = \<lparr>share_count = 1, share_pct = 333\<rparr>, bv_total = 3\<rparr>"
    by (simp add: sentiment_breakdown_def share_of_def to_fixed_1_def)
  show ?thesis using breakdown_percent_bounds [OF wf v] wf v by simp
qed

text \<open>C13: when the breakdown holds only the three labels, the three rounded percentages
  add up to 100.0 within one tenth.\<close>

theorem breakdown_percent_sum:
  assumes "breakdown_wf b" and "fst ` set b \<subseteq> {''POSITIVE'', ''NEGATIVE'', ''NEUTRAL''}"
    and "sentiment_breakdown (Some b) = Some v"
  shows "999 \<le> share_pct (bv_positive v) + share_pct (bv_negative v) + share_pct (bv_neutral v) \<and>
         share_pct (bv_positive v) + share_pct (bv_negative v) + share_pct (bv_neutral v) \<le> 1001"
proof -
  let ?t = "sum_list (map snd b)"
  let ?P = "count_of b ''POSITIVE''" and ?N = "count_of b ''NEGATIVE''" and ?U = "count_of b ''NEUTRAL''"
  have t: "0 < ?t" using sentiment_breakdown_Some [OF assms(3)] sum_nonneg [OF assms(1)] by simp
  have sum: "?t = ?P + ?N + ?U"
    using three_counts_total [OF assms(1,2)] by simp
  have nn: "0 \<le> count_of b k" for k using count_of_nonneg [OF assms(1)] .
  let ?R = "to_fixed_1 (?P * 100) ?t + to_fixed_1 (?N * 100) ?t + to_fixed_1 (?U * 100) ?t"
  have up: "2 * ?t * ?R \<le> 2000 * ?t + 3 * ?t"
    using to_fixed_1_bounds(1) [OF t, of "?P * 100"] to_fixed_1_bounds(1) [OF t, of "?N * 100"]
      to_fixed_1_bounds(1) [OF t, of "?U * 100"] nn sum by (simp add: algebra_simps)
  have down: "2000 * ?t + 3 * ?t < 2 * ?t * ?R + 6 * ?t"
    using to_fixed_1_bounds(2) [OF t, of "?P * 100"] to_fixed_1_bounds(2) [OF t, of "?N * 100"]
      to_fixed_1_bounds(2) [OF t, of "?U * 100"] nn sum by (simp add: algebra_simps)
  have "?t * (2 * ?R) \<le> ?t * 2003" using up by (simp add: algebra_simps)
  then have r1: "2 * ?R \<le> 2003" using t by (rule mult_left_le_imp_le)
  have "?t * 1997 < ?t * (2 * ?R)" using down by (simp add: algebra_simps)
  then have r2: "1997 < 2 * ?R" using t by (simp add: mult_less_cancel_left)
  from r1 r2 have "999 \<le> ?R \<and> ?R \<le> 1001" by arith
  then show ?thesis using sentiment_breakdown_Some [OF assms(3)] by (simp add: share_of_def)
qed

theorem breakdown_percent_sum_witness:
  "sentiment_breakdown (Some [(''POSITIVE'', 1), (''NEGATIVE'', 1), (''NEUTRAL'', 1)]) =
     Some \<lparr>bv_positive = \<lparr>share_count = 1, share_pct = 333\<rparr>, bv_negative = \<lparr>share_count = 1, share_pct = 333\<rparr>,
           bv_neutral = \<lparr>share_count = 1, share_pct = 333\<rparr>, bv_total = 3\<rparr> \<and>
   999 \<le> (333 + 333 + 333 :: int)"
proof -
  let ?b = "[(''POSITIVE'', 1), (''NEGATIVE'', 1), (''NEUTRAL'', (1::int))]"
  have wf: "breakdown_wf ?b" by simp
  have ks: "fst ` set ?b \<subseteq> {''POSITIVE'', ''NEGATIVE'', ''NEUTRAL''}" by simp
  have v: "sentiment_breakdown (Some ?b) =
     Some \<lparr>bv_positive = \<lparr>share_count = 1, share_pct = 333\<rparr>, bv_negative = \<lparr>share_count = 1, share_pct = 333\<rparr>,
           bv_neutral = \<lparr>share_count = 1, share_pct = 333\<rparr>, bv_total = 3\<rparr>"
    by (simp add: sentiment_breakdown_def share_of_def to_fixed_1_def)
  show ?thesis using breakdown_percent_sum [OF wf ks v] v by simp
qed

lemma round_score_range:
  fixes t r P U :: int
  assumes t: "0 < t" and pu: "P + U \<le> t" and nn: "0 \<le> P" "0 \<le> U"
    and lo: "2 * t * r \<le> 2 * (P * 100 + U * 50) + t"
    and hi: "2 * (P * 100 + U * 50) + t < 2 * t * r + 2 * t"
  shows "0 \<le> r \<and> r \<le> 100"
proof -
  have e: "2 * (P * 100 + U * 50) = 200 * P + 100 * U" "2 * t * r = 2 * (t * r)" by simp_all
  have "t * (2 * r) \<le> t * 201" using lo pu nn e by linarith
  then have "2 * r \<le> 201" using t by (rule mult_left_le_imp_le)
  moreover have "t * (-2) < t * (2 * r)" using hi nn e t by linarith
  then have "-2 < 2 * r" using mult_less_cancel_left_pos [OF t] by blast
  ultimately show ?thesis by arith
qed

lemma overall_score_Some:
  "sentiment_breakdown (Some b) = Some v \<Longrightarrow>
     overall_sentiment_score (Some v) =
       math_round (count_of b ''POSITIVE'' * 100 + count_of b ''NEUTRAL'' * 50) (sum_list (map snd b))"
  by (drule sentiment_breakdown_Some) (simp add: overall_sentiment_score_def share_of_def)

text \<open>C14: the overall score of a breakdown lies between 0 and 100.\<close>

theorem overall_score_bounds:
  assumes "breakdown_wf b"
  shows "0 \<le> overall_sentiment_score (sentiment_breakdown (Some b)) \<and>
         overall_sentiment_score (sentiment_breakdown (Some b)) \<le> 100"
proof (cases "sentiment_breakdown (Some b)")
  case None
  then show ?thesis by (simp add: overall_sentiment_score_def)
next
  case (Some v)
  let ?t = "sum_list (map snd b)" and ?P = "count_of b ''POSITIVE''" and ?U = "count_of b ''NEUTRAL''"
  let ?r = "math_round (?P * 100 + ?U * 50) ?t"
  have t: "0 < ?t" using sentiment_breakdown_Some [OF Some] sum_nonneg [OF assms] by simp
  have pu: "?P + ?U \<le> ?t" using two_counts_le_total [OF assms, of "''POSITIVE''" "''NEUTRAL''"] by simp
  have nn: "0 \<le> ?P" "0 \<le> ?U" using count_of_nonneg [OF assms] by auto
  have lo: "2 * ?t * ?r \<le> 2 * (?P * 100 + ?U * 50) + ?t"
    and hi: "2 * (?P * 100 + ?U * 50) + ?t < 2 * ?t * ?r + 2 * ?t"
    using math_round_bounds [OF t, of "?P * 100 + ?U * 50"] by auto
  have "0 \<le> ?r \<and> ?r \<le> 100" using round_score_range [OF t pu nn lo hi] .
  then show ?thesis using overall_score_Some [OF Some] Some by simp
qed

theorem overall_score_bounds_witness:
  "breakdown_wf [(''POSITIVE'', 2), (''NEGATIVE'', 1)] \<and>
   overall_sentiment_score (sentiment_breakdown (Some [(''POSITIVE'', 2), (''NEGATIVE'', 1)])) = 67"
proof -
  have wf: "breakdown_wf [(''POSITIVE'', 2), (''NEGATIVE'', 1)]" by simp
  have "overall_sentiment_score (sentiment_breakdown (Some [(''POSITIVE'', 2), (''NEGATIVE'', 1)])) = 67"
    by (simp add: sentiment_breakdown_def overall_sentiment_score_def share_of_def math_round_def)
  with wf overall_score_bounds [OF wf] show ?thesis by simp
qed

text \<open>The score is 100 when every counted comment is positive, and 50, the
  neutral midpoint, when there is no breakdown or its counts add up to zero.\<close>

theorem overall_score_extremes:
  assumes "breakdown_wf b" and "0 < count_of b ''POSITIVE''"
    and "sum_list (map snd b) = count_of b ''POSITIVE''"
  shows "overall_sentiment_score (sentiment_breakdown (Some b)) = 100 \<and>
         overall_sentiment_score (sentiment_breakdown None) = 50 \<and>
         overall_sentiment_score (sentiment_breakdown (Some (map (\<lambda>(k, n). (k, 0)) b))) = 50"
proof -
  let ?t = "sum_list (map snd b)" and ?P = "count_of b ''POSITIVE''" and ?U = "count_of b ''NEUTRAL''"
  have "?P + ?U \<le> ?t" using two_counts_le_total [OF assms(1), of "''POSITIVE''" "''NEUTRAL''"] by simp
  then have u: "?U = 0" using assms(3) count_of_nonneg [OF assms(1), of "''NEUTRAL''"] by simp
  have some: "sentiment_breakdown (Some b) \<noteq> None" using assms(2,3) by (simp add: breakdown_absent_iff)
  then obtain v where v: "sentiment_breakdown (Some b) = Some v" by blast
  have "(2 * (?P * 100) + ?P) div (2 * ?P) = 100"
  proof -
    have "2 * (?P * 100) + ?P = (2 * ?P) * 100 + ?P" by simp
    moreover have "?P div (2 * ?P) = 0" "?P mod (2 * ?P) = ?P" using assms(2) by simp_all
    ultimately show ?thesis using assms(2) by (simp add: div_add_self1 mult.commute [of _ 100])
  qed
  then have "overall_sentiment_score (Some v) = 100"
    using overall_score_Some [OF v] u assms(3) by (simp add: math_round_def)
  moreover have "sum_list (map snd (map (\<lambda>(k, n). (k, 0::int)) b)) = 0"
    by (induction b) auto
  ultimately show ?thesis
    using v by (simp add: breakdown_absent_iff overall_sentiment_score_def sentiment_breakdown_def)
qed

theorem overall_score_extremes_witness:
  "overall_sentiment_score (sentiment_breakdown (Some [(''POSITIVE'', 4)])) = 100"
proof -
  have "breakdown_wf [(''POSITIVE'', 4)]" "0 < count_of [(''POSITIVE'', 4)] ''POSITIVE''"
    "sum_list (map snd [(''POSITIVE'', (4::int))]) = count_of [(''POSITIVE'', 4)] ''POSITIVE''"
    by simp_all
  then show ?thesis using overall_score_extremes by blast
qed

text \<open>The default 50 is the score of a genuinely neutral breakdown too: nothing in the
  value tells the two apart.\<close>

lemma overall_score_default_ambiguous:
  "overall_sentiment_score (sentiment_breakdown None) =
   overall_sentiment_score (sentiment_breakdown (Some [(''NEUTRAL'', 3)]))"
  by (simp add: sentiment_breakdown_def overall_sentiment_score_def share_of_def math_round_def)

text \<open>The trend looks only at the last two points, with symmetric thresholds: a
  rise of more than five is improving exactly when the same fall is declining.\<close>

theorem trend_symmetric:
  "sentiment_trend (Some (xs @ [p, r])) = Improving \<longleftrightarrow> sentiment_trend (Some (ys @ [r, p])) = Declining"
  by (simp add: sentiment_trend_def nth_append)

lemma trend_examples:
  "sentiment_trend (Some [40, 46]) = Improving" "sentiment_trend (Some [40, 45]) = Stable"
  "sentiment_trend (Some [50, 40]) = Declining" "sentiment_trend (Some [70]) = Stable"
  "sentiment_trend None = Stable"
  by (simp_all add: sentiment_trend_def)

end
