(* ===== verification/Dashboard_Service.thy ===== *)
theory Dashboard_Service
  imports Sentiment_Service Sentiment_Metrics "HOL-Library.Multiset"
begin

text \<open>
  The dashboard resource functions, \<open>src/frontend/src/services/dashboardService.js\<close>:
  plain requests; three reads that catch every failure and answer a default instead
  (\<open>get_data_collection_summary\<close>, \<open>dashboard_sentiment_trends\<close>,
  \<open>get_real_time_updates\<close>, \<open>get_top_teams\<close>); and pure helpers (the sentiment score,
  number formatting, the score colour, CSV conversion). The clock's ISO string is a
  parameter \<open>now\<close>. \<open>getTopTeams\<close> sorts with the comparator
  \<open>(a, b) => b.avg_sentiment - a.avg_sentiment\<close>; \<open>Array.prototype.sort\<close> is stable, so
  with numeric averages it is the stable sort on the negated average, \<open>sort_key\<close>.
  When two or more teams are sorted and one lacks a numeric average, the comparator
  answers \<open>NaN\<close> or throws and the resulting order is left to the engine: that case
  is the value \<open>None\<close> of \<open>top_teams\<close>.
\<close>

definition get_dashboard_data :: "backend \<Rightarrow> jsv act" where
  "get_dashboard_data be = api_get be ''/dashboard/data''"

definition get_overall_stats :: "backend \<Rightarrow> jsv act" where
  "get_overall_stats be = api_get be ''/dashboard/stats''"

definition get_team_comparison :: "backend \<Rightarrow> jsv act" where
  "get_team_comparison be = api_get be ''/dashboard/comparison''"

definition collect_reddit_data :: "backend \<Rightarrow> jsv act" where
  "collect_reddit_data be = api_post be ''/reddit/collect'' Undef"

definition collect_from_subreddit :: "backend \<Rightarrow> jsv \<Rightarrow> jsv act" where
  "collect_from_subreddit be name = api_post be (''/reddit/subreddit/'' @ js_to_string name) Undef"

definition get_health_status :: "backend \<Rightarrow> jsv act" where
  "get_health_status be = api_get be ''/health''"

definition get_api_status :: "backend \<Rightarrow> jsv act" where
  "get_api_status be = api_get be ''/''"

definition process_comments :: "backend \<Rightarrow> jsv act" where
  "process_comments be = api_get be ''/webhook/unprocessed''"

text \<open>\<open>getRecentActivity(hours = 24)\<close> computes a date window it never uses and answers
  a constant object without a request.\<close>

definition get_recent_activity :: "jsv \<Rightarrow> jsv act" where
  "get_recent_activity hours =
     ret (Obj [(''comments_collected'', Num 0), (''comments_analyzed'', Num 0),
               (''sentiment_processed'', Num 0),
               (''period'', Str (js_to_string (if hours = Undef then Num 24 else hours) @ '' hours''))])"

definition get_performance_metrics :: "backend \<Rightarrow> jsv act" where
  "get_performance_metrics be =
     bind_act (get_overall_stats be) (\<lambda>stats.
       bind_act (get_health_status be) (\<lambda>health.
         case (get_prop stats ''total_analyzed'', get_prop health ''status'', get_prop health ''services'') of
           (Some ta, Some st, Some sv) \<Rightarrow>
             ret (Obj [(''total_comments'', js_or ta (Num 0)), (''processing_rate'', Num 0),
                       (''api_response_time'', Num 0), (''system_health'', st), (''services_status'', sv)])
         | _ \<Rightarrow> type_error))"

definition empty_collection_summary :: jsv where
  "empty_collection_summary =
     Obj [(''total_comments'', Num 0), (''processed_comments'', Num 0), (''unprocessed_comments'', Num 0),
          (''total_analyzed'', Num 0), (''source_breakdown'', Obj []), (''sentiment_breakdown'', Obj [])]"

definition get_data_collection_summary :: "backend \<Rightarrow> jsv act" where
  "get_data_collection_summary be =
     catch_act
       (bind_act (api_get be ''/comments/stats'') (\<lambda>cs.
          bind_act (api_get be ''/sentiments/stats'') (\<lambda>ss.
            case (get_prop cs ''total_comments'', get_prop cs ''processed_comments'',
                  get_prop cs ''unprocessed_comments'', get_prop ss ''total_analyzed'',
                  get_prop cs ''source_breakdown'', get_prop ss ''sentiment_breakdown'') of
              (Some a, Some b, Some c, Some d, Some e, Some f) \<Rightarrow>
                ret (Obj [(''total_comments'', js_or a (Num 0)), (''processed_comments'', js_or b (Num 0)),
                          (''unprocessed_comments'', js_or c (Num 0)), (''total_analyzed'', js_or d (Num 0)),
                          (''source_breakdown'', js_or e (Obj [])), (''sentiment_breakdown'', js_or f (Obj []))])
            | _ \<Rightarrow> type_error)))
       (\<lambda>_. bind_act (emit (LogError ''Error getting data collection summary:'')) (\<lambda>_.
              ret empty_collection_summary))"

definition dashboard_sentiment_trends :: "backend \<Rightarrow> jsv act" where
  "dashboard_sentiment_trends be =
     catch_act
       (bind_act (get_overall_stats be) (\<lambda>stats.
          case get_prop stats ''recent_trends'' of
            Some t \<Rightarrow> ret (js_or t (Arr []))
          | None \<Rightarrow> type_error))
       (\<lambda>_. bind_act (emit (LogError ''Error getting sentiment trends:'')) (\<lambda>_. ret (Arr [])))"

section \<open>The best teams\<close>

definition team_avg :: "jsv \<Rightarrow> int option" where
  "team_avg t = (case get_prop t ''avg_sentiment'' of Some (Num n) \<Rightarrow> Some n | _ \<Rightarrow> None)"

definition top_teams :: "nat \<Rightarrow> jsv list \<Rightarrow> jsv list option" where
  "top_teams limit ts =
     (if length ts < 2 then Some (take limit ts)
      else map_option (\<lambda>avs. take limit (map snd (sort_key (\<lambda>p. - fst p) (zip avs ts))))
             (those (map team_avg ts)))"

definition get_top_teams :: "backend \<Rightarrow> nat \<Rightarrow> jsv list option act" where
  "get_top_teams be limit =
     catch_act
       (bind_act (get_team_comparison be) (\<lambda>comparison.
          case js_or (opt_prop comparison ''teams'') (Arr []) of
            Arr ts \<Rightarrow> ret (top_teams limit ts)
          | _ \<Rightarrow> type_error))
       (\<lambda>_. bind_act (emit (LogError ''Error getting top teams:'')) (\<lambda>_. ret (Some [])))"

section \<open>Polling\<close>

definition stats_request :: "string \<Rightarrow> request" where
  "stats_request url = \<lparr>req_method = GET, req_url = url, req_body = Undef\<rparr>"

definition get_real_time_updates :: "backend \<Rightarrow> string \<Rightarrow> jsv act" where
  "get_real_time_updates be now =
     catch_act
       (bind_act (send_all be [stats_request ''/comments/stats'', stats_request ''/sentiments/stats'']) (\<lambda>rs.
          case rs of
            [cs, ss] \<Rightarrow>
              (case (get_prop cs ''total_comments'', get_prop cs ''unprocessed_comments'',
                     get_prop ss ''total_analyzed'', get_prop ss ''sentiment_breakdown'') of
                 (Some a, Some b, Some c, Some d) \<Rightarrow>
                   ret (Obj [(''timestamp'', Str now),
                             (''comments'', Obj [(''total'', js_or a (Num 0)), (''unprocessed'', js_or b (Num 0))]),
                             (''sentiments'', Obj [(''total'', js_or c (Num 0)), (''breakdown'', js_or d (Obj []))])])
               | _ \<Rightarrow> type_error)
          | _ \<Rightarrow> type_error))
       (\<lambda>_. bind_act (emit (LogError ''Error getting real-time updates:'')) (\<lambda>_. ret Null))"

section \<open>Pure helpers\<close>

text \<open>\<open>calculateSentimentScore\<close> reads the three labels only: its total is their sum.\<close>

definition calculate_sentiment_score :: "breakdown option \<Rightarrow> int" where
  "calculate_sentiment_score sb =
     (case sb of
        None \<Rightarrow> 50
      | Some b \<Rightarrow>
          (let p = count_of b ''POSITIVE''; n = count_of b ''NEGATIVE''; u = count_of b ''NEUTRAL'';
               tot = p + n + u
           in if tot = 0 then 50 else math_round (p * 100 + u * 50 + n * 0) tot))"

text \<open>\<open>x.toFixed(1)\<close> for a non-negative \<open>x\<close> given in tenths.\<close>

definition fixed1_string :: "int \<Rightarrow> string" where
  "fixed1_string t = int_to_dec (t div 10) @ ''.'' @ nat_to_dec (nat (t mod 10))"

definition format_number :: "int \<Rightarrow> string" where
  "format_number n =
     (if 1000000 \<le> n then fixed1_string (to_fixed_1 n 1000000) @ ''M''
      else if 1000 \<le> n then fixed1_string (to_fixed_1 n 1000) @ ''K''
      else int_to_dec n)"

definition dashboard_sentiment_color :: "int \<Rightarrow> string" where
  "dashboard_sentiment_color score =
     (if 70 \<le> score then ''#10B981'' else if 40 \<le> score then ''#6B7280'' else ''#EF4444'')"

text \<open>\<open>convertToCSV\<close>: \<open>row.join(',')\<close> is \<open>String\<close> of the row as an array;
  \<open>None\<close> is the \<open>TypeError\<close> of a \<open>null\<close> or \<open>undefined\<close> argument.\<close>

definition convert_to_csv :: "jsv \<Rightarrow> string option" where
  "convert_to_csv d =
     (case get_prop d ''overall_stats'' of
        None \<Rightarrow> None
      | Some os \<Rightarrow>
          Some (join_sep (CHR 0x0A) (map (\<lambda>row. js_to_string (Arr row))
            ([[Str ''Metric'', Str ''Value'']] @
             (if truthy os
              then [[Str ''Total Analyzed'', opt_prop os ''total_analyzed''],
                    [Str ''Overall Sentiment'', opt_prop os ''overall_sentiment'']]
              else [])))))"

datatype blob = Blob string jsv

text \<open>\<open>exportDashboardData\<close> is an arrow function: its \<open>this\<close> is the module's, which is
  \<open>undefined\<close>, so the CSV branch fails reading \<open>this.convertToCSV\<close>. The JSON blob
  holds \<open>JSON.stringify(data, null, 2)\<close>, represented by the value it prints.\<close>

definition export_dashboard_data :: "backend \<Rightarrow> jsv \<Rightarrow> blob act" where
  "export_dashboard_data be fmt =
     bind_act (get_dashboard_data be) (\<lambda>d.
       if (if fmt = Undef then Str ''json'' else fmt) = Str ''csv'' then type_error
       else ret (Blob ''application/json'' d))"

section \<open>Polling: properties\<close>

abbreviation comment_stats_req :: request where
  "comment_stats_req \<equiv> stats_request ''/comments/stats''"

abbreviation sentiment_stats_req :: request where
  "sentiment_stats_req \<equiv> stats_request ''/sentiments/stats''"

text \<open>C15: when either statistics request of a poll fails, both requests have still been
  sent, and the poll answers \<open>null\<close> instead of rejecting.\<close>

theorem real_time_updates_failure:
  assumes "\<not> ok_outcome (be comment_stats_req) \<or> \<not> ok_outcome (be sentiment_stats_req)"
  shows "\<exists>new. get_real_time_updates be now tr =
           (Inr Null, tr @ send_events comment_stats_req @ send_events sentiment_stats_req @ new)"
proof -
  let ?tr0 = "tr @ send_events comment_stats_req @ send_events sentiment_stats_req"
  have "\<exists>out\<in>set (map be [comment_stats_req, sentiment_stats_req]). \<not> ok_outcome out"
    using assms by auto
  then obtain e n where "settle_all (map be [comment_stats_req, sentiment_stats_req]) ?tr0 = (Inl e, ?tr0 @ n)"
    using settle_all_fails by blast
  then show ?thesis
    by (simp add: get_real_time_updates_def catch_act_apply bind_act_apply send_all_apply act_simps)
qed

theorem real_time_updates_failure_witness:
  "get_real_time_updates (\<lambda>_. NoResponse) ''2025-01-01T00:00:00.000Z'' [] =
     (Inr Null, send_events comment_stats_req @ send_events sentiment_stats_req @
                [LogError ''Response error:'', Toast ToastError MsgUnreachable,
                 LogError ''Response error:'', Toast ToastError MsgUnreachable,
                 LogError ''Error getting real-time updates:''])"
proof -
  have "\<not> ok_outcome ((\<lambda>_. NoResponse) comment_stats_req) \<or> \<not> ok_outcome ((\<lambda>_. NoResponse) sentiment_stats_req)"
    by (simp add: ok_outcome_def)
  from real_time_updates_failure [OF this, of "''2025-01-01T00:00:00.000Z''" "[]"] show ?thesis
    by (simp add: get_real_time_updates_def catch_act_apply bind_act_apply send_all_apply act_simps
        reject_apply)
qed

text \<open>C16: when both statistics requests succeed with objects, the poll answers the
  timestamp and the four totals, each missing or zero total read as 0 and each missing
  breakdown as an empty object, after exactly the two requests.\<close>

theorem real_time_updates_success:
  assumes "be comment_stats_req = Response sa (Obj cs)" and "200 \<le> sa" and "sa < 300"
    and "be sentiment_stats_req = Response sb (Obj ss)" and "200 \<le> sb" and "sb < 300"
  shows "get_real_time_updates be now tr =
           (Inr (Obj [(''timestamp'', Str now),
                      (''comments'', Obj [(''total'', js_or (obj_get cs ''total_comments'') (Num 0)),
                                          (''unprocessed'', js_or (obj_get cs ''unprocessed_comments'') (Num 0))]),
                      (''sentiments'', Obj [(''total'', js_or (obj_get ss ''total_analyzed'') (Num 0)),
                                            (''breakdown'', js_or (obj_get ss ''sentiment_breakdown'') (Obj []))])]),
            tr @ send_events comment_stats_req @ send_events sentiment_stats_req)"
  using assms
  by (simp add: get_real_time_updates_def catch_act_apply bind_act_apply send_all_apply act_simps
      handle_api_response_def)

theorem real_time_updates_success_witness:
  "get_real_time_updates
     (\<lambda>r. if r = comment_stats_req then Response 200 (Obj [(''total_comments'', Num 12)])
          else Response 200 (Obj [(''total_analyzed'', Num 9)])) ''t'' [] =
   (Inr (Obj [(''timestamp'', Str ''t''),
              (''comments'', Obj [(''total'', Num 12), (''unprocessed'', Num 0)]),
              (''sentiments'', Obj [(''total'', Num 9), (''breakdown'', Obj [])])]),
    send_events comment_stats_req @ send_events sentiment_stats_req)"
proof -
  have ne: "sentiment_stats_req \<noteq> comment_stats_req" by (simp add: stats_request_def)
  show ?thesis
    using real_time_updates_success [where be = "\<lambda>r. if r = comment_stats_req then Response 200 (Obj [(''total_comments'', Num 12)])
          else Response 200 (Obj [(''total_analyzed'', Num 9)])" and sa = 200 and sb = 200
        and cs = "[(''total_comments'', Num 12)]" and ss = "[(''total_analyzed'', Num 9)]" and now = "''t''"
        and tr = "[]"]
    by (simp add: ne obj_get_def js_or_def)
qed

text \<open>C17: exporting the dashboard as CSV never produces a file: after the data request
  it always rejects, with a \<open>TypeError\<close> when the request succeeded.\<close>

theorem export_csv_always_rejects:
  "\<not> (\<exists>b tr'. export_dashboard_data be (Str ''csv'') tr = (Inr b, tr')) \<and>
   (ok_outcome (be (stats_request ''/dashboard/data'')) \<longrightarrow>
      export_dashboard_data be (Str ''csv'') tr =
        (Inl (ApiAxios AxTypeError), tr @ send_events (stats_request ''/dashboard/data'')))"
  by (auto simp: export_dashboard_data_def get_dashboard_data_def bind_act_apply api_method_defs
      api_request_apply type_error_def act_simps stats_request_def send_events_def ok_outcome_def
      split: prod.splits sum.splits outcome.splits)

theorem export_csv_always_rejects_witness:
  "export_dashboard_data (\<lambda>_. Response 200 (Obj [(''overall_stats'', Obj [])])) (Str ''csv'') [] =
     (Inl (ApiAxios AxTypeError), send_events (stats_request ''/dashboard/data''))"
proof -
  have "ok_outcome ((\<lambda>_. Response 200 (Obj [(''overall_stats'', Obj [])])) (stats_request ''/dashboard/data''))"
    by (simp add: ok_outcome_def)
  then show ?thesis
    using export_csv_always_rejects [of "\<lambda>_. Response 200 (Obj [(''overall_stats'', Obj [])])" "[]"]
    by simp
qed

section \<open>The best teams: properties\<close>

lemma those_Some: "those xs = Some ys \<Longrightarrow> xs = map Some ys"
  by (induction xs arbitrary: ys) (auto split: option.splits)

lemma zip_avg:
  assumes "map team_avg ts = map Some avs" and "p \<in> set (zip avs ts)"
  shows "team_avg (snd p) = Some (fst p)"
proof -
  from assms(2) obtain i where i: "i < length avs" "i < length ts" "p = (avs ! i, ts ! i)"
    by (auto simp: set_zip)
  have "map team_avg ts ! i = map Some avs ! i" using assms(1) by simp
  with i show ?thesis by simp
qed

lemma sorted_wrt_take_drop:
  assumes "sorted_wrt R xs" and "x \<in> set (take n xs)" and "y \<in> set (drop n xs)"
  shows "R x y"
  using assms sorted_wrt_append [of R "take n xs" "drop n xs"] by simp

lemma top_teams_sorted:
  assumes "those (map team_avg ts) = Some avs"
  shows "top_teams limit ts = Some (map snd (take limit (sort_key (\<lambda>p. - fst p) (zip avs ts))))"
proof -
  have m: "map team_avg ts = map Some avs" using those_Some [OF assms] .
  then have len: "length avs = length ts" by (metis length_map)
  show ?thesis
  proof (cases "length ts < 2")
    case True
    then have "sort_key (\<lambda>p. - fst p) (zip avs ts) = zip avs ts"
      using len by (cases ts; cases avs) (auto simp: Suc_less_eq2 length_Suc_conv)
    with True len show ?thesis by (simp add: top_teams_def take_map [symmetric])
  next
    case False
    with assms show ?thesis by (simp add: top_teams_def take_map)
  qed
qed

lemma ranked_pairs:
  assumes "those (map team_avg ts) = Some avs"
  shows "\<forall>p\<in>set (sort_key (\<lambda>p. - fst p) (zip avs ts)). team_avg (snd p) = Some (fst p)"
  using zip_avg [OF those_Some [OF assms]] by simp

lemma filter_take_ex: "\<exists>k. filter P (take n xs) = take k (filter P xs)"
proof (induction xs arbitrary: n)
  case (Cons x xs)
  show ?case
  proof (cases n)
    case (Suc m)
    obtain k where "filter P (take m xs) = take k (filter P xs)" using Cons.IH by blast
    then show ?thesis using Suc by (auto intro: exI [where x = "Suc k"])
  qed (auto intro: exI [where x = 0])
qed simp

text \<open>C18: with numeric averages, \<open>getTopTeams\<close> keeps \<open>limit\<close> teams (or all of them),
  taken from the comparison's teams, in non-increasing order of average, and every team
  it leaves out has an average no greater than any team it keeps.\<close>

theorem top_teams_ranked:
  assumes "those (map team_avg ts) = Some avs"
  shows "\<exists>r ravs. top_teams limit ts = Some r \<and> map team_avg r = map Some ravs \<and>
           sorted_wrt (\<ge>) ravs \<and> length r = min limit (length ts) \<and> mset r \<subseteq># mset ts \<and>
           (\<forall>t\<in>#mset ts - mset r. \<exists>a. team_avg t = Some a \<and> (\<forall>b\<in>set ravs. a \<le> b))"
proof -
  let ?s = "sort_key (\<lambda>p. - fst p) (zip avs ts)"
  let ?r = "map snd (take limit ?s)" and ?ravs = "map fst (take limit ?s)"
  have len: "length avs = length ts" using those_Some [OF assms] by (metis length_map)
  have ps: "\<forall>p\<in>set ?s. team_avg (snd p) = Some (fst p)" using ranked_pairs [OF assms] .
  have avg: "map team_avg ?r = map Some ?ravs"
    using ps by (auto simp: map_eq_conv dest!: in_set_takeD)
  have "sorted_wrt (\<lambda>x y. - fst x \<le> - fst y) ?s"
    using sorted_sort_key [of "\<lambda>p. - fst p" "zip avs ts"] by (simp only: sorted_map)
  then have srt: "sorted_wrt (\<lambda>x y. fst y \<le> fst x) ?s" by simp
  then have "sorted_wrt (\<ge>) ?ravs" by (simp add: sorted_wrt_map sorted_wrt_take)
  moreover have "length ?r = min limit (length ts)" using len by simp
  moreover have all: "mset (map snd ?s) = mset ts"
  proof -
    have "mset (map snd ?s) = image_mset snd (mset (zip avs ts))" by simp
    also have "\<dots> = mset (map snd (zip avs ts))" by (rule mset_map [symmetric])
    finally show ?thesis using len by simp
  qed
  have "mset ?r + mset (map snd (drop limit ?s)) = mset (map snd ?s)"
    by (simp only: mset_append [symmetric] map_append [symmetric] append_take_drop_id)
  then have split: "mset ts = mset ?r + mset (map snd (drop limit ?s))" using all by simp
  then have "mset ?r \<subseteq># mset ts" by simp
  moreover have "\<forall>t\<in>#mset ts - mset ?r. \<exists>a. team_avg t = Some a \<and> (\<forall>b\<in>set ?ravs. a \<le> b)"
  proof
    fix t assume "t \<in># mset ts - mset ?r"
    then obtain q where q: "q \<in> set (drop limit ?s)" "t = snd q" using split by auto
    have "team_avg t = Some (fst q)" using ps q by (auto dest: in_set_dropD)
    moreover have "fst q \<le> b" if hb: "b \<in> set ?ravs" for b
    proof -
      obtain p where "p \<in> set (take limit ?s)" "b = fst p" using hb by auto
      then show ?thesis using sorted_wrt_take_drop [OF srt _ q(1)] by blast
    qed
    ultimately show "\<exists>a. team_avg t = Some a \<and> (\<forall>b\<in>set ?ravs. a \<le> b)" by blast
  qed
  ultimately show ?thesis using top_teams_sorted [OF assms, of limit] avg by blast
qed

definition sample_teams :: "jsv list" where
  "sample_teams =
     [Obj [(''name'', Str ''Galatasaray''), (''avg_sentiment'', Num 1)],
      Obj [(''name'', Str ''Fenerbahce''), (''avg_sentiment'', Num 3)],
      Obj [(''name'', Str ''Besiktas''), (''avg_sentiment'', Num 3)],
      Obj [(''name'', Str ''Trabzonspor''), (''avg_sentiment'', Num 2)]]"

theorem top_teams_ranked_witness:
  "top_teams 3 sample_teams =
     Some [Obj [(''name'', Str ''Fenerbahce''), (''avg_sentiment'', Num 3)],
           Obj [(''name'', Str ''Besiktas''), (''avg_sentiment'', Num 3)],
           Obj [(''name'', Str ''Trabzonspor''), (''avg_sentiment'', Num 2)]] \<and>
   (\<exists>r ravs. top_teams 3 sample_teams = Some r \<and> map team_avg r = map Some ravs \<and>
      sorted_wrt (\<ge>) ravs \<and> length r = 3)"
proof -
  have h: "those (map team_avg sample_teams) = Some [1, 3, 3, 2]"
    by (simp add: sample_teams_def team_avg_def obj_get_def)
  have "top_teams 3 sample_teams =
     Some [Obj [(''name'', Str ''Fenerbahce''), (''avg_sentiment'', Num 3)],
           Obj [(''name'', Str ''Besiktas''), (''avg_sentiment'', Num 3)],
           Obj [(''name'', Str ''Trabzonspor''), (''avg_sentiment'', Num 2)]]"
    by (simp add: top_teams_def h) (simp add: sample_teams_def)
  moreover obtain r ravs where o: "top_teams 3 sample_teams = Some r" "map team_avg r = map Some ravs"
      "sorted_wrt (\<ge>) ravs" "length r = min 3 (length sample_teams)"
    using top_teams_ranked [OF h, of 3] by blast
  moreover have "length sample_teams = 4" by (simp add: sample_teams_def)
  ultimately show ?thesis by auto
qed

text \<open>The ranking is stable: teams with the same average keep, among the teams kept,
  the order the comparison listed them in.\<close>

theorem top_teams_stable:
  assumes "those (map team_avg ts) = Some avs" and "top_teams limit ts = Some r"
  shows "\<exists>k. filter (\<lambda>t. team_avg t = Some a) r = take k (filter (\<lambda>t. team_avg t = Some a) ts)"
proof -
  let ?s = "sort_key (\<lambda>p. - fst p) (zip avs ts)" and ?P = "\<lambda>t. team_avg t = Some a"
  have len: "length avs = length ts" using those_Some [OF assms(1)] by (metis length_map)
  have r: "r = map snd (take limit ?s)" using assms top_teams_sorted [OF assms(1), of limit] by simp
  have zp: "\<forall>p\<in>set (zip avs ts). team_avg (snd p) = Some (fst p)"
    using zip_avg [OF those_Some [OF assms(1)]] by blast
  have "filter (\<lambda>p. ?P (snd p)) ?s = filter (\<lambda>p. - fst p = - a) ?s"
    using zp by (intro filter_cong) auto
  also have "\<dots> = filter (\<lambda>p. - fst p = - a) (zip avs ts)" by (rule sort_key_stable)
  also have "\<dots> = filter (\<lambda>p. ?P (snd p)) (zip avs ts)"
    using zp by (intro filter_cong) auto
  finally have "map snd (filter (\<lambda>p. ?P (snd p)) ?s) = map snd (filter (\<lambda>p. ?P (snd p)) (zip avs ts))"
    by simp
  also have "\<dots> = filter ?P (map snd (zip avs ts))" by (simp add: filter_map comp_def)
  finally have st: "map snd (filter (\<lambda>p. ?P (snd p)) ?s) = filter ?P ts" using len by simp
  obtain k where k: "filter (\<lambda>p. ?P (snd p)) (take limit ?s) = take k (filter (\<lambda>p. ?P (snd p)) ?s)"
    using filter_take_ex by blast
  have "filter ?P r = map snd (filter (\<lambda>p. ?P (snd p)) (take limit ?s))"
    by (simp add: r filter_map comp_def)
  also have "\<dots> = map snd (take k (filter (\<lambda>p. ?P (snd p)) ?s))" by (simp only: k)
  also have "\<dots> = take k (map snd (filter (\<lambda>p. ?P (snd p)) ?s))" by (simp add: take_map)
  also have "\<dots> = take k (filter ?P ts)" by (simp only: st)
  finally show ?thesis by blast
qed

theorem top_teams_stable_witness:
  "filter (\<lambda>t. team_avg t = Some 3) (the (top_teams 3 sample_teams)) =
     take 2 (filter (\<lambda>t. team_avg t = Some 3) sample_teams) \<and>
   (\<exists>k. filter (\<lambda>t. team_avg t = Some 3) (the (top_teams 3 sample_teams)) =
          take k (filter (\<lambda>t. team_avg t = Some 3) sample_teams))"
proof -
  have h: "those (map team_avg sample_teams) = Some [1, 3, 3, 2]"
    by (simp add: sample_teams_def team_avg_def obj_get_def)
  have r: "top_teams 3 sample_teams =
     Some [Obj [(''name'', Str ''Fenerbahce''), (''avg_sentiment'', Num 3)],
           Obj [(''name'', Str ''Besiktas''), (''avg_sentiment'', Num 3)],
           Obj [(''name'', Str ''Trabzonspor''), (''avg_sentiment'', Num 2)]]"
    by (simp add: top_teams_def h) (simp add: sample_teams_def)
  have "filter (\<lambda>t. team_avg t = Some 3) (the (top_teams 3 sample_teams)) =
     take 2 (filter (\<lambda>t. team_avg t = Some 3) sample_teams)"
    by (simp add: r) (simp add: sample_teams_def team_avg_def obj_get_def)
  then show ?thesis using top_teams_stable [OF h r, of 3] r by auto
qed

section \<open>Number formatting\<close>



text \<open>Just below a million the mantissa rounds up to a thousand and the suffix stays K.\<close>

lemma format_number_thousand_k: "format_number 999950 = ''1000.0K''"
  by code_simp

text \<open>The poll never rejects: every failure inside it is caught and answered with
  \<open>null\<close>.\<close>

lemma real_time_updates_resolves: "\<exists>v tr'. get_real_time_updates be now tr = (Inr v, tr')"
  by (auto simp: get_real_time_updates_def catch_act_apply bind_act_apply act_simps
      split: prod.splits sum.splits)

end
