(* ===== verification/Team_Logos.thy ===== *)
theory Team_Logos
  imports Complex_Main Prelude
begin

text \<open>
  The team logo and colour heuristics, \<open>src/frontend/src/utils/teamLogos.jsx\<close>:
  \<open>getTeamLogo\<close> and \<open>getTeamColors\<close> normalise a free-text team name (lower case,
  Turkish letters folded to ASCII, everything but \<open>a\<close>-\<open>z\<close> removed) and pick the first
  team whose name or abbreviation the result contains.
  \<^item> Team names here are JavaScript strings as lists of UTF-16 code units
    (\<open>ustr\<close>), not the byte strings of the rest of the development: the Turkish
    letters S-cedilla (U+015E, U+015F), G-breve (U+011E, U+011F), dotless i (U+0131) and
    dotted capital I (U+0130) lie outside Latin-1.
  \<^item> \<open>String.prototype.toLowerCase\<close> is modelled for ASCII, Latin-1 and Latin
    Extended-A (U+0000 to U+017F), which holds every letter of the Turkish alphabet;
    other code units are left unchanged. U+0130 lowers to two code units, \<open>i\<close> and the
    combining dot U+0307, as in JavaScript.
  \<^item> A missing name (\<open>null\<close>, \<open>undefined\<close>, or the empty string, all falsy) is \<open>None\<close>.
  The logos and colours are data of the four teams (\<open>team\<close>); the \<open>TeamLogo\<close> component
  that renders them is \<open>team_logo\<close>, with \<open>toUpperCase\<close> modelled on the same range.
\<close>

datatype team = Galatasaray | Fenerbahce | Besiktas | Trabzonspor

record team_colors =
  primary :: string
  secondary :: string
  background :: string

definition team_colors :: "team \<Rightarrow> team_colors" where
  "team_colors t =
     (case t of
        Galatasaray \<Rightarrow> \<lparr>primary = ''#FFD700'', secondary = ''#CC1010'',
                        background = ''linear-gradient(135deg, #FFD700 0%, #FFA500 100%)''\<rparr>
      | Fenerbahce \<Rightarrow> \<lparr>primary = ''#FFFF00'', secondary = ''#000080'',
                       background = ''linear-gradient(135deg, #FFFF00 0%, #FFD700 100%)''\<rparr>
      | Besiktas \<Rightarrow> \<lparr>primary = ''#000000'', secondary = ''#FFFFFF'',
                     background = ''linear-gradient(135deg, #000000 0%, #333333 100%)''\<rparr>
      | Trabzonspor \<Rightarrow> \<lparr>primary = ''#800020'', secondary = ''#87CEEB'',
                        background = ''linear-gradient(135deg, #800020 0%, #A0522D 100%)''\<rparr>)"

definition default_colors :: team_colors where
  "default_colors =
     \<lparr>primary = ''#6B7280'', secondary = ''#9CA3AF'',
      background = ''linear-gradient(135deg, #6B7280 0%, #9CA3AF 100%)''\<rparr>"

text \<open>The display names of \<open>teamNames\<close>, in code units.\<close>

definition team_name :: "team \<Rightarrow> ustr" where
  "team_name t =
     (case t of
        Galatasaray \<Rightarrow> ascii ''Galatasaray''
      | Fenerbahce \<Rightarrow> ascii ''Fenerbah'' @ [0xE7] @ ascii ''e''
      | Besiktas \<Rightarrow> ascii ''Be'' @ [0x15F] @ ascii ''ikta'' @ [0x15F]
      | Trabzonspor \<Rightarrow> ascii ''Trabzonspor'')"

section \<open>Normalisation\<close>

definition lower_unit :: "nat \<Rightarrow> nat list" where
  "lower_unit c =
     (if 65 \<le> c \<and> c \<le> 90 then [c + 32]
      else if 192 \<le> c \<and> c \<le> 222 \<and> c \<noteq> 215 then [c + 32]
      else if 0x100 \<le> c \<and> c \<le> 0x12F \<and> even c then [c + 1]
      else if c = 0x130 then [0x69, 0x307]
      else if 0x132 \<le> c \<and> c \<le> 0x137 \<and> even c then [c + 1]
      else if 0x139 \<le> c \<and> c \<le> 0x148 \<and> odd c then [c + 1]
      else if 0x14A \<le> c \<and> c \<le> 0x177 \<and> even c then [c + 1]
      else if c = 0x178 then [0xFF]
      else if 0x179 \<le> c \<and> c \<le> 0x17E \<and> odd c then [c + 1]
      else [c])"

definition to_lower :: "ustr \<Rightarrow> ustr" where
  "to_lower s = concat (map lower_unit s)"

text \<open>\<open>s.replace(/x/g, y)\<close> for a single code unit \<open>x\<close> and \<open>y\<close>.\<close>

definition replace_unit :: "nat \<Rightarrow> nat \<Rightarrow> ustr \<Rightarrow> ustr" where
  "replace_unit x y s = map (\<lambda>c. if c = x then y else c) s"

definition normalize_name :: "ustr \<Rightarrow> ustr" where
  "normalize_name s =
     filter (\<lambda>c. 97 \<le> c \<and> c \<le> 122)
       (replace_unit 0xFC 117 (replace_unit 0xF6 111 (replace_unit 0x131 105
         (replace_unit 0x15F 115 (replace_unit 0xE7 99 (replace_unit 0x11F 103 (to_lower s)))))))"

definition team_of_name :: "ustr \<Rightarrow> team option" where
  "team_of_name n =
     (if str_includes n (ascii ''galatasaray'') \<or> str_includes n (ascii ''gs'') then Some Galatasaray
      else if str_includes n (ascii ''fenerbahce'') \<or> str_includes n (ascii ''fb'') then Some Fenerbahce
      else if str_includes n (ascii ''besiktas'') \<or> str_includes n (ascii ''bjk'') \<or> str_includes n (ascii ''jk'')
        then Some Besiktas
      else if str_includes n (ascii ''trabzonspor'') \<or> str_includes n (ascii ''ts'') then Some Trabzonspor
      else None)"

definition get_team_logo :: "ustr option \<Rightarrow> team option" where
  "get_team_logo name =
     (case name of
        None \<Rightarrow> None
      | Some s \<Rightarrow> if s = [] then None else team_of_name (normalize_name s))"

definition get_team_colors :: "ustr option \<Rightarrow> team_colors" where
  "get_team_colors name =
     (case name of
        None \<Rightarrow> default_colors
      | Some s \<Rightarrow>
          if s = [] then default_colors
          else (case team_of_name (normalize_name s) of
                  Some t \<Rightarrow> team_colors t
                | None \<Rightarrow> default_colors))"

section \<open>The \<open>TeamLogo\<close> component\<close>

text \<open>\<open>String.prototype.toUpperCase\<close> on the same range: the inverse of the case pairs
  above, with the special cases of JavaScript's mapping: dotless i (U+0131) to \<open>I\<close>,
  long s (U+017F) to \<open>S\<close>, sharp s (U+00DF) to \<open>SS\<close>, micro sign (U+00B5) to capital
  mu (U+039C), y-diaeresis (U+00FF) to U+0178, and U+0149 to two code units.\<close>

definition upper_unit :: "nat \<Rightarrow> nat list" where
  "upper_unit c =
     (if 97 \<le> c \<and> c \<le> 122 then [c - 32]
      else if c = 0xB5 then [0x39C]
      else if c = 0xDF then [83, 83]
      else if 224 \<le> c \<and> c \<le> 254 \<and> c \<noteq> 247 then [c - 32]
      else if c = 0xFF then [0x178]
      else if 0x100 \<le> c \<and> c \<le> 0x12F \<and> odd c then [c - 1]
      else if c = 0x131 then [73]
      else if 0x132 \<le> c \<and> c \<le> 0x137 \<and> odd c then [c - 1]
      else if 0x139 \<le> c \<and> c \<le> 0x148 \<and> even c then [c - 1]
      else if c = 0x149 then [0x2BC, 78]
      else if 0x14A \<le> c \<and> c \<le> 0x177 \<and> odd c then [c - 1]
      else if 0x179 \<le> c \<and> c \<le> 0x17E \<and> even c then [c - 1]
      else if c = 0x17F then [83]
      else [c])"

definition to_upper :: "ustr \<Rightarrow> ustr" where
  "to_upper s = concat (map upper_unit s)"

datatype team_logo =
    LogoImage team ustr
  | LogoBadge string ustr rat

text \<open>\<open><TeamLogo teamName size>\<close>: the team's image, with the name as its \<open>alt\<close>, when
  \<open>getTeamLogo\<close> recognises the name; otherwise a badge on the background of
  \<open>getTeamColors\<close> with \<open>teamName.substring(0, 2).toUpperCase()\<close> (\<open>?\<close> for no name) in
  a font of \<open>Math.max(8, size / 4)\<close>.\<close>

definition team_logo :: "ustr option \<Rightarrow> nat \<Rightarrow> team_logo" where
  "team_logo name sz =
     (case get_team_logo name of
        Some t \<Rightarrow> LogoImage t (case name of Some s \<Rightarrow> s | None \<Rightarrow> [])
      | None \<Rightarrow>
          LogoBadge (background (get_team_colors name))
            (case name of Some s \<Rightarrow> if s = [] then ascii ''?'' else to_upper (take 2 s) | None \<Rightarrow> ascii ''?'')
            (max 8 (of_nat sz / 4)))"

section \<open>Properties\<close>


text \<open>Each team's display name is recognised as that team, and so are names written in
  Turkish capitals (C-cedilla U+00C7, S-cedilla U+015E, dotted I U+0130) and names with
  a suffix.\<close>

theorem team_names_recognised:
  "get_team_logo (Some (team_name t)) = Some t \<and>
   get_team_logo (Some (ascii ''FENERBAH'' @ [0xC7] @ ascii ''E'')) = Some Fenerbahce \<and>
   get_team_logo (Some (ascii ''BE'' @ [0x15E, 0x130] @ ascii ''KTA'' @ [0x15E])) = Some Besiktas \<and>
   get_team_logo (Some (ascii ''GALATASARAY SK'')) = Some Galatasaray"
  by (induct t) code_simp+

text \<open>The abbreviations match inside unrelated names: \<open>ts\<close> in \<open>Hotspur\<close>.\<close>

lemma tottenham_is_trabzonspor:
  "get_team_logo (Some (ascii ''Tottenham Hotspur'')) = Some Trabzonspor"
  by code_simp

text \<open>A recognised team shows its image; an unknown name shows its first two code units
  in capitals on the grey badge, the Turkish dotless i becoming \<open>I\<close>; no name shows
  \<open>?\<close>; the font never falls below 8.\<close>

lemma team_logo_cases:
  "team_logo (Some (team_name t)) 32 = LogoImage t (team_name t) \<and>
   team_logo (Some ([0x131] @ ascii ''zmir'')) 32 = LogoBadge (background default_colors) (ascii ''IZ'') 8 \<and>
   team_logo None 64 = LogoBadge (background default_colors) (ascii ''?'') 16"
  by (induct t) code_simp+

lemma team_logo_font: "team_logo name sz = LogoBadge b i f \<Longrightarrow> 8 \<le> f"
  by (auto simp: team_logo_def split: option.splits)

end
