(* ===== verification/Team_Service.thy ===== *)
theory Team_Service
  imports Sentiment_Service
begin

text \<open>
  The team resource functions, \<open>src/frontend/src/services/teamService.js\<close>: request
  builders; reads that post-process the team list (\<open>get_active_teams\<close>,
  \<open>search_teams\<close>); \<open>get_teams_with_sentiment\<close>, which fetches every team's statistics
  in parallel and tolerates each failure separately; and the pure helpers
  (\<open>service_team_colors\<close>, \<open>get_team_logo_url\<close>, \<open>validate_team_data\<close>). Dates computed
  from the clock are parameters. A \<open>TypeError\<close> is \<open>None\<close> in a pure helper and
  \<open>type_error\<close> in an action.
\<close>

definition get_teams :: "backend \<Rightarrow> jsv act" where
  "get_teams be = api_get be ''/teams''"

definition create_team :: "backend \<Rightarrow> jsv \<Rightarrow> jsv act" where
  "create_team be d = api_post be ''/teams'' d"

definition get_team :: "backend \<Rightarrow> jsv \<Rightarrow> jsv act" where
  "get_team be tid = api_get be (''/teams/'' @ js_to_string tid)"

definition update_team :: "backend \<Rightarrow> jsv \<Rightarrow> jsv \<Rightarrow> jsv act" where
  "update_team be tid d = api_put be (''/teams/'' @ js_to_string tid) d"

definition delete_team :: "backend \<Rightarrow> jsv \<Rightarrow> jsv act" where
  "delete_team be tid = api_delete be (''/teams/'' @ js_to_string tid)"

definition team_sentiment_url :: "jsv \<Rightarrow> jsv \<Rightarrow> jsv \<Rightarrow> string" where
  "team_sentiment_url tid start_date end_date =
     (let params = (if truthy start_date then [(''start_date'', js_to_string start_date)] else [])
                   @ (if truthy end_date then [(''end_date'', js_to_string end_date)] else []);
          q = url_serialize params;
          url = ''/teams/'' @ js_to_string tid @ ''/sentiment''
      in if q \<noteq> [] then url @ CHR ''?'' # q else url)"

definition get_team_sentiment :: "backend \<Rightarrow> jsv \<Rightarrow> jsv \<Rightarrow> jsv \<Rightarrow> jsv act" where
  "get_team_sentiment be tid start_date end_date = api_get be (team_sentiment_url tid start_date end_date)"

definition team_stats_request :: "jsv \<Rightarrow> request" where
  "team_stats_request tid = \<lparr>req_method = GET, req_url = ''/teams/'' @ js_to_string tid @ ''/stats'', req_body = Undef\<rparr>"

definition get_team_stats :: "backend \<Rightarrow> jsv \<Rightarrow> jsv act" where
  "get_team_stats be tid = api_get be (''/teams/'' @ js_to_string tid @ ''/stats'')"

definition seed_teams :: "backend \<Rightarrow> jsv act" where
  "seed_teams be = api_post be ''/teams/seed'' Undef"

text \<open>\<open>teamService.getTeamComparison(days)\<close> computes a date window from \<open>days\<close> and
  never sends it.\<close>

definition team_get_team_comparison :: "backend \<Rightarrow> jsv \<Rightarrow> jsv act" where
  "team_get_team_comparison be days = api_get be ''/dashboard/comparison''"

definition get_team_sentiment_trends :: "backend \<Rightarrow> jsv \<Rightarrow> string \<Rightarrow> string \<Rightarrow> jsv act" where
  "get_team_sentiment_trends be tid start_date end_date =
     get_team_sentiment be tid (Str start_date) (Str end_date)"

definition get_team_keywords :: "backend \<Rightarrow> jsv \<Rightarrow> string \<Rightarrow> string \<Rightarrow> jsv act" where
  "get_team_keywords be tid start_date end_date =
     bind_act (get_team_sentiment_trends be tid start_date end_date) (\<lambda>report.
       case get_prop report ''top_keywords'' of
         Some k \<Rightarrow> ret (js_or k (Arr []))
       | None \<Rightarrow> type_error)"

definition get_team_performance_metrics :: "backend \<Rightarrow> jsv \<Rightarrow> jsv act" where
  "get_team_performance_metrics be tid =
     bind_act (get_team_stats be tid) (\<lambda>stats.
       bind_act (get_team_sentiment be tid Null Null) (\<lambda>sentiment.
         ret (Obj (obj_assign [] (spread_props stats @ [(''sentiment_details'', sentiment)])))))"

definition get_active_teams :: "backend \<Rightarrow> jsv act" where
  "get_active_teams be =
     bind_act (get_teams be) (\<lambda>resp.
       case get_prop resp ''teams'' of
         Some (Arr ts) \<Rightarrow>
           (case those (map (\<lambda>t. get_prop t ''is_active'') ts) of
              Some acts \<Rightarrow>
                ret (Obj (obj_assign [] (spread_props resp @
                       [(''teams'', Arr (map fst (filter (\<lambda>p. truthy (snd p)) (zip ts acts))))])))
            | None \<Rightarrow> type_error)
       | _ \<Rightarrow> type_error)"

definition update_team_status :: "backend \<Rightarrow> jsv \<Rightarrow> jsv \<Rightarrow> jsv act" where
  "update_team_status be tid active = update_team be tid (Obj [(''is_active'', active)])"

section \<open>Teams with their statistics\<close>

text \<open>\<open>getTeamsWithSentiment\<close> maps every team to an async function and awaits them all.
  Each function reads \<open>team.id\<close> and starts its statistics request before its first
  \<open>await\<close>, so every request is sent before any answer is handled; a failed request
  is caught and gives the team \<open>sentiment_stats: null\<close>. A team that is \<open>null\<close> or
  \<open>undefined\<close> makes its function throw (reading \<open>team.id\<close>, and again in the
  \<open>catch\<close>), which rejects the whole \<open>Promise.all\<close> (\<open>None\<close> in \<open>team_results\<close>).\<close>

definition with_stats :: "jsv \<Rightarrow> jsv \<Rightarrow> jsv" where
  "with_stats t st = Obj (obj_assign [] (spread_props t @ [(''sentiment_stats'', st)]))"

definition team_requests :: "jsv list \<Rightarrow> request list" where
  "team_requests ts =
     concat (map (\<lambda>t. case get_prop t ''id'' of None \<Rightarrow> [] | Some tid \<Rightarrow> [team_stats_request tid]) ts)"

definition team_result :: "backend \<Rightarrow> jsv \<Rightarrow> jsv option act" where
  "team_result be t =
     (case get_prop t ''id'' of
        None \<Rightarrow> ret None
      | Some tid \<Rightarrow>
          catch_act (bind_act (settle (be (team_stats_request tid))) (\<lambda>st. ret (Some (with_stats t st))))
            (\<lambda>_. bind_act (emit (LogError ''Error getting sentiment for team'')) (\<lambda>_.
                   ret (Some (with_stats t Null)))))"

fun team_results :: "backend \<Rightarrow> jsv list \<Rightarrow> jsv option list act" where
  "team_results be [] = ret []"
| "team_results be (t # ts) =
     bind_act (team_result be t) (\<lambda>r. bind_act (team_results be ts) (\<lambda>rs. ret (r # rs)))"

definition get_teams_with_sentiment :: "backend \<Rightarrow> jsv act" where
  "get_teams_with_sentiment be =
     bind_act (get_teams be) (\<lambda>resp.
       case get_prop resp ''teams'' of
         None \<Rightarrow> type_error
       | Some tv \<Rightarrow>
           (case js_or tv (Arr []) of
              Arr ts \<Rightarrow>
                bind_act (\<lambda>tr. team_results be ts (tr @ concat (map send_events (team_requests ts)))) (\<lambda>rs.
                  case those rs of
                    None \<Rightarrow> type_error
                  | Some vs \<Rightarrow> ret (Obj [(''teams'', Arr vs), (''count'', Num (int (length vs)))]))
            | _ \<Rightarrow> type_error))"

section \<open>Searching\<close>

text \<open>The search predicate with JavaScript's evaluation order: the name first, the
  keywords only when the name does not match, and \<open>some\<close> stopping at the first
  matching keyword. \<open>None\<close> is a \<open>TypeError\<close> (a name, keyword or query that is not a
  string, or keywords that are not an array).\<close>

definition lower_str :: "jsv \<Rightarrow> string option" where
  "lower_str v = (case v of Str s \<Rightarrow> Some (str_lower s) | _ \<Rightarrow> None)"

fun some_keyword :: "string \<Rightarrow> jsv list \<Rightarrow> bool option" where
  "some_keyword q [] = Some False"
| "some_keyword q (k # ks) =
     (case lower_str k of
        None \<Rightarrow> None
      | Some lk \<Rightarrow> if str_includes lk q then Some True else some_keyword q ks)"

definition team_matches :: "jsv \<Rightarrow> jsv \<Rightarrow> bool option" where
  "team_matches query t =
     (case get_prop t ''name'' of
        None \<Rightarrow> None
      | Some nm \<Rightarrow>
          (case (lower_str nm, lower_str query) of
             (Some ln, Some lq) \<Rightarrow>
               if str_includes ln lq then Some True
               else (case get_prop t ''keywords'' of
                       Some (Arr ks) \<Rightarrow> some_keyword lq ks
                     | _ \<Rightarrow> None)
           | _ \<Rightarrow> None))"

fun filter_opt :: "('a \<Rightarrow> bool option) \<Rightarrow> 'a list \<Rightarrow> 'a list option" where
  "filter_opt p [] = Some []"
| "filter_opt p (x # xs) =
     (case p x of
        None \<Rightarrow> None
      | Some b \<Rightarrow> map_option (\<lambda>ys. if b then x # ys else ys) (filter_opt p xs))"

definition search_teams :: "backend \<Rightarrow> jsv \<Rightarrow> jsv act" where
  "search_teams be query =
     bind_act (get_teams be) (\<lambda>resp.
       case get_prop resp ''teams'' of
         None \<Rightarrow> type_error
       | Some tv \<Rightarrow>
           (case js_or tv (Arr []) of
              Arr ts \<Rightarrow>
                (case filter_opt (team_matches query) ts of
                   Some fs \<Rightarrow> ret (Obj [(''teams'', Arr fs), (''count'', Num (int (length fs)))])
                 | None \<Rightarrow> type_error)
            | _ \<Rightarrow> type_error))"

section \<open>Pure helpers\<close>

text \<open>\<open>teamColorMap[teamSlug] || default\<close>: an inherited member is truthy and is
  returned as it is.\<close>

datatype slug_colors = SlugColors string string | InheritedMember string

definition team_color_map :: "(string \<times> slug_colors) list" where
  "team_color_map =
     [(''galatasaray'', SlugColors ''#FFA500'' ''#8B0000''), (''fenerbahce'', SlugColors ''#FFFF00'' ''#000080''),
      (''besiktas'', SlugColors ''#000000'' ''#FFFFFF''), (''trabzonspor'', SlugColors ''#800080'' ''#000080'')]"

definition service_team_colors :: "jsv \<Rightarrow> slug_colors" where
  "service_team_colors slug =
     (case literal_get team_color_map (js_to_string slug) of
        Own c \<Rightarrow> c
      | Inherited m \<Rightarrow> InheritedMember m
      | Absent \<Rightarrow> SlugColors ''#6B7280'' ''#9CA3AF'')"

definition get_team_logo_url :: "jsv \<Rightarrow> string" where
  "get_team_logo_url slug = ''/assets/team-logos/'' @ js_to_string slug @ ''.png''"

datatype team_error = NameTooShort | SlugTooShort | NoKeywords

text \<open>\<open>!x || x.trim().length < 2\<close>: \<open>None\<close> when \<open>x\<close> is truthy and not a string.\<close>

definition too_short :: "jsv \<Rightarrow> bool option" where
  "too_short v =
     (if \<not> truthy v then Some True
      else case v of Str s \<Rightarrow> Some (length (js_trim s) < 2) | _ \<Rightarrow> None)"

definition validate_team_data :: "jsv \<Rightarrow> team_error list option" where
  "validate_team_data d =
     (case (get_prop d ''name'', get_prop d ''slug'', get_prop d ''keywords'') of
        (Some nm, Some sl, Some kw) \<Rightarrow>
          (case (too_short nm, too_short sl) of
             (Some bn, Some bs) \<Rightarrow>
               Some ((if bn then [NameTooShort] else []) @ (if bs then [SlugTooShort] else []) @
                     (if \<not> truthy kw \<or> opt_prop kw ''length'' = Num 0 then [NoKeywords] else []))
           | _ \<Rightarrow> None)
      | _ \<Rightarrow> None)"

text \<open>What a team's statistics request yields to \<open>getTeamsWithSentiment\<close>: the body of
  a 2xx answer, and \<open>null\<close> (from the \<open>catch\<close>) for every other outcome.\<close>

definition stats_value :: "outcome \<Rightarrow> jsv" where
  "stats_value out =
     (case out of Response s d \<Rightarrow> if 200 \<le> s \<and> s < 300 then handle_api_response s d else Null | _ \<Rightarrow> Null)"

definition teams_request :: request where
  "teams_request = \<lparr>req_method = GET, req_url = ''/teams'', req_body = Undef\<rparr>"

section \<open>Properties\<close>

text \<open>C25: for a team object whose name and slug are strings and whose keywords are an
  array, \<open>validateTeamData\<close> reports, in this order, a name or slug with fewer than two
  characters after trimming and an empty keyword list, and nothing else.\<close>

theorem validate_team_data_errors:
  assumes "obj_get ps ''name'' = Str n" and "obj_get ps ''slug'' = Str s" and "obj_get ps ''keywords'' = Arr ks"
  shows "validate_team_data (Obj ps) =
           Some ((if length (js_trim n) < 2 then [NameTooShort] else []) @
                 (if length (js_trim s) < 2 then [SlugTooShort] else []) @
                 (if ks = [] then [NoKeywords] else []))"
proof -
  have "too_short (Str x) = Some (length (js_trim x) < 2)" for x
    by (cases x) (simp_all add: too_short_def js_trim_def)
  then show ?thesis using assms by (simp add: validate_team_data_def opt_prop_def)
qed

theorem validate_team_data_errors_witness:
  "validate_team_data (Obj [(''name'', Str '' G ''), (''slug'', Str ''gs''), (''keywords'', Arr [])]) =
     Some [NameTooShort, NoKeywords]"
proof -
  have "length (js_trim '' G '') = 1" by (simp add: js_trim_def js_space_def)
  moreover have "length (js_trim ''gs'') = 2" by (simp add: js_trim_def js_space_def)
  ultimately show ?thesis
    using validate_team_data_errors [of "[(''name'', Str '' G ''), (''slug'', Str ''gs''), (''keywords'', Arr [])]"
        "'' G ''" "''gs''" "[]"]
    by (simp add: obj_get_def)
qed

lemma some_keyword_spec:
  "\<forall>k\<in>set ks. \<exists>s. k = Str s \<Longrightarrow>
     some_keyword q ks = Some (\<exists>k\<in>set ks. \<exists>s. k = Str s \<and> str_includes (str_lower s) q)"
  by (induction ks) (auto simp: lower_str_def)

text \<open>C26: for a team with a string name and an array of string keywords, the search
  predicate, evaluated in JavaScript's order, holds exactly when the lower-cased query
  occurs in the lower-cased name or in some lower-cased keyword.\<close>

theorem team_matches_spec:
  assumes "get_prop t ''name'' = Some (Str n)" and "get_prop t ''keywords'' = Some (Arr ks)"
    and "\<forall>k\<in>set ks. \<exists>s. k = Str s"
  shows "team_matches (Str q) t =
           Some ((\<exists>xs ys. str_lower n = xs @ str_lower q @ ys) \<or>
                 (\<exists>k\<in>set ks. \<exists>s xs ys. k = Str s \<and> str_lower s = xs @ str_lower q @ ys))"
  using assms by (auto simp: team_matches_def lower_str_def some_keyword_spec str_includes_iff)

theorem team_matches_spec_witness:
  "team_matches (Str ''cim'') (Obj [(''name'', Str ''Galatasaray''), (''keywords'', Arr [Str ''Cimbom'', Str ''GS'']),
                                     (''is_active'', Bool True)]) = Some True"
proof -
  have "str_lower ''Cimbom'' = [] @ str_lower ''cim'' @ ''bom''" by code_simp
  then show ?thesis
    using team_matches_spec [of "Obj [(''name'', Str ''Galatasaray''), (''keywords'', Arr [Str ''Cimbom'', Str ''GS'']),
        (''is_active'', Bool True)]" "''Galatasaray''" "[Str ''Cimbom'', Str ''GS'']" "''cim''"]
    by (simp add: obj_get_def) blast
qed

lemma settle_stats_value: "ok_outcome out \<Longrightarrow> settle out tr = (Inr (stats_value out), tr)"
  by (cases out) (auto simp: ok_outcome_def stats_value_def act_simps)

lemma stats_value_fail: "\<not> ok_outcome out \<Longrightarrow> stats_value out = Null"
  by (cases out) (auto simp: ok_outcome_def stats_value_def)

lemma team_results_objs:
  "\<forall>t\<in>set ts. \<exists>ps. t = Obj ps \<Longrightarrow>
     \<exists>new. team_results be ts tr =
       (Inr (map (\<lambda>t. Some (with_stats t (stats_value (be (team_stats_request (opt_prop t ''id'')))))) ts), tr @ new)"
proof (induction ts arbitrary: tr)
  case (Cons t ts)
  obtain ps where t: "t = Obj ps" using Cons.prems by auto
  let ?out = "be (team_stats_request (obj_get ps ''id''))"
  have "\<exists>tr2. team_result be t tr = (Inr (Some (with_stats t (stats_value ?out))), tr @ tr2)"
  proof (cases "ok_outcome ?out")
    case True
    then show ?thesis by (simp add: team_result_def t settle_stats_value catch_act_apply bind_act_apply act_simps)
  next
    case False
    then obtain e n where "settle ?out tr = (Inl e, tr @ n)" using settle_fails by blast
    then show ?thesis
      using False by (simp add: team_result_def t stats_value_fail catch_act_apply bind_act_apply act_simps)
  qed
  then obtain tr2 where h: "team_result be t tr = (Inr (Some (with_stats t (stats_value ?out))), tr @ tr2)"
    by blast
  obtain new where "team_results be ts (tr @ tr2) =
     (Inr (map (\<lambda>t. Some (with_stats t (stats_value (be (team_stats_request (opt_prop t ''id'')))))) ts),
      (tr @ tr2) @ new)"
    using Cons.IH [of "tr @ tr2"] Cons.prems by (auto simp del: append_assoc)
  with h show ?case by (simp add: bind_act_apply act_simps t opt_prop_def)
qed (simp add: act_simps)

lemma those_map_Some [simp]: "those (map (\<lambda>x. Some (f x)) xs) = Some (map f xs)"
  by (induction xs) auto

text \<open>C27: when the team list is fetched and every team is an object,
  \<open>getTeamsWithSentiment\<close> sends one statistics request per team after the list
  request and resolves with every team, in order, each carrying its statistics when its
  request succeeded and \<open>null\<close> when it failed; the count is the number of teams.\<close>

theorem teams_with_sentiment_keeps_all:
  assumes "be teams_request = Response s (Obj rp)" and "200 \<le> s" and "s < 300"
    and "obj_get rp ''teams'' = Arr ts" and "\<forall>t\<in>set ts. \<exists>ps. t = Obj ps"
  shows "\<exists>new. get_teams_with_sentiment be tr =
           (Inr (Obj [(''teams'', Arr (map (\<lambda>t. with_stats t (stats_value (be (team_stats_request (opt_prop t ''id''))))) ts)),
                      (''count'', Num (int (length ts)))]),
            tr @ send_events teams_request @ concat (map send_events (team_requests ts)) @ new)"
proof -
  let ?tr0 = "tr @ send_events teams_request @ concat (map send_events (team_requests ts))"
  obtain new where r: "team_results be ts ?tr0 =
     (Inr (map (\<lambda>t. Some (with_stats t (stats_value (be (team_stats_request (opt_prop t ''id'')))))) ts), ?tr0 @ new)"
    using team_results_objs [OF assms(5)] by blast
  have req: "\<lparr>req_method = GET, req_url = ''/teams'', req_body = Undef\<rparr> = teams_request"
    by (simp add: teams_request_def)
  show ?thesis
    using assms r
    by (simp add: get_teams_with_sentiment_def get_teams_def api_method_defs api_request_apply req
        bind_act_apply handle_api_response_def js_or_def act_simps send_events_def)
qed

definition sample_backend :: backend where
  "sample_backend r =
     (if r = teams_request then Response 200 (Obj [(''teams'', Arr [Obj [(''id'', Num 1)], Obj [(''id'', Num 2)]])])
      else if r = team_stats_request (Num 1) then Response 200 (Obj [(''total'', Num 5)])
      else NoResponse)"

theorem teams_with_sentiment_keeps_all_witness:
  "\<exists>new. get_teams_with_sentiment sample_backend [] =
     (Inr (Obj [(''teams'', Arr [with_stats (Obj [(''id'', Num 1)]) (Obj [(''total'', Num 5)]),
                                  with_stats (Obj [(''id'', Num 2)]) Null]),
                (''count'', Num 2)]),
      send_events teams_request @ send_events (team_stats_request (Num 1)) @
      send_events (team_stats_request (Num 2)) @ new)"
proof -
  have ne: "team_stats_request (Num 1) \<noteq> teams_request" "team_stats_request (Num 2) \<noteq> teams_request"
    "team_stats_request (Num 2) \<noteq> team_stats_request (Num 1)"
    by (simp_all add: team_stats_request_def teams_request_def int_to_dec_def nat_to_dec.simps)
  have "sample_backend teams_request =
     Response 200 (Obj [(''teams'', Arr [Obj [(''id'', Num 1)], Obj [(''id'', Num 2)]])])"
    by (simp add: sample_backend_def)
  from teams_with_sentiment_keeps_all [where be = sample_backend and s = 200
      and rp = "[(''teams'', Arr [Obj [(''id'', Num 1)], Obj [(''id'', Num 2)]])]"
      and ts = "[Obj [(''id'', Num 1)], Obj [(''id'', Num 2)]]" and tr = "[]", OF this]
  show ?thesis
    by (simp add: obj_get_def opt_prop_def sample_backend_def ne stats_value_def handle_api_response_def
        team_requests_def)
qed

text \<open>A slug naming an inherited member gets that member, not the default colours.\<close>

lemma service_team_colors_constructor:
  "service_team_colors (Str ''constructor'') = InheritedMember ''constructor''"
  by (simp add: service_team_colors_def literal_get_def team_color_map_def object_prototype_members_def)

end
