(* ===== verification/Groq_Service.thy ===== *)
theory Groq_Service
  imports Dashboard_Service Complex_Main
begin

text \<open>
  The AI endpoints and display helpers, \<open>src/frontend/src/services/groqService.js\<close>.
  Each request function wraps one gateway call in \<open>try\<close>/\<open>catch\<close>: the \<open>catch\<close> shows its
  own error toast and rethrows, so a failure notifies twice (the gateway's toast and
  this one). Two functions show a loading toast with an \<open>id\<close> and end it with a success
  or error toast under the same \<open>id\<close> (\<open>ToastId\<close>). The helpers classify scores against
  the thresholds of \<open>toxicityLevels\<close> and \<open>confidenceLevels\<close> (scores are rationals;
  \<open>None\<close> is a score that is not a number, for which every comparison is false), look
  names up in object literals (\<open>categoryColors\<close>, the model-name map), and format a
  percentage. Labels with letters outside Latin-1 are code-unit strings (\<open>ustr\<close>).
\<close>

definition id_url :: "string \<Rightarrow> jsv \<Rightarrow> string" where
  "id_url base tid = (if truthy tid then base @ ''/'' @ js_to_string tid else base)"

definition data_of :: "jsv \<Rightarrow> jsv act" where
  "data_of r = (case get_prop r ''data'' of Some d \<Rightarrow> ret d | None \<Rightarrow> type_error)"

definition rethrow_with :: "event \<Rightarrow> api_error \<Rightarrow> 'a act" where
  "rethrow_with ev e = bind_act (emit ev) (\<lambda>_. throw_err e)"

definition get_enhanced_stats :: "backend \<Rightarrow> jsv \<Rightarrow> jsv act" where
  "get_enhanced_stats be tid =
     catch_act (bind_act (api_get be (id_url ''/sentiments/enhanced-stats'' tid)) data_of)
       (rethrow_with (Toast ToastError MsgEnhancedStatsFailed))"

definition generate_daily_summary :: "backend \<Rightarrow> jsv \<Rightarrow> jsv act" where
  "generate_daily_summary be tid =
     catch_act
       (bind_act (emit (ToastId ''summary-loading'' ToastLoading MsgSummaryLoading)) (\<lambda>_.
        bind_act (emit (LogInfo ''Making API call to:'')) (\<lambda>_.
        bind_act (api_post be (id_url ''/sentiments/summary/generate'' tid) Undef) (\<lambda>r.
        bind_act (emit (LogInfo ''API response for summary:'')) (\<lambda>_.
        bind_act (data_of r) (\<lambda>d.
        bind_act (emit (LogInfo ''Summary data:'')) (\<lambda>_.
        bind_act (emit (ToastId ''summary-loading'' ToastSuccess MsgSummaryDone)) (\<lambda>_.
        ret d))))))))
       (\<lambda>e. bind_act (emit (LogError ''API Error:'')) (\<lambda>_.
              rethrow_with (ToastId ''summary-loading'' ToastError MsgSummaryFailed) e))"

definition get_trend_insights :: "backend \<Rightarrow> jsv \<Rightarrow> jsv act" where
  "get_trend_insights be tid =
     catch_act (bind_act (api_get be (id_url ''/sentiments/trends/insights'' tid)) data_of)
       (rethrow_with (Toast ToastError MsgTrendInsightsFailed))"

definition get_category_stats :: "backend \<Rightarrow> jsv \<Rightarrow> jsv act" where
  "get_category_stats be tid =
     catch_act
       (bind_act (api_get be (''/sentiments/categories/stats'' @
                              (if truthy tid then ''?team_id='' @ js_to_string tid else ''''))) (\<lambda>r.
          case (get_prop r ''categories'', get_prop r ''toxicity'') of
            (Some c, Some x) \<Rightarrow> ret (Obj [(''categories'', c), (''toxicity'', x)])
          | _ \<Rightarrow> type_error))
       (rethrow_with (Toast ToastError MsgCategoryStatsFailed))"

definition test_grok_ai :: "backend \<Rightarrow> jsv \<Rightarrow> jsv act" where
  "test_grok_ai be text =
     catch_act
       (bind_act (emit (ToastId ''grok-test'' ToastLoading MsgGrokTesting)) (\<lambda>_.
        bind_act (api_post be ''/sentiments/test-grok'' (Obj [(''text'', text)])) (\<lambda>r.
        bind_act (emit (ToastId ''grok-test'' ToastSuccess MsgGrokTestDone)) (\<lambda>_.
        case get_prop r ''results'' of Some v \<Rightarrow> ret v | None \<Rightarrow> type_error))))
       (rethrow_with (ToastId ''grok-test'' ToastError MsgGrokTestFailed))"

definition analyze_with_ai :: "backend \<Rightarrow> jsv \<Rightarrow> jsv act" where
  "analyze_with_ai be text =
     catch_act
       (bind_act (api_post be ''/sentiments/analyze'' (Obj [(''text'', text)])) (\<lambda>r.
          case get_prop r ''result'' of Some v \<Rightarrow> ret v | None \<Rightarrow> type_error))
       (rethrow_with (Toast ToastError MsgAiAnalysisFailed))"

section \<open>Levels\<close>

datatype level = LevelLow | LevelMedium | LevelHigh

definition level_rank :: "level \<Rightarrow> nat" where
  "level_rank l = (case l of LevelLow \<Rightarrow> 0 | LevelMedium \<Rightarrow> 1 | LevelHigh \<Rightarrow> 2)"

instantiation level :: linorder
begin

definition less_eq_level :: "level \<Rightarrow> level \<Rightarrow> bool" where
  "less_eq_level a b \<longleftrightarrow> level_rank a \<le> level_rank b"

definition less_level :: "level \<Rightarrow> level \<Rightarrow> bool" where
  "less_level a b \<longleftrightarrow> level_rank a < level_rank b"

instance
proof
  fix x y z :: level
  show "x < y \<longleftrightarrow> x \<le> y \<and> \<not> y \<le> x" by (auto simp: less_eq_level_def less_level_def)
  show "x \<le> x" by (simp add: less_eq_level_def)
  show "x \<le> y \<Longrightarrow> y \<le> z \<Longrightarrow> x \<le> z" by (simp add: less_eq_level_def)
  show "x \<le> y \<Longrightarrow> y \<le> x \<Longrightarrow> x = y"
    by (cases x; cases y) (simp_all add: less_eq_level_def level_rank_def)
  show "x \<le> y \<or> y \<le> x" by (auto simp: less_eq_level_def)
qed

end

record level_info =
  level_label :: ustr
  level_color :: string
  level_threshold :: "rat \<times> rat"

definition toxicity_levels :: "level \<Rightarrow> level_info" where
  "toxicity_levels l =
     (case l of
        LevelLow \<Rightarrow> \<lparr>level_label = ascii ''D'' @ [0xFC, 0x15F, 0xFC] @ ascii ''k'', level_color = ''#10B981'',
                     level_threshold = (0, 3/10)\<rparr>
      | LevelMedium \<Rightarrow> \<lparr>level_label = ascii ''Orta'', level_color = ''#F59E0B'', level_threshold = (3/10, 7/10)\<rparr>
      | LevelHigh \<Rightarrow> \<lparr>level_label = ascii ''Y'' @ [0xFC] @ ascii ''ksek'', level_color = ''#EF4444'',
                      level_threshold = (7/10, 1)\<rparr>)"

definition confidence_levels :: "level \<Rightarrow> level_info" where
  "confidence_levels l =
     (case l of
        LevelLow \<Rightarrow> \<lparr>level_label = ascii ''D'' @ [0xFC, 0x15F, 0xFC] @ ascii ''k G'' @ [0xFC] @ ascii ''ven'',
                     level_color = ''#EF4444'', level_threshold = (0, 6/10)\<rparr>
      | LevelMedium \<Rightarrow> \<lparr>level_label = ascii ''Orta G'' @ [0xFC] @ ascii ''ven'', level_color = ''#F59E0B'',
                        level_threshold = (6/10, 8/10)\<rparr>
      | LevelHigh \<Rightarrow> \<lparr>level_label = ascii ''Y'' @ [0xFC] @ ascii ''ksek G'' @ [0xFC] @ ascii ''ven'',
                      level_color = ''#10B981'', level_threshold = (8/10, 1)\<rparr>)"

definition get_toxicity_level :: "rat option \<Rightarrow> level" where
  "get_toxicity_level s =
     (case s of
        Some x \<Rightarrow> if 7/10 \<le> x then LevelHigh else if 3/10 \<le> x then LevelMedium else LevelLow
      | None \<Rightarrow> LevelLow)"

definition get_confidence_level :: "rat option \<Rightarrow> level" where
  "get_confidence_level s =
     (case s of
        Some x \<Rightarrow> if 8/10 \<le> x then LevelHigh else if 6/10 \<le> x then LevelMedium else LevelLow
      | None \<Rightarrow> LevelLow)"

section \<open>Lookups and formatting\<close>

definition literal_get_u :: "(ustr \<times> 'a) list \<Rightarrow> ustr \<Rightarrow> 'a member" where
  "literal_get_u tbl k =
     (case map_of tbl k of
        Some v \<Rightarrow> Own v
      | None \<Rightarrow> if k \<in> set (map ascii object_prototype_members) then Inherited (map char_of k) else Absent)"

definition category_colors :: "(ustr \<times> string) list" where
  "category_colors =
     [(ascii ''Tak'' @ [0x131] @ ascii ''m Performans'' @ [0x131], ''#3B82F6''),
      (ascii ''Oyuncu Ele'' @ [0x15F] @ ascii ''tirisi'', ''#EF4444''),
      (ascii ''Hakem Kararlar'' @ [0x131], ''#F59E0B''),
      (ascii ''Transfer Haberleri'', ''#10B981''),
      (ascii ''Teknik Direkt'' @ [0xF6] @ ascii ''r'', ''#8B5CF6''),
      (ascii ''Genel'', ''#6B7280'')]"

definition get_category_color :: "ustr \<Rightarrow> string member" where
  "get_category_color c =
     (case literal_get_u category_colors c of Absent \<Rightarrow> Own ''#6B7280'' | r \<Rightarrow> r)"

definition calculate_percentage :: "nat \<Rightarrow> nat \<Rightarrow> jsv" where
  "calculate_percentage v tot =
     (if 0 < tot then Str (fixed1_string (to_fixed_1 (int v * 100) (int tot))) else Num 0)"

definition model_map :: "(string \<times> string) list" where
  "model_map =
     [(''hybrid-consensus'', ''Hibrit Konsens'' @ [CHR 0xFC] @ ''s''),
      (''hybrid-hf-primary'', ''Hibrit (HF '' @ [CHR 0xD6] @ ''ncelik)''),
      (''hybrid-groq-primary'', ''Hibrit (Grok '' @ [CHR 0xD6] @ ''ncelik)''),
      (''groq-only'', ''Sadece Grok AI''),
      (''hf-only'', ''Sadece HuggingFace''),
      (''groq-fallback'', ''Grok Yedek'')]"

definition format_model_name :: "jsv \<Rightarrow> jsv member" where
  "format_model_name m =
     (case literal_get model_map (js_to_string m) of
        Own s \<Rightarrow> Own (Str s)
      | Inherited x \<Rightarrow> Inherited x
      | Absent \<Rightarrow> Own m)"

section \<open>Properties\<close>

lemma toxicity_level_mono: "x \<le> y \<Longrightarrow> get_toxicity_level (Some x) \<le> get_toxicity_level (Some y)"
  by (auto simp: get_toxicity_level_def less_eq_level_def level_rank_def)

lemma confidence_level_mono: "x \<le> y \<Longrightarrow> get_confidence_level (Some x) \<le> get_confidence_level (Some y)"
  by (auto simp: get_confidence_level_def less_eq_level_def level_rank_def)

lemma toxicity_level_in_threshold:
  assumes "0 \<le> x" and "x \<le> 1"
  shows "fst (level_threshold (toxicity_levels (get_toxicity_level (Some x)))) \<le> x \<and>
         (x < snd (level_threshold (toxicity_levels (get_toxicity_level (Some x)))) \<or>
          get_toxicity_level (Some x) = LevelHigh)"
  using assms by (auto simp: get_toxicity_level_def toxicity_levels_def)

lemma generate_daily_summary_apply:
  "generate_daily_summary be tid tr =
     (let tr1 = tr @ [ToastId ''summary-loading'' ToastLoading MsgSummaryLoading, LogInfo ''Making API call to:'',
                      LogRequest POST (id_url ''/sentiments/summary/generate'' tid),
                      Send \<lparr>req_method = POST, req_url = id_url ''/sentiments/summary/generate'' tid, req_body = Undef\<rparr>]
      in case settle (be \<lparr>req_method = POST, req_url = id_url ''/sentiments/summary/generate'' tid, req_body = Undef\<rparr>) tr1 of
           (Inr r, tr2) \<Rightarrow>
             (case get_prop r ''data'' of
                Some d \<Rightarrow> (Inr d, tr2 @ [LogInfo ''API response for summary:'', LogInfo ''Summary data:'',
                                        ToastId ''summary-loading'' ToastSuccess MsgSummaryDone])
              | None \<Rightarrow> (Inl (ApiAxios AxTypeError),
                         tr2 @ [LogInfo ''API response for summary:'', LogError ''API Error:'',
                                ToastId ''summary-loading'' ToastError MsgSummaryFailed]))
         | (Inl e, tr2) \<Rightarrow> (Inl e, tr2 @ [LogError ''API Error:'', ToastId ''summary-loading'' ToastError MsgSummaryFailed]))"
  by (simp add: generate_daily_summary_def Let_def catch_act_apply bind_act_apply api_method_defs api_request_apply
      data_of_def type_error_def rethrow_with_def act_simps split: prod.splits sum.splits option.splits)

text \<open>C28: generating a summary never leaves its loading toast spinning: on every
  outcome of the request, after the loading toast the trace ends with the success or the
  error toast under the same id.\<close>

theorem summary_loading_toast_resolved:
  "\<exists>new k m. snd (generate_daily_summary be tid tr) =
       tr @ ToastId ''summary-loading'' ToastLoading MsgSummaryLoading # new @ [ToastId ''summary-loading'' k m] \<and>
     k \<in> {ToastSuccess, ToastError}"
proof -
  let ?req = "\<lparr>req_method = POST, req_url = id_url ''/sentiments/summary/generate'' tid, req_body = Undef\<rparr>"
  let ?tr1 = "tr @ [ToastId ''summary-loading'' ToastLoading MsgSummaryLoading, LogInfo ''Making API call to:'',
                    LogRequest POST (id_url ''/sentiments/summary/generate'' tid), Send ?req]"
  obtain n r where s: "settle (be ?req) ?tr1 = (r, ?tr1 @ n)" using settle_extends by blast
  show ?thesis
    by (cases r) (auto simp: generate_daily_summary_apply s Let_def split: option.splits)
qed

theorem summary_loading_toast_resolved_witness:
  "snd (generate_daily_summary (\<lambda>_. NoResponse) Undef []) =
     [ToastId ''summary-loading'' ToastLoading MsgSummaryLoading, LogInfo ''Making API call to:'',
      LogRequest POST ''/sentiments/summary/generate'',
      Send \<lparr>req_method = POST, req_url = ''/sentiments/summary/generate'', req_body = Undef\<rparr>,
      LogError ''Response error:'', Toast ToastError MsgUnreachable,
      LogError ''API Error:'', ToastId ''summary-loading'' ToastError MsgSummaryFailed] \<and>
   (\<exists>new k m. snd (generate_daily_summary (\<lambda>_. NoResponse) Undef []) =
       ToastId ''summary-loading'' ToastLoading MsgSummaryLoading # new @ [ToastId ''summary-loading'' k m] \<and>
     k \<in> {ToastSuccess, ToastError})"
  using summary_loading_toast_resolved [of "\<lambda>_. NoResponse" Undef "[]"]
  by (simp add: generate_daily_summary_apply id_url_def reject_apply)

end
