(* ===== verification/Query_Cache.thy ===== *)
theory Query_Cache
  imports Prelude
begin

text \<open>
  The query cache the hooks read through: React Query (\<open>useQuery\<close>), a library the
  repository configures but does not contain. It is modelled here as the state of one
  observer of a keyed query, from the library's documented behaviour, and driven by
  explicit events in any order: the observer switching to a key (a filter change in
  \<open>useComments\<close>), a fetch of some key resolving or rejecting, time passing, and the
  collection of an unused entry. The cache keeps each key's last data with the time it
  was fetched; a failed fetch leaves it as it was. The observer shows the data of its
  key, and, with \<open>keepPreviousData\<close>, the data it showed before while its key has none
  yet. The hooks' own contribution is the options they pass (\<open>query_options\<close>).
\<close>

record query_options =
  keep_previous :: bool
  stale_time :: nat

definition comments_query_options :: query_options where
  "comments_query_options = \<lparr>keep_previous = True, stale_time = 30000\<rparr>"

definition comment_stats_query_options :: query_options where
  "comment_stats_query_options = \<lparr>keep_previous = False, stale_time = 60000\<rparr>"

definition sentiment_stats_query_options :: query_options where
  "sentiment_stats_query_options = \<lparr>keep_previous = False, stale_time = 60000\<rparr>"

definition sentiment_summary_query_options :: query_options where
  "sentiment_summary_query_options = \<lparr>keep_previous = False, stale_time = 30000\<rparr>"

record ('k, 'v) qstate =
  qcache :: "'k \<Rightarrow> ('v \<times> nat) option"
  qkey :: 'k
  qshown :: "'v option"
  qclock :: nat

datatype ('k, 'v) qevent = SetKey 'k | Resolve 'k 'v | Reject 'k | Tick nat | Collect 'k

definition qview :: "query_options \<Rightarrow> ('k, 'v) qstate \<Rightarrow> 'v option" where
  "qview opts st =
     (case qcache st (qkey st) of
        Some (v, t) \<Rightarrow> Some v
      | None \<Rightarrow> if keep_previous opts then qshown st else None)"

text \<open>A fetch starts when the observer takes a key with no data or stale data.\<close>

definition needs_fetch :: "query_options \<Rightarrow> ('k, 'v) qstate \<Rightarrow> 'k \<Rightarrow> bool" where
  "needs_fetch opts st k =
     (case qcache st k of None \<Rightarrow> True | Some (v, t) \<Rightarrow> stale_time opts \<le> qclock st - t)"

definition qapply :: "('k, 'v) qevent \<Rightarrow> ('k, 'v) qstate \<Rightarrow> ('k, 'v) qstate" where
  "qapply e st =
     (case e of
        SetKey k \<Rightarrow> st\<lparr>qkey := k\<rparr>
      | Resolve k v \<Rightarrow> st\<lparr>qcache := (qcache st)(k \<mapsto> (v, qclock st))\<rparr>
      | Reject k \<Rightarrow> st
      | Tick d \<Rightarrow> st\<lparr>qclock := qclock st + d\<rparr>
      | Collect k \<Rightarrow> if k = qkey st then st else st\<lparr>qcache := (qcache st)(k := None)\<rparr>)"

text \<open>After every event the observer recomputes the result it shows.\<close>

definition qstep :: "query_options \<Rightarrow> ('k, 'v) qevent \<Rightarrow> ('k, 'v) qstate \<Rightarrow> ('k, 'v) qstate" where
  "qstep opts e st = (let st' = qapply e st in st'\<lparr>qshown := qview opts st'\<rparr>)"

inductive qreach :: "query_options \<Rightarrow> ('k, 'v) qstate \<Rightarrow> ('k, 'v) qstate \<Rightarrow> bool" where
  qreach_refl: "qreach opts st st"
| qreach_step: "qreach opts st0 st \<Longrightarrow> qreach opts st0 (qstep opts e st)"

inductive_cases qreach_stepE: "qreach opts st0 st'"

section \<open>Properties\<close>

lemma qview_keep_previous:
  "keep_previous opts \<Longrightarrow> qshown st \<noteq> None \<Longrightarrow> qview opts st \<noteq> None"
  by (auto simp: qview_def split: option.splits)

lemma qstep_shown: "qshown (qstep opts e st) = qview opts (qapply e st)"
  by (simp add: qstep_def Let_def)

lemma qapply_shown: "qshown (qapply e st) = qshown st"
  by (cases e) (simp_all add: qapply_def)

lemma qstep_shown_keep:
  "keep_previous opts \<Longrightarrow> qshown st \<noteq> None \<Longrightarrow> qshown (qstep opts e st) \<noteq> None"
  using qview_keep_previous [of opts "qapply e st"] by (simp add: qstep_shown qapply_shown)

lemma qreach_shown_keep:
  "qreach opts st0 st \<Longrightarrow> keep_previous opts \<Longrightarrow> qshown st0 \<noteq> None \<Longrightarrow> qshown st \<noteq> None"
  by (induction rule: qreach.induct) (simp_all add: qstep_shown_keep)


definition sample_state :: "(nat, string) qstate" where
  "sample_state = \<lparr>qcache = [1 \<mapsto> (''page one'', 0)], qkey = 1, qshown = Some ''page one'', qclock = 0\<rparr>"


text \<open>Without \<open>keepPreviousData\<close>, switching to a key with no data shows nothing.\<close>

lemma stats_options_blank_on_new_key:
  "qview comment_stats_query_options (qstep comment_stats_query_options (SetKey 2) sample_state) = None"
  by (simp add: qstep_def qapply_def qview_def sample_state_def comment_stats_query_options_def)

lemma fresh_key_no_fetch:
  "qcache st k = Some (v, t) \<Longrightarrow> qclock st - t < stale_time opts \<Longrightarrow> \<not> needs_fetch opts st k"
  by (simp add: needs_fetch_def)

end
