(* ===== verification/Comment_List.thy ===== *)
theory Comment_List
  imports Comments_Hook Sentiment_Hook
begin

text \<open>
  The comment listing screen, \<open>src/frontend/src/components/CommentList.jsx\<close>: its local
  form state (the search box and the three filter selects), the handlers that turn it
  into \<open>updateFilters\<close> calls of \<open>useComments\<close>, the pagination buttons, and the
  decisions the table makes for each row. The markup itself is not modelled. The
  pagination handlers do arithmetic on \<open>filters.page\<close>; they are modelled for a numeric
  page (\<open>None\<close> otherwise).
\<close>

record list_form =
  search_query :: string
  selected_team :: string
  selected_source :: string
  selected_sentiment :: string
  show_filters :: bool

definition init_list_form :: list_form where
  "init_list_form = \<lparr>search_query = [], selected_team = [], selected_source = [], selected_sentiment = [],
                      show_filters = False\<rparr>"

text \<open>\<open>s || undefined\<close> for a select's value.\<close>

definition or_undefined :: "string \<Rightarrow> jsv" where
  "or_undefined s = (if s = [] then Undef else Str s)"

definition handle_search :: "list_form \<Rightarrow> jsobj \<Rightarrow> jsobj" where
  "handle_search fm f = update_filters [(''search'', Str (search_query fm))] f"

definition handle_filter_change :: "list_form \<Rightarrow> jsobj \<Rightarrow> jsobj" where
  "handle_filter_change fm f =
     update_filters [(''team_id'', or_undefined (selected_team fm)), (''source'', or_undefined (selected_source fm)),
                     (''sentiment'', or_undefined (selected_sentiment fm))] f"

definition clear_all_filters :: "list_form \<Rightarrow> jsobj \<Rightarrow> list_form \<times> jsobj" where
  "clear_all_filters fm f =
     (fm\<lparr>search_query := [], selected_team := [], selected_source := [], selected_sentiment := []\<rparr>,
      update_filters [(''search'', Undef), (''team_id'', Undef), (''source'', Undef), (''sentiment'', Undef)] f)"

definition toggle_filters :: "list_form \<Rightarrow> list_form" where
  "toggle_filters fm = fm\<lparr>show_filters := \<not> show_filters fm\<rparr>"

section \<open>Pagination\<close>

definition page_num :: "jsobj \<Rightarrow> int option" where
  "page_num f = (case obj_get f ''page'' of Num n \<Rightarrow> Some n | _ \<Rightarrow> None)"

text \<open>The bar is shown when there is more than one page; its buttons call
  \<open>setPage(Math.max(1, page - 1))\<close> and \<open>setPage(Math.min(totalPages, page + 1))\<close> and are
  disabled on the first and on the last page.\<close>

definition pagination_shown :: "int \<Rightarrow> bool" where
  "pagination_shown tp = (1 < tp)"

definition prev_target :: "int \<Rightarrow> int" where
  "prev_target p = max 1 (p - 1)"

definition next_target :: "int \<Rightarrow> int \<Rightarrow> int" where
  "next_target tp p = min tp (p + 1)"

definition prev_disabled :: "int \<Rightarrow> bool" where
  "prev_disabled p = (p = 1)"

definition next_disabled :: "int \<Rightarrow> int \<Rightarrow> bool" where
  "next_disabled tp p = (p = tp)"

datatype page_click = PrevClick | NextClick

definition click_page :: "int \<Rightarrow> page_click \<Rightarrow> int \<Rightarrow> int" where
  "click_page tp c p =
     (case c of
        PrevClick \<Rightarrow> if prev_disabled p then p else prev_target p
      | NextClick \<Rightarrow> if next_disabled tp p then p else next_target tp p)"

definition click_handler :: "int \<Rightarrow> page_click \<Rightarrow> jsobj \<Rightarrow> jsobj option" where
  "click_handler tp c f = map_option (\<lambda>p. set_page (Num (click_page tp c p)) f) (page_num f)"

text \<open>The "showing \<open>a\<close>-\<open>b\<close> of \<open>total\<close>" line.\<close>

definition showing_range :: "int \<Rightarrow> int \<Rightarrow> int \<Rightarrow> int \<times> int" where
  "showing_range p lim tot = ((p - 1) * lim + 1, min (p * lim) tot)"

section \<open>The table\<close>

datatype badge = BadgePositive | BadgeNegative | BadgeNeutral | BadgeGray | BadgeNotAnalysed

text \<open>\<open>getSentimentBadgeClass\<close>, and the cell that shows it only for an analysed comment.\<close>

definition sentiment_badge_class :: "jsv \<Rightarrow> badge" where
  "sentiment_badge_class s =
     (if \<not> truthy s then BadgeGray
      else case classify_label (opt_prop s ''label'') of
             TextPositive \<Rightarrow> BadgePositive | TextNegative \<Rightarrow> BadgeNegative
           | TextNeutral \<Rightarrow> BadgeNeutral | TextUnknown \<Rightarrow> BadgeGray)"

record row_view =
  row_selected :: bool
  row_score :: "jsv option"
  row_author :: jsv
  row_badge :: badge
  row_link :: "jsv option"

definition comment_row :: "jsv list \<Rightarrow> jsv \<Rightarrow> row_view" where
  "comment_row sel c =
     \<lparr>row_selected = opt_prop c ''id'' \<in> set sel,
      row_score = (if opt_prop c ''score'' = Undef then None else Some (opt_prop c ''score'')),
      row_author = js_or (opt_prop c ''author'') (Str ''Anonim''),
      row_badge = (if truthy (opt_prop c ''sentiment'') then sentiment_badge_class (opt_prop c ''sentiment'')
                   else BadgeNotAnalysed),
      row_link = (if truthy (opt_prop c ''url'') then Some (opt_prop c ''url'') else None)\<rparr>"

datatype list_body = Skeleton nat | Rows "row_view list" | NoComments

text \<open>\<open>isLoading ? skeleton : comments.length > 0 ? comments.map(row) : empty\<close>;
  \<open>None\<close> is the \<open>TypeError\<close> of a non-empty string, which has a length but no \<open>map\<close>.\<close>

definition list_body :: "bool \<Rightarrow> jsv list \<Rightarrow> jsv \<Rightarrow> list_body option" where
  "list_body loading sel comments =
     (if loading then Some (Skeleton 5)
      else case comments of
             Arr (c # cs) \<Rightarrow> Some (Rows (map (comment_row sel) (c # cs)))
           | Str (c # cs) \<Rightarrow> None
           | _ \<Rightarrow> Some NoComments)"

section \<open>Header, statistics cards and bulk bar\<close>

text \<open>The header line \<open>Toplam {totalComments.toLocaleString()} yorum\<close>.\<close>

definition list_header :: "(jsv \<Rightarrow> string) \<Rightarrow> jsv \<Rightarrow> string" where
  "list_header loc data = ''Toplam '' @ loc (total_comments data) @ '' yorum''"

text \<open>The four cards, shown when \<open>stats\<close> is truthy. The last one sums
  \<open>Object.values(stats.sentiment_breakdown || {})\<close> with \<open>+\<close> from 0 and prints the sum
  with \<open>toLocaleString()\<close> (\<open>NaN\<close> prints as \<open>NaN\<close>); \<open>sc_analysed\<close> is \<open>None\<close> for the
  \<open>TypeError\<close> of \<open>Object.values\<close>.\<close>

record stats_cards =
  sc_total :: jsv
  sc_processed :: jsv
  sc_pending :: jsv
  sc_analysed :: "string option"

definition stats_cards :: "(jsv \<Rightarrow> string) \<Rightarrow> jsv \<Rightarrow> stats_cards option" where
  "stats_cards loc st =
     (if \<not> truthy st then None
      else Some \<lparr>sc_total = locale_or_zero loc (opt_prop st ''total_comments''),
                 sc_processed = locale_or_zero loc (opt_prop st ''processed_comments''),
                 sc_pending = locale_or_zero loc (opt_prop st ''unprocessed_comments''),
                 sc_analysed =
                   map_option (\<lambda>vs. case js_sum vs of Some v \<Rightarrow> loc v | None \<Rightarrow> ''NaN'')
                     (js_values (js_or (opt_prop st ''sentiment_breakdown'') (Obj [])))\<rparr>)"

text \<open>The bulk bar, shown while \<open>selectedComments\<close> is non-empty: the count, and the
  "mark as processed" button, disabled and relabelled while \<open>isBulkUpdating\<close>.\<close>

datatype bulk_label = BulkProcessing | BulkMarkProcessed

record bulk_bar =
  bb_count :: nat
  bb_disabled :: bool
  bb_label :: bulk_label

definition bulk_bar :: "'a list \<Rightarrow> bool \<Rightarrow> bulk_bar option" where
  "bulk_bar sel updating =
     (if 0 < length sel
      then Some \<lparr>bb_count = length sel, bb_disabled = updating,
                 bb_label = (if updating then BulkProcessing else BulkMarkProcessed)\<rparr>
      else None)"

section \<open>The form as a sequence of events\<close>

text \<open>The values the three selects offer (the first, \<open>''\<close>, being "all").\<close>

definition team_values :: "string list" where
  "team_values = [[], ''galatasaray'', ''fenerbahce'', ''besiktas'', ''trabzonspor'']"

definition source_values :: "string list" where
  "source_values = [[], ''reddit'', ''twitter'', ''youtube'']"

definition sentiment_values :: "string list" where
  "sentiment_values = [[], ''POSITIVE'', ''NEUTRAL'', ''NEGATIVE'']"

datatype list_event =
    TypeSearch string | SubmitSearch | PickTeam string | PickSource string | PickSentiment string
  | ApplyFilters | ClearAll | ToggleFilterPanel

text \<open>The search box and its form, the filter toggle, and the selects and buttons of the
  filter panel, which exist only while it is shown; a select takes only the values it
  offers.\<close>

fun list_step :: "list_event \<Rightarrow> list_form \<times> jsobj \<Rightarrow> list_form \<times> jsobj" where
  "list_step (TypeSearch q) (fm, f) = (fm\<lparr>search_query := q\<rparr>, f)"
| "list_step SubmitSearch (fm, f) = (fm, handle_search fm f)"
| "list_step (PickTeam v) (fm, f) =
     (if show_filters fm \<and> v \<in> set team_values then fm\<lparr>selected_team := v\<rparr> else fm, f)"
| "list_step (PickSource v) (fm, f) =
     (if show_filters fm \<and> v \<in> set source_values then fm\<lparr>selected_source := v\<rparr> else fm, f)"
| "list_step (PickSentiment v) (fm, f) =
     (if show_filters fm \<and> v \<in> set sentiment_values then fm\<lparr>selected_sentiment := v\<rparr> else fm, f)"
| "list_step ApplyFilters (fm, f) = (fm, if show_filters fm then handle_filter_change fm f else f)"
| "list_step ClearAll (fm, f) = (if show_filters fm then clear_all_filters fm f else (fm, f))"
| "list_step ToggleFilterPanel (fm, f) = (toggle_filters fm, f)"

section \<open>Properties\<close>

lemma click_page_in_range:
  "1 \<le> tp \<Longrightarrow> 1 \<le> p \<Longrightarrow> p \<le> tp \<Longrightarrow> 1 \<le> click_page tp c p \<and> click_page tp c p \<le> tp"
  by (cases c) (auto simp: click_page_def prev_target_def next_target_def prev_disabled_def next_disabled_def)

text \<open>Starting on a page between 1 and the last, any sequence of clicks on the two
  buttons stays between 1 and the last page.\<close>

lemma clicks_stay_in_range:
  "1 \<le> tp \<Longrightarrow> 1 \<le> p \<Longrightarrow> p \<le> tp \<Longrightarrow>
     1 \<le> fold (click_page tp) cs p \<and> fold (click_page tp) cs p \<le> tp"
  by (induction cs arbitrary: p) (simp_all add: click_page_in_range)

text \<open>From a page past the end (the data shrank), "next" comes back to the last page,
  but "previous" only steps down by one.\<close>

lemma next_clamps_to_last: "1 \<le> tp \<Longrightarrow> tp < p \<Longrightarrow> click_page tp NextClick p = tp"
  by (simp add: click_page_def next_target_def next_disabled_def)

lemma prev_from_past_end: "1 \<le> tp \<Longrightarrow> tp + 1 < p \<Longrightarrow> click_page tp PrevClick p = p - 1 \<and> tp < p - 1"
  by (simp add: click_page_def prev_target_def prev_disabled_def)

text \<open>Applying the filters with every select left empty puts the three keys into the
  filter object with the value \<open>undefined\<close>, and the listing request spells them out.\<close>

lemma empty_selects_send_undefined:
  "query_string (handle_filter_change init_list_form default_filters) =
     ''page=1&limit=20&sort_by=created_at&sort_order=desc&team_id=undefined&source=undefined&sentiment=undefined''"
  by code_simp

text \<open>When the statistics carry a breakdown whose values are numbers, the
  "analysed" card shows their sum.\<close>

theorem analysed_card_sums_breakdown:
  assumes "truthy st" and "opt_prop st ''sentiment_breakdown'' = Obj (map (\<lambda>(k, n). (k, Num n)) bd)"
  shows "map_option sc_analysed (stats_cards loc st) = Some (Some (loc (Num (sum_list (map snd bd)))))"
proof -
  have "map snd (map (\<lambda>(k, n). (k, Num n)) bd) = map Num (map snd bd)"
    by (induction bd) auto
  then show ?thesis
    using assms by (simp add: stats_cards_def js_or_def del: map_map)
qed

lemma analysed_card_sums_breakdown_witness:
  "map_option sc_analysed (stats_cards js_to_string
     (Obj [(''total_comments'', Num 9), (''sentiment_breakdown'', Obj [(''positive'', Num 3), (''negative'', Num 4)])]))
   = Some (Some ''7'')"
proof -
  have "map_option sc_analysed (stats_cards js_to_string
     (Obj [(''total_comments'', Num 9), (''sentiment_breakdown'', Obj [(''positive'', Num 3), (''negative'', Num 4)])]))
   = Some (Some (int_to_dec 7))"
    using analysed_card_sums_breakdown [of "Obj [(''total_comments'', Num 9), (''sentiment_breakdown'', Obj [(''positive'', Num 3), (''negative'', Num 4)])]"
        "[(''positive'', 3), (''negative'', 4)]" js_to_string]
    by (simp add: opt_prop_def obj_get_def)
  also have "\<dots> = Some (Some ''7'')"
    by code_simp
  finally show ?thesis .
qed

text \<open>Counts that arrive as strings are concatenated by \<open>+\<close> instead of added: a breakdown
  of \<open>"3"\<close> and \<open>4\<close> shows \<open>034\<close>.\<close>

lemma analysed_card_concatenates_strings:
  "map_option sc_analysed (stats_cards js_to_string
     (Obj [(''sentiment_breakdown'', Obj [(''positive'', Str ''3''), (''negative'', Num 4)])]))
   = Some (Some ''034'')"
  by code_simp

text \<open>After "mark as processed", the bulk bar disappears when the bulk request
  succeeds and stays with the same selection when it fails.\<close>

theorem bulk_bar_after_mark:
  "bulk_bar (selected (fst (mark_selected_as_processed be st tr))) u =
     (case fst (bulk_update_processed be (Arr (selected st)) tr) of
        Inr d \<Rightarrow> None | Inl e \<Rightarrow> bulk_bar (selected st) u)"
  by (auto simp: mark_selected_as_processed_def bulk_processed_run_def bulk_bar_def
           split: prod.splits sum.splits)

subsection \<open>The filters the listing asks for\<close>

text \<open>A filter key holds \<open>undefined\<close> or one of the non-empty values its select offers.\<close>

definition offered :: "jsobj \<Rightarrow> string \<Rightarrow> string list \<Rightarrow> bool" where
  "offered f k vals = (obj_get f k = Undef \<or> (\<exists>v \<in> set vals. v \<noteq> [] \<and> obj_get f k = Str v))"

definition list_inv :: "list_form \<times> jsobj \<Rightarrow> bool" where
  "list_inv s = (obj_wf (snd s) \<and>
     selected_team (fst s) \<in> set team_values \<and> selected_source (fst s) \<in> set source_values \<and>
     selected_sentiment (fst s) \<in> set sentiment_values \<and>
     offered (snd s) ''team_id'' team_values \<and> offered (snd s) ''source'' source_values \<and>
     offered (snd s) ''sentiment'' sentiment_values)"

lemma offered_or_undefined: "v \<in> set vals \<Longrightarrow> offered [(k, or_undefined v)] k vals"
  by (auto simp: offered_def or_undefined_def obj_get_def)

lemma offered_update:
  assumes "obj_wf f" and "offered f k vals" and "k \<noteq> ''page''"
  shows "offered (update_filters nf f) k vals \<longleftrightarrow>
           (case map_of (rev nf) k of None \<Rightarrow> True | Some v \<Rightarrow> offered [(k, v)] k vals)"
  using assms by (auto simp: offered_def update_filters_def obj_get_spread_append [where xs = "nf @ _"]
                            obj_get_def map_of_rev_wf split: option.splits)

lemma obj_wf_update_filters: "obj_wf (update_filters nf f)"
  by (simp add: update_filters_def)

lemma list_inv_step: "list_inv s \<Longrightarrow> list_inv (list_step e s)"
proof (cases s)
  case (Pair fm f)
  assume inv: "list_inv s"
  then have wf: "obj_wf f" and t: "offered f ''team_id'' team_values" and so: "offered f ''source'' source_values"
    and se: "offered f ''sentiment'' sentiment_values"
    and ft: "selected_team fm \<in> set team_values" and fs: "selected_source fm \<in> set source_values"
    and fe: "selected_sentiment fm \<in> set sentiment_values"
    using Pair by (simp_all add: list_inv_def)
  have undef: "offered [(k, Undef)] k vals" for k vals
    by (simp add: offered_def obj_get_def)
  have all: "[] \<in> set team_values" "[] \<in> set source_values" "[] \<in> set sentiment_values"
    by (simp_all add: team_values_def source_values_def sentiment_values_def)
  show ?thesis
    using inv Pair wf t so se ft fs fe
    by (cases e) (auto simp: list_inv_def handle_search_def handle_filter_change_def clear_all_filters_def
                             toggle_filters_def offered_update offered_or_undefined undef obj_wf_update_filters all)
qed

lemma list_inv_run: "list_inv s \<Longrightarrow> list_inv (fold list_step evs s)"
  by (induction evs arbitrary: s) (simp_all add: list_inv_step)

lemma list_inv_init: "list_inv (init_list_form, init_filters [])"
  by (simp add: list_inv_def init_list_form_def init_filters_def offered_def obj_get_def default_filters_def
                obj_assign_def obj_wf_def team_values_def source_values_def sentiment_values_def)

text \<open>Whatever the user types into the search box and picks, applies or clears in
  the filter panel, the comment listing filters by team, source and sentiment only with
  a value its select offers, or with \<open>undefined\<close>.\<close>

theorem listing_filters_offered:
  "offered (snd (fold list_step evs (init_list_form, init_filters []))) ''team_id'' team_values \<and>
   offered (snd (fold list_step evs (init_list_form, init_filters []))) ''source'' source_values \<and>
   offered (snd (fold list_step evs (init_list_form, init_filters []))) ''sentiment'' sentiment_values"
  using list_inv_run [OF list_inv_init, of evs] by (simp add: list_inv_def)

lemma listing_filters_offered_witness:
  "obj_get (snd (fold list_step [ToggleFilterPanel, PickTeam ''besiktas'', PickSource ''mastodon'', ApplyFilters]
                  (init_list_form, init_filters []))) ''team_id'' = Str ''besiktas'' \<and>
   offered (snd (fold list_step [ToggleFilterPanel, PickTeam ''besiktas'', PickSource ''mastodon'', ApplyFilters]
                  (init_list_form, init_filters []))) ''source'' source_values"
proof -
  have "obj_get (snd (fold list_step [ToggleFilterPanel, PickTeam ''besiktas'', PickSource ''mastodon'', ApplyFilters]
                  (init_list_form, init_filters []))) ''team_id'' = Str ''besiktas''"
    by code_simp
  then show ?thesis
    using listing_filters_offered [of "[ToggleFilterPanel, PickTeam ''besiktas'', PickSource ''mastodon'', ApplyFilters]"]
    by simp
qed

end
