(* ===== verification/Screens.thy ===== *)
theory Screens
  imports Sentiment_Hook
begin

text \<open>
  The application shell and the manual analysis screen: the route table of
  \<open>src/frontend/src/App.jsx\<close>, the navigation of \<open>components/Layout.jsx\<close> (its list of
  links, the active-link test, the page title and the mobile sidebar), and the two
  handlers of \<open>components/SentimentAnalyzer.jsx\<close>. Paths are matched as React Router
  matches them: ignoring letter case and trailing slashes. Navigation names with
  letters outside Latin-1 are code-unit strings.
\<close>

datatype screen =
    DashboardScreen | AiDashboardScreen | CommentsScreen | TeamsScreen | AnalyzeScreen
  | MonitorScreen | TrendsScreen | SettingsScreen

datatype route_target = Render screen | Redirect string

definition route_table :: "(string \<times> route_target) list" where
  "route_table =
     [(''/'', Redirect ''/dashboard''), (''/dashboard'', Render DashboardScreen),
      (''/ai-dashboard'', Render AiDashboardScreen), (''/comments'', Render CommentsScreen),
      (''/teams'', Render TeamsScreen), (''/analyze'', Render AnalyzeScreen),
      (''/monitor'', Render MonitorScreen), (''/trends'', Render TrendsScreen),
      (''/settings'', Render SettingsScreen)]"

text \<open>The router's form of a path: lower case, without trailing slashes.\<close>

definition route_norm :: "string \<Rightarrow> string" where
  "route_norm p = (let q = rev (dropWhile (\<lambda>c. c = CHR ''/'') (rev (str_lower p))) in if q = [] then ''/'' else q)"

definition match_route :: "string \<Rightarrow> route_target" where
  "match_route p =
     (case map_of route_table (route_norm p) of
        Some t \<Rightarrow> t
      | None \<Rightarrow> Redirect ''/dashboard'')"

text \<open>The screen a path ends on: a redirect (\<open><Navigate replace>\<close>) is followed once;
  every redirect of the table leads to a rendered screen.\<close>

definition screen_of :: "string \<Rightarrow> screen option" where
  "screen_of p =
     (case match_route p of
        Render s \<Rightarrow> Some s
      | Redirect q \<Rightarrow> (case match_route q of Render s \<Rightarrow> Some s | Redirect _ \<Rightarrow> None))"

section \<open>Navigation\<close>

record nav_item =
  nav_name :: ustr
  nav_href :: string
  nav_new :: bool

definition navigation :: "nav_item list" where
  "navigation =
     [\<lparr>nav_name = ascii ''Dashboard'', nav_href = ''/dashboard'', nav_new = False\<rparr>,
      \<lparr>nav_name = ascii ''AI Dashboard'', nav_href = ''/ai-dashboard'', nav_new = True\<rparr>,
      \<lparr>nav_name = ascii ''Yorumlar'', nav_href = ''/comments'', nav_new = False\<rparr>,
      \<lparr>nav_name = ascii ''Tak'' @ [0x131] @ ascii ''m Kar'' @ [0x15F] @ ascii ''la'' @ [0x15F] @ ascii ''t'' @ [0x131] @
                   ascii ''rmas'' @ [0x131], nav_href = ''/teams'', nav_new = False\<rparr>,
      \<lparr>nav_name = ascii ''Trend Analizi'', nav_href = ''/trends'', nav_new = False\<rparr>,
      \<lparr>nav_name = ascii ''Duygu Analizi'', nav_href = ''/analyze'', nav_new = False\<rparr>,
      \<lparr>nav_name = ascii ''Canl'' @ [0x131, 0x20, 0x130] @ ascii ''zleme'', nav_href = ''/monitor'', nav_new = False\<rparr>,
      \<lparr>nav_name = ascii ''Ayarlar'', nav_href = ''/settings'', nav_new = False\<rparr>]"

definition is_active :: "string \<Rightarrow> string \<Rightarrow> bool" where
  "is_active pathname href = (pathname = href)"

definition page_title :: "string \<Rightarrow> ustr" where
  "page_title pathname =
     (case find (\<lambda>i. is_active pathname (nav_href i)) navigation of
        Some i \<Rightarrow> nav_name i
      | None \<Rightarrow> ascii ''Dashboard'')"

datatype layout_event = OpenSidebar | CloseSidebar | FollowLink

definition sidebar_step :: "layout_event \<Rightarrow> bool \<Rightarrow> bool" where
  "sidebar_step e is_open = (case e of OpenSidebar \<Rightarrow> True | CloseSidebar \<Rightarrow> False | FollowLink \<Rightarrow> False)"

section \<open>The manual analysis screen\<close>

record analyzer_ui =
  analyzer_text :: string
  analyzer_result :: jsv

text \<open>\<open>handleAnalyze\<close>: for a non-blank text it awaits \<open>analyzeText(text)\<close> and stores
  \<open>analysisResult?.result\<close>; \<open>analyzeText\<close> returns what \<open>mutate\<close> returns.\<close>

definition handle_analyze ::
  "backend \<Rightarrow> int \<Rightarrow> analyzer_ui \<Rightarrow> sentiment_hook \<Rightarrow> event list
     \<Rightarrow> (analyzer_ui \<times> sentiment_hook \<times> event list) option" where
  "handle_analyze be now ui st tr =
     (if js_trim (analyzer_text ui) = [] then Some (ui, st, tr)
      else map_option (\<lambda>(v, st', tr'). (ui\<lparr>analyzer_result := opt_prop v ''result''\<rparr>, st', tr'))
             (analyze_text_action be now (Str (analyzer_text ui)) Undef st tr))"

definition analyze_button_disabled :: "analyzer_ui \<Rightarrow> bool \<Rightarrow> bool" where
  "analyze_button_disabled ui analyzing = (js_trim (analyzer_text ui) = [] \<or> analyzing)"

definition handle_process_comments :: "backend \<Rightarrow> event list \<Rightarrow> event list" where
  "handle_process_comments be tr = process_comments_action be tr"

section \<open>Properties\<close>

lemma match_route_redirect: "match_route p = Redirect q \<Longrightarrow> q = ''/dashboard''"
  by (auto simp: match_route_def route_table_def split: option.splits if_splits)

text \<open>Every path ends on a screen: the table's only redirect and the catch-all both lead
  to the dashboard, which renders.\<close>

lemma every_path_has_screen: "\<exists>s. screen_of p = Some s"
proof -
  have d: "match_route ''/dashboard'' = Render DashboardScreen" by code_simp
  show ?thesis
    by (cases "match_route p") (auto simp: screen_of_def d dest: match_route_redirect)
qed

text \<open>Each navigation link renders a screen, and on that exact path the title is the
  link's name.\<close>

lemma navigation_links_render:
  "\<forall>i\<in>set navigation.
     (case match_route (nav_href i) of Render s \<Rightarrow> True | Redirect q \<Rightarrow> False) \<and> page_title (nav_href i) = nav_name i"
  by code_simp

text \<open>The router ignores a trailing slash, the active-link test does not: on
  \<open>/comments/\<close> the comment list renders under the title "Dashboard".\<close>

lemma trailing_slash_title:
  "screen_of ''/comments/'' = Some CommentsScreen \<and> page_title ''/comments/'' = ascii ''Dashboard''"
  by code_simp

lemma analyze_text_action_value:
  "analyze_text_action be now text lang st tr = Some (v, st', tr') \<Longrightarrow> v = Undef"
  by (auto simp: analyze_text_action_def split: option.splits if_splits prod.splits)

text \<open>After analysing a non-blank text the result panel holds \<open>undefined\<close>, whatever the
  backend answered: the handler awaits the return value of \<open>mutate\<close>.\<close>

lemma handle_analyze_result_undefined:
  "js_trim (analyzer_text ui) \<noteq> [] \<Longrightarrow>
     \<exists>st' tr'. handle_analyze be now ui st tr = Some (ui\<lparr>analyzer_result := Undef\<rparr>, st', tr')"
  by (auto simp: handle_analyze_def analyze_text_action_def opt_prop_def split: prod.splits)

end
