(* ===== verification/Realtime_Monitor.thy ===== *)
theory Realtime_Monitor
  imports Dashboard_Service
begin

text \<open>
  The live monitoring screen, \<open>src/frontend/src/components/RealtimeMonitor.jsx\<close>: a
  query polling \<open>dashboardService.getRealTimeUpdates\<close> every five seconds, whose
  \<open>onSuccess\<close> marks the connection up and stamps the time when the poll returned
  data, and whose \<open>onError\<close> marks it down; four figure cards read from the last
  poll; a system status panel. The clock's time string is a parameter.
\<close>

record monitor =
  connected :: bool
  last_update :: string

definition init_monitor :: "string \<Rightarrow> monitor" where
  "init_monitor now = \<lparr>connected = True, last_update = now\<rparr>"

definition refetch_interval_ms :: nat where
  "refetch_interval_ms = 5000"

text \<open>One poll: the fetch, then \<open>onSuccess\<close> or \<open>onError\<close>. The returned value is the
  query's new data.\<close>

definition monitor_poll :: "backend \<Rightarrow> string \<Rightarrow> monitor \<Rightarrow> event list \<Rightarrow> (jsv option \<times> monitor) \<times> event list" where
  "monitor_poll be now m tr =
     (case get_real_time_updates be now tr of
        (Inr d, tr') \<Rightarrow> ((Some d, if truthy d then m\<lparr>last_update := now, connected := True\<rparr> else m), tr')
      | (Inl e, tr') \<Rightarrow> ((None, m\<lparr>connected := False\<rparr>), tr'))"

text \<open>The polling: one poll per interval, each against the backend and clock of its
  turn.\<close>

fun monitor_run :: "(backend \<times> string) list \<Rightarrow> monitor \<Rightarrow> event list \<Rightarrow> monitor \<times> event list" where
  "monitor_run [] m tr = (m, tr)"
| "monitor_run ((be, now) # ps) m tr = (case monitor_poll be now m tr of ((d, m'), tr') \<Rightarrow> monitor_run ps m' tr')"

text \<open>\<open>x?.toLocaleString() || 0\<close>: the card shows the number when there is one
  (\<open>Some\<close>) and 0 otherwise.\<close>

definition card_value :: "jsv \<Rightarrow> string list \<Rightarrow> jsv option" where
  "card_value d path =
     (let v = fold (\<lambda>k x. opt_prop x k) path d in if v = Undef \<or> v = Null then None else Some v)"

definition realtime_cards :: "jsv \<Rightarrow> jsv option list" where
  "realtime_cards d =
     [card_value d [''comments'', ''total''], card_value d [''comments'', ''unprocessed''],
      card_value d [''sentiments'', ''breakdown'', ''POSITIVE''],
      card_value d [''sentiments'', ''breakdown'', ''NEGATIVE'']]"

datatype service_state = Active | Connected | RateLimited

text \<open>The status panel is written out in the markup; it reads no data.\<close>

definition system_status :: "(string \<times> service_state) list" where
  "system_status =
     [(''API Sunucusu'', Active), (''MongoDB'', Connected), (''Reddit API'', RateLimited),
      (''HuggingFace API'', Active), (''YouTube API'', Connected), (''Grok AI'', Active)]"

section \<open>Properties\<close>

text \<open>The poll never rejects, so \<open>onError\<close> never runs: from a connected state, any
  sequence of polls against any backend leaves the indicator on "connected".\<close>

lemma monitor_poll_connected:
  "connected m \<Longrightarrow> connected (snd (fst (monitor_poll be now m tr)))"
  using real_time_updates_resolves [of be now tr] by (auto simp: monitor_poll_def)

lemma monitor_never_disconnects: "connected m \<Longrightarrow> connected (fst (monitor_run polls m tr))"
proof (induction polls m tr rule: monitor_run.induct)
  case (2 be now ps m tr)
  then show ?case using monitor_poll_connected [OF 2(2), of be now tr]
    by (auto split: prod.splits)
qed simp

text \<open>A failing poll leaves the stamp of the last good poll and turns every card to 0,
  while the indicator still says connected.\<close>

lemma failed_poll_shows_zeros:
  "monitor_poll (\<lambda>_. NoResponse) now m tr = ((Some Null, m), snd (get_real_time_updates (\<lambda>_. NoResponse) now tr)) \<and>
   realtime_cards Null = [None, None, None, None]"
  by (simp add: monitor_poll_def get_real_time_updates_def catch_act_apply bind_act_apply send_all_apply
      act_simps reject_apply realtime_cards_def card_value_def opt_prop_def split: prod.splits)

end
