(* ===== verification/Seed_Data.thy ===== *)
theory Seed_Data
  imports Team_Logos Team_Service
begin

text \<open>
  The database initialisation script, \<open>src/scripts/init-mongo.js\<close>, which the MongoDB
  container runs on its first start: it creates the three collections, inserts the four
  teams and creates the indexes. The database is modelled as the collections it
  holds, the team documents and the index specifications of each collection; MongoDB
  itself is a collaborator, modelled by what the script relies on: \<open>createCollection\<close>
  fails on a name that exists, \<open>insertMany\<close> appends, and \<open>createIndexes\<close> ignores a
  specification that exists. The time stamps \<open>created_at\<close> and \<open>updated_at\<close> are not
  modelled. Names, the league and keywords hold Turkish letters and are code-unit
  strings (\<open>ustr\<close>).
\<close>

record seed_team =
  seed_name :: ustr
  seed_slug :: string
  seed_league :: ustr
  seed_country :: string
  seed_colors :: "string list"
  seed_keywords :: "ustr list"
  seed_subreddits :: "string list"
  seed_active :: bool

text \<open>The league name (with u-umlaut, U+00FC) and the first word of the hyphenated colour keywords of the script.\<close>

definition super_lig :: ustr where
  "super_lig = ascii ''S'' @ [0xFC] @ ascii ''per Lig''"

definition sari :: ustr where
  "sari = ascii ''sar'' @ [0x131]"

definition init_teams :: "seed_team list" where
  "init_teams =
     [\<lparr>seed_name = ascii ''Galatasaray'', seed_slug = ''galatasaray'', seed_league = super_lig,
       seed_country = ''Turkey'', seed_colors = [''#FFA500'', ''#8B0000''],
       seed_keywords = [ascii ''galatasaray'', ascii ''gala'', ascii ''gs'', ascii ''aslan'',
                        sari @ ascii ''-k'' @ [0x131] @ ascii ''rm'' @ [0x131] @ ascii ''z'' @ [0x131]],
       seed_subreddits = [''galatasaray''], seed_active = True\<rparr>,
      \<lparr>seed_name = ascii ''Fenerbah'' @ [0xE7] @ ascii ''e'', seed_slug = ''fenerbahce'', seed_league = super_lig,
       seed_country = ''Turkey'', seed_colors = [''#FFFF00'', ''#000080''],
       seed_keywords = [ascii ''fenerbah'' @ [0xE7] @ ascii ''e'', ascii ''fenerbahce'', ascii ''fener'', ascii ''fb'',
                        ascii ''kanarya'', sari @ ascii ''-lacivert''],
       seed_subreddits = [''fenerbahce''], seed_active = True\<rparr>,
      \<lparr>seed_name = ascii ''Be'' @ [0x15F] @ ascii ''ikta'' @ [0x15F], seed_slug = ''besiktas'', seed_league = super_lig,
       seed_country = ''Turkey'', seed_colors = [''#000000'', ''#FFFFFF''],
       seed_keywords = [ascii ''be'' @ [0x15F] @ ascii ''ikta'' @ [0x15F], ascii ''besiktas'', ascii ''bjk'',
                        ascii ''kartal'', ascii ''siyah-beyaz''],
       seed_subreddits = [''besiktas''], seed_active = True\<rparr>,
      \<lparr>seed_name = ascii ''Trabzonspor'', seed_slug = ''trabzonspor'', seed_league = super_lig,
       seed_country = ''Turkey'', seed_colors = [''#800080'', ''#000080''],
       seed_keywords = [ascii ''trabzonspor'', ascii ''trabzon'', ascii ''ts'', ascii ''bordo-mavi''],
       seed_subreddits = [''trabzonspor''], seed_active = True\<rparr>]"

section \<open>The database\<close>

text \<open>An index specification: the fields with their direction, \<open>1\<close> or \<open>-1\<close>.\<close>

type_synonym index_spec = "(string \<times> int) list"

record mongo_db =
  db_collections :: "string list"
  db_teams :: "seed_team list"
  db_indexes :: "string \<Rightarrow> index_spec list"

datatype db_error = NamespaceExists string

definition empty_db :: mongo_db where
  "empty_db = \<lparr>db_collections = [], db_teams = [], db_indexes = (\<lambda>c. [])\<rparr>"

definition create_collection :: "string \<Rightarrow> mongo_db \<Rightarrow> db_error + mongo_db" where
  "create_collection c db =
     (if c \<in> set (db_collections db) then Inl (NamespaceExists c)
      else Inr (db\<lparr>db_collections := db_collections db @ [c]\<rparr>))"

text \<open>\<open>insertMany\<close> on \<open>teams\<close>; the collection is created by it if it is missing.\<close>

definition insert_teams :: "seed_team list \<Rightarrow> mongo_db \<Rightarrow> mongo_db" where
  "insert_teams ts db =
     db\<lparr>db_collections := (if ''teams'' \<in> set (db_collections db) then db_collections db
                           else db_collections db @ [''teams'']),
        db_teams := db_teams db @ ts\<rparr>"

fun add_indexes :: "index_spec list \<Rightarrow> index_spec list \<Rightarrow> index_spec list" where
  "add_indexes old [] = old"
| "add_indexes old (i # rest) = add_indexes (if i \<in> set old then old else old @ [i]) rest"

definition create_indexes :: "string \<Rightarrow> index_spec list \<Rightarrow> mongo_db \<Rightarrow> mongo_db" where
  "create_indexes c specs db =
     db\<lparr>db_collections := (if c \<in> set (db_collections db) then db_collections db else db_collections db @ [c]),
        db_indexes := (db_indexes db)(c := add_indexes (db_indexes db c) specs)\<rparr>"

definition comments_indexes :: "index_spec list" where
  "comments_indexes =
     [[(''source_id'', 1), (''source'', 1)], [(''created_at'', -1)], [(''team_id'', 1)],
      [(''sentiment.label'', 1)], [(''is_processed'', 1)], [(''has_sentiment'', 1)]]"

definition sentiments_indexes :: "index_spec list" where
  "sentiments_indexes =
     [[(''comment_id'', 1)], [(''team_id'', 1), (''created_at'', -1)], [(''label'', 1)], [(''confidence'', 1)]]"

definition teams_indexes :: "index_spec list" where
  "teams_indexes = [[(''slug'', 1)], [(''is_active'', 1)]]"

text \<open>The script, statement by statement; the first failing statement aborts it.\<close>

definition init_mongo :: "mongo_db \<Rightarrow> db_error + mongo_db" where
  "init_mongo db =
     (case create_collection ''teams'' db of
        Inl e \<Rightarrow> Inl e
      | Inr db1 \<Rightarrow>
     (case create_collection ''comments'' db1 of
        Inl e \<Rightarrow> Inl e
      | Inr db2 \<Rightarrow>
     (case create_collection ''sentiments'' db2 of
        Inl e \<Rightarrow> Inl e
      | Inr db3 \<Rightarrow>
          Inr (create_indexes ''teams'' teams_indexes
                (create_indexes ''sentiments'' sentiments_indexes
                  (create_indexes ''comments'' comments_indexes
                    (insert_teams init_teams db3)))))))"

section \<open>Properties\<close>

lemma create_collection_fresh:
  "c \<notin> set (db_collections db) \<Longrightarrow> create_collection c db = Inr (db\<lparr>db_collections := db_collections db @ [c]\<rparr>)"
  by (simp add: create_collection_def)

text \<open>On an empty database the script succeeds: it leaves the three collections, the
  four teams, and the indexes it lists.\<close>

lemma init_mongo_empty:
  "\<exists>db. init_mongo empty_db = Inr db \<and> db_collections db = [''teams'', ''comments'', ''sentiments''] \<and>
     db_teams db = init_teams \<and> db_indexes db ''comments'' = comments_indexes \<and>
     db_indexes db ''sentiments'' = sentiments_indexes \<and> db_indexes db ''teams'' = teams_indexes"
  by (simp add: init_mongo_def empty_db_def create_collection_def insert_teams_def create_indexes_def
                comments_indexes_def sentiments_indexes_def teams_indexes_def)

lemma init_mongo_collections:
  "init_mongo db = Inr db' \<Longrightarrow> ''teams'' \<in> set (db_collections db')"
  by (auto simp: init_mongo_def create_collection_def insert_teams_def create_indexes_def
           split: sum.splits if_splits)

text \<open>The script cannot be run twice: on the database it leaves, its first statement
  fails. It relies on the container running it only on an empty data directory.\<close>

lemma init_mongo_once:
  "init_mongo db = Inr db' \<Longrightarrow> init_mongo db' = Inl (NamespaceExists ''teams'')"
  using init_mongo_collections [of db db'] by (simp add: init_mongo_def create_collection_def)

text \<open>Every seeded team's name is recognised by the client's logo heuristic as the team
  of the same display name, and its slug is its normalised name.\<close>

lemma seed_names_recognised:
  "map (\<lambda>s. map_option team_name (get_team_logo (Some (seed_name s)))) init_teams =
     map (\<lambda>s. Some (seed_name s)) init_teams"
  by code_simp

lemma seed_slug_normalised: "map (\<lambda>s. ascii (seed_slug s)) init_teams = map (\<lambda>s. normalize_name (seed_name s)) init_teams"
  by code_simp

lemma seed_slugs_distinct: "distinct (map seed_slug init_teams)"
  by code_simp

text \<open>The colours of \<open>teamService.getTeamColors\<close> are the seeded colours of each slug;
  those of \<open>teamLogos.jsx\<close> differ for two teams.\<close>

lemma seed_colors_service:
  "map (\<lambda>s. service_team_colors (Str (seed_slug s))) init_teams =
     map (\<lambda>s. SlugColors (seed_colors s ! 0) (seed_colors s ! 1)) init_teams"
  by code_simp

lemma seed_colors_logos_differ:
  "[s\<leftarrow>init_teams. map_option (\<lambda>t. primary (team_colors t)) (get_team_logo (Some (seed_name s))) \<noteq>
                   Some (seed_colors s ! 0)] = [init_teams ! 0, init_teams ! 3]"
  by code_simp

end
