(* ===== verification/Team_Comparison.thy ===== *)
theory Team_Comparison
  imports Complex_Main Team_Service Team_Logos Query_Cache
begin

text \<open>
  The team comparison screen, \<open>src/frontend/src/components/TeamComparison.jsx\<close>: the
  selected period, the query it keys and fetches through \<open>teamService.getTeamComparison\<close>,
  and the decisions each team card makes: its colours (\<open>getTeamColors\<close>), the score
  shown as a whole percentage (\<open>(avg_sentiment * 100).toFixed(0)\<close>) and the trend
  class. The rows of the comparison payload are modelled as typed records: the team
  name as a code-unit string (\<open>None\<close> when it is missing), the average score as an
  exact rational. The charts and the markup are not modelled.
\<close>

record comparison_row =
  cr_id :: jsv
  cr_name :: "ustr option"
  cr_ranking :: int
  cr_avg :: rat
  cr_total :: int

definition period_options :: "(string \<times> ustr) list" where
  "period_options =
     [(''7'', ascii ''Son 7 G'' @ [0xFC] @ ascii ''n''), (''30'', ascii ''Son 30 G'' @ [0xFC] @ ascii ''n''),
      (''90'', ascii ''Son 3 Ay'')]"

definition init_period :: string where
  "init_period = ''7''"

definition comparison_query_options :: query_options where
  "comparison_query_options = \<lparr>keep_previous = False, stale_time = 300000\<rparr>"

definition comparison_key :: "string \<Rightarrow> string \<times> string" where
  "comparison_key period = (''team-comparison'', period)"

section \<open>Fetching\<close>

definition is_digit :: "char \<Rightarrow> bool" where
  "is_digit c = (48 \<le> (of_char c :: nat) \<and> (of_char c :: nat) \<le> 57)"

definition dec_value :: "string \<Rightarrow> nat" where
  "dec_value ds = foldl (\<lambda>n c. 10 * n + (of_char c - 48 :: nat)) 0 ds"

text \<open>\<open>parseInt(s)\<close> in base ten: leading white space, an optional sign, then the
  longest run of digits; \<open>None\<close> is \<open>NaN\<close>.\<close>

definition parse_int :: "string \<Rightarrow> int option" where
  "parse_int s =
     (let t = dropWhile js_space s;
          neg = (take 1 t = ''-'');
          u = (if take 1 t = ''-'' \<or> take 1 t = ''+'' then drop 1 t else t);
          ds = takeWhile is_digit u
      in if ds = [] then None else Some (if neg then - int (dec_value ds) else int (dec_value ds)))"

text \<open>The query function: \<open>getTeamComparison(parseInt(selectedPeriod))\<close>. The service
  computes a start date from its argument and never uses it, so a \<open>NaN\<close> argument is
  passed on as \<open>undefined\<close>, which the service treats the same way.\<close>

definition comparison_fetch :: "backend \<Rightarrow> string \<Rightarrow> jsv act" where
  "comparison_fetch be period =
     team_get_team_comparison be (case parse_int period of Some n \<Rightarrow> Num n | None \<Rightarrow> Undef)"

section \<open>The cards\<close>

text \<open>\<open>x.toFixed(0)\<close>: the nearest integer, a tie going away from zero, and a minus sign
  for every negative \<open>x\<close>, even when the digits are \<open>0\<close>.\<close>

definition to_fixed_0 :: "rat \<Rightarrow> string" where
  "to_fixed_0 x =
     (if x < 0 then CHR ''-'' # nat_to_dec (nat \<lfloor>- x + 1 / 2\<rfloor>) else nat_to_dec (nat \<lfloor>x + 1 / 2\<rfloor>))"

definition percent_text :: "rat \<Rightarrow> string" where
  "percent_text avg = to_fixed_0 (avg * 100) @ ''%''"

datatype card_trend = TrendPositive | TrendNeutral | TrendNegative

definition card_trend :: "rat \<Rightarrow> card_trend" where
  "card_trend avg = (if 7 / 10 \<le> avg then TrendPositive else if 4 / 10 \<le> avg then TrendNeutral else TrendNegative)"

record team_card =
  card_colors :: team_colors
  card_name :: "ustr option"
  card_rank :: int
  card_percent :: string
  card_total :: int
  card_trend_of :: card_trend

definition team_card :: "comparison_row \<Rightarrow> team_card" where
  "team_card r =
     \<lparr>card_colors = get_team_colors (cr_name r), card_name = cr_name r, card_rank = cr_ranking r,
      card_percent = percent_text (cr_avg r), card_total = cr_total r, card_trend_of = card_trend (cr_avg r)\<rparr>"

datatype comparison_view = ComparisonSkeleton nat | ComparisonCards "comparison_row list" "team_card list"

text \<open>The page body: four skeleton cards while loading, else the chart with
  \<open>teamComparison?.teams || []\<close> and one card per team (none when \<open>teams\<close> is missing).\<close>

definition comparison_view :: "bool \<Rightarrow> comparison_row list option \<Rightarrow> comparison_view" where
  "comparison_view loading teams =
     (if loading then ComparisonSkeleton 4
      else case teams of
             None \<Rightarrow> ComparisonCards [] []
           | Some ts \<Rightarrow> ComparisonCards ts (map team_card ts))"

section \<open>Properties\<close>

text \<open>The three periods parse to their numbers of days, and have distinct cache keys, but
  every period sends the same request: the selected period changes nothing but the key.\<close>

lemma period_options_parse: "map (\<lambda>(v, l). parse_int v) period_options = [Some 7, Some 30, Some 90]"
  by code_simp

lemma comparison_keys_distinct: "distinct (map (\<lambda>(v, l). comparison_key v) period_options)"
  by code_simp

lemma comparison_fetch_ignores_period: "comparison_fetch be p = comparison_fetch be q"
  by (simp add: comparison_fetch_def team_get_team_comparison_def)

lemma round_half_bounds:
  fixes y :: rat
  assumes "0 \<le> y"
  shows "of_nat (nat \<lfloor>y + 1 / 2\<rfloor>) - 1 / 2 \<le> y \<and> y < of_nat (nat \<lfloor>y + 1 / 2\<rfloor>) + 1 / 2"
proof -
  have k0: "0 \<le> \<lfloor>y + 1 / 2\<rfloor>" using assms by simp
  have e: "of_nat (nat \<lfloor>y + 1 / 2\<rfloor>) = (of_int \<lfloor>y + 1 / 2\<rfloor> :: rat)" using k0 by simp
  show ?thesis using floor_correct [of "y + 1 / 2"] unfolding e by linarith
qed

lemma to_fixed_0_nonneg:
  assumes "0 \<le> x"
  shows "\<exists>n. to_fixed_0 x = nat_to_dec n \<and> of_nat n - 1 / 2 \<le> x \<and> x < of_nat n + 1 / 2"
  using round_half_bounds [OF assms] assms by (auto simp: to_fixed_0_def)

text \<open>A score between 0 and 1 is shown as a whole percentage from 0 to 100, within half
  a point of the exact value.\<close>

lemma percent_text_range:
  assumes "0 \<le> avg" "avg \<le> 1"
  shows "\<exists>n \<le> 100. percent_text avg = nat_to_dec n @ ''%'' \<and> of_nat n - 1 / 2 \<le> avg * 100 \<and> avg * 100 < of_nat n + 1 / 2"
proof -
  obtain n where n: "to_fixed_0 (avg * 100) = nat_to_dec n" "of_nat n - 1 / 2 \<le> avg * 100" "avg * 100 < of_nat n + 1 / 2"
    using to_fixed_0_nonneg [of "avg * 100"] assms by auto
  have "of_nat n < (101 :: rat)" using n(2) assms(2) by linarith
  then have "n \<le> 100" by simp
  then show ?thesis using n by (auto simp: percent_text_def)
qed

text \<open>A slightly negative score shows as \<open>-0%\<close>.\<close>

lemma percent_negative_zero: "percent_text (- 1 / 1000) = ''-0%''"
  by code_simp

lemma card_trend_mono:
  "x \<le> y \<Longrightarrow> (card_trend x = TrendPositive \<longrightarrow> card_trend y = TrendPositive) \<and>
               (card_trend y = TrendNegative \<longrightarrow> card_trend x = TrendNegative)"
  by (auto simp: card_trend_def split: if_splits)

end
