(* ===== verification/Dashboard_Screen.thy ===== *)
theory Dashboard_Screen
  imports Dashboard_Service Sentiment_Metrics Team_Comparison
begin

text \<open>
  The dashboard screen, \<open>src/frontend/src/components/Dashboard.jsx\<close>: the manual refresh
  (\<open>handleRefresh\<close>, which runs four steps in sequence, each in its own \<open>try\<close>), the two
  collection calls it makes with \<open>fetch\<close> rather than through the API client, the four
  statistics cards, the distribution chart's counts and the ranked team list.
  \<^item> A \<open>fetch\<close> call goes to the same backend as the API client but passes no
    interceptor: it logs nothing and shows no toast. Its rejection is the \<open>Error\<close>
    the code throws, or the \<open>TypeError\<close> of a failed network request; both are
    carried as \<open>ApiMessage\<close> with their message. The body of a response is taken to
    parse as JSON.
  \<^item> \<open>refetchDashboard\<close> is React Query's \<open>refetch\<close>, which resolves whether the query
    function fails or not (the failure goes to the query's \<open>onError\<close>). It is modelled
    as one attempt; the library's retries are not modelled.
  \<^item> \<open>error_message\<close> is \<open>error.message\<close> of what the API client rejects with: the
    backend's message, or axios's texts for a status, a missing response and a setup
    failure, or the engine's text for the \<open>TypeError\<close> of a \<open>null\<close> body (V8's).
  The markup, icons and charts are not modelled.
\<close>

fun error_message :: "api_error \<Rightarrow> string" where
  "error_message (ApiMessage m) = m"
| "error_message (ApiAxios (AxHttp s d)) = ''Request failed with status code '' @ int_to_dec s"
| "error_message (ApiAxios AxNoResponse) = ''Network Error''"
| "error_message (ApiAxios (AxSetup m)) = m"
| "error_message (ApiAxios AxTypeError) = ''Cannot read properties of null''"

section \<open>Collecting data with fetch\<close>

definition collect_request :: "string \<Rightarrow> request" where
  "collect_request path = \<lparr>req_method = POST, req_url = ''/'' @ path @ ''/collect'', req_body = Undef\<rparr>"

text \<open>\<open>collectRedditData\<close> and \<open>collectYouTubeData\<close>, which differ only in the path and
  the name in their texts.\<close>

definition fetch_collect :: "backend \<Rightarrow> string \<Rightarrow> string \<Rightarrow> jsv act" where
  "fetch_collect be path name =
     catch_act
       (bind_act (emit (Send (collect_request path))) (\<lambda>_.
          case be (collect_request path) of
            Response s d \<Rightarrow>
              if 200 \<le> s \<and> s < 300 then bind_act (emit (LogInfo (name @ '' data collected:''))) (\<lambda>_. ret d)
              else throw_err (ApiMessage (name @ '' API error: '' @ int_to_dec s))
          | NoResponse \<Rightarrow> throw_err (ApiMessage ''Failed to fetch'')
          | SetupFailure m \<Rightarrow> throw_err (ApiMessage m)))
       (\<lambda>e. bind_act (emit (LogError (''Error collecting '' @ name @ '' data:''))) (\<lambda>_. throw_err e))"

definition collect_reddit :: "backend \<Rightarrow> jsv act" where
  "collect_reddit be = fetch_collect be ''reddit'' ''Reddit''"

definition collect_youtube :: "backend \<Rightarrow> jsv act" where
  "collect_youtube be = fetch_collect be ''youtube'' ''YouTube''"

section \<open>The manual refresh\<close>

text \<open>\<open>refetchDashboard()\<close>: the query function runs; its failure is logged by
  \<open>onError\<close> and the returned promise resolves all the same.\<close>

definition refetch_dashboard :: "backend \<Rightarrow> unit act" where
  "refetch_dashboard be =
     catch_act (bind_act (get_dashboard_data be) (\<lambda>_. ret ()))
       (\<lambda>e. bind_act (emit (LogError ''Error fetching dashboard data:'')) (\<lambda>_. ret ()))"

text \<open>One step of the refresh: \<open>try { await m; toast(ok) } catch (error) {
  console.error(log, error); toast.error(text + error.message) }\<close>.\<close>

definition refresh_step :: "unit act \<Rightarrow> msg \<Rightarrow> (string \<Rightarrow> msg) \<Rightarrow> string \<Rightarrow> unit act" where
  "refresh_step m ok fail label =
     catch_act (bind_act m (\<lambda>_. emit (Toast ToastInfo ok)))
       (\<lambda>e. bind_act (emit (LogError label)) (\<lambda>_. emit (Toast ToastError (fail (error_message e)))))"

definition ignore_value :: "'a act \<Rightarrow> unit act" where
  "ignore_value m = bind_act m (\<lambda>_. ret ())"

definition refresh_body :: "backend \<Rightarrow> unit act" where
  "refresh_body be =
     bind_act (emit (Toast ToastInfo MsgRefreshStarted)) (\<lambda>_.
     bind_act (refresh_step (refetch_dashboard be) MsgDashboardUpdated MsgDashboardUpdateFailed
                 ''Dashboard fetch error:'') (\<lambda>_.
     bind_act (refresh_step (ignore_value (collect_reddit be)) MsgRedditCollected MsgRedditCollectFailed
                 ''Reddit collection error:'') (\<lambda>_.
     bind_act (refresh_step (ignore_value (collect_youtube be)) MsgYouTubeCollected MsgYouTubeCollectFailed
                 ''YouTube collection error:'') (\<lambda>_.
     bind_act (refresh_step (ignore_value (reddit_restart_stream be)) MsgStreamRestarted MsgStreamRestartFailed
                 ''Reddit stream restart error:'') (\<lambda>_.
     emit (Toast ToastSuccess MsgAllDone))))))"

text \<open>\<open>handleRefresh\<close>: \<open>isRefreshing\<close> is set for the run and cleared by \<open>finally\<close>.\<close>

definition handle_refresh :: "backend \<Rightarrow> event list \<Rightarrow> bool \<times> event list" where
  "handle_refresh be tr =
     (False,
      snd (catch_act (refresh_body be)
             (\<lambda>e. bind_act (emit (LogError ''General refresh error:''))
                    (\<lambda>_. emit (Toast ToastError (MsgGeneralError (error_message e))))) tr))"

section \<open>The statistics cards\<close>

datatype card_arrow = ArrowUp | ArrowDown | ArrowFlat

record stat_card =
  sc_title :: ustr
  sc_value :: jsv
  sc_change :: string
  sc_arrow :: card_arrow
  sc_color :: string
  sc_percentage :: bool

text \<open>\<open>statsCards\<close>, from the comment statistics (\<open>undefined\<close> until they arrive), the
  overall score and trend of \<open>useSentiment\<close>, and the team comparison. The score card
  shows \<open>overallSentimentScore || 50\<close> but takes its colour from the score itself.\<close>

definition stats_cards :: "jsv \<Rightarrow> int \<Rightarrow> trend \<Rightarrow> jsv \<Rightarrow> stat_card list" where
  "stats_cards comment_stats score tr team_comparison =
     [\<lparr>sc_title = ascii ''Toplam Yorum'', sc_value = js_or (opt_prop comment_stats ''total_comments'') (Num 0),
       sc_change = ''+12%'', sc_arrow = ArrowUp, sc_color = ''blue'', sc_percentage = False\<rparr>,
      \<lparr>sc_title = [0x130, 0x15F] @ ascii ''lenen Yorum'', sc_value = js_or (opt_prop comment_stats ''processed_comments'') (Num 0),
       sc_change = ''+8%'', sc_arrow = ArrowUp, sc_color = ''green'', sc_percentage = False\<rparr>,
      \<lparr>sc_title = ascii ''Duygu Skoru'', sc_value = js_or (Num score) (Num 50),
       sc_change = (case tr of Improving \<Rightarrow> ''+5%'' | Declining \<Rightarrow> ''-3%'' | Stable \<Rightarrow> ''0%''),
       sc_arrow = (case tr of Improving \<Rightarrow> ArrowUp | Declining \<Rightarrow> ArrowDown | Stable \<Rightarrow> ArrowFlat),
       sc_color = (if 70 \<le> score then ''green'' else if 40 \<le> score then ''yellow'' else ''red''),
       sc_percentage = True\<rparr>,
      \<lparr>sc_title = ascii ''Aktif Tak'' @ [0x131] @ ascii ''m'',
       sc_value = js_or (opt_prop (opt_prop team_comparison ''teams'') ''length'') (Num 0),
       sc_change = ''0%'', sc_arrow = ArrowFlat, sc_color = ''purple'', sc_percentage = False\<rparr>]"

text \<open>The distribution chart's data, in the order positive, neutral, negative.\<close>

definition chart_counts :: "breakdown_view option \<Rightarrow> int list" where
  "chart_counts bv =
     (case bv of
        None \<Rightarrow> [0, 0, 0]
      | Some b \<Rightarrow> [share_count (bv_positive b), share_count (bv_neutral b), share_count (bv_negative b)])"

text \<open>One card as rendered: the title, the value (\<open>`${value}%`\<close> for the percentage card,
  \<open>value.toLocaleString()\<close> otherwise, \<open>loc\<close> being the browser's locale text), the
  arrow and the change text.\<close>

definition card_view :: "(jsv \<Rightarrow> string) \<Rightarrow> stat_card \<Rightarrow> ustr \<times> string \<times> card_arrow \<times> string" where
  "card_view loc c =
     (sc_title c, if sc_percentage c then js_to_string (sc_value c) @ ''%'' else loc (sc_value c), sc_arrow c, sc_change c)"

text \<open>The refresh button: disabled, spinning and relabelled while \<open>isRefreshing\<close>.\<close>

datatype refresh_label = CollectingLabel | CollectAndRefreshLabel

definition refresh_button :: "bool \<Rightarrow> bool \<times> refresh_label" where
  "refresh_button refreshing = (refreshing, if refreshing then CollectingLabel else CollectAndRefreshLabel)"

section \<open>The ranked team list\<close>

datatype medal = MedalGold | MedalSilver | MedalBronze | MedalPlain

definition medal_of :: "nat \<Rightarrow> medal" where
  "medal_of i = (if i = 0 then MedalGold else if i = 1 then MedalSilver else if i = 2 then MedalBronze else MedalPlain)"

record ranked_entry =
  re_place :: nat
  re_medal :: medal
  re_name :: "ustr option"
  re_total :: int
  re_percent :: string
  re_trend :: card_trend

definition ranked_entry :: "nat \<Rightarrow> comparison_row \<Rightarrow> ranked_entry" where
  "ranked_entry i r =
     \<lparr>re_place = i + 1, re_medal = medal_of i, re_name = cr_name r, re_total = cr_total r,
      re_percent = percent_text (cr_avg r), re_trend = card_trend (cr_avg r)\<rparr>"

datatype team_list_view = TeamListSkeleton nat | TeamListEntries "ranked_entry list" | TeamListWaiting

text \<open>Skeleton rows while the comparison loads, the first five teams in the order of the
  payload when there are any, and the text "loading team comparison data" otherwise.\<close>

definition team_list_view :: "bool \<Rightarrow> comparison_row list option \<Rightarrow> team_list_view" where
  "team_list_view loading teams =
     (if loading then TeamListSkeleton 4
      else case teams of
             Some ts \<Rightarrow> if ts \<noteq> [] then TeamListEntries (map2 ranked_entry [0..<length (take 5 ts)] (take 5 ts))
                        else TeamListWaiting
           | None \<Rightarrow> TeamListWaiting)"

definition dashboard_loading :: "bool \<Rightarrow> bool \<Rightarrow> bool \<Rightarrow> bool" where
  "dashboard_loading sentiment_loading data_loading comment_stats_loading =
     (sentiment_loading \<or> data_loading \<or> comment_stats_loading)"

section \<open>Properties\<close>

subsection \<open>The refresh steps never fail\<close>

lemma refresh_step_ok:
  "fst (m tr) = Inr () \<Longrightarrow> refresh_step m ok fail label tr = (Inr (), snd (m tr) @ [Toast ToastInfo ok])"
  by (cases "m tr") (simp add: refresh_step_def effect_simps)

lemma refresh_step_failed:
  "fst (m tr) = Inl e \<Longrightarrow>
     refresh_step m ok fail label tr = (Inr (), snd (m tr) @ [LogError label, Toast ToastError (fail (error_message e))])"
  by (cases "m tr") (simp add: refresh_step_def effect_simps)

lemma refresh_step_total: "\<exists>new. refresh_step m ok fail label tr = (Inr (), snd (m tr) @ new)"
  by (cases "fst (m tr)") (auto simp: refresh_step_ok refresh_step_failed)

lemma refetch_dashboard_total: "fst (refetch_dashboard be tr) = Inr ()"
  by (simp add: refetch_dashboard_def effect_simps split: prod.splits sum.splits)

lemma extends_fetch_collect [intro]: "extends (fetch_collect be p n)"
  unfolding fetch_collect_def by (intro extends_catch extends_bind) (auto split: outcome.splits)

lemma extends_refetch_dashboard [intro]: "extends (refetch_dashboard be)"
  unfolding refetch_dashboard_def get_dashboard_data_def api_get_def by blast

lemma extends_ignore_value [intro]: "extends m \<Longrightarrow> extends (ignore_value m)"
  unfolding ignore_value_def by blast

lemma refresh_step_extends:
  assumes "extends m"
  shows "\<exists>new. refresh_step m ok fail label tr = (Inr (), tr @ new)"
proof -
  obtain new where n: "snd (m tr) = tr @ new" using extends_apply [OF assms] by blast
  obtain new' where "refresh_step m ok fail label tr = (Inr (), snd (m tr) @ new')"
    using refresh_step_total by blast
  then show ?thesis using n by (metis append.assoc)
qed

lemma refresh_steps_extend:
  "\<exists>new. refresh_step (refetch_dashboard be) ok fail label tr = (Inr (), tr @ new)"
  "\<exists>new. refresh_step (ignore_value (collect_reddit be)) ok fail label tr = (Inr (), tr @ new)"
  "\<exists>new. refresh_step (ignore_value (collect_youtube be)) ok fail label tr = (Inr (), tr @ new)"
  "\<exists>new. refresh_step (ignore_value (reddit_restart_stream be)) ok fail label tr = (Inr (), tr @ new)"
  unfolding collect_reddit_def collect_youtube_def reddit_restart_stream_def api_post_def
  by (auto intro!: refresh_step_extends)

lemma refresh_body_trace:
  "\<exists>rest. refresh_body be tr =
     (Inr (), snd (refetch_dashboard be (tr @ [Toast ToastInfo MsgRefreshStarted])) @
              Toast ToastInfo MsgDashboardUpdated # rest @ [Toast ToastSuccess MsgAllDone])"
proof -
  let ?R = "snd (refetch_dashboard be (tr @ [Toast ToastInfo MsgRefreshStarted])) @ [Toast ToastInfo MsgDashboardUpdated]"
  have s1: "refresh_step (refetch_dashboard be) MsgDashboardUpdated MsgDashboardUpdateFailed
                 ''Dashboard fetch error:'' (tr @ [Toast ToastInfo MsgRefreshStarted]) = (Inr (), ?R)"
    by (rule refresh_step_ok [OF refetch_dashboard_total])
  obtain n2 where s2: "refresh_step (ignore_value (collect_reddit be)) MsgRedditCollected MsgRedditCollectFailed
                 ''Reddit collection error:'' ?R = (Inr (), ?R @ n2)"
    using refresh_steps_extend(2) [where tr = ?R] by blast
  obtain n3 where s3: "refresh_step (ignore_value (collect_youtube be)) MsgYouTubeCollected MsgYouTubeCollectFailed
                 ''YouTube collection error:'' (?R @ n2) = (Inr (), (?R @ n2) @ n3)"
    using refresh_steps_extend(3) [where tr = "?R @ n2"] by blast
  obtain n4 where s4: "refresh_step (ignore_value (reddit_restart_stream be)) MsgStreamRestarted MsgStreamRestartFailed
                 ''Reddit stream restart error:'' ((?R @ n2) @ n3) = (Inr (), ((?R @ n2) @ n3) @ n4)"
    using refresh_steps_extend(4) [where tr = "(?R @ n2) @ n3"] by blast
  have "refresh_body be tr = (Inr (), ?R @ n2 @ n3 @ n4 @ [Toast ToastSuccess MsgAllDone])"
    by (simp add: refresh_body_def bind_act_apply s1 [simplified] s2 [simplified] s3 [simplified] s4 [simplified]
                  effect_simps)
  then show ?thesis by auto
qed

text \<open>The refresh never fails: whatever the backend answers, it ends with the
  "all done" toast and never reaches its general error handler.\<close>

lemma refresh_body_total:
  "\<exists>new. refresh_body be tr = (Inr (), tr @ Toast ToastInfo MsgRefreshStarted # new @ [Toast ToastSuccess MsgAllDone])"
proof -
  obtain r where r: "snd (refetch_dashboard be (tr @ [Toast ToastInfo MsgRefreshStarted])) =
                     (tr @ [Toast ToastInfo MsgRefreshStarted]) @ r"
    using extends_apply [OF extends_refetch_dashboard] by blast
  show ?thesis using refresh_body_trace [of be tr] unfolding r by auto
qed

lemma handle_refresh_trace:
  "handle_refresh be tr = (False, snd (refresh_body be tr))"
proof -
  obtain new where "refresh_body be tr = (Inr (), new)" using refresh_body_total by blast
  then show ?thesis by (simp add: handle_refresh_def catch_act_apply)
qed

text \<open>C37: Whatever the backend answers, the refresh clears its spinner and ends with the
  success toast "all done"; and right after the dashboard refetch, even a failed one,
  it reports the dashboard data as updated.\<close>

theorem refresh_always_reports_success:
  "\<exists>rest. handle_refresh be tr =
     (False, snd (refetch_dashboard be (tr @ [Toast ToastInfo MsgRefreshStarted])) @
             Toast ToastInfo MsgDashboardUpdated # rest @ [Toast ToastSuccess MsgAllDone])"
  using refresh_body_trace [of be tr] by (auto simp: handle_refresh_trace)

definition toasts :: "event list \<Rightarrow> event list" where
  "toasts tr = filter (\<lambda>e. case e of Toast k m \<Rightarrow> True | _ \<Rightarrow> False) tr"

text \<open>With the backend unreachable, the toasts of a refresh: the interceptor's and the
  steps' errors, between which the dashboard is reported updated and the run all done.\<close>

lemma refresh_offline_toasts:
  "toasts (snd (handle_refresh (\<lambda>_. NoResponse) [])) =
     [Toast ToastInfo MsgRefreshStarted, Toast ToastError MsgUnreachable, Toast ToastInfo MsgDashboardUpdated,
      Toast ToastError (MsgRedditCollectFailed ''Failed to fetch''),
      Toast ToastError (MsgYouTubeCollectFailed ''Failed to fetch''),
      Toast ToastError MsgUnreachable, Toast ToastError (MsgStreamRestartFailed ''Network Error''),
      Toast ToastSuccess MsgAllDone]"
  by code_simp

text \<open>A collection call that gets a non-2xx answer rejects with the status in its
  message, having logged but shown nothing: \<open>fetch\<close> bypasses the interceptors.\<close>

lemma fetch_collect_http_error:
  assumes "be (collect_request path) = Response s d" and "\<not> (200 \<le> s \<and> s < 300)"
  shows "fetch_collect be path name tr =
           (Inl (ApiMessage (name @ '' API error: '' @ int_to_dec s)),
            tr @ [Send (collect_request path), LogError (''Error collecting '' @ name @ '' data:'')])"
  using assms by (simp add: fetch_collect_def effect_simps)

lemma fetch_collect_ok:
  assumes "be (collect_request path) = Response s d" and "200 \<le> s \<and> s < 300"
  shows "fetch_collect be path name tr = (Inr d, tr @ [Send (collect_request path), LogInfo (name @ '' data collected:'')])"
  using assms by (simp add: fetch_collect_def effect_simps)

section \<open>Cards and lists\<close>

text \<open>A score of 0 is shown as 50, the neutral default, in the red of a low score.\<close>

lemma zero_score_card:
  "sc_value (stats_cards cs 0 t tc ! 2) = Num 50 \<and> sc_color (stats_cards cs 0 t tc ! 2) = ''red''"
  by (simp add: stats_cards_def js_or_def)

lemma zero_score_card_text:
  "fst (snd (card_view loc (stats_cards cs 0 t tc ! 2))) = ''50%''"
  by (simp add: card_view_def stats_cards_def js_or_def int_to_dec_def nat_to_dec.simps)

lemma score_card_shows_score:
  "score \<noteq> 0 \<Longrightarrow> sc_value (stats_cards cs score t tc ! 2) = Num score"
  by (simp add: stats_cards_def js_or_def)

lemma active_teams_card:
  "sc_value (stats_cards cs score t (Obj [(''teams'', Arr ts)]) ! 3) = (if ts = [] then Num 0 else Num (int (length ts)))"
  by (simp add: stats_cards_def js_or_def obj_get_def opt_prop_def)

text \<open>The ranked list shows the first five teams of the payload, numbered from 1 in
  order, with the medals on the first three, and each with the percentage and trend its
  comparison card shows.\<close>

lemma ranked_list:
  assumes "team_list_view False (Some ts) = TeamListEntries es"
  shows "length es = min 5 (length ts) \<and> map re_place es = [1..<length es + 1] \<and>
         map re_name es = map cr_name (take 5 ts) \<and>
         map re_medal (take 3 es) = take (length es) [MedalGold, MedalSilver, MedalBronze] \<and>
         map re_percent es = map (\<lambda>r. card_percent (team_card r)) (take 5 ts) \<and>
         map re_trend es = map (\<lambda>r. card_trend_of (team_card r)) (take 5 ts)"
proof -
  let ?xs = "take 5 ts"
  have es: "es = map2 ranked_entry [0..<length ?xs] ?xs"
    using assms by (simp add: team_list_view_def split: if_splits)
  have nth: "\<And>f. map f es = map (\<lambda>i. f (ranked_entry i (?xs ! i))) [0..<length ?xs]"
    unfolding es by (rule nth_equalityI) simp_all
  have len: "length es = min 5 (length ts)" by (simp add: es)
  have "map re_place es = map Suc [0..<length es]"
    by (rule nth_equalityI) (simp_all add: es ranked_entry_def)
  then have pl: "map re_place es = [1..<length es + 1]" by (simp add: map_Suc_upt)
  have md: "map re_medal (take 3 es) = take (length es) [MedalGold, MedalSilver, MedalBronze]"
  proof -
    have "length es \<le> 5" using len by simp
    then consider "length es = 0" | "length es = 1" | "length es = 2" | "length es = 3" | "length es = 4" | "length es = 5"
      by linarith
    then show ?thesis
      by cases (auto simp add: take_map [symmetric] nth upt_rec ranked_entry_def medal_of_def len min_def split: if_splits)
  qed
  have f: "map f es = map g ?xs" if h: "\<And>i r. f (ranked_entry i r) = g r" for f g
    by (rule nth_equalityI) (simp_all add: es h)
  show ?thesis
    by (intro conjI len pl md f) (simp_all add: ranked_entry_def team_card_def)
qed

text \<open>An empty comparison shows the same "loading team comparison data" text as a
  missing one, and keeps showing it.\<close>

lemma empty_team_list_waiting:
  "team_list_view False (Some []) = TeamListWaiting \<and> team_list_view False None = TeamListWaiting"
  by (simp add: team_list_view_def)

end
