(* ===== verification/Trend_Analysis.thy ===== *)
theory Trend_Analysis
  imports Complex_Main Sentiment_Service Sentiment_Hook Dashboard_Screen
begin

text \<open>
  The trend analysis screen, \<open>src/frontend/src/components/TrendAnalysis.jsx\<close>.
  \<^item> \<open>loadTrendData\<close> fetches the trend analysis and the insights of the selected period
    in parallel (\<open>Promise.all\<close> over two \<open>apiClient.get\<close> calls, modelled with
    \<open>send_all\<close>), with a time stamp in the query to defeat caches; the clock reading and
    the time of day shown in the toast are parameters.
  \<^item> \<open>downloadReport\<close> fetches the executive report with \<open>fetch\<close>; creating the object
    URL and clicking the hidden link are the download of a file with the name it
    computes.
  \<^item> The chart helpers, the trend and insight selectors and the weekly change text
    are functions of the payload. Dates are not formatted: a chart label is the
    \<open>date\<close> value of the payload.
\<close>

section \<open>Loading\<close>

definition trend_requests :: "string \<Rightarrow> int \<Rightarrow> request list" where
  "trend_requests period t =
     [\<lparr>req_method = GET, req_url = ''/trends/analysis?period='' @ period @ ''&t='' @ int_to_dec t, req_body = Undef\<rparr>,
      \<lparr>req_method = GET, req_url = ''/trends/insights?period='' @ period @ ''&t='' @ int_to_dec t, req_body = Undef\<rparr>]"

text \<open>The result is the new \<open>trendData\<close> and \<open>insights\<close>, or \<open>None\<close> when the \<open>catch\<close>
  ran and both stay as they were.\<close>

definition load_trend_data :: "backend \<Rightarrow> string \<Rightarrow> int \<Rightarrow> string \<Rightarrow> (jsv \<times> jsv) option act" where
  "load_trend_data be period t time =
     bind_act (emit (LogInfo ''[TrendAnalysis] Loading data with timestamp:'')) (\<lambda>_.
       catch_act
         (bind_act (send_all be (trend_requests period t)) (\<lambda>rs.
            case rs of
              [trends, ins] \<Rightarrow>
                bind_act (emit (LogInfo ''[TrendAnalysis] Received trends data:'')) (\<lambda>_.
                bind_act (emit (LogInfo ''[TrendAnalysis] Received insights data:'')) (\<lambda>_.
                bind_act (emit (Toast ToastSuccess (MsgTrendUpdated time))) (\<lambda>_.
                ret (Some (trends, js_or (opt_prop ins ''insights'') (Arr []))))))
            | _ \<Rightarrow> ret None))
         (\<lambda>e. bind_act (emit (LogError ''Trend data loading error:'')) (\<lambda>_.
                bind_act (emit (Toast ToastError MsgTrendLoadFailed)) (\<lambda>_. ret None))))"

section \<open>Downloading a report\<close>

datatype download = Download string

definition report_request :: "string \<Rightarrow> string \<Rightarrow> request" where
  "report_request period format =
     \<lparr>req_method = GET, req_url = ''/reports/executive/download?period='' @ period @ ''&format='' @ format,
      req_body = Undef\<rparr>"

definition report_file_name :: "string \<Rightarrow> string \<Rightarrow> string" where
  "report_file_name period format =
     ''executive-report-'' @ period @ ''.'' @ (if format = ''json'' then ''json'' else ''html'')"

definition ascii_upper_str :: "string \<Rightarrow> string" where
  "ascii_upper_str s = map ascii_upper s"

text \<open>The message of the error thrown on a non-2xx answer, "the report could not be created".\<close>

definition report_not_created :: ustr where
  "report_not_created = ascii ''Rapor olu'' @ [0x15F] @ ascii ''turulamad'' @ [0x131]"

text \<open>The downloaded file, if any; the promise of \<open>downloadReport\<close> always resolves.\<close>

definition download_report :: "backend \<Rightarrow> string \<Rightarrow> string \<Rightarrow> event list \<Rightarrow> download option \<times> event list" where
  "download_report be period format tr =
     (let r = report_request period format; tr1 = tr @ [Send r] in
      case be r of
        Response s d \<Rightarrow>
          if 200 \<le> s \<and> s < 300
          then (Some (Download (report_file_name period format)),
                tr1 @ [Toast ToastSuccess (MsgReportDownloaded (ascii_upper_str format))])
          else (None, tr1 @ [LogError ''Report download error:'', Toast ToastError (MsgReportFailed report_not_created)])
      | NoResponse \<Rightarrow> (None, tr1 @ [LogError ''Report download error:'', Toast ToastError (MsgReportFailed (ascii ''Failed to fetch''))])
      | SetupFailure m \<Rightarrow> (None, tr1 @ [LogError ''Report download error:'', Toast ToastError (MsgReportFailed (ascii m))]))"

section \<open>Charts and selectors\<close>

text \<open>\<open>xs.map(f)\<close> for a function \<open>f\<close> that may throw: \<open>None\<close> when \<open>xs\<close> is not an array
  (it has no \<open>map\<close>) or \<open>f\<close> throws on an element.\<close>

definition arr_map :: "(jsv \<Rightarrow> 'a option) \<Rightarrow> jsv \<Rightarrow> 'a list option" where
  "arr_map f v = (case v of Arr xs \<Rightarrow> those (map f xs) | _ \<Rightarrow> None)"

text \<open>\<open>x?.map(f)\<close>: \<open>undefined\<close> (here \<open>Some None\<close>) when \<open>x\<close> is \<open>null\<close> or
  \<open>undefined\<close>, else \<open>x.map(f)\<close>.\<close>

definition opt_map :: "(jsv \<Rightarrow> 'a option) \<Rightarrow> jsv \<Rightarrow> 'a list option option" where
  "opt_map f v = (if v = Undef \<or> v = Null then Some None else map_option Some (arr_map f v))"

definition chart_colors :: "string list" where
  "chart_colors = [''#f59e0b'', ''#3b82f6'', ''#10b981'', ''#ef4444'']"

record dataset =
  ds_label :: jsv
  ds_data :: "jsv list"
  ds_border :: string
  ds_background :: string

record line_chart =
  lc_labels :: "jsv list"
  lc_datasets :: "dataset list"

text \<open>One team's line: its name, the daily totals, and the colour of its position.\<close>

definition team_dataset :: "nat \<Rightarrow> jsv \<Rightarrow> dataset option" where
  "team_dataset i team =
     (case get_prop team ''data'' of
        None \<Rightarrow> None
      | Some ds \<Rightarrow>
          map_option (\<lambda>pts. \<lparr>ds_label = opt_prop team ''team_name'', ds_data = pts,
                              ds_border = chart_colors ! (i mod length chart_colors),
                              ds_background = chart_colors ! (i mod length chart_colors) @ ''20''\<rparr>)
            (arr_map (\<lambda>d. get_prop d ''total'') ds))"

text \<open>\<open>getCommentsChart\<close>: \<open>Some None\<close> is its \<open>null\<close> when there are no teams,
  \<open>None\<close> a \<open>TypeError\<close>. The labels are the dates of the first team's points.\<close>

definition comments_chart :: "jsv \<Rightarrow> line_chart option option" where
  "comments_chart trend_data =
     (let teams = opt_prop trend_data ''teams'' in
      if \<not> truthy teams then Some None
      else case teams of
             Arr ts \<Rightarrow>
               (case opt_map (\<lambda>d. get_prop d ''date'') (opt_prop (case ts of [] \<Rightarrow> Undef | t # _ \<Rightarrow> t) ''data'') of
                  None \<Rightarrow> None
                | Some lbls \<Rightarrow>
                    map_option (\<lambda>dss. Some \<lparr>lc_labels = (case lbls of Some ls \<Rightarrow> ls | None \<Rightarrow> []), lc_datasets = dss\<rparr>)
                      (those (map2 team_dataset [0..<length ts] ts)))
           | _ \<Rightarrow> None)"

record bar_chart =
  bc_labels :: "jsv list"
  bc_data :: "jsv list"

definition overall_total :: "jsv \<Rightarrow> jsv option" where
  "overall_total t = (case get_prop t ''overall'' of None \<Rightarrow> None | Some ov \<Rightarrow> get_prop ov ''total_comments'')"

text \<open>\<open>getTeamComparisonChart\<close>: the team names and their total comments.\<close>

definition team_comparison_chart :: "jsv \<Rightarrow> bar_chart option option" where
  "team_comparison_chart trend_data =
     (let teams = opt_prop trend_data ''teams'' in
      if \<not> truthy teams then Some None
      else case (arr_map overall_total teams, arr_map (\<lambda>t. get_prop t ''team_name'') teams) of
             (Some totals, Some names) \<Rightarrow> Some (Some \<lparr>bc_labels = names, bc_data = totals\<rparr>)
           | _ \<Rightarrow> None)"

datatype trend_icon = IconUp | IconDown | IconActivity

definition get_trend_icon :: "jsv \<Rightarrow> trend_icon" where
  "get_trend_icon d = (if d = Str ''up'' then IconUp else if d = Str ''down'' then IconDown else IconActivity)"

datatype insight_icon = InsightImprovement | InsightDecline | InsightSpike | InsightIdea

definition get_insight_icon :: "jsv \<Rightarrow> insight_icon" where
  "get_insight_icon t =
     (if t = Str ''improvement'' then InsightImprovement else if t = Str ''decline'' then InsightDecline
      else if t = Str ''spike'' then InsightSpike else InsightIdea)"

definition get_insight_color :: "jsv \<Rightarrow> string" where
  "get_insight_color sev =
     (if sev = Str ''high'' then ''border-red-200 bg-red-50''
      else if sev = Str ''medium'' then ''border-yellow-200 bg-yellow-50'' else ''border-blue-200 bg-blue-50'')"

text \<open>\<open>x.toFixed(1)\<close> for an exact \<open>x\<close>: the nearest tenth, a tie going away from zero,
  a minus sign for every negative \<open>x\<close>.\<close>

definition tenths_text :: "nat \<Rightarrow> string" where
  "tenths_text t = nat_to_dec (t div 10) @ ''.'' @ nat_to_dec (t mod 10)"

definition to_fixed_1_text :: "rat \<Rightarrow> string" where
  "to_fixed_1_text x =
     (if x < 0 then CHR ''-'' # tenths_text (nat \<lfloor>- x * 10 + 1 / 2\<rfloor>) else tenths_text (nat \<lfloor>x * 10 + 1 / 2\<rfloor>))"

datatype change_class = ChangeGreen | ChangeRed | ChangeGray

text \<open>A team's weekly change: its colour class and its text.\<close>

definition weekly_change_view :: "rat \<Rightarrow> change_class \<times> string" where
  "weekly_change_view w =
     (if 0 < w then ChangeGreen else if w < 0 then ChangeRed else ChangeGray,
      (if 0 < w then ''+'' else []) @ to_fixed_1_text w @ ''%'')"

record insight_card =
  ic_color :: string
  ic_icon :: insight_icon
  ic_team :: jsv
  ic_value :: jsv
  ic_description :: jsv

definition insight_card :: "jsv \<Rightarrow> insight_card option" where
  "insight_card i =
     (case (get_prop i ''severity'', get_prop i ''type'') of
        (Some sev, Some ty) \<Rightarrow>
          Some \<lparr>ic_color = get_insight_color sev, ic_icon = get_insight_icon ty, ic_team = opt_prop i ''team_name'',
                ic_value = opt_prop i ''value'', ic_description = opt_prop i ''description''\<rparr>
      | _ \<Rightarrow> None)"

text \<open>\<open>insights.length > 0 ? insights.map(card) : empty\<close>.\<close>

definition insights_view :: "jsv \<Rightarrow> insight_card list option" where
  "insights_view ins =
     (case get_prop ins ''length'' of
        None \<Rightarrow> None
      | Some l \<Rightarrow> if js_lt (Num 0) l then arr_map insight_card ins else Some [])"

section \<open>The payload schema\<close>

text \<open>The shape of the trend analysis and insights answers the screen is written for:
  \<open>teams\<close> an array of objects, each with a \<open>data\<close> array of point objects and an
  \<open>overall\<close> object (or no \<open>teams\<close> at all), and the insights an array of objects.\<close>

definition is_obj :: "jsv \<Rightarrow> bool" where
  "is_obj v = (case v of Obj ps \<Rightarrow> True | _ \<Rightarrow> False)"

definition trend_team_ok :: "jsv \<Rightarrow> bool" where
  "trend_team_ok t \<longleftrightarrow>
     is_obj t \<and> (case opt_prop t ''data'' of Arr ps \<Rightarrow> list_all is_obj ps | _ \<Rightarrow> False) \<and> is_obj (opt_prop t ''overall'')"

definition trend_payload_ok :: "jsv \<Rightarrow> bool" where
  "trend_payload_ok d \<longleftrightarrow>
     (case opt_prop d ''teams'' of Arr ts \<Rightarrow> list_all trend_team_ok ts | Undef \<Rightarrow> True | Null \<Rightarrow> True | _ \<Rightarrow> False)"

definition insights_ok :: "jsv \<Rightarrow> bool" where
  "insights_ok ins \<longleftrightarrow> (case ins of Arr xs \<Rightarrow> list_all is_obj xs | _ \<Rightarrow> False)"

section \<open>Properties\<close>

subsection \<open>Loading\<close>

lemma load_trend_data_apply:
  "load_trend_data be period t time tr =
     (let tr0 = tr @ [LogInfo ''[TrendAnalysis] Loading data with timestamp:''] in
      case send_all be (trend_requests period t) tr0 of
        (Inl e, tr') \<Rightarrow> (Inr None, tr' @ [LogError ''Trend data loading error:'', Toast ToastError MsgTrendLoadFailed])
      | (Inr [trends, ins], tr') \<Rightarrow>
          (Inr (Some (trends, js_or (opt_prop ins ''insights'') (Arr []))),
           tr' @ [LogInfo ''[TrendAnalysis] Received trends data:'', LogInfo ''[TrendAnalysis] Received insights data:'',
                  Toast ToastSuccess (MsgTrendUpdated time)])
      | (Inr _, tr') \<Rightarrow> (Inr None, tr'))"
  by (simp add: load_trend_data_def bind_act_apply catch_act_apply effect_simps Let_def
           split: prod.splits sum.splits list.splits)

text \<open>When both answers are 2xx, the screen gets the analysis and the insights list
  (\<open>[]\<close> when the answer has none) and a success toast.\<close>

lemma load_trend_data_ok:
  assumes "be (trend_requests period t ! 0) = Response s1 d1" "200 \<le> s1 \<and> s1 < 300"
      and "be (trend_requests period t ! 1) = Response s2 d2" "200 \<le> s2 \<and> s2 < 300"
  shows "load_trend_data be period t time tr =
           (Inr (Some (handle_api_response s1 d1, js_or (opt_prop (handle_api_response s2 d2) ''insights'') (Arr []))),
            tr @ [LogInfo ''[TrendAnalysis] Loading data with timestamp:''] @
            concat (map send_events (trend_requests period t)) @
            [LogInfo ''[TrendAnalysis] Received trends data:'', LogInfo ''[TrendAnalysis] Received insights data:'',
             Toast ToastSuccess (MsgTrendUpdated time)])"
proof -
  have b: "be (hd (trend_requests period t)) = Response s1 d1" "be (last (trend_requests period t)) = Response s2 d2"
    using assms by (simp_all add: trend_requests_def)
  show ?thesis using assms(2,4)
    by (simp add: load_trend_data_apply send_all_apply b [unfolded trend_requests_def, simplified] trend_requests_def
                  act_simps Let_def)
qed

text \<open>C36: \<open>loadTrendData\<close> never rejects. When either request fails, both have been
  sent before either settles, the screen keeps its data (the result is \<open>None\<close>), and the
  run ends with the error log and the error toast, after whatever the interceptor
  showed.\<close>

theorem load_trend_data_failure:
  assumes "\<not> (ok_outcome (be (trend_requests period t ! 0)) \<and> ok_outcome (be (trend_requests period t ! 1)))"
  shows "\<exists>new. load_trend_data be period t time tr =
           (Inr None, tr @ [LogInfo ''[TrendAnalysis] Loading data with timestamp:''] @
                      concat (map send_events (trend_requests period t)) @ new @
                      [LogError ''Trend data loading error:'', Toast ToastError MsgTrendLoadFailed])"
proof -
  have "\<exists>out\<in>set (map be (trend_requests period t)). \<not> ok_outcome out"
    using assms by (auto simp: trend_requests_def)
  then obtain e new where "settle_all (map be (trend_requests period t))
      ((tr @ [LogInfo ''[TrendAnalysis] Loading data with timestamp:'']) @ concat (map send_events (trend_requests period t))) =
      (Inl e, ((tr @ [LogInfo ''[TrendAnalysis] Loading data with timestamp:'']) @
               concat (map send_events (trend_requests period t))) @ new)"
    using settle_all_fails by blast
  then show ?thesis by (simp add: load_trend_data_apply send_all_apply Let_def)
qed

theorem load_trend_data_failure_witness:
  "\<not> (ok_outcome ((\<lambda>_. NoResponse) (trend_requests ''7d'' 5 ! 0)) \<and>
       ok_outcome ((\<lambda>_. NoResponse) (trend_requests ''7d'' 5 ! 1))) \<and>
   (\<exists>new. load_trend_data (\<lambda>_. NoResponse) ''7d'' 5 ''12:00'' [] =
           (Inr None, [] @ [LogInfo ''[TrendAnalysis] Loading data with timestamp:''] @
                      concat (map send_events (trend_requests ''7d'' 5)) @ new @
                      [LogError ''Trend data loading error:'', Toast ToastError MsgTrendLoadFailed]))"
proof -
  have n: "\<not> (ok_outcome ((\<lambda>_. NoResponse) (trend_requests ''7d'' 5 ! 0)) \<and>
              ok_outcome ((\<lambda>_. NoResponse) (trend_requests ''7d'' 5 ! 1)))"
    by (simp add: ok_outcome_def)
  show ?thesis using n load_trend_data_failure [OF n, where time = "''12:00''" and tr = "[]"] by blast
qed

subsection \<open>Charts and texts\<close>

lemma map2_nth_Some:
  "map2 f [0..<length xs] xs = map Some ys \<Longrightarrow> i < length xs \<Longrightarrow> f i (xs ! i) = Some (ys ! i) \<and> length ys = length xs"
proof -
  assume e: "map2 f [0..<length xs] xs = map Some ys" and i: "i < length xs"
  have l: "length ys = length xs" using arg_cong [OF e, of length] by simp
  have "map2 f [0..<length xs] xs ! i = map Some ys ! i" using e by simp
  then show ?thesis using i l by simp
qed

lemma team_dataset_Some:
  "team_dataset i t = Some d \<Longrightarrow> ds_label d = opt_prop t ''team_name'' \<and> ds_border d = chart_colors ! (i mod length chart_colors)"
  by (auto simp: team_dataset_def split: option.splits)

text \<open>C38: Every team of the payload gets one line, labelled with its name, in the
  colour of its position among four: the fifth team is drawn in the colour of the first.\<close>

theorem comments_chart_lines:
  assumes "comments_chart (Obj [(''teams'', Arr ts)]) = Some (Some c)"
  shows "length (lc_datasets c) = length ts \<and>
         (\<forall>i < length ts. ds_label (lc_datasets c ! i) = opt_prop (ts ! i) ''team_name'' \<and>
                          ds_border (lc_datasets c ! i) = chart_colors ! (i mod 4))"
proof -
  have t: "truthy (Arr ts)" using assms by (cases ts) (auto simp: comments_chart_def obj_get_def Let_def)
  obtain dss where d: "those (map2 team_dataset [0..<length ts] ts) = Some dss" and c: "lc_datasets c = dss"
    using assms t by (auto simp: comments_chart_def obj_get_def Let_def split: option.splits)
  have m: "map2 team_dataset [0..<length ts] ts = map Some dss" using those_Some [OF d] .
  have "\<forall>i < length ts. ds_label (dss ! i) = opt_prop (ts ! i) ''team_name'' \<and> ds_border (dss ! i) = chart_colors ! (i mod 4)"
  proof (intro allI impI)
    fix i assume i: "i < length ts"
    have "team_dataset i (ts ! i) = Some (dss ! i)" using map2_nth_Some [OF m i] by simp
    then show "ds_label (dss ! i) = opt_prop (ts ! i) ''team_name'' \<and> ds_border (dss ! i) = chart_colors ! (i mod 4)"
      using team_dataset_Some by (simp add: chart_colors_def)
  qed
  moreover have "length dss = length ts" using arg_cong [OF m, of length] by simp
  ultimately show ?thesis using c by simp
qed

definition two_teams :: "jsv list" where
  "two_teams =
     [Obj [(''team_name'', Str ''Galatasaray''), (''data'', Arr [Obj [(''date'', Str ''2025-01-01''), (''total'', Num 4)]])],
      Obj [(''team_name'', Str ''Trabzonspor''), (''data'', Arr [Obj [(''date'', Str ''2025-01-01''), (''total'', Num 2)]])]]"

definition two_team_chart :: line_chart where
  "two_team_chart =
     \<lparr>lc_labels = [Str ''2025-01-01''],
      lc_datasets = [\<lparr>ds_label = Str ''Galatasaray'', ds_data = [Num 4], ds_border = ''#f59e0b'', ds_background = ''#f59e0b20''\<rparr>,
                     \<lparr>ds_label = Str ''Trabzonspor'', ds_data = [Num 2], ds_border = ''#3b82f6'', ds_background = ''#3b82f620''\<rparr>]\<rparr>"

theorem comments_chart_lines_witness:
  "comments_chart (Obj [(''teams'', Arr two_teams)]) = Some (Some two_team_chart) \<and>
   length (lc_datasets two_team_chart) = length two_teams \<and>
   ds_border (lc_datasets two_team_chart ! 1) = chart_colors ! (1 mod 4)"
proof -
  have e: "comments_chart (Obj [(''teams'', Arr two_teams)]) = Some (Some two_team_chart)"
    unfolding two_teams_def two_team_chart_def by code_simp
  have "length (lc_datasets two_team_chart) = length two_teams \<and>
        (\<forall>i < length two_teams. ds_label (lc_datasets two_team_chart ! i) = opt_prop (two_teams ! i) ''team_name'' \<and>
                         ds_border (lc_datasets two_team_chart ! i) = chart_colors ! (i mod 4))"
    by (rule comments_chart_lines [OF e])
  moreover have "1 < length two_teams" by (simp add: two_teams_def)
  ultimately show ?thesis using e by blast
qed

lemma tenths_text_head: "take 1 (tenths_text t @ r) \<noteq> ''-'' \<and> take 1 (tenths_text t @ r) \<noteq> ''+''"
proof -
  obtain c cs where n: "nat_to_dec (t div 10) = c # cs"
    using nat_to_dec_ne by (cases "nat_to_dec (t div 10)") auto
  have "c \<in> set (nat_to_dec (t div 10))" using n by simp
  then obtain k :: nat where k: "c = char_of k" "48 \<le> k" "k < 58" using nat_to_dec_digits by blast
  then have "of_char c = k" by simp
  then have "c \<noteq> CHR ''-'' \<and> c \<noteq> CHR ''+''" using k(2) by auto
  then show ?thesis by (simp add: tenths_text_def n)
qed

text \<open>The weekly change is red exactly when its text starts with a minus sign, green
  exactly when it starts with a plus sign; a small negative change reads \<open>-0.0%\<close>.\<close>

lemma weekly_change_sign:
  "(fst (weekly_change_view w) = ChangeRed \<longleftrightarrow> take 1 (snd (weekly_change_view w)) = ''-'') \<and>
   (fst (weekly_change_view w) = ChangeGreen \<longleftrightarrow> take 1 (snd (weekly_change_view w)) = ''+'')"
  using tenths_text_head by (auto simp: weekly_change_view_def to_fixed_1_text_def)

lemma weekly_change_negative_zero: "weekly_change_view (- 1 / 100) = (ChangeRed, ''-0.0%'')"
  by code_simp

lemma download_report_ok:
  "be (report_request period format) = Response s d \<Longrightarrow> 200 \<le> s \<and> s < 300 \<Longrightarrow>
     download_report be period format tr =
       (Some (Download (report_file_name period format)),
        tr @ [Send (report_request period format), Toast ToastSuccess (MsgReportDownloaded (ascii_upper_str format))])"
  by (simp add: download_report_def Let_def)

text \<open>Any format but \<open>json\<close> is saved with the extension \<open>html\<close>.\<close>

lemma report_file_extension:
  "report_file_name p ''json'' = ''executive-report-'' @ p @ ''.json'' \<and>
   (f \<noteq> ''json'' \<longrightarrow> report_file_name p f = ''executive-report-'' @ p @ ''.html'')"
  by (simp add: report_file_name_def)

subsection \<open>Answers of the documented shape\<close>

lemma is_obj_get_prop: "is_obj v \<Longrightarrow> get_prop v k = Some (opt_prop v k)"
  by (cases v) (simp_all add: is_obj_def)

lemma arr_map_objs: "list_all is_obj xs \<Longrightarrow> arr_map (\<lambda>x. get_prop x k) (Arr xs) \<noteq> None"
  by (induction xs) (auto simp: arr_map_def is_obj_get_prop)

lemma those_map2_Some:
  "(\<And>i x. x \<in> set xs \<Longrightarrow> f i x \<noteq> None) \<Longrightarrow> those (map2 f is xs) \<noteq> None"
proof (induction xs arbitrary: "is")
  case Nil
  then show ?case by simp
next
  case (Cons x xs)
  then show ?case by (cases "is") (auto split: option.splits)
qed

lemma team_dataset_total: "trend_team_ok t \<Longrightarrow> team_dataset i t \<noteq> None"
proof -
  assume t: "trend_team_ok t"
  then obtain ps where "get_prop t ''data'' = Some (Arr ps)" "list_all is_obj ps"
    by (auto simp: trend_team_ok_def is_obj_get_prop split: jsv.splits)
  then show ?thesis using arr_map_objs [of ps "''total''"] by (auto simp: team_dataset_def)
qed

text \<open>C35: On answers of the documented shape, the screen builds both charts and the
  insights list without a \<open>TypeError\<close>: \<open>getCommentsChart\<close>, \<open>getTeamComparisonChart\<close>
  and the insights cards are defined for every such payload.\<close>

theorem trend_views_total:
  assumes "trend_payload_ok d" and "insights_ok ins"
  shows "comments_chart d \<noteq> None \<and> team_comparison_chart d \<noteq> None \<and> insights_view ins \<noteq> None"
proof -
  have c: "comments_chart d \<noteq> None"
  proof (cases "opt_prop d ''teams''")
    case (Arr ts)
    have teams: "list_all trend_team_ok ts" using assms(1) Arr by (simp add: trend_payload_ok_def)
    have ds: "those (map2 team_dataset [0..<length ts] ts) \<noteq> None"
      by (rule those_map2_Some) (use teams team_dataset_total in \<open>auto simp: list_all_iff\<close>)
    have lb: "opt_map (\<lambda>d. get_prop d ''date'') (opt_prop (case ts of [] \<Rightarrow> Undef | t # _ \<Rightarrow> t) ''data'') \<noteq> None"
    proof (cases ts)
      case (Cons t rest)
      then have "trend_team_ok t" using teams by simp
      then show ?thesis using Cons arr_map_objs [of _ "''date''"]
        by (auto simp: trend_team_ok_def opt_map_def split: jsv.splits)
    qed (simp add: opt_map_def)
    show ?thesis using Arr ds lb by (auto simp: comments_chart_def Let_def split: option.splits)
  qed (use assms(1) in \<open>auto simp: comments_chart_def trend_payload_ok_def Let_def\<close>)
  have b: "team_comparison_chart d \<noteq> None"
  proof (cases "opt_prop d ''teams''")
    case (Arr ts)
    have teams: "list_all trend_team_ok ts" using assms(1) Arr by (simp add: trend_payload_ok_def)
    have "arr_map overall_total (Arr ts) \<noteq> None"
      using teams by (induction ts) (auto simp: arr_map_def overall_total_def trend_team_ok_def is_obj_get_prop
                                          split: option.splits)
    moreover have "arr_map (\<lambda>t. get_prop t ''team_name'') (Arr ts) \<noteq> None"
      using teams by (induction ts) (auto simp: arr_map_def trend_team_ok_def is_obj_get_prop split: option.splits)
    ultimately show ?thesis using Arr by (auto simp: team_comparison_chart_def Let_def split: option.splits)
  qed (use assms(1) in \<open>auto simp: team_comparison_chart_def trend_payload_ok_def Let_def\<close>)
  have i: "insights_view ins \<noteq> None"
  proof (cases ins)
    case (Arr xs)
    have "list_all is_obj xs" using assms(2) Arr by (simp add: insights_ok_def)
    then have "arr_map insight_card (Arr xs) \<noteq> None"
      by (induction xs) (auto simp: arr_map_def insight_card_def is_obj_def split: jsv.splits option.splits)
    then show ?thesis using Arr by (auto simp: insights_view_def)
  qed (use assms(2) in \<open>simp_all add: insights_ok_def\<close>)
  show ?thesis using c b i by blast
qed

theorem trend_views_total_witness:
  "comments_chart (Obj [(''teams'', Arr [Obj [(''team_name'', Str ''Galatasaray''),
      (''data'', Arr [Obj [(''date'', Str ''2025-01-01''), (''total'', Num 4)]]), (''overall'', Obj [(''total_comments'', Num 4)])]])]) \<noteq> None \<and>
   team_comparison_chart (Obj [(''teams'', Arr [Obj [(''team_name'', Str ''Galatasaray''),
      (''data'', Arr [Obj [(''date'', Str ''2025-01-01''), (''total'', Num 4)]]), (''overall'', Obj [(''total_comments'', Num 4)])]])]) \<noteq> None \<and>
   insights_view (Arr [Obj [(''type'', Str ''spike''), (''severity'', Str ''high'')]]) \<noteq> None"
proof -
  have p: "trend_payload_ok (Obj [(''teams'', Arr [Obj [(''team_name'', Str ''Galatasaray''),
      (''data'', Arr [Obj [(''date'', Str ''2025-01-01''), (''total'', Num 4)]]), (''overall'', Obj [(''total_comments'', Num 4)])]])])"
    by code_simp
  have i: "insights_ok (Arr [Obj [(''type'', Str ''spike''), (''severity'', Str ''high'')]])" by code_simp
  show ?thesis using trend_views_total [OF p i] .
qed

text \<open>A team of the answer without \<open>data\<close> (a team with no points yet) breaks the
  comments chart: \<open>team.data.map\<close> throws and the screen fails to render.\<close>

lemma team_without_points_breaks_chart:
  "comments_chart (Obj [(''teams'', Arr [Obj [(''team_name'', Str ''Galatasaray'')]])]) = None"
  by code_simp

end
