(* ===== verification/Trend_Screen.thy ===== *)
theory Trend_Screen
  imports Trend_Analysis "HOL-Library.Multiset"
begin

text \<open>
  The trend analysis screen of \<open>src/frontend/src/components/TrendAnalysis.jsx\<close> as a
  state machine (\<open>trend_screen\<close>): selecting a period and the 30-second timer start
  loads, and the loads finish in any order. Each load is modelled by its outcome; its
  requests and notifications are those of \<open>load_trend_data\<close>. The field
  \<open>ts_shown_period\<close> records the period of the load whose answer is on screen: it is
  not a variable of the code but what the properties about stale answers are stated
  with. An abstract specification of the screen (\<open>spec_op\<close>) is refined by the runs in
  which loads do not overlap.
\<close>

section \<open>The screen as a state machine\<close>

text \<open>The four tabs of the page (\<open>activeTab\<close>).\<close>

datatype trend_tab = TabTrends | TabReports | TabInsights | TabDebug

record trend_screen =
  ts_period :: string
  ts_data :: jsv
  ts_insights :: jsv
  ts_loading :: bool
  ts_last_updated :: "int option"
  ts_pending :: "(nat \<times> string) list"
  ts_next :: nat
  ts_shown_period :: "string option"
  ts_tab :: trend_tab
  ts_generating :: bool
  ts_reports :: "(string \<times> string) list"

text \<open>A load finishes with its answers and the time, or fails.\<close>

type_synonym trend_result = "(jsv \<times> jsv \<times> int) option"

datatype trend_event =
    SelectPeriod string
  | TimerTick
  | RefreshClick
  | LoadDone nat trend_result
  | SelectTab trend_tab
  | DownloadClick string
  | DownloadDone

text \<open>On mount the effect of \<open>[selectedPeriod]\<close> starts the first load.\<close>

definition trend_init :: trend_screen where
  "trend_init =
     \<lparr>ts_period = ''7d'', ts_data = Null, ts_insights = Arr [], ts_loading = True, ts_last_updated = None,
      ts_pending = [(0, ''7d'')], ts_next = 1, ts_shown_period = None, ts_tab = TabTrends,
      ts_generating = False, ts_reports = []\<rparr>"

text \<open>\<open>loadTrendData()\<close> as far as the state sees it before its requests settle: the
  flag is set and a load of the period of the closure is in flight.\<close>

definition start_load :: "trend_screen \<Rightarrow> trend_screen" where
  "start_load s =
     s\<lparr>ts_loading := True, ts_pending := ts_pending s @ [(ts_next s, ts_period s)], ts_next := Suc (ts_next s)\<rparr>"

definition finish_load :: "nat \<Rightarrow> trend_result \<Rightarrow> trend_screen \<Rightarrow> trend_screen" where
  "finish_load i r s =
     (case map_of (ts_pending s) i of
        None \<Rightarrow> s
      | Some p \<Rightarrow>
          (case r of
             Some (d, ins, t) \<Rightarrow>
               s\<lparr>ts_data := d, ts_insights := ins, ts_last_updated := Some t, ts_shown_period := Some p\<rparr>
           | None \<Rightarrow> s)\<lparr>ts_loading := False, ts_pending := filter (\<lambda>(j, q). j \<noteq> i) (ts_pending s)\<rparr>)"

text \<open>While \<open>isLoading\<close> the component returns the loading skeleton: the period
  selector and the refresh button are not on the page.\<close>

definition controls_shown :: "trend_screen \<Rightarrow> bool" where
  "controls_shown s \<longleftrightarrow> \<not> ts_loading s"

text \<open>A tab button sets \<open>activeTab\<close>.\<close>

definition select_tab :: "trend_tab \<Rightarrow> trend_screen \<Rightarrow> trend_screen" where
  "select_tab t s = (if controls_shown s then s\<lparr>ts_tab := t\<rparr> else s)"

text \<open>A report button starts \<open>downloadReport(format)\<close>, which sets
  \<open>isGeneratingReport\<close> and fetches the report of the period selected at the click. The
  buttons of the header are hidden, and those of the reports tab disabled, while a
  report is being generated. The field \<open>ts_reports\<close> lists the downloads in flight
  (period and format): it is not a variable of the code.\<close>

definition download_click :: "string \<Rightarrow> trend_screen \<Rightarrow> trend_screen" where
  "download_click fmt s =
     (if controls_shown s \<and> \<not> ts_generating s
      then s\<lparr>ts_generating := True, ts_reports := ts_reports s @ [(ts_period s, fmt)]\<rparr> else s)"

text \<open>The \<open>finally\<close> of \<open>downloadReport\<close>, whatever the outcome
  (\<open>download_report\<close>): the flag is cleared.\<close>

definition download_done :: "trend_screen \<Rightarrow> trend_screen" where
  "download_done s = (if ts_reports s = [] then s else s\<lparr>ts_generating := False, ts_reports := tl (ts_reports s)\<rparr>)"

text \<open>Selecting the period already selected re-renders nothing and starts no load; a
  selection or a click can only happen on the rendered page, where the refresh button
  is also disabled while \<open>isLoading\<close>.\<close>

fun trend_step :: "trend_event \<Rightarrow> trend_screen \<Rightarrow> trend_screen" where
  "trend_step (SelectPeriod p) s =
     (if \<not> controls_shown s \<or> p = ts_period s then s else start_load (s\<lparr>ts_period := p\<rparr>))"
| "trend_step TimerTick s = start_load s"
| "trend_step RefreshClick s = (if ts_loading s then s else start_load s)"
| "trend_step (LoadDone i r) s = finish_load i r s"
| "trend_step (SelectTab t) s = select_tab t s"
| "trend_step (DownloadClick fmt) s = download_click fmt s"
| "trend_step DownloadDone s = download_done s"

inductive trend_reach :: "trend_screen \<Rightarrow> bool" where
  trend_reach_init: "trend_reach trend_init"
| trend_reach_step: "trend_reach s \<Longrightarrow> trend_reach (trend_step e s)"

text \<open>The outcome a load reports to the state: what \<open>load_trend_data\<close> resolved with.\<close>

definition load_event :: "backend \<Rightarrow> nat \<Rightarrow> string \<Rightarrow> int \<Rightarrow> string \<Rightarrow> event list \<Rightarrow> trend_event" where
  "load_event be i period t time tr =
     LoadDone i (case fst (load_trend_data be period t time tr) of
                   Inr (Some (d, ins)) \<Rightarrow> Some (d, ins, t)
                 | _ \<Rightarrow> None)"

section \<open>The specification of the screen\<close>

text \<open>What the screen promises when loads do not overlap: it shows the period selected
  and the answer of the last successful load with the period that load asked for.\<close>

record trend_view =
  tv_period :: string
  tv_shown :: "(string \<times> jsv) option"

datatype trend_op = OpSelect string trend_result | OpTick trend_result | OpRefresh trend_result

definition shown_after :: "string \<Rightarrow> trend_result \<Rightarrow> (string \<times> jsv) option \<Rightarrow> (string \<times> jsv) option" where
  "shown_after p r old = (case r of Some (d, ins, t) \<Rightarrow> Some (p, d) | None \<Rightarrow> old)"

fun spec_op :: "trend_op \<Rightarrow> trend_view \<Rightarrow> trend_view" where
  "spec_op (OpSelect p r) v =
     (if p = tv_period v then v else \<lparr>tv_period = p, tv_shown = shown_after p r (tv_shown v)\<rparr>)"
| "spec_op (OpTick r) v = v\<lparr>tv_shown := shown_after (tv_period v) r (tv_shown v)\<rparr>"
| "spec_op (OpRefresh r) v = v\<lparr>tv_shown := shown_after (tv_period v) r (tv_shown v)\<rparr>"

definition trend_abs :: "trend_screen \<Rightarrow> trend_view" where
  "trend_abs s = \<lparr>tv_period = ts_period s, tv_shown = map_option (\<lambda>p. (p, ts_data s)) (ts_shown_period s)\<rparr>"

text \<open>An operation run without overlap: the event that starts a load, then its answer.\<close>

fun conc_op :: "trend_op \<Rightarrow> trend_screen \<Rightarrow> trend_screen" where
  "conc_op (OpSelect p r) s = trend_step (LoadDone (ts_next s) r) (trend_step (SelectPeriod p) s)"
| "conc_op (OpTick r) s = trend_step (LoadDone (ts_next s) r) (trend_step TimerTick s)"
| "conc_op (OpRefresh r) s = trend_step (LoadDone (ts_next s) r) (trend_step RefreshClick s)"

section \<open>Properties\<close>

subsection \<open>The invariant of the screen\<close>

definition trend_inv :: "trend_screen \<Rightarrow> bool" where
  "trend_inv s \<longleftrightarrow>
     distinct (map fst (ts_pending s)) \<and> (\<forall>i \<in> fst ` set (ts_pending s). i < ts_next s) \<and>
     (ts_pending s = [] \<longrightarrow> \<not> ts_loading s)"

lemma trend_inv_init: "trend_inv trend_init"
  by (simp add: trend_inv_def trend_init_def)

lemma trend_inv_start_load: "trend_inv s \<Longrightarrow> trend_inv (start_load s)"
  by (auto simp: trend_inv_def start_load_def)

lemma distinct_map_fst_filter: "distinct (map fst xs) \<Longrightarrow> distinct (map fst (filter P xs))"
  by (induction xs) (auto simp: image_iff)

lemma trend_inv_finish_load: "trend_inv s \<Longrightarrow> trend_inv (finish_load i r s)"
  by (auto simp: trend_inv_def finish_load_def distinct_map_fst_filter split: option.splits prod.splits)

text \<open>Tabs and report downloads leave the loads alone.\<close>

lemma trend_inv_ui:
  "trend_inv (select_tab t s) = trend_inv s" "trend_inv (download_click f s) = trend_inv s"
  "trend_inv (download_done s) = trend_inv s"
  by (simp_all add: trend_inv_def select_tab_def download_click_def download_done_def)

lemma trend_inv_step: "trend_inv s \<Longrightarrow> trend_inv (trend_step e s)"
proof (cases e)
  case (SelectPeriod p)
  assume "trend_inv s"
  then have "trend_inv (s\<lparr>ts_period := p\<rparr>)" by (simp add: trend_inv_def)
  then show ?thesis using \<open>trend_inv s\<close> SelectPeriod by (simp add: trend_inv_start_load)
qed (simp_all add: trend_inv_start_load trend_inv_finish_load trend_inv_ui)

text \<open>Every reachable state satisfies the invariant: the loads in flight have distinct
  identifiers below the next one, and the screen is not loading when none is in flight.\<close>

lemma trend_reach_inv: "trend_reach s \<Longrightarrow> trend_inv s"
  by (induction rule: trend_reach.induct) (simp_all add: trend_inv_init trend_inv_step)

subsection \<open>Refinement of the specification by non-overlapping runs\<close>

lemma quiescent_not_loading: "trend_inv s \<Longrightarrow> ts_pending s = [] \<Longrightarrow> \<not> ts_loading s"
  by (simp add: trend_inv_def)

lemma conc_op_refines:
  assumes "trend_inv s" and "ts_pending s = []"
  shows "trend_abs (conc_op op s) = spec_op op (trend_abs s) \<and> ts_pending (conc_op op s) = []"
  using quiescent_not_loading [OF assms]
  by (cases op) (auto simp: assms(2) trend_abs_def start_load_def finish_load_def shown_after_def controls_shown_def
                      split: option.splits prod.splits)

lemma conc_op_reach: "trend_reach s \<Longrightarrow> trend_reach (conc_op op s)"
  by (cases op) (simp_all only: conc_op.simps trend_reach_step)

lemma trend_reach_fold: "trend_reach s \<Longrightarrow> trend_reach (fold trend_step es s)"
  by (induction es arbitrary: s) (simp_all add: trend_reach_step)

lemma conc_ops_refine:
  "trend_reach s \<Longrightarrow> ts_pending s = [] \<Longrightarrow> trend_abs (fold conc_op ops s) = fold spec_op ops (trend_abs s)"
proof (induction ops arbitrary: s)
  case Nil
  then show ?case by simp
next
  case (Cons op ops)
  have r: "trend_abs (conc_op op s) = spec_op op (trend_abs s)" and q: "ts_pending (conc_op op s) = []"
    using conc_op_refines [OF trend_reach_inv [OF Cons.prems(1)] Cons.prems(2)] by simp_all
  show ?case using Cons.IH [OF conc_op_reach [OF Cons.prems(1)] q] r by simp
qed

text \<open>C32: When loads do not overlap, the screen implements its specification: from any
  reachable state with no load in flight, every sequence of period selections, timer
  reloads and refreshes, each answered before the next starts, leaves the screen showing
  what the specification shows: the selected period and the answer of the last
  successful load with the period it asked for.\<close>

theorem trend_screen_refines_spec:
  assumes "trend_reach s" and "ts_pending s = []"
  shows "trend_abs (fold conc_op ops s) = fold spec_op ops (trend_abs s)"
  using conc_ops_refine [OF assms] .

definition trend_mounted :: trend_screen where
  "trend_mounted = trend_step (LoadDone 0 (Some (Obj [], Arr [], 1))) trend_init"

theorem trend_screen_refines_spec_witness:
  "trend_reach trend_mounted \<and> ts_pending trend_mounted = [] \<and>
   trend_abs (fold conc_op [OpSelect ''30d'' (Some (Num 30, Arr [], 2)), OpTick None] trend_mounted) =
   fold spec_op [OpSelect ''30d'' (Some (Num 30, Arr [], 2)), OpTick None] (trend_abs trend_mounted) \<and>
   fold spec_op [OpSelect ''30d'' (Some (Num 30, Arr [], 2)), OpTick None] (trend_abs trend_mounted) =
     \<lparr>tv_period = ''30d'', tv_shown = Some (''30d'', Num 30)\<rparr>"
proof -
  have r: "trend_reach trend_mounted" unfolding trend_mounted_def by (intro trend_reach_step trend_reach_init)
  have p: "ts_pending trend_mounted = []"
    by (simp add: trend_mounted_def trend_init_def finish_load_def)
  have v: "fold spec_op [OpSelect ''30d'' (Some (Num 30, Arr [], 2)), OpTick None] (trend_abs trend_mounted) =
     \<lparr>tv_period = ''30d'', tv_shown = Some (''30d'', Num 30)\<rparr>"
    by (simp add: trend_mounted_def trend_init_def finish_load_def trend_abs_def shown_after_def)
  have e: "trend_abs (fold conc_op [OpSelect ''30d'' (Some (Num 30, Arr [], 2)), OpTick None] trend_mounted) =
     fold spec_op [OpSelect ''30d'' (Some (Num 30, Arr [], 2)), OpTick None] (trend_abs trend_mounted)"
    by (rule trend_screen_refines_spec [OF r p])
  show ?thesis by (intro conjI r p e v)
qed

subsection \<open>Overlapping loads\<close>

text \<open>Loads are not cancelled and their answers are applied in the order they arrive.
  A timer reload overlapping the first load of "7d" stays in flight after the first
  answers and the page is shown again; selecting "30d" then, and receiving the "30d"
  answer before the reload's, leaves the screen on "30d" showing the "7d" data, with
  nothing in flight to correct it.\<close>

lemma stale_answer_shown:
  "trend_reach (fold trend_step [TimerTick, LoadDone 0 (Some (d0, i0, 1)), SelectPeriod ''30d'',
                                 LoadDone 2 (Some (d30, i30, 2)), LoadDone 1 (Some (d7, i7, 3))] trend_init) \<and>
   (let s = fold trend_step [TimerTick, LoadDone 0 (Some (d0, i0, 1)), SelectPeriod ''30d'',
                             LoadDone 2 (Some (d30, i30, 2)), LoadDone 1 (Some (d7, i7, 3))] trend_init
    in ts_pending s = [] \<and> ts_period s = ''30d'' \<and> ts_shown_period s = Some ''7d'' \<and> ts_data s = d7)"
proof
  show "trend_reach (fold trend_step [TimerTick, LoadDone 0 (Some (d0, i0, 1)), SelectPeriod ''30d'',
                                     LoadDone 2 (Some (d30, i30, 2)), LoadDone 1 (Some (d7, i7, 3))] trend_init)"
    by (rule trend_reach_fold [OF trend_reach_init])
qed (simp add: trend_init_def start_load_def finish_load_def controls_shown_def)

text \<open>The loading flag is cleared by the first load to finish: after a timer reload
  overlaps the first load and the first answers, the screen is not loading though a
  load is in flight, and the refresh button, enabled again, starts a third.\<close>

lemma loading_cleared_early:
  "let s = fold trend_step [TimerTick, LoadDone 0 (Some (d, ins, 1))] trend_init
   in \<not> ts_loading s \<and> ts_pending s = [(1, ''7d'')] \<and>
      ts_pending (trend_step RefreshClick s) = [(1, ''7d''), (2, ''7d'')]"
  by (simp add: trend_init_def start_load_def finish_load_def)

text \<open>The 30-second timer starts a load whether or not the last one has answered: with
  a slow backend the loads in flight grow by one per tick, without bound.\<close>

lemma timer_ticks_accumulate:
  "length (ts_pending (fold trend_step (replicate n TimerTick) s)) = length (ts_pending s) + n"
  by (induction n arbitrary: s) (simp_all add: start_load_def)

subsection \<open>Every load settles\<close>

text \<open>Answering a load removes exactly its identifier from those in flight.\<close>

lemma finish_load_pending_remove1:
  assumes "trend_inv s"
  shows "map fst (ts_pending (finish_load i r s)) = remove1 i (map fst (ts_pending s))"
proof -
  have d: "distinct (map fst (ts_pending s))" using assms by (simp add: trend_inv_def)
  have f: "map fst (filter (\<lambda>(j, q). j \<noteq> i) xs) = remove1 i (map fst xs)"
    if "distinct (map fst xs)" for xs :: "(nat \<times> string) list"
    using that by (induction xs) (auto simp: filter_id_conv remove1_idem)
  show ?thesis
  proof (cases "map_of (ts_pending s) i")
    case None
    then have "i \<notin> set (map fst (ts_pending s))" by (simp add: map_of_eq_None_iff)
    then show ?thesis using None by (simp add: finish_load_def remove1_idem)
  next
    case (Some p)
    then show ?thesis using f [OF d] by (simp add: finish_load_def split: option.splits prod.splits)
  qed
qed

text \<open>C33: Every load in flight settles the screen: from any reachable state, once the
  loads in flight have answered, in any order and with any outcomes, the state is
  reachable, nothing is in flight and the screen is not loading (the spinner and the
  disabled refresh button do not stay on).\<close>

theorem trend_loads_settle:
  assumes "trend_reach s" and "mset ids = mset (map fst (ts_pending s))"
  shows "trend_reach (fold trend_step (map (\<lambda>i. LoadDone i (rf i)) ids) s) \<and>
         ts_pending (fold trend_step (map (\<lambda>i. LoadDone i (rf i)) ids) s) = [] \<and>
         \<not> ts_loading (fold trend_step (map (\<lambda>i. LoadDone i (rf i)) ids) s)"
  using assms
proof (induction ids arbitrary: s)
  case Nil
  then have "ts_pending s = []" by simp
  then show ?case using Nil.prems(1) quiescent_not_loading [OF trend_reach_inv [OF Nil.prems(1)]] by simp
next
  case (Cons i ids)
  let ?s = "trend_step (LoadDone i (rf i)) s"
  have r: "trend_reach ?s" using Cons.prems(1) by (rule trend_reach_step)
  have "mset (map fst (ts_pending ?s)) = mset (remove1 i (map fst (ts_pending s)))"
    using finish_load_pending_remove1 [OF trend_reach_inv [OF Cons.prems(1)]] by simp
  also have "\<dots> = mset ids" by (metis Cons.prems(2) add_mset_remove_trivial mset.simps(2) mset_remove1)
  finally show ?case using Cons.IH [OF r] by simp
qed

theorem trend_loads_settle_witness:
  "\<not> ts_loading (fold trend_step [LoadDone 1 None, LoadDone 0 (Some (Num 7, Arr [], 3))]
                  (trend_step TimerTick trend_init)) \<and>
   ts_pending (fold trend_step [LoadDone 1 None, LoadDone 0 (Some (Num 7, Arr [], 3))]
                  (trend_step TimerTick trend_init)) = []"
proof -
  have r: "trend_reach (trend_step TimerTick trend_init)" by (intro trend_reach_step trend_reach_init)
  have m: "mset [1, 0] = mset (map fst (ts_pending (trend_step TimerTick trend_init)))"
    by (simp add: trend_init_def start_load_def)
  have "map (\<lambda>i. LoadDone i ((\<lambda>i. if i = 0 then Some (Num 7, Arr [], 3) else None) i)) [1, 0] =
        [LoadDone 1 None, LoadDone 0 (Some (Num 7, Arr [], 3))]" by simp
  then show ?thesis
    using trend_loads_settle [OF r m, where rf = "\<lambda>i. if i = 0 then Some (Num 7, Arr [], 3) else None"] by simp
qed


subsection \<open>Report generation\<close>

lemma tl_length_le_1: "length xs \<le> 1 \<Longrightarrow> tl xs = []"
  by (cases xs) auto

lemma report_flag_step:
  assumes "length (ts_reports s) \<le> 1 \<and> (ts_generating s \<longleftrightarrow> ts_reports s \<noteq> [])"
  shows "length (ts_reports (trend_step e s)) \<le> 1 \<and> (ts_generating (trend_step e s) \<longleftrightarrow> ts_reports (trend_step e s) \<noteq> [])"
  using assms
  by (cases e) (auto simp: start_load_def finish_load_def select_tab_def download_click_def download_done_def
                           tl_length_le_1 split: option.splits prod.splits)

text \<open>C34: Report downloads never overlap: in every reachable state of the screen at
  most one report is being generated, and the \<open>isGeneratingReport\<close> flag is set exactly
  while one is.\<close>

theorem report_generation_exclusive:
  assumes "trend_reach s"
  shows "length (ts_reports s) \<le> 1 \<and> (ts_generating s \<longleftrightarrow> ts_reports s \<noteq> [])"
  using assms
proof (induction rule: trend_reach.induct)
  case trend_reach_init
  then show ?case by (simp add: trend_init_def)
next
  case (trend_reach_step s e)
  then show ?case using report_flag_step by blast
qed

theorem report_generation_exclusive_witness:
  "ts_reports (fold trend_step [LoadDone 0 (Some (Obj [], Arr [], 1)), DownloadClick ''html'', DownloadClick ''json''] trend_init) =
     [(''7d'', ''html'')] \<and>
   length (ts_reports (fold trend_step [LoadDone 0 (Some (Obj [], Arr [], 1)), DownloadClick ''html'', DownloadClick ''json'']
                         trend_init)) \<le> 1"
proof -
  have r: "trend_reach (fold trend_step [LoadDone 0 (Some (Obj [], Arr [], 1)), DownloadClick ''html'', DownloadClick ''json'']
                         trend_init)"
    by (rule trend_reach_fold [OF trend_reach_init])
  have "ts_reports (fold trend_step [LoadDone 0 (Some (Obj [], Arr [], 1)), DownloadClick ''html'', DownloadClick ''json''] trend_init) =
     [(''7d'', ''html'')]"
    by (simp add: trend_init_def finish_load_def download_click_def controls_shown_def)
  then show ?thesis using report_generation_exclusive [OF r] by simp
qed

end
