(* ===== verification/Json_Text.thy ===== *)
theory Json_Text
  imports Js_Values
begin

text \<open>
  JSON text, as the screens print raw data with \<open>JSON.stringify(v, null, 2)\<close>: the
  printer follows the algorithm of the ECMAScript specification for the values of the
  model (members whose value is \<open>undefined\<close> are left out of objects, \<open>undefined\<close>
  elements print as \<open>null\<close>, strings are quoted with a backslash before a quote
  or a backslash, the short escapes b, f, n, r, t for their control characters and
  u00xx for the other control characters, and nested values are indented by two spaces per level). A reader of
  JSON text (\<open>json_parse\<close>, the part of \<open>JSON.parse\<close> the printer's output needs) is
  the reference the printer is checked against: it is a recursive descent parser with
  fuel, the length of its input being enough. It keeps every member of an object in
  order, where \<open>JSON.parse\<close> keeps the last of duplicated keys; the two agree on the
  objects of the printer's output that have distinct keys.
\<close>

section \<open>Printing\<close>

definition nl :: string where "nl = [CHR 0x0A]"

definition spaces :: "nat \<Rightarrow> string" where "spaces n = replicate n (CHR '' '')"

definition hex_digit :: "nat \<Rightarrow> char" where
  "hex_digit n = (if n < 10 then char_of (48 + n) else char_of (87 + n))"

definition json_escape_char :: "char \<Rightarrow> string" where
  "json_escape_char c =
     (let n = (of_char c :: nat) in
      if n = 34 then [CHR 0x5C, CHR 0x22]
      else if n = 92 then [CHR 0x5C, CHR 0x5C]
      else if n = 8 then [CHR 0x5C, CHR ''b'']
      else if n = 12 then [CHR 0x5C, CHR ''f'']
      else if n = 10 then [CHR 0x5C, CHR ''n'']
      else if n = 13 then [CHR 0x5C, CHR ''r'']
      else if n = 9 then [CHR 0x5C, CHR ''t'']
      else if n < 32 then [CHR 0x5C, CHR ''u'', CHR ''0'', CHR ''0'', hex_digit (n div 16), hex_digit (n mod 16)]
      else [c])"

definition json_quote :: "string \<Rightarrow> string" where
  "json_quote s = CHR 0x22 # concat (map json_escape_char s) @ [CHR 0x22]"

fun json_seq :: "nat \<Rightarrow> string list \<Rightarrow> string" where
  "json_seq d [] = []"
| "json_seq d [x] = nl @ spaces d @ x"
| "json_seq d (x # y # ys) = nl @ spaces d @ x @ CHR '','' # json_seq d (y # ys)"

function json_at :: "nat \<Rightarrow> jsv \<Rightarrow> string" where
  "json_at d Undef = ''null''"
| "json_at d Null = ''null''"
| "json_at d (Bool b) = (if b then ''true'' else ''false'')"
| "json_at d (Num n) = int_to_dec n"
| "json_at d (Str s) = json_quote s"
| "json_at d (Arr xs) =
     (if xs = [] then ''[]''
      else ''['' @ json_seq (d + 2) (map (json_at (d + 2)) xs) @ nl @ spaces d @ '']'')"
| "json_at d (Obj ps) =
     (if filter (\<lambda>(k, v). v \<noteq> Undef) ps = [] then ''{}''
      else ''{'' @ json_seq (d + 2) (map (\<lambda>(k, v). json_quote k @ '': '' @ json_at (d + 2) v)
                                          (filter (\<lambda>(k, v). v \<noteq> Undef) ps)) @ nl @ spaces d @ ''}'')"
  by pat_completeness auto
termination
  apply (relation "measure (\<lambda>(d, v). size v)")
  apply auto
  subgoal for xs x using size_list_estimation' [of x xs "size x" size] by simp
  subgoal for ps a b using size_list_estimation' [of "(a, b)" ps "size b" "size_prod (\<lambda>x. 0) size"] by simp
  done

text \<open>\<open>JSON.stringify(v, null, 2)\<close>: \<open>undefined\<close> at the top gives \<open>undefined\<close> (\<open>None\<close>).\<close>

definition json_stringify :: "jsv \<Rightarrow> string option" where
  "json_stringify v = (if v = Undef then None else Some (json_at 0 v))"

section \<open>Reading JSON text\<close>

definition json_ws :: "char \<Rightarrow> bool" where
  "json_ws c \<longleftrightarrow> c = CHR '' '' \<or> c = CHR 0x0A \<or> c = CHR 0x0D \<or> c = CHR 0x09"

definition skip_ws :: "string \<Rightarrow> string" where
  "skip_ws s = dropWhile json_ws s"

definition hex_val :: "char \<Rightarrow> nat option" where
  "hex_val c =
     (let n = (of_char c :: nat) in
      if 48 \<le> n \<and> n < 58 then Some (n - 48) else if 97 \<le> n \<and> n \<le> 102 then Some (n - 87)
      else if 65 \<le> n \<and> n \<le> 70 then Some (n - 55) else None)"

definition unescape :: "char \<Rightarrow> char option" where
  "unescape e =
     (if e = CHR 0x22 \<or> e = CHR 0x5C \<or> e = CHR ''/'' then Some e
      else if e = CHR ''b'' then Some (char_of (8::nat)) else if e = CHR ''f'' then Some (char_of (12::nat))
      else if e = CHR ''n'' then Some (char_of (10::nat)) else if e = CHR ''r'' then Some (char_of (13::nat))
      else if e = CHR ''t'' then Some (char_of (9::nat)) else None)"

fun parse_string :: "string \<Rightarrow> (string \<times> string) option" where
  "parse_string [] = None"
| "parse_string (c # r) =
     (if c = CHR 0x22 then Some ([], r)
      else if c = CHR 0x5C then
        (case r of
           [] \<Rightarrow> None
         | e # r' \<Rightarrow>
             if e = CHR ''u'' then
               (case r' of
                  h1 # h2 # h3 # h4 # r'' \<Rightarrow>
                    (case (hex_val h1, hex_val h2, hex_val h3, hex_val h4) of
                       (Some a, Some b, Some x, Some y) \<Rightarrow>
                         (let n = ((a * 16 + b) * 16 + x) * 16 + y in
                          if n < 256 then map_option (\<lambda>(s, t). (char_of n # s, t)) (parse_string r'') else None)
                     | _ \<Rightarrow> None)
                | _ \<Rightarrow> None)
             else (case unescape e of
                     None \<Rightarrow> None
                   | Some ch \<Rightarrow> map_option (\<lambda>(s, t). (ch # s, t)) (parse_string r')))
      else if (of_char c :: nat) < 32 then None
      else map_option (\<lambda>(s, t). (c # s, t)) (parse_string r))"

definition json_digit :: "char \<Rightarrow> bool" where
  "json_digit c \<longleftrightarrow> 48 \<le> (of_char c :: nat) \<and> (of_char c :: nat) < 58"

definition digits_value :: "string \<Rightarrow> nat" where
  "digits_value ds = foldl (\<lambda>acc c. 10 * acc + (of_char c - 48)) 0 ds"

definition parse_digits :: "string \<Rightarrow> (nat \<times> string) option" where
  "parse_digits s =
     (let ds = takeWhile json_digit s in if ds = [] then None else Some (digits_value ds, dropWhile json_digit s))"

definition parse_number :: "string \<Rightarrow> (jsv \<times> string) option" where
  "parse_number s =
     (if s \<noteq> [] \<and> hd s = CHR ''-'' then map_option (\<lambda>(n, r). (Num (- int n), r)) (parse_digits (tl s))
      else map_option (\<lambda>(n, r). (Num (int n), r)) (parse_digits s))"

fun parse_json :: "nat \<Rightarrow> string \<Rightarrow> (jsv \<times> string) option"
and parse_elems :: "nat \<Rightarrow> string \<Rightarrow> (jsv list \<times> string) option"
and parse_members :: "nat \<Rightarrow> string \<Rightarrow> ((string \<times> jsv) list \<times> string) option" where
  "parse_json 0 s = None"
| "parse_json (Suc n) s =
     (case skip_ws s of
        [] \<Rightarrow> None
      | c # r \<Rightarrow>
          if c = CHR ''n'' then (if take 3 r = ''ull'' then Some (Null, drop 3 r) else None)
          else if c = CHR ''t'' then (if take 3 r = ''rue'' then Some (Bool True, drop 3 r) else None)
          else if c = CHR ''f'' then (if take 4 r = ''alse'' then Some (Bool False, drop 4 r) else None)
          else if c = CHR 0x22 then map_option (\<lambda>(x, t). (Str x, t)) (parse_string r)
          else if c = CHR ''['' then
            (case skip_ws r of
               [] \<Rightarrow> None
             | c' # r' \<Rightarrow> if c' = CHR '']'' then Some (Arr [], r')
                         else map_option (\<lambda>(xs, t). (Arr xs, t)) (parse_elems n r))
          else if c = CHR ''{'' then
            (case skip_ws r of
               [] \<Rightarrow> None
             | c' # r' \<Rightarrow> if c' = CHR ''}'' then Some (Obj [], r')
                         else map_option (\<lambda>(ps, t). (Obj ps, t)) (parse_members n r))
          else parse_number (c # r))"
| "parse_elems 0 s = None"
| "parse_elems (Suc n) s =
     (case parse_json n s of
        None \<Rightarrow> None
      | Some (v, r) \<Rightarrow>
          (case skip_ws r of
             [] \<Rightarrow> None
           | c # t \<Rightarrow> if c = CHR '','' then map_option (\<lambda>(vs, u). (v # vs, u)) (parse_elems n t)
                     else if c = CHR '']'' then Some ([v], t) else None))"
| "parse_members 0 s = None"
| "parse_members (Suc n) s =
     (case skip_ws s of
        [] \<Rightarrow> None
      | q # r \<Rightarrow>
          if q \<noteq> CHR 0x22 then None
          else case parse_string r of
            None \<Rightarrow> None
          | Some (k, r1) \<Rightarrow>
              (case skip_ws r1 of
                 [] \<Rightarrow> None
               | c # r2 \<Rightarrow>
                   if c \<noteq> CHR '':'' then None
                   else case parse_json n r2 of
                     None \<Rightarrow> None
                   | Some (v, r3) \<Rightarrow>
                       (case skip_ws r3 of
                          [] \<Rightarrow> None
                        | c' # r4 \<Rightarrow>
                            if c' = CHR '','' then map_option (\<lambda>(ps, u). ((k, v) # ps, u)) (parse_members n r4)
                            else if c' = CHR ''}'' then Some ([(k, v)], r4) else None)))"

definition json_parse :: "string \<Rightarrow> jsv option" where
  "json_parse s =
     (case parse_json (Suc (length s)) s of Some (v, r) \<Rightarrow> if skip_ws r = [] then Some v else None | None \<Rightarrow> None)"

section \<open>Round trip\<close>

fun json_clean :: "jsv \<Rightarrow> bool" where
  "json_clean Undef = False"
| "json_clean (Arr xs) = list_all json_clean xs"
| "json_clean (Obj ps) = list_all (\<lambda>(k, v). json_clean v) ps"
| "json_clean v = True"


lemma char_eq_code: "c = d \<longleftrightarrow> (of_char c :: nat) = of_char d"
  by simp

lemma hex_val_digit: "k < 16 \<Longrightarrow> hex_val (hex_digit k) = Some k"
  by (auto simp: hex_val_def hex_digit_def Let_def)

lemma parse_escape_char:
  "parse_string (json_escape_char c @ t) = map_option (\<lambda>(s, r). (c # s, r)) (parse_string t)"
proof -
  define n where "n = (of_char c :: nat)"
  have c: "c = char_of n" by (simp add: n_def)
  have n: "n < 256" by (simp add: n_def)
  have h0: "hex_val (CHR ''0'') = Some 0" by (simp add: hex_val_def)
  have hd: "hex_val (hex_digit (n div 16)) = Some (n div 16)" "hex_val (hex_digit (n mod 16)) = Some (n mod 16)"
    using n by (simp_all add: hex_val_digit)
  have q1: "char_of (34::nat) = CHR 0x22" by (rule of_char_eqI [where 'a = nat]) simp
  have q2: "char_of (92::nat) = CHR 0x5C" by (rule of_char_eqI [where 'a = nat]) simp
  note q = q1 q2
  show ?thesis
    unfolding c using n hd h0 q
    by (auto simp: json_escape_char_def unescape_def Let_def char_eq_code [of "char_of n"] simp del: of_char_eq_iff)
qed

lemma parse_string_escaped:
  "parse_string (concat (map json_escape_char s) @ CHR 0x22 # rest) = Some (s, rest)"
  by (induction s) (simp_all add: parse_escape_char)

lemma digits_value_snoc: "digits_value (xs @ [c]) = 10 * digits_value xs + (of_char c - 48)"
  by (simp add: digits_value_def)

lemma digits_value_nat_to_dec: "digits_value (nat_to_dec m) = m"
proof (induction m rule: nat_to_dec.induct)
  case (1 m)
  then show ?case
    by (subst nat_to_dec.simps) (auto simp: digits_value_def digits_value_snoc [unfolded digits_value_def])
qed

lemma json_digit_nat_to_dec: "c \<in> set (nat_to_dec m) \<Longrightarrow> json_digit c"
  using nat_to_dec_digits [of m] by (auto simp: json_digit_def)

lemma parse_digits_nat_to_dec:
  assumes "rest = [] \<or> \<not> json_digit (hd rest)"
  shows "parse_digits (nat_to_dec m @ rest) = Some (m, rest)"
proof -
  have a: "\<forall>c \<in> set (nat_to_dec m). json_digit c" using json_digit_nat_to_dec by blast
  have t: "takeWhile json_digit (nat_to_dec m @ rest) = nat_to_dec m"
    using a assms by (cases rest) (auto simp: takeWhile_append2)
  have d: "dropWhile json_digit (nat_to_dec m @ rest) = rest"
    using a assms by (cases rest) (auto simp: dropWhile_append2)
  show ?thesis using t d nat_to_dec_ne [of m] by (simp add: parse_digits_def digits_value_nat_to_dec)
qed

lemma parse_number_int_to_dec:
  assumes "rest = [] \<or> \<not> json_digit (hd rest)"
  shows "parse_number (int_to_dec i @ rest) = Some (Num i, rest)"
proof (cases "i < 0")
  case True
  then show ?thesis using parse_digits_nat_to_dec [OF assms, of "nat (- i)"]
    by (simp add: parse_number_def int_to_dec_def)
next
  case False
  obtain c cs where cs: "nat_to_dec (nat i) = c # cs" using nat_to_dec_ne by (cases "nat_to_dec (nat i)") auto
  have "json_digit c" using json_digit_nat_to_dec [of c "nat i"] cs by simp
  then have "c \<noteq> CHR ''-''" by (auto simp: json_digit_def)
  then show ?thesis using False parse_digits_nat_to_dec [OF assms, of "nat i"] cs
    by (simp add: parse_number_def int_to_dec_def)
qed

lemma ws_layout: "\<forall>c \<in> set (nl @ spaces k). json_ws c"
  by (simp add: nl_def spaces_def json_ws_def)

lemma skip_ws_append_ws: "\<forall>c \<in> set w. json_ws c \<Longrightarrow> skip_ws (w @ s) = skip_ws s"
  by (simp add: skip_ws_def dropWhile_append2)

lemma parse_json_ws: "\<forall>c \<in> set w. json_ws c \<Longrightarrow> parse_json n (w @ s) = parse_json n s"
  by (cases n) (simp_all add: skip_ws_append_ws)

lemma json_at_head:
  "\<exists>c cs. json_at d v = c # cs \<and> \<not> json_ws c \<and> c \<noteq> CHR '']'' \<and> c \<noteq> CHR ''}'' \<and> c \<noteq> CHR '',''"
proof (cases v)
  case (Num i)
  obtain c cs where cs: "nat_to_dec (nat \<bar>i\<bar>) = c # cs" using nat_to_dec_ne by (cases "nat_to_dec (nat \<bar>i\<bar>)") auto
  have "json_digit c" using json_digit_nat_to_dec [of c "nat \<bar>i\<bar>"] cs by simp
  then have "\<not> json_ws c \<and> c \<noteq> CHR '']'' \<and> c \<noteq> CHR ''}'' \<and> c \<noteq> CHR '',''"
    by (auto simp: json_digit_def json_ws_def)
  then show ?thesis using Num cs by (auto simp: int_to_dec_def json_ws_def)
qed (auto simp: json_quote_def json_ws_def)

lemma skip_ws_json_at: "skip_ws (json_at d v @ s) = json_at d v @ s"
  using json_at_head [of d v] by (auto simp: skip_ws_def)

lemma filter_defined_clean: "list_all (\<lambda>(k, v). json_clean v) ps \<Longrightarrow> filter (\<lambda>(k, v). v \<noteq> Undef) ps = ps"
  by (induction ps) auto

lemma size_elem_less: "x \<in> set xs \<Longrightarrow> size x \<le> size_list size xs"
  using size_list_estimation' [of x xs "size x" size] by simp

lemma json_seq_Cons:
  "json_seq e (t # ts) = nl @ spaces e @ t @ (if ts = [] then [] else CHR '','' # json_seq e ts)"
  by (cases ts) simp_all

lemma skip_ws_seq:
  "skip_ws (json_seq e (json_at e x # ts) @ tail) = json_at e x @ (if ts = [] then [] else CHR '','' # json_seq e ts) @ tail"
proof -
  have "skip_ws (json_seq e (json_at e x # ts) @ tail) =
          skip_ws (json_at e x @ (if ts = [] then [] else CHR '','' # json_seq e ts) @ tail)"
    using skip_ws_append_ws [OF ws_layout [of e]] by (simp add: json_seq_Cons)
  then show ?thesis by (simp add: skip_ws_json_at)
qed

lemma parse_json_at:
  "json_clean v \<Longrightarrow> size v < n \<Longrightarrow> rest = [] \<or> \<not> json_digit (hd rest) \<Longrightarrow>
     parse_json n (json_at d v @ rest) = Some (v, rest)"
proof (induction v arbitrary: d n rest)
  case Undef
  then show ?case by simp
next
  case Null
  then obtain m where "n = Suc m" by (cases n) auto
  then show ?case by (simp add: skip_ws_def json_ws_def)
next
  case (Bool b)
  then obtain m where "n = Suc m" by (cases n) auto
  then show ?case by (simp add: skip_ws_def json_ws_def)
next
  case (Num i)
  then obtain m where m: "n = Suc m" by (cases n) auto
  obtain c cs where c: "json_at d (Num i) = c # cs" "\<not> json_ws c"
    using json_at_head [of d "Num i"] by blast
  have "c \<noteq> CHR ''n'' \<and> c \<noteq> CHR ''t'' \<and> c \<noteq> CHR ''f'' \<and> c \<noteq> CHR 0x22 \<and> c \<noteq> CHR ''['' \<and> c \<noteq> CHR ''{''"
  proof -
    have "c = CHR ''-'' \<or> json_digit c"
    proof (cases "i < 0")
      case True
      then show ?thesis using c(1) by (simp add: int_to_dec_def)
    next
      case False
      then have "c \<in> set (nat_to_dec (nat i))" using c(1) by (simp add: int_to_dec_def)
      then show ?thesis using json_digit_nat_to_dec by blast
    qed
    then show ?thesis by (auto simp: json_digit_def)
  qed
  then show ?case using m c Num.prems(3) parse_number_int_to_dec [OF Num.prems(3), of i] skip_ws_json_at [of d "Num i" rest]
    by simp
next
  case (Str s)
  then obtain m where "n = Suc m" by (cases n) auto
  then show ?case by (simp add: skip_ws_def json_ws_def json_quote_def parse_string_escaped)
next
  case (Arr xs)
  have cl: "list_all json_clean xs" using Arr.prems(1) by simp
  obtain m where m: "n = Suc m" using Arr.prems(2) by (cases n) auto
  show ?case
  proof (cases "xs = []")
    case True
    then show ?thesis using m by (simp add: skip_ws_def json_ws_def)
  next
    case False
    have elems: "set ys \<subseteq> set xs \<Longrightarrow> ys \<noteq> [] \<Longrightarrow> size_list size ys < k \<Longrightarrow>
        parse_elems k (json_seq (d + 2) (map (json_at (d + 2)) ys) @ nl @ spaces d @ CHR '']'' # rr) = Some (ys, rr)"
      for ys k rr
    proof (induction ys arbitrary: k)
      case Nil
      then show ?case by simp
    next
      case (Cons y ys)
      obtain k' where k: "k = Suc k'" using Cons.prems(3) by (cases k) auto
      have y: "y \<in> set xs" using Cons.prems(1) by simp
      have cy: "json_clean y" using cl y by (simp add: list_all_iff)
      have sy: "size y < k'" using Cons.prems(3) k by simp
      let ?w = "nl @ spaces (d + 2)"
      let ?tl = "(if ys = [] then [] else CHR '','' # json_seq (d + 2) (map (json_at (d + 2)) ys)) @
                 nl @ spaces d @ CHR '']'' # rr"
      have tl_ok: "?tl = [] \<or> \<not> json_digit (hd ?tl)"
        by (simp add: nl_def json_digit_def)
      have py: "parse_json k' (?w @ json_at (d + 2) y @ ?tl) = Some (y, ?tl)"
        using parse_json_ws [OF ws_layout] Arr.IH [OF y cy sy tl_ok] by simp
      have lay: "json_seq (d + 2) (map (json_at (d + 2)) (y # ys)) @ nl @ spaces d @ CHR '']'' # rr =
                 ?w @ json_at (d + 2) y @ ?tl"
        by (simp add: json_seq_Cons)
      show ?case
      proof (cases "ys = []")
        case True
        have "skip_ws (nl @ spaces d @ CHR '']'' # rr) = CHR '']'' # rr"
          using skip_ws_append_ws [OF ws_layout [of d]] by (simp add: skip_ws_def json_ws_def)
        then show ?thesis using True k py lay by simp
      next
        case False
        have "size_list size ys < k'" using Cons.prems(3) k by simp
        then have "parse_elems k' (json_seq (d + 2) (map (json_at (d + 2)) ys) @ nl @ spaces d @ CHR '']'' # rr) =
                     Some (ys, rr)"
          using Cons.IH Cons.prems(1) False by simp
        then show ?thesis using False k py lay by (simp add: skip_ws_def json_ws_def)
      qed
    qed
    obtain x xs' where x: "xs = x # xs'" using False by (cases xs) auto
    obtain c cs where c: "json_at (d + 2) x = c # cs" "c \<noteq> CHR '']''"
      using json_at_head [of "d + 2" x] by blast
    have s: "skip_ws (json_seq (d + 2) (map (json_at (d + 2)) xs) @ nl @ spaces d @ CHR '']'' # rest) =
               json_at (d + 2) x @ (if xs' = [] then [] else CHR '','' # json_seq (d + 2) (map (json_at (d + 2)) xs')) @
               nl @ spaces d @ CHR '']'' # rest"
      using skip_ws_seq [of "d + 2" x "map (json_at (d + 2)) xs'"] x by simp
    have p: "parse_elems m (json_seq (d + 2) (map (json_at (d + 2)) xs) @ nl @ spaces d @ CHR '']'' # rest) = Some (xs, rest)"
      using elems [of xs m rest] False Arr.prems(2) m by simp
    show ?thesis using False m s c p by (simp add: skip_ws_def json_ws_def)
  qed
next
  case (Obj ps)
  have cl: "list_all (\<lambda>(k, v). json_clean v) ps" using Obj.prems(1) by simp
  have fl: "filter (\<lambda>(k, v). v \<noteq> Undef) ps = ps" using filter_defined_clean [OF cl] .
  obtain m where m: "n = Suc m" using Obj.prems(2) by (cases n) auto
  let ?mem = "\<lambda>(k, v). json_quote k @ '': '' @ json_at (d + 2) v"
  show ?case
  proof (cases "ps = []")
    case True
    then show ?thesis using m by (simp add: skip_ws_def json_ws_def)
  next
    case False
    have mems: "set qs \<subseteq> set ps \<Longrightarrow> qs \<noteq> [] \<Longrightarrow> size_list (size_prod (\<lambda>x. 0) size) qs < k \<Longrightarrow>
        parse_members k (json_seq (d + 2) (map ?mem qs) @ nl @ spaces d @ CHR ''}'' # rr) = Some (qs, rr)"
      for qs k rr
    proof (induction qs arbitrary: k)
      case Nil
      then show ?case by simp
    next
      case (Cons kv qs)
      obtain k0 v where kv: "kv = (k0, v)" by (cases kv)
      obtain k' where k: "k = Suc k'" using Cons.prems(3) by (cases k) auto
      have inp: "(k0, v) \<in> set ps" using Cons.prems(1) kv by simp
      have cv: "json_clean v" using cl inp by (auto simp: list_all_iff)
      have sv: "size v < k'" using Cons.prems(3) k kv by simp
      let ?tl = "(if qs = [] then [] else CHR '','' # json_seq (d + 2) (map ?mem qs)) @ nl @ spaces d @ CHR ''}'' # rr"
      have tl_ok: "?tl = [] \<or> \<not> json_digit (hd ?tl)" by (simp add: nl_def json_digit_def)
      have pv: "parse_json k' ('' '' @ json_at (d + 2) v @ ?tl) = Some (v, ?tl)"
        using parse_json_ws [of "'' ''"] Obj.IH [OF inp _ cv sv tl_ok] by (simp add: json_ws_def)
      have sk: "skip_ws (json_seq (d + 2) (map ?mem ((k0, v) # qs)) @ nl @ spaces d @ CHR ''}'' # rr) =
                  CHR 0x22 # concat (map json_escape_char k0) @ CHR 0x22 # CHR '':'' # '' '' @ json_at (d + 2) v @ ?tl"
      proof -
        have "json_seq (d + 2) (map ?mem ((k0, v) # qs)) @ nl @ spaces d @ CHR ''}'' # rr =
                (nl @ spaces (d + 2)) @ CHR 0x22 # concat (map json_escape_char k0) @ CHR 0x22 # CHR '':'' # '' '' @
                json_at (d + 2) v @ ?tl"
          by (simp add: json_seq_Cons json_quote_def)
        then show ?thesis using skip_ws_append_ws [OF ws_layout [of "d + 2"]] by (simp add: skip_ws_def json_ws_def)
      qed
      show ?case
      proof (cases "qs = []")
        case True
        have "skip_ws (nl @ spaces d @ CHR ''}'' # rr) = CHR ''}'' # rr"
          using skip_ws_append_ws [OF ws_layout [of d]] by (simp add: skip_ws_def json_ws_def)
        then show ?thesis using True k kv sk pv by (simp add: parse_string_escaped skip_ws_def json_ws_def)
      next
        case False
        have "size_list (size_prod (\<lambda>x. 0) size) qs < k'" using Cons.prems(3) k by simp
        then have "parse_members k' (json_seq (d + 2) (map ?mem qs) @ nl @ spaces d @ CHR ''}'' # rr) = Some (qs, rr)"
          using Cons.IH Cons.prems(1) False by simp
        then show ?thesis using False k kv sk pv by (simp add: parse_string_escaped skip_ws_def json_ws_def)
      qed
    qed
    have p: "parse_members m (json_seq (d + 2) (map ?mem ps) @ nl @ spaces d @ CHR ''}'' # rest) = Some (ps, rest)"
      using mems [of ps m rest] False Obj.prems(2) m by simp
    obtain kv ps' where ps: "ps = kv # ps'" using False by (cases ps) auto
    have s: "skip_ws (json_seq (d + 2) (map ?mem ps) @ nl @ spaces d @ CHR ''}'' # rest) \<noteq> [] \<and>
             hd (skip_ws (json_seq (d + 2) (map ?mem ps) @ nl @ spaces d @ CHR ''}'' # rest)) = CHR 0x22"
      using skip_ws_append_ws [OF ws_layout [of "d + 2"]] ps
      by (cases kv) (simp add: json_seq_Cons json_quote_def skip_ws_def json_ws_def)
    then obtain r' where r': "skip_ws (json_seq (d + 2) (map ?mem ps) @ nl @ spaces d @ CHR ''}'' # rest) = CHR 0x22 # r'"
      by (cases "skip_ws (json_seq (d + 2) (map ?mem ps) @ nl @ spaces d @ CHR ''}'' # rest)") auto
    show ?thesis using False m fl r' p by (simp add: skip_ws_def json_ws_def)
  qed
qed

lemma json_seq_length: "sum_list (map (\<lambda>t. length t + 1) ts) \<le> length (json_seq e ts)"
  by (induction e ts rule: json_seq.induct) (simp_all add: nl_def spaces_def)

lemma sum_list_map_Suc: "sum_list (map (\<lambda>x. f x + 1) xs) = sum_list (map f xs) + length xs"
  by (induction xs) auto

lemma json_at_length: "json_clean v \<Longrightarrow> size v \<le> length (json_at d v)"
proof (induction v arbitrary: d)
  case (Num i)
  then show ?case using nat_to_dec_ne [of "nat \<bar>i\<bar>"] by (cases "nat_to_dec (nat \<bar>i\<bar>)") (auto simp: int_to_dec_def)
next
  case (Arr xs)
  have "size_list size xs \<le> sum_list (map (\<lambda>t. length t + 1) (map (json_at (d + 2)) xs))"
  proof -
    have "sum_list (map (\<lambda>x. size x + 1) xs) \<le> sum_list (map (\<lambda>x. length (json_at (d + 2) x) + 1) xs)"
      using Arr by (intro sum_list_mono) (auto simp: list_all_iff)
    then show ?thesis by (simp only: size_list_conv_sum_list sum_list_map_Suc map_map comp_def)
  qed
  then show ?case using json_seq_length [of "map (json_at (d + 2)) xs" "d + 2"] by auto
next
  case (Obj ps)
  have fl: "filter (\<lambda>(k, v). v \<noteq> Undef) ps = ps" using filter_defined_clean Obj.prems by simp
  have "size_list (size_prod (\<lambda>x. 0) size) ps \<le>
          sum_list (map (\<lambda>t. length t + 1) (map (\<lambda>(k, v). json_quote k @ '': '' @ json_at (d + 2) v) ps))"
  proof -
    have "sum_list (map (\<lambda>kv. size_prod (\<lambda>x. 0) size kv + 1) ps) \<le>
            sum_list (map (\<lambda>kv. length ((\<lambda>(k, v). json_quote k @ '': '' @ json_at (d + 2) v) kv) + 1) ps)"
    proof (intro sum_list_mono)
      fix kv assume kv: "kv \<in> set ps"
      obtain k v where e: "kv = (k, v)" by (cases kv)
      have "json_clean v" using Obj.prems kv e by (auto simp: list_all_iff)
      then have "size v \<le> length (json_at (d + 2) v)" using Obj.IH kv e by simp
      then show "size_prod (\<lambda>x. 0) size kv + 1 \<le> length ((\<lambda>(k, v). json_quote k @ '': '' @ json_at (d + 2) v) kv) + 1"
        using e by (simp add: json_quote_def)
    qed
    then show ?thesis by (simp only: size_list_conv_sum_list sum_list_map_Suc map_map comp_def)
  qed
  then show ?case using fl json_seq_length [of "map (\<lambda>(k, v). json_quote k @ '': '' @ json_at (d + 2) v) ps" "d + 2"]
    by auto
qed (auto simp: json_quote_def)

text \<open>Every value without \<open>undefined\<close> in it is printed, and the text reads back as
  the value.\<close>

lemma json_roundtrip: "json_clean v \<Longrightarrow> \<exists>t. json_stringify v = Some t \<and> json_parse t = Some v"
proof -
  assume c: "json_clean v"
  have u: "v \<noteq> Undef" using c by auto
  have "size v < Suc (length (json_at 0 v))" using json_at_length [OF c, of 0] by simp
  then have "parse_json (Suc (length (json_at 0 v))) (json_at 0 v @ []) = Some (v, [])"
    using parse_json_at [OF c] by blast
  then show ?thesis using u by (simp add: json_stringify_def json_parse_def skip_ws_def)
qed

end
