(* ===== verification/Trend_Page.thy ===== *)
theory Trend_Page
  imports Trend_Screen Json_Text
begin

text \<open>
  What the trend analysis screen (\<open>src/frontend/src/components/TrendAnalysis.jsx\<close>)
  renders from its state: the loading skeleton while \<open>isLoading\<close>, otherwise the header
  with its period selector and buttons, the four summary cards, and the content of the
  active tab. \<open>toLocaleString()\<close> of a number is the browser's and a parameter
  \<open>loc\<close>; dates are shown by the browser and kept as their time stamps. The model's
  numbers are integers, which \<open>Math.round\<close> leaves as they are.
\<close>

definition trend_period_options :: "string list" where
  "trend_period_options = [''7d'', ''30d'', ''90d'']"

record trend_header =
  th_last_updated :: "int option"
  th_period :: string
  th_refresh_spinning :: bool
  th_refresh_disabled :: bool
  th_report_generating :: bool
  th_report_menu :: bool

text \<open>The header: the last update when there is one, the selector, the refresh button
  (spinning and labelled "Yenileniyor..." while \<open>isLoading\<close>), and the report button
  with its menu, which is rendered only when no report is being generated.\<close>

definition trend_header :: "trend_screen \<Rightarrow> trend_header" where
  "trend_header s =
     \<lparr>th_last_updated = ts_last_updated s, th_period = ts_period s, th_refresh_spinning = ts_loading s,
      th_refresh_disabled = ts_loading s, th_report_generating = ts_generating s,
      th_report_menu = (\<not> ts_generating s)\<rparr>"

text \<open>\<open>Math.round(v)\<close> as it prints: \<open>NaN\<close> for a value that is not a number.\<close>

definition math_round_text :: "jsv \<Rightarrow> string" where
  "math_round_text v = (case to_number v of Some n \<Rightarrow> int_to_dec n | None \<Rightarrow> ''NaN'')"

record summary_cards =
  sc_total :: jsv
  sc_average :: string
  sc_most_positive :: jsv
  sc_period :: string

definition summary_cards :: "(jsv \<Rightarrow> string) \<Rightarrow> trend_screen \<Rightarrow> summary_cards" where
  "summary_cards loc s =
     (let sm = opt_prop (ts_data s) ''summary'' in
      \<lparr>sc_total = locale_or_zero loc (opt_prop sm ''total_comments''),
       sc_average = math_round_text (js_or (opt_prop sm ''average_daily'') (Num 0)),
       sc_most_positive = js_or (opt_prop sm ''most_positive_team'') (Str ''-''),
       sc_period = ts_period s\<rparr>)"

text \<open>One team of the team details list: \<open>team.overall\<close> is read without optional
  chaining, and \<open>weekly_change.toFixed(1)\<close> needs a number (\<open>None\<close> is the
  \<open>TypeError\<close>).\<close>

record team_row =
  tr_key :: jsv
  tr_name :: jsv
  tr_total :: jsv
  tr_icon :: trend_icon
  tr_change :: "change_class \<times> string"

definition team_row :: "jsv \<Rightarrow> team_row option" where
  "team_row t =
     (case (get_prop t ''team_id'', get_prop t ''overall'') of
        (Some k, Some ov) \<Rightarrow>
          (case (get_prop ov ''total_comments'', get_prop ov ''trend_direction'', get_prop ov ''weekly_change'') of
             (Some tot, Some dir, Some (Num w)) \<Rightarrow>
               Some \<lparr>tr_key = k, tr_name = opt_prop t ''team_name'', tr_total = tot, tr_icon = get_trend_icon dir,
                     tr_change = weekly_change_view (of_int w)\<rparr>
           | _ \<Rightarrow> None)
      | _ \<Rightarrow> None)"

text \<open>The debug tab: the raw answers printed by \<open>JSON.stringify(x, null, 2)\<close> and the
  data summary (\<open>None\<close> for "Never" updated).\<close>

record debug_summary =
  dbg_period :: string
  dbg_last_updated :: "int option"
  dbg_teams :: jsv
  dbg_total :: jsv
  dbg_data_period :: jsv
  dbg_start :: jsv
  dbg_end :: jsv
  dbg_insights :: jsv
  dbg_raw_data :: "string option"
  dbg_raw_insights :: "string option"

definition debug_summary :: "trend_screen \<Rightarrow> debug_summary" where
  "debug_summary s =
     (let d = ts_data s in
      \<lparr>dbg_period = ts_period s, dbg_last_updated = ts_last_updated s,
       dbg_teams = js_or (opt_prop (opt_prop d ''teams'') ''length'') (Num 0),
       dbg_total = js_or (opt_prop (opt_prop d ''summary'') ''total_comments'') (Num 0),
       dbg_data_period = js_or (opt_prop d ''period'') (Str ''N/A''),
       dbg_start = js_or (opt_prop d ''start_date'') (Str ''N/A''),
       dbg_end = js_or (opt_prop d ''end_date'') (Str ''N/A''),
       dbg_insights = js_or (opt_prop (ts_insights s) ''length'') (Num 0),
       dbg_raw_data = json_stringify d, dbg_raw_insights = json_stringify (ts_insights s)\<rparr>)"

text \<open>The reports tab's two buttons, each \<open>downloadReport(format)\<close>, disabled and
  relabelled while \<open>isGeneratingReport\<close>.\<close>

definition reports_buttons :: "trend_screen \<Rightarrow> (string \<times> bool) list" where
  "reports_buttons s = [(''html'', ts_generating s), (''json'', ts_generating s)]"

datatype trend_content =
    TrendsTab "line_chart option option" "bar_chart option option" "team_row list option option"
  | ReportsTab "(string \<times> bool) list"
  | InsightsTab "insight_card list option"
  | DebugTab debug_summary

datatype trend_page = TrendSkeleton | TrendPage trend_header summary_cards trend_content

text \<open>The component's render: the skeleton while \<open>isLoading\<close>; otherwise the tab
  chosen by \<open>activeTab\<close> (the reports tab's buttons disabled while a report is being
  generated).\<close>

definition trend_page :: "(jsv \<Rightarrow> string) \<Rightarrow> trend_screen \<Rightarrow> trend_page" where
  "trend_page loc s =
     (if ts_loading s then TrendSkeleton
      else TrendPage (trend_header s) (summary_cards loc s)
             (case ts_tab s of
                TabTrends \<Rightarrow> TrendsTab (comments_chart (ts_data s)) (team_comparison_chart (ts_data s))
                                       (opt_map team_row (opt_prop (ts_data s) ''teams''))
              | TabReports \<Rightarrow> ReportsTab (reports_buttons s)
              | TabDebug \<Rightarrow> DebugTab (debug_summary s)
              | TabInsights \<Rightarrow> InsightsTab (insights_view (ts_insights s))))"

section \<open>Properties\<close>

text \<open>The refresh button's loading state is never seen: while \<open>isLoading\<close> the
  component returns the skeleton instead of the header, so a rendered header's refresh
  button neither spins nor says "Yenileniyor...", and is never disabled.\<close>

lemma refresh_spinner_unreachable:
  "trend_page loc s = TrendPage h c x \<Longrightarrow> \<not> th_refresh_spinning h \<and> \<not> th_refresh_disabled h"
  by (auto simp: trend_page_def trend_header_def split: if_splits)

text \<open>Before the first answer the summary cards show zeros and the placeholder, and the
  debug tab reports no teams and no insights.\<close>

lemma first_render_defaults:
  "summary_cards loc trend_init = \<lparr>sc_total = Num 0, sc_average = ''0'', sc_most_positive = Str ''-'', sc_period = ''7d''\<rparr> \<and>
   dbg_teams (debug_summary trend_init) = Num 0 \<and> dbg_insights (debug_summary trend_init) = Num 0"
proof -
  have "math_round_text (Num 0) = ''0''" by code_simp
  moreover have "dbg_teams (debug_summary trend_init) = Num 0 \<and> dbg_insights (debug_summary trend_init) = Num 0"
    by code_simp
  ultimately show ?thesis
    by (simp add: summary_cards_def trend_init_def locale_or_zero_def js_or_def)
qed

text \<open>A team whose weekly change is missing breaks the trends tab: \<open>toFixed\<close> of
  \<open>undefined\<close> throws.\<close>

lemma team_row_missing_change:
  "team_row (Obj [(''team_id'', Num 1), (''overall'', Obj [(''total_comments'', Num 3)])]) = None"
  by code_simp

text \<open>The report menu and the reports tab's buttons are offered exactly when no report
  is being generated.\<close>

lemma report_controls_follow_flag:
  "trend_page loc s = TrendPage h c x \<Longrightarrow>
     th_report_menu h = (\<not> ts_generating s) \<and>
     (ts_tab s = TabReports \<longrightarrow> x = ReportsTab (reports_buttons s) \<and> (\<forall>(f, d) \<in> set (reports_buttons s). d = ts_generating s))"
  by (auto simp: trend_page_def trend_header_def reports_buttons_def split: if_splits)

text \<open>A click on an enabled button of the reports tab starts that report for the period
  shown.\<close>

lemma reports_button_starts:
  "trend_page loc s = TrendPage h c (ReportsTab bs) \<Longrightarrow> (fmt, False) \<in> set bs \<Longrightarrow>
     ts_generating (trend_step (DownloadClick fmt) s) \<and>
     ts_reports (trend_step (DownloadClick fmt) s) = ts_reports s @ [(ts_period s, fmt)]"
  by (auto simp: trend_page_def reports_buttons_def download_click_def controls_shown_def split: if_splits trend_tab.splits)



text \<open>What the debug tab prints for a small answer: two-space indentation, one member
  per line.\<close>

lemma debug_raw_layout:
  \<open>json_stringify (Obj [(''period'', Str ''7d''), (''teams'', Arr [])]) =
     Some (''{'' @ [CHR 0x0A] @ ''  "period": "7d",'' @ [CHR 0x0A] @ ''  "teams": []'' @ [CHR 0x0A] @ ''}'')\<close>
  by code_simp

end
