(* ===== verification/Ai_Screens.thy ===== *)
theory Ai_Screens
  imports Groq_Service Trend_Analysis
begin

text \<open>
  The four panels built on the AI service (\<open>groqService\<close>):
  \<open>src/frontend/src/components/AISummary.jsx\<close>, \<open>TrendInsights.jsx\<close>,
  \<open>CategoryStats.jsx\<close> and \<open>GroqTest.jsx\<close>. Each keeps the answer of one service call
  with a loading flag and an error text (\<open>err.message\<close>, here \<open>error_message\<close>), and
  renders from them. The service functions are those of \<open>Groq_Service\<close>; the
  handlers add their own state updates and notifications around them.
  \<^item> Numbers the panels compare or format (confidence, average sentiment, toxicity) are
    exact rationals of typed rows; \<open>None\<close> is a missing value.
  \<^item> The sample text GroqTest starts with holds a dotless i, outside the byte strings
    of the model; the state starts from any text.
  \<^item> Dates (\<open>Intl.DateTimeFormat\<close>), icons and markup are not modelled.
\<close>

section \<open>AISummary\<close>

record ai_summary_ui =
  sum_summary :: jsv
  sum_loading :: bool
  sum_error :: "string option"
  sum_last_generated :: "int option"

definition init_ai_summary :: ai_summary_ui where
  "init_ai_summary = \<lparr>sum_summary = Null, sum_loading = False, sum_error = None, sum_last_generated = None\<rparr>"

text \<open>\<open>generateSummary\<close>: the loading flag is set for the call and cleared by
  \<open>finally\<close>; the clock reading is \<open>now\<close>.\<close>

definition generate_summary :: "backend \<Rightarrow> jsv \<Rightarrow> int \<Rightarrow> ai_summary_ui \<Rightarrow> event list \<Rightarrow> ai_summary_ui \<times> event list" where
  "generate_summary be tid now st tr =
     (case generate_daily_summary be tid (tr @ [LogInfo ''AISummary generateSummary called with teamId:'']) of
        (Inr r, tr') \<Rightarrow>
          (st\<lparr>sum_summary := r, sum_loading := False, sum_error := None, sum_last_generated := Some now\<rparr>,
           tr' @ [Toast ToastSuccess MsgAiSummaryCreated])
      | (Inl e, tr') \<Rightarrow>
          (st\<lparr>sum_loading := False, sum_error := Some (error_message e)\<rparr>,
           tr' @ [LogError ''Summary generation error:'', Toast ToastError (MsgAiSummaryFailed (error_message e))]))"

text \<open>The "collect comments" button posts to a fixed address with \<open>fetch\<close>, which
  resolves for every HTTP answer: only a network failure is reported.\<close>

definition collect_comments_request :: request where
  "collect_comments_request =
     \<lparr>req_method = POST, req_url = ''http://localhost:8060/api/v1/youtube/collect'', req_body = Undef\<rparr>"

definition collect_comments_click :: "backend \<Rightarrow> event list \<Rightarrow> event list" where
  "collect_comments_click be tr =
     tr @ [ToastId ''collect'' ToastLoading MsgCollectingComments, Send collect_comments_request] @
     (case be collect_comments_request of
        Response s d \<Rightarrow> [ToastId ''collect'' ToastSuccess MsgCommentsCollected]
      | _ \<Rightarrow> [ToastId ''collect'' ToastError MsgCollectFailed])"

datatype summary_panel = SummaryLoadingPanel | SummaryErrorPanel string | SummaryContent jsv jsv | SummaryEmptyPanel

text \<open>The panels shown, in page order: \<open>loading &&\<close>, \<open>error &&\<close>, \<open>summary &&\<close> (with the
  number of topics, \<open>main_topics ? main_topics.length : 0\<close>) and the empty state when
  none of the three holds. An empty error text is falsy.\<close>

definition topic_count :: "jsv \<Rightarrow> jsv" where
  "topic_count s = (let mt = opt_prop s ''main_topics'' in if truthy mt then opt_prop mt ''length'' else Num 0)"

definition summary_panels :: "ai_summary_ui \<Rightarrow> summary_panel list" where
  "summary_panels st =
     (let err = (case sum_error st of Some m \<Rightarrow> m | None \<Rightarrow> []) in
      (if sum_loading st then [SummaryLoadingPanel] else []) @
      (if err \<noteq> [] then [SummaryErrorPanel err] else []) @
      (if truthy (sum_summary st) then [SummaryContent (sum_summary st) (topic_count (sum_summary st))] else []) @
      (if \<not> truthy (sum_summary st) \<and> \<not> sum_loading st \<and> err = [] then [SummaryEmptyPanel] else []))"

section \<open>TrendInsights\<close>

record insights_ui =
  ins_list :: jsv
  ins_loading :: bool
  ins_error :: "string option"
  ins_refreshing :: bool

definition init_insights_ui :: insights_ui where
  "init_insights_ui = \<lparr>ins_list = Arr [], ins_loading = True, ins_error = None, ins_refreshing = False\<rparr>"

text \<open>\<open>loadTrendInsights\<close> clears the error before the call; \<open>refreshInsights\<close> does not.\<close>

definition load_trend_insights :: "backend \<Rightarrow> jsv \<Rightarrow> insights_ui \<Rightarrow> event list \<Rightarrow> insights_ui \<times> event list" where
  "load_trend_insights be tid st tr =
     (case get_trend_insights be tid tr of
        (Inr r, tr') \<Rightarrow> (st\<lparr>ins_list := js_or r (Arr []), ins_error := None, ins_loading := False\<rparr>, tr')
      | (Inl e, tr') \<Rightarrow> (st\<lparr>ins_error := Some (error_message e), ins_loading := False\<rparr>, tr'))"

definition refresh_insights :: "backend \<Rightarrow> jsv \<Rightarrow> insights_ui \<Rightarrow> event list \<Rightarrow> insights_ui \<times> event list" where
  "refresh_insights be tid st tr =
     (case get_trend_insights be tid tr of
        (Inr r, tr') \<Rightarrow> (st\<lparr>ins_list := js_or r (Arr []), ins_refreshing := False\<rparr>, tr')
      | (Inl e, tr') \<Rightarrow> (st\<lparr>ins_error := Some (error_message e), ins_refreshing := False\<rparr>, tr'))"

datatype insight_kind = KindPositive | KindNegative | KindTopic | KindOther

definition insight_kind :: "jsv \<Rightarrow> insight_kind" where
  "insight_kind t =
     (if t = Str ''positive'' then KindPositive else if t = Str ''negative'' then KindNegative
      else if t = Str ''topic'' then KindTopic else KindOther)"

definition get_trend_color :: "jsv \<Rightarrow> string" where
  "get_trend_color t =
     (case insight_kind t of
        KindPositive \<Rightarrow> ''border-green-200 bg-green-50'' | KindNegative \<Rightarrow> ''border-red-200 bg-red-50''
      | KindTopic \<Rightarrow> ''border-orange-200 bg-orange-50'' | KindOther \<Rightarrow> ''border-blue-200 bg-blue-50'')"

datatype badge_color = BadgeGreen | BadgeYellow | BadgeRed

definition confidence_badge :: "rat \<Rightarrow> badge_color \<times> string" where
  "confidence_badge c =
     (if 8 / 10 \<le> c then BadgeGreen else if 6 / 10 \<le> c then BadgeYellow else BadgeRed, percent_text c)"

text \<open>The keywords shown on an insight, at most the first \<open>n\<close>, for an array of keywords;
  other values show none (a non-empty string would throw).\<close>

definition shown_keywords :: "nat \<Rightarrow> jsv \<Rightarrow> jsv list" where
  "shown_keywords n kws = (case kws of Arr ks \<Rightarrow> take n ks | _ \<Rightarrow> [])"

datatype insights_body = InsightsList "jsv list" | InsightsEmpty | InsightsNothing

text \<open>\<open>insights.length > 0 ? insights.map(...) : !loading && !error && empty\<close>;
  \<open>None\<close> is the \<open>TypeError\<close> of a list with a length but no \<open>map\<close>.\<close>

definition insights_body :: "insights_ui \<Rightarrow> insights_body option" where
  "insights_body st =
     (case get_prop (ins_list st) ''length'' of
        None \<Rightarrow> None
      | Some l \<Rightarrow>
          if js_lt (Num 0) l then (case ins_list st of Arr xs \<Rightarrow> Some (InsightsList xs) | _ \<Rightarrow> None)
          else Some (if \<not> ins_loading st \<and> (ins_error st = None \<or> ins_error st = Some []) then InsightsEmpty
                     else InsightsNothing))"

datatype insights_page =
    InsightsSkeleton
  | InsightsPage bool "string option" insights_body "nat option"

text \<open>The render: the skeleton while \<open>loading\<close>; otherwise the refresh button (disabled
  while \<open>refreshing\<close>), the error panel under \<open>error && (...)\<close>, the body, and the
  footer counting the insights under \<open>insights.length > 0 && (...)\<close>.\<close>

definition insights_page :: "insights_ui \<Rightarrow> insights_page option" where
  "insights_page st =
     (if ins_loading st then Some InsightsSkeleton
      else map_option
             (\<lambda>b. InsightsPage (ins_refreshing st)
                    (case ins_error st of Some m \<Rightarrow> if m \<noteq> [] then Some m else None | None \<Rightarrow> None) b
                    (case b of InsightsList xs \<Rightarrow> Some (length xs) | _ \<Rightarrow> None))
             (insights_body st))"

section \<open>CategoryStats\<close>

record category_row =
  cat_name :: ustr
  cat_percentage :: jsv
  cat_avg :: rat
  cat_keywords :: jsv
  cat_count :: jsv

record category_ui =
  cat_data :: "category_row list option"
  cat_loading :: bool
  cat_error :: "string option"
  cat_toxicity :: jsv

text \<open>\<open>loadCategoryStats\<close>, with the service answer decoded into rows by \<open>decode\<close>
  (\<open>None\<close> for an answer without categories, when the panel renders nothing); its
  \<open>toxicity\<close> member is kept as it came.\<close>

definition load_category_stats ::
  "backend \<Rightarrow> jsv \<Rightarrow> (jsv \<Rightarrow> category_row list option) \<Rightarrow> category_ui \<Rightarrow> event list \<Rightarrow> category_ui \<times> event list" where
  "load_category_stats be tid decode st tr =
     (case get_category_stats be tid tr of
        (Inr r, tr') \<Rightarrow>
          (st\<lparr>cat_data := decode r, cat_toxicity := opt_prop r ''toxicity'', cat_error := None, cat_loading := False\<rparr>, tr')
      | (Inl e, tr') \<Rightarrow> (st\<lparr>cat_error := Some (error_message e), cat_loading := False\<rparr>, tr'))"

definition sentiment_bar_color :: "rat \<Rightarrow> string" where
  "sentiment_bar_color s = (if 6 / 10 < s then ''#10B981'' else if s < 4 / 10 then ''#EF4444'' else ''#F59E0B'')"

record category_charts =
  doughnut_labels :: "ustr list"
  doughnut_data :: "jsv list"
  doughnut_colors :: "string member list"
  bar_values :: "rat list"
  bar_colors :: "string list"

definition category_charts :: "category_row list \<Rightarrow> category_charts" where
  "category_charts cs =
     \<lparr>doughnut_labels = map cat_name cs, doughnut_data = map cat_percentage cs,
      doughnut_colors = map (\<lambda>c. get_category_color (cat_name c)) cs,
      bar_values = map cat_avg cs, bar_colors = map (\<lambda>c. sentiment_bar_color (cat_avg c)) cs\<rparr>"

datatype category_view = CategoryLoading | CategoryError string | CategoryNothing | CategoryShown category_charts

definition category_view :: "category_ui \<Rightarrow> category_view" where
  "category_view st =
     (if cat_loading st then CategoryLoading
      else case cat_error st of
             Some m \<Rightarrow> if m \<noteq> [] then CategoryError m else (case cat_data st of None \<Rightarrow> CategoryNothing | Some cs \<Rightarrow> CategoryShown (category_charts cs))
           | None \<Rightarrow> (case cat_data st of None \<Rightarrow> CategoryNothing | Some cs \<Rightarrow> CategoryShown (category_charts cs)))"

section \<open>GroqTest\<close>

record groq_test_ui =
  test_text :: string
  test_result :: jsv
  test_loading :: bool
  test_error :: "string option"

definition run_test :: "backend \<Rightarrow> groq_test_ui \<Rightarrow> event list \<Rightarrow> groq_test_ui \<times> event list" where
  "run_test be st tr =
     (if js_trim (test_text st) = [] then (st, tr @ [Toast ToastError MsgEnterSomeText])
      else case test_grok_ai be (Str (test_text st)) tr of
             (Inr r, tr') \<Rightarrow> (st\<lparr>test_result := r, test_error := None, test_loading := False\<rparr>, tr')
           | (Inl e, tr') \<Rightarrow> (st\<lparr>test_result := Null, test_error := Some (error_message e), test_loading := False\<rparr>, tr'))"

definition test_button_disabled :: "groq_test_ui \<Rightarrow> bool" where
  "test_button_disabled st = (test_loading st \<or> js_trim (test_text st) = [])"

definition get_sentiment_color_test :: "jsv \<Rightarrow> string" where
  "get_sentiment_color_test l =
     (if l = Str ''POSITIVE'' then ''text-green-600 bg-green-50 border-green-200''
      else if l = Str ''NEGATIVE'' then ''text-red-600 bg-red-50 border-red-200''
      else ''text-gray-600 bg-gray-50 border-gray-200'')"

text \<open>\<open>c ? (c * 100).toFixed(1) + '%' : fallback\<close>: a missing or zero value shows the
  fallback, \<open>N/A\<close> for the confidence and \<open>0%\<close> for the toxicity.\<close>

definition score_text :: "string \<Rightarrow> rat option \<Rightarrow> string" where
  "score_text fallback c =
     (case c of Some x \<Rightarrow> if x \<noteq> 0 then to_fixed_1_text (x * 100) @ ''%'' else fallback | None \<Rightarrow> fallback)"

definition confidence_text :: "rat option \<Rightarrow> string" where
  "confidence_text c = score_text ''N/A'' c"

definition toxicity_text :: "rat option \<Rightarrow> string" where
  "toxicity_text c = score_text ''0%'' c"

section \<open>Properties\<close>

subsection \<open>AISummary\<close>

lemma generate_summary_not_loading: "\<not> sum_loading (fst (generate_summary be tid now st tr))"
  by (simp add: generate_summary_def split: prod.splits sum.splits)

text \<open>The empty state is shown alone: it excludes the loading, error and content panels.\<close>

lemma summary_empty_panel_alone:
  "SummaryEmptyPanel \<in> set (summary_panels st) \<longleftrightarrow> summary_panels st = [SummaryEmptyPanel]"
  by (auto simp: summary_panels_def Let_def)

text \<open>A backend that answers the summary request with the summary object itself (no
  \<open>data\<close> field) gets the success toasts of the service and of the panel, and the panel
  falls back to its empty state: the service returns \<open>response.data\<close> of a value the API
  client has already unwrapped.\<close>

lemma summary_success_shows_empty:
  "let (st, tr) = generate_summary (\<lambda>_. Response 200 (Obj [(''summary'', Str ''ok'')])) Undef 7 init_ai_summary []
   in summary_panels st = [SummaryEmptyPanel] \<and>
      ToastId ''summary-loading'' ToastSuccess MsgSummaryDone \<in> set tr \<and> last tr = Toast ToastSuccess MsgAiSummaryCreated"
  by (simp add: generate_summary_def generate_daily_summary_apply Let_def act_simps summary_panels_def init_ai_summary_def
                id_url_def handle_api_response_def obj_get_def)

text \<open>After a failed attempt that follows a successful one, the old summary is shown
  below the error.\<close>

lemma summary_error_keeps_old:
  assumes "truthy (sum_summary st)" and "fst (generate_daily_summary be tid tr') = Inl e"
      and "tr' = tr @ [LogInfo ''AISummary generateSummary called with teamId:'']" and "error_message e \<noteq> []"
  shows "summary_panels (fst (generate_summary be tid now st tr)) =
           [SummaryErrorPanel (error_message e), SummaryContent (sum_summary st) (topic_count (sum_summary st))]"
  using assms by (cases "generate_daily_summary be tid tr'") (simp add: generate_summary_def summary_panels_def)

text \<open>The collect button reports success for every HTTP answer, a server error included.\<close>

lemma collect_comments_500_success:
  "last (collect_comments_click (\<lambda>_. Response 500 Null) tr) = ToastId ''collect'' ToastSuccess MsgCommentsCollected"
  by (simp add: collect_comments_click_def)

subsection \<open>TrendInsights\<close>

text \<open>A refresh that succeeds after a failed load leaves the error on screen above the
  new insights: only \<open>loadTrendInsights\<close> clears it.\<close>

lemma refresh_keeps_error:
  "ins_error st = Some m \<Longrightarrow> fst (get_trend_insights be tid tr) = Inr r \<Longrightarrow>
     ins_error (fst (refresh_insights be tid st tr)) = Some m \<and>
     ins_list (fst (refresh_insights be tid st tr)) = js_or r (Arr [])"
  by (cases "get_trend_insights be tid tr") (simp add: refresh_insights_def)

text \<open>On screen: after a failed load, a refresh answered with two insights shows the
  error panel and the two insights, counted in the footer.\<close>

lemma refresh_shows_error_and_insights:
  "insights_page (fst (refresh_insights (\<lambda>_. Response 200 (Obj [(''data'', Arr [Obj [], Obj []])])) Null
       \<lparr>ins_list = Arr [], ins_loading = False, ins_error = Some ''Network Error'', ins_refreshing = True\<rparr> [])) =
     Some (InsightsPage False (Some ''Network Error'') (InsightsList [Obj [], Obj []]) (Some 2))"
  by code_simp

lemma load_clears_error:
  "fst (get_trend_insights be tid tr) = Inr r \<Longrightarrow> ins_error (fst (load_trend_insights be tid st tr)) = None"
  by (cases "get_trend_insights be tid tr") (simp add: load_trend_insights_def)

text \<open>A backend that answers with the list of insights itself shows no insights: the
  service returns \<open>response.data\<close> of the list, which is \<open>undefined\<close>.\<close>

lemma insights_list_answer_empty:
  "insights_body (fst (load_trend_insights (\<lambda>_. Response 200 (Arr [Obj [(''title'', Str ''t'')]])) Undef init_insights_ui [])) =
     Some InsightsEmpty"
  by (simp add: load_trend_insights_def get_trend_insights_def catch_act_apply bind_act_apply api_get_def api_request_apply
                act_simps data_of_def insights_body_def init_insights_ui_def handle_api_response_def js_or_def id_url_def)

lemma confidence_badge_range:
  assumes "0 \<le> c" "c \<le> 1"
  shows "\<exists>n \<le> 100. snd (confidence_badge c) = nat_to_dec n @ ''%'' \<and>
           (fst (confidence_badge c) = BadgeGreen \<longleftrightarrow> 8 / 10 \<le> c)"
  using percent_text_range [OF assms] by (auto simp: confidence_badge_def)

subsection \<open>CategoryStats and GroqTest\<close>

lemma category_charts_aligned:
  "length (doughnut_labels (category_charts cs)) = length cs \<and> length (doughnut_data (category_charts cs)) = length cs \<and>
   length (bar_colors (category_charts cs)) = length cs \<and>
   (\<forall>i < length cs. bar_colors (category_charts cs) ! i = sentiment_bar_color (cat_avg (cs ! i)))"
  by (simp add: category_charts_def)

lemma sentiment_bar_color_bands:
  "(sentiment_bar_color s = ''#10B981'' \<longleftrightarrow> 6 / 10 < s) \<and> (sentiment_bar_color s = ''#EF4444'' \<longleftrightarrow> s < 4 / 10)"
  by (simp add: sentiment_bar_color_def)

text \<open>A blank test text is refused with a toast, before any request and without
  touching the state.\<close>

lemma run_test_blank:
  "js_trim (test_text st) = [] \<Longrightarrow> run_test be st tr = (st, tr @ [Toast ToastError MsgEnterSomeText])"
  by (simp add: run_test_def)

text \<open>A score of exactly zero is shown as missing: \<open>N/A\<close> for a confidence of 0.\<close>

lemma zero_scores_as_missing:
  "confidence_text (Some 0) = ''N/A'' \<and> confidence_text None = ''N/A'' \<and> toxicity_text (Some 0) = ''0%'' \<and>
   confidence_text (Some (87 / 100)) = ''87.0%'' \<and> toxicity_text (Some (1 / 1000)) = ''0.1%''"
  by code_simp

end
