(* ===== verification/Groq_Test.thy ===== *)
theory Groq_Test
  imports Ai_Screens
begin

text \<open>
  The rendered GroqTest panel, \<open>src/frontend/src/components/GroqTest.jsx\<close>, over the
  state and the \<open>runTest\<close> handler of \<open>Ai_Screens\<close>: the text box with its counter,
  the button, the error panel and the result panel with its sentiment, score, model,
  category and keyword cells. What React renders for a value placed in the markup is
  \<open>react_text\<close> of \<open>Js_Values\<close>; an object there is an error of the render (\<open>None\<close>). JavaScript
  numbers with a fraction are outside \<open>jsv\<close>: the panel reads the confidence and the
  toxicity through a parameter \<open>rd\<close> giving the number a field holds (\<open>None\<close> when
  it is absent or not a number), as the CategoryStats rows do.
\<close>

section \<open>The result panel\<close>

datatype sentiment_icon = IconPositive | IconNegative | IconNeutral | IconUnknown

definition get_sentiment_icon :: "jsv \<Rightarrow> sentiment_icon" where
  "get_sentiment_icon l =
     (if l = Str ''POSITIVE'' then IconPositive else if l = Str ''NEGATIVE'' then IconNegative
      else if l = Str ''NEUTRAL'' then IconNeutral else IconUnknown)"

text \<open>\<open>kw && kw.length > 0 && kw.map(...)\<close>: the keywords shown (\<open>[]\<close> when the list
  is hidden); a non-empty string or an object with a positive \<open>length\<close> has no \<open>map\<close>
  method and throws.\<close>

definition keywords_view :: "jsv \<Rightarrow> jsv list option" where
  "keywords_view kw =
     (if \<not> truthy kw then Some []
      else case kw of
             Arr xs \<Rightarrow> Some xs
           | Str s \<Rightarrow> None
           | Obj ps \<Rightarrow> if js_lt (Num 0) (opt_prop kw ''length'') then None else Some []
           | _ \<Rightarrow> Some [])"

record groq_result_panel =
  gr_class :: string
  gr_icon :: sentiment_icon
  gr_label :: string
  gr_confidence :: string
  gr_toxicity :: string
  gr_model :: string
  gr_category :: string
  gr_category_color :: "string member"
  gr_keywords :: "string list"
  gr_summary :: "string option"

text \<open>The panel under \<open>result && (...)\<close>. \<open>formatModelName\<close> can return an inherited
  member of the object literal (a function), which React does not print.\<close>

definition groq_result_panel :: "(jsv \<Rightarrow> rat option) \<Rightarrow> jsv \<Rightarrow> groq_result_panel option" where
  "groq_result_panel rd r =
     (let sa = opt_prop r ''sentiment_analysis''; ct = opt_prop r ''categorization'';
          lbl = opt_prop sa ''label''; cat = opt_prop ct ''category''
      in case (react_text (js_or lbl (Str ''N/A'')),
               (case format_model_name (opt_prop sa ''model'') of Own v \<Rightarrow> react_text v | _ \<Rightarrow> Some []),
               react_text (js_or cat (Str ''Belirtilmedi'')),
               Option.bind (keywords_view (opt_prop ct ''keywords'')) (\<lambda>ks. those (map react_text ks)),
               (if truthy (opt_prop sa ''summary'') then map_option Some (react_text (opt_prop sa ''summary''))
                else Some None)) of
           (Some l, Some m, Some c, Some ks, Some su) \<Rightarrow>
             Some \<lparr>gr_class = get_sentiment_color_test lbl, gr_icon = get_sentiment_icon lbl, gr_label = l,
                   gr_confidence = confidence_text (rd (opt_prop sa ''confidence'')),
                   gr_toxicity = toxicity_text (rd (opt_prop sa ''toxicity'')),
                   gr_model = m, gr_category = c,
                   gr_category_color = get_category_color (ascii (js_to_string cat)),
                   gr_keywords = ks, gr_summary = su\<rparr>
         | _ \<Rightarrow> None)"

section \<open>The page\<close>

record groq_test_view =
  gv_counter :: string
  gv_button_disabled :: bool
  gv_button_busy :: bool
  gv_loading_panel :: bool
  gv_error :: "string option"
  gv_result :: "groq_result_panel option"

definition groq_test_view :: "(jsv \<Rightarrow> rat option) \<Rightarrow> groq_test_ui \<Rightarrow> groq_test_view option" where
  "groq_test_view rd st =
     (let v = \<lparr>gv_counter = nat_to_dec (length (test_text st)) @ ''/500 karakter'',
               gv_button_disabled = test_button_disabled st, gv_button_busy = test_loading st,
               gv_loading_panel = test_loading st,
               gv_error = (case test_error st of Some m \<Rightarrow> if m \<noteq> [] then Some m else None | None \<Rightarrow> None),
               gv_result = None\<rparr>
      in if truthy (test_result st)
         then map_option (\<lambda>p. v\<lparr>gv_result := Some p\<rparr>) (groq_result_panel rd (test_result st))
         else Some v)"

section \<open>Events\<close>

text \<open>The text box (\<open>maxLength={500}\<close>: the browser keeps the first 500 characters of
  what is typed or pasted) and the button, which does nothing while disabled.\<close>

definition groq_test_init :: "string \<Rightarrow> groq_test_ui" where
  "groq_test_init t = \<lparr>test_text = t, test_result = Null, test_loading = False, test_error = None\<rparr>"

datatype groq_test_event = EditText string | RunTest

fun groq_test_step :: "backend \<Rightarrow> groq_test_event \<Rightarrow> groq_test_ui \<times> event list \<Rightarrow> groq_test_ui \<times> event list" where
  "groq_test_step be (EditText s) (st, tr) = (st\<lparr>test_text := take 500 s\<rparr>, tr)"
| "groq_test_step be RunTest (st, tr) = (if test_button_disabled st then (st, tr) else run_test be st tr)"

definition groq_test_run :: "backend \<Rightarrow> groq_test_event list \<Rightarrow> groq_test_ui \<times> event list \<Rightarrow> groq_test_ui \<times> event list" where
  "groq_test_run be evs s = fold (groq_test_step be) evs s"

section \<open>Properties\<close>

text \<open>The state the panel keeps between events: no request in flight, and an error
  only without a result.\<close>

definition groq_ok :: "groq_test_ui \<Rightarrow> bool" where
  "groq_ok st = ((test_error st = None \<or> test_result st = Null) \<and> \<not> test_loading st)"

lemma groq_ok_run_test: "groq_ok st \<Longrightarrow> groq_ok (fst (run_test be st tr))"
  by (auto simp: run_test_def groq_ok_def split: prod.splits sum.splits)

lemma groq_ok_edit: "groq_ok st \<Longrightarrow> groq_ok (st\<lparr>test_text := x\<rparr>)"
  by (simp add: groq_ok_def)

lemma groq_ok_step: "groq_ok (fst s) \<Longrightarrow> groq_ok (fst (groq_test_step be e s))"
  by (cases s; cases e) (simp_all add: groq_ok_run_test groq_ok_edit)

lemma groq_ok_run: "groq_ok (fst s) \<Longrightarrow> groq_ok (fst (groq_test_run be evs s))"
  unfolding groq_test_run_def by (induction evs arbitrary: s) (simp_all add: groq_ok_step)

lemma groq_ok_view:
  assumes "groq_ok st" and "groq_test_view rd st = Some v"
  shows "(gv_error v = None \<or> gv_result v = None) \<and> \<not> gv_loading_panel v"
  using assms by (auto simp: groq_ok_def groq_test_view_def Let_def split: if_splits option.splits)

text \<open>Through any sequence of edits and test runs, the GroqTest page never shows the
  error panel and a result together, and never stays on the loading panel.\<close>

theorem groq_test_error_excludes_result:
  assumes "groq_test_view rd (fst (groq_test_run be evs (groq_test_init t, tr))) = Some v"
  shows "(gv_error v = None \<or> gv_result v = None) \<and> \<not> gv_loading_panel v"
proof -
  have "groq_ok (groq_test_init t)"
    by (simp add: groq_ok_def groq_test_init_def)
  then have "groq_ok (fst (groq_test_run be evs (groq_test_init t, tr)))"
    using groq_ok_run [of "(groq_test_init t, tr)"] by simp
  then show ?thesis
    using assms by (rule groq_ok_view)
qed

lemma groq_test_error_excludes_result_witness:
  "groq_test_view (\<lambda>_. None)
     (fst (groq_test_run (\<lambda>_. Response 500 (Obj [])) [EditText ''harika mac'', RunTest] (groq_test_init [], []))) =
     Some \<lparr>gv_counter = ''10/500 karakter'', gv_button_disabled = False, gv_button_busy = False,
           gv_loading_panel = False, gv_error = Some ''Request failed with status code 500'', gv_result = None\<rparr> \<and>
   gv_result \<lparr>gv_counter = ''10/500 karakter'', gv_button_disabled = False, gv_button_busy = False,
           gv_loading_panel = False, gv_error = Some ''Request failed with status code 500'', gv_result = None\<rparr> = None"
proof -
  have h: "groq_test_view (\<lambda>_. None)
     (fst (groq_test_run (\<lambda>_. Response 500 (Obj [])) [EditText ''harika mac'', RunTest] (groq_test_init [], []))) =
     Some \<lparr>gv_counter = ''10/500 karakter'', gv_button_disabled = False, gv_button_busy = False,
           gv_loading_panel = False, gv_error = Some ''Request failed with status code 500'', gv_result = None\<rparr>"
    by code_simp
  show ?thesis
    using groq_test_error_excludes_result [OF h] h by simp
qed

text \<open>A well-formed answer fills every cell of the result panel: the label with its
  colour and icon, the scores as percentages, the model's display name, the category
  with its colour and the keywords.\<close>

lemma groq_result_cells:
  "groq_result_panel (\<lambda>v. if v = Undef then None else Some (87 / 100))
     (Obj [(''sentiment_analysis'', Obj [(''label'', Str ''POSITIVE''), (''confidence'', Num 0), (''model'', Str ''groq-only'')]),
           (''categorization'', Obj [(''category'', Str ''Genel''), (''keywords'', Arr [Str ''mac'', Str ''gol''])])]) =
   Some \<lparr>gr_class = ''text-green-600 bg-green-50 border-green-200'', gr_icon = IconPositive, gr_label = ''POSITIVE'',
         gr_confidence = ''87.0%'', gr_toxicity = ''0%'', gr_model = ''Sadece Grok AI'', gr_category = ''Genel'',
         gr_category_color = Own ''#6B7280'', gr_keywords = [''mac'', ''gol''], gr_summary = None\<rparr>"
  by code_simp

text \<open>An answer without \<open>results\<close> resolves \<open>testGrokAI\<close> to \<open>undefined\<close>: the success
  toast is shown, and the page shows neither a result nor an error.\<close>

lemma success_without_results_blank:
  "groq_test_run (\<lambda>_. Response 200 (Obj [])) [EditText ''harika mac'', RunTest] (groq_test_init [], []) =
     (\<lparr>test_text = ''harika mac'', test_result = Undef, test_loading = False, test_error = None\<rparr>,
      [ToastId ''grok-test'' ToastLoading MsgGrokTesting, LogRequest POST ''/sentiments/test-grok'',
       Send \<lparr>req_method = POST, req_url = ''/sentiments/test-grok'', req_body = Obj [(''text'', Str ''harika mac'')]\<rparr>,
       ToastId ''grok-test'' ToastSuccess MsgGrokTestDone]) \<and>
   groq_test_view rd \<lparr>test_text = ''harika mac'', test_result = Undef, test_loading = False, test_error = None\<rparr> =
     Some \<lparr>gv_counter = ''10/500 karakter'', gv_button_disabled = False, gv_button_busy = False,
           gv_loading_panel = False, gv_error = None, gv_result = None\<rparr>"
proof
  show "groq_test_run (\<lambda>_. Response 200 (Obj [])) [EditText ''harika mac'', RunTest] (groq_test_init [], []) =
     (\<lparr>test_text = ''harika mac'', test_result = Undef, test_loading = False, test_error = None\<rparr>,
      [ToastId ''grok-test'' ToastLoading MsgGrokTesting, LogRequest POST ''/sentiments/test-grok'',
       Send \<lparr>req_method = POST, req_url = ''/sentiments/test-grok'', req_body = Obj [(''text'', Str ''harika mac'')]\<rparr>,
       ToastId ''grok-test'' ToastSuccess MsgGrokTestDone])"
    by code_simp
  show "groq_test_view rd \<lparr>test_text = ''harika mac'', test_result = Undef, test_loading = False, test_error = None\<rparr> =
     Some \<lparr>gv_counter = ''10/500 karakter'', gv_button_disabled = False, gv_button_busy = False,
           gv_loading_panel = False, gv_error = None, gv_result = None\<rparr>"
    by code_simp
qed

text \<open>Keywords given as one string, rather than a list, make the result panel throw.\<close>

lemma keywords_string_breaks_panel:
  "groq_result_panel rd (Obj [(''categorization'', Obj [(''keywords'', Str ''mac, gol'')])]) = None"
  by code_simp

end
