(* ===== verification/Analyzer_Page.thy ===== *)
theory Analyzer_Page
  imports Screens Trend_Analysis
begin

text \<open>
  What \<open>src/frontend/src/components/SentimentAnalyzer.jsx\<close> renders: the analyse and
  process buttons, the result card of \<open>handleAnalyze\<close> and the history list of
  \<open>useSentiment\<close>. The flags \<open>isAnalyzing\<close> and \<open>isProcessing\<close> of the mutations are
  parameters, as is \<open>rd\<close>, the number a field holds (\<open>None\<close> when it is not a
  number). The times of the history entries (\<open>toLocaleTimeString\<close>) are not modelled.
  \<open>None\<close> is a render that throws.
\<close>

record analysis_card =
  ac_color :: string
  ac_label :: sentiment_text
  ac_confidence :: string
  ac_model :: string

text \<open>The card under \<open>result && (...)\<close>: the icon (\<open>getSentimentIcon\<close>) and the label
  text (\<open>formatSentimentLabel\<close>) are both named by the label's class \<open>ac_label\<close>;
  \<open>(result.confidence * 100).toFixed(1)\<close> prints \<open>NaN\<close> for a confidence that is not
  a number.\<close>

definition analysis_card :: "(jsv \<Rightarrow> rat option) \<Rightarrow> jsv \<Rightarrow> analysis_card option" where
  "analysis_card rd r =
     (case (get_prop r ''label'', get_prop r ''confidence'', get_prop r ''model_used'') of
        (Some l, Some c, Some m) \<Rightarrow>
          map_option (\<lambda>mt. \<lparr>ac_color = get_sentiment_color l, ac_label = classify_label l,
                              ac_confidence = (case rd c of Some x \<Rightarrow> to_fixed_1_text (x * 100) | None \<Rightarrow> ''NaN'') @ ''%'',
                              ac_model = mt\<rparr>)
            (react_text m)
      | _ \<Rightarrow> None)"

record history_card =
  hc_text :: string
  hc_color :: string
  hc_label :: sentiment_text

text \<open>One entry of \<open>analysisHistory.map(...)\<close>: \<open>item.result.label\<close> throws when the entry
  has no result.\<close>

definition history_card :: "history_entry \<Rightarrow> history_card option" where
  "history_card e =
     (case (react_text (entry_text e), get_prop (entry_result e) ''label'') of
        (Some t, Some l) \<Rightarrow> Some \<lparr>hc_text = t, hc_color = get_sentiment_color l, hc_label = classify_label l\<rparr>
      | _ \<Rightarrow> None)"

record analyzer_view =
  av_analyze_disabled :: bool
  av_analyze_busy :: bool
  av_result :: "analysis_card option"
  av_process_disabled :: bool
  av_clear_shown :: bool
  av_history :: "history_card list"

definition analyzer_view ::
  "(jsv \<Rightarrow> rat option) \<Rightarrow> bool \<Rightarrow> bool \<Rightarrow> analyzer_ui \<Rightarrow> sentiment_hook \<Rightarrow> analyzer_view option" where
  "analyzer_view rd analyzing processing ui st =
     (case (if truthy (analyzer_result ui) then map_option Some (analysis_card rd (analyzer_result ui)) else Some None,
            those (map history_card (history st))) of
        (Some c, Some hs) \<Rightarrow>
          Some \<lparr>av_analyze_disabled = analyze_button_disabled ui analyzing, av_analyze_busy = analyzing,
                av_result = c, av_process_disabled = processing, av_clear_shown = 0 < length (history st),
                av_history = hs\<rparr>
      | _ \<Rightarrow> None)"

section \<open>Properties\<close>

text \<open>An entry whose result is an object shows its text and the colour and class of
  its label.\<close>

lemma history_card_some:
  "entry_result e = Obj ps \<Longrightarrow> react_text (entry_text e) = Some t \<Longrightarrow>
     history_card e = Some \<lparr>hc_text = t, hc_color = get_sentiment_color (obj_get ps ''label''),
                            hc_label = classify_label (obj_get ps ''label'')\<rparr>"
  by (simp add: history_card_def)

text \<open>The history shows one card per entry, in the order of the hook's list, and
  the clear button exactly when there is an entry.\<close>

lemma analyzer_history_cards:
  assumes "\<forall>e \<in> set (history st). history_card e \<noteq> None" and "\<not> truthy (analyzer_result ui)"
  shows "\<exists>v. analyzer_view rd a p ui st = Some v \<and> length (av_history v) = length (history st) \<and>
             (av_clear_shown v \<longleftrightarrow> history st \<noteq> [])"
proof -
  from those_map_defined [OF assms(1)] obtain hs
    where "those (map history_card (history st)) = Some hs" and "length hs = length (history st)"
    by blast
  then show ?thesis
    using assms(2) by (simp add: analyzer_view_def)
qed

text \<open>An analysis answer without \<open>result\<close> is recorded in the history as an entry
  whose result is \<open>undefined\<close>, and from then on the page throws on
  \<open>item.result.label\<close>.\<close>

lemma analysis_without_result_breaks_page:
  "(case handle_analyze (\<lambda>_. Response 200 (Obj [(''label'', Str ''POSITIVE'')])) 7
          \<lparr>analyzer_text = ''harika bir mac'', analyzer_result = Null\<rparr> init_sentiment_hook [] of
      Some (ui, st, tr) \<Rightarrow> length (history st) = 1 \<and> analyzer_view rd a p ui st = None
    | None \<Rightarrow> False)"
  by code_simp

end
