(* ===== verification/App_Shell.thy ===== *)
theory App_Shell
  imports Screens
begin

text \<open>
  The application shell as the user drives it: \<open>App\<close> renders \<open>Layout\<close> around the
  routes (\<open>src/frontend/src/App.jsx\<close>), and \<open>Layout\<close>
  (\<open>src/frontend/src/components/Layout.jsx\<close>) renders the mobile sidebar, the
  desktop sidebar, the top bar with the title, and the routed screen. The state is the
  browser's path and the \<open>sidebarOpen\<close> flag; the events are the menu, backdrop and
  close buttons, the links of either sidebar, and a path typed into the address bar.
  A \<open><Navigate replace>\<close> route replaces the path it matched.
\<close>

definition router_path :: "string \<Rightarrow> string" where
  "router_path p = (case match_route p of Render s \<Rightarrow> p | Redirect q \<Rightarrow> q)"

record nav_link =
  nl_name :: ustr
  nl_href :: string
  nl_active :: bool
  nl_badge :: bool

text \<open>One \<open><Link>\<close> of \<open>navigation.map(...)\<close>: its name, target, the active style and the
  NEW badge; both sidebars render the same list.\<close>

definition nav_link :: "string \<Rightarrow> nav_item \<Rightarrow> nav_link" where
  "nav_link pathname i =
     \<lparr>nl_name = nav_name i, nl_href = nav_href i, nl_active = is_active pathname (nav_href i), nl_badge = nav_new i\<rparr>"

record shell =
  sh_path :: string
  sh_sidebar :: bool

record shell_view =
  sv_mobile_open :: bool
  sv_links :: "nav_link list"
  sv_title :: ustr
  sv_screen :: "screen option"

definition shell_view :: "shell \<Rightarrow> shell_view" where
  "shell_view s =
     \<lparr>sv_mobile_open = sh_sidebar s, sv_links = map (nav_link (sh_path s)) navigation,
      sv_title = page_title (sh_path s), sv_screen = screen_of (sh_path s)\<rparr>"

datatype shell_event = MenuClick | BackdropClick | CloseClick | MobileLink string | DesktopLink string | Visit string

text \<open>A link of the mobile sidebar also closes it (\<open>onClick={() => setSidebarOpen(false)}\<close>);
  the desktop links only navigate.\<close>

fun shell_step :: "shell_event \<Rightarrow> shell \<Rightarrow> shell" where
  "shell_step MenuClick s = s\<lparr>sh_sidebar := sidebar_step OpenSidebar (sh_sidebar s)\<rparr>"
| "shell_step BackdropClick s = s\<lparr>sh_sidebar := sidebar_step CloseSidebar (sh_sidebar s)\<rparr>"
| "shell_step CloseClick s = s\<lparr>sh_sidebar := sidebar_step CloseSidebar (sh_sidebar s)\<rparr>"
| "shell_step (MobileLink h) s = \<lparr>sh_path = router_path h, sh_sidebar = sidebar_step FollowLink (sh_sidebar s)\<rparr>"
| "shell_step (DesktopLink h) s = s\<lparr>sh_path := router_path h\<rparr>"
| "shell_step (Visit p) s = s\<lparr>sh_path := router_path p\<rparr>"

section \<open>Properties\<close>

text \<open>Every link of the navigation targets a route that renders, so following it keeps
  the path; the links have distinct targets.\<close>

lemma navigation_paths_render:
  "\<forall>i \<in> set navigation. router_path (nav_href i) = nav_href i \<and>
     (case map_of route_table (nav_href i) of Some (Render sc) \<Rightarrow> screen_of (nav_href i) = Some sc | _ \<Rightarrow> False)"
  by code_simp

lemma navigation_route:
  "i \<in> set navigation \<Longrightarrow>
     router_path (nav_href i) = nav_href i \<and>
     (\<exists>sc. map_of route_table (nav_href i) = Some (Render sc) \<and> screen_of (nav_href i) = Some sc)"
  using navigation_paths_render by (fastforce split: option.splits route_target.splits)

lemma navigation_hrefs_distinct: "distinct (map nav_href navigation)"
  by code_simp

lemma active_links_at_href:
  "i \<in> set navigation \<Longrightarrow> filter nl_active (map (nav_link (nav_href i)) navigation) = [nav_link (nav_href i) i]"
proof -
  have "\<forall>i \<in> set navigation. filter nl_active (map (nav_link (nav_href i)) navigation) = [nav_link (nav_href i) i]"
    by code_simp
  then show "i \<in> set navigation \<Longrightarrow> ?thesis" by blast
qed

lemma title_at_href: "i \<in> set navigation \<Longrightarrow> page_title (nav_href i) = nav_name i"
  using navigation_links_render by blast

text \<open>C31: Following a link of the mobile sidebar, from any state of the shell, renders
  the screen the route table gives that link, highlights that link and no other,
  titles the page with its name, and closes the sidebar.\<close>

theorem mobile_link_shows_screen:
  assumes "i \<in> set navigation"
  shows "\<exists>sc. map_of route_table (nav_href i) = Some (Render sc) \<and>
           sv_screen (shell_view (shell_step (MobileLink (nav_href i)) s)) = Some sc \<and>
           filter nl_active (sv_links (shell_view (shell_step (MobileLink (nav_href i)) s))) = [nav_link (nav_href i) i] \<and>
           sv_title (shell_view (shell_step (MobileLink (nav_href i)) s)) = nav_name i \<and>
           \<not> sv_mobile_open (shell_view (shell_step (MobileLink (nav_href i)) s))"
  using navigation_route [OF assms] active_links_at_href [OF assms] title_at_href [OF assms]
  by (auto simp: shell_view_def sidebar_step_def)

lemma mobile_link_shows_screen_witness:
  "\<lparr>nav_name = ascii ''Yorumlar'', nav_href = ''/comments'', nav_new = False\<rparr> \<in> set navigation \<and>
   sv_screen (shell_view (shell_step (MobileLink ''/comments'') \<lparr>sh_path = ''/'', sh_sidebar = True\<rparr>)) = Some CommentsScreen \<and>
   \<not> sv_mobile_open (shell_view (shell_step (MobileLink ''/comments'') \<lparr>sh_path = ''/'', sh_sidebar = True\<rparr>))"
proof -
  have i: "\<lparr>nav_name = ascii ''Yorumlar'', nav_href = ''/comments'', nav_new = False\<rparr> \<in> set navigation"
    by (simp add: navigation_def)
  show ?thesis
    using mobile_link_shows_screen [OF i, of "\<lparr>sh_path = ''/'', sh_sidebar = True\<rparr>"] i
    by (simp add: route_table_def)
qed

text \<open>The desktop links do the same and leave the mobile sidebar as it was.\<close>

lemma desktop_link_shows_screen:
  assumes "i \<in> set navigation"
  shows "sv_screen (shell_view (shell_step (DesktopLink (nav_href i)) s)) = screen_of (nav_href i) \<and>
         sv_title (shell_view (shell_step (DesktopLink (nav_href i)) s)) = nav_name i \<and>
         sv_mobile_open (shell_view (shell_step (DesktopLink (nav_href i)) s)) = sh_sidebar s"
  using navigation_route [OF assms] title_at_href [OF assms] by (auto simp: shell_view_def)

text \<open>Any path typed into the address bar ends on a rendered screen, and an unknown
  path lands on the dashboard under the title Dashboard.\<close>

lemma visit_renders:
  "sv_screen (shell_view (shell_step (Visit p) s)) \<noteq> None"
  using every_path_has_screen [of "router_path p"] by (auto simp: shell_view_def)

lemma visit_unknown_path:
  "shell_view (shell_step (Visit ''/yorumlar'') \<lparr>sh_path = ''/'', sh_sidebar = False\<rparr>) =
     \<lparr>sv_mobile_open = False, sv_links = map (nav_link ''/dashboard'') navigation,
      sv_title = ascii ''Dashboard'', sv_screen = Some DashboardScreen\<rparr>"
  by code_simp

end
