(* ===== verification/Settings_Page.thy ===== *)
theory Settings_Page
  imports Prelude
begin

text \<open>
  The settings page, \<open>src/frontend/src/components/Settings.jsx\<close>. Its only React state
  is \<open>activeTab\<close>; the form fields are uncontrolled inputs (\<open>defaultValue\<close>,
  \<open>defaultChecked\<close>) whose values live in the DOM while their panel is mounted. The
  model keeps those values beside the tab, resets them to the defaults when a panel is
  mounted again, and lets the user edit only the fields of the mounted panel. The save
  buttons have no handler. The database and API panels are fixed texts.
\<close>

record settings_tab_item =
  tab_id :: string
  tab_name :: ustr

definition settings_tabs :: "settings_tab_item list" where
  "settings_tabs =
     [\<lparr>tab_id = ''general'', tab_name = ascii ''Genel''\<rparr>,
      \<lparr>tab_id = ''database'', tab_name = ascii ''Veritaban'' @ [0x131]\<rparr>,
      \<lparr>tab_id = ''api'', tab_name = ascii ''API Ayarlar'' @ [0x131]\<rparr>,
      \<lparr>tab_id = ''notifications'', tab_name = ascii ''Bildirimler''\<rparr>]"

record general_form =
  app_name :: string
  time_zone :: string
  language :: string

record notification_form =
  notify_system :: bool
  notify_new_comment :: bool
  notify_analysis :: bool

definition default_general :: general_form where
  "default_general = \<lparr>app_name = ''Taraftar Duygu Analizi'', time_zone = ''Europe/Istanbul'', language = ''tr''\<rparr>"

definition default_notifications :: notification_form where
  "default_notifications = \<lparr>notify_system = True, notify_new_comment = False, notify_analysis = True\<rparr>"

record settings_state =
  active_tab :: string
  general_dom :: general_form
  notifications_dom :: notification_form

definition settings_init :: settings_state where
  "settings_init = \<lparr>active_tab = ''general'', general_dom = default_general, notifications_dom = default_notifications\<rparr>"

datatype general_field = AppName string | TimeZone string | Language string
datatype notification_switch = SystemSwitch | NewCommentSwitch | AnalysisSwitch

datatype settings_event =
    ClickTab string | EditGeneral general_field | ToggleNotification notification_switch
  | SaveGeneral | SaveNotifications | BackupDatabase

text \<open>The selects offer two values each; a select cannot take another.\<close>

definition edit_general :: "general_field \<Rightarrow> general_form \<Rightarrow> general_form" where
  "edit_general f g =
     (case f of
        AppName s \<Rightarrow> g\<lparr>app_name := s\<rparr>
      | TimeZone z \<Rightarrow> if z \<in> {''Europe/Istanbul'', ''UTC''} then g\<lparr>time_zone := z\<rparr> else g
      | Language l \<Rightarrow> if l \<in> {''tr'', ''en''} then g\<lparr>language := l\<rparr> else g)"

definition toggle_notification :: "notification_switch \<Rightarrow> notification_form \<Rightarrow> notification_form" where
  "toggle_notification k n =
     (case k of
        SystemSwitch \<Rightarrow> n\<lparr>notify_system := \<not> notify_system n\<rparr>
      | NewCommentSwitch \<Rightarrow> n\<lparr>notify_new_comment := \<not> notify_new_comment n\<rparr>
      | AnalysisSwitch \<Rightarrow> n\<lparr>notify_analysis := \<not> notify_analysis n\<rparr>)"

text \<open>\<open>setActiveTab(tab.id)\<close>: a different tab unmounts the panel shown and mounts the new
  one from its defaults; the same tab changes nothing. Edits reach only the mounted
  panel, and the buttons without \<open>onClick\<close> do nothing.\<close>

fun settings_step :: "settings_event \<Rightarrow> settings_state \<Rightarrow> settings_state" where
  "settings_step (ClickTab t) s =
     (if t = active_tab s then s
      else \<lparr>active_tab = t, general_dom = default_general, notifications_dom = default_notifications\<rparr>)"
| "settings_step (EditGeneral f) s =
     (if active_tab s = ''general'' then s\<lparr>general_dom := edit_general f (general_dom s)\<rparr> else s)"
| "settings_step (ToggleNotification k) s =
     (if active_tab s = ''notifications'' then s\<lparr>notifications_dom := toggle_notification k (notifications_dom s)\<rparr> else s)"
| "settings_step SaveGeneral s = s"
| "settings_step SaveNotifications s = s"
| "settings_step BackupDatabase s = s"

datatype settings_panel =
    GeneralPanel general_form
  | DatabasePanel ustr
  | ApiPanel "(string \<times> ustr) list"
  | NotificationsPanel notification_form

record settings_view =
  sv_tab_buttons :: "(ustr \<times> bool) list"
  sv_panels :: "settings_panel list"

text \<open>The tab buttons with the active style, and the panels whose
  \<open>activeTab === id && (...)\<close> holds.\<close>

definition settings_view :: "settings_state \<Rightarrow> settings_view" where
  "settings_view s =
     \<lparr>sv_tab_buttons = map (\<lambda>t. (tab_name t, active_tab s = tab_id t)) settings_tabs,
      sv_panels =
        (if active_tab s = ''general'' then [GeneralPanel (general_dom s)] else []) @
        (if active_tab s = ''database'' then [DatabasePanel (ascii ''Ba'' @ [0x11F] @ ascii ''l'' @ [0x131])] else []) @
        (if active_tab s = ''api''
         then [ApiPanel [(''Reddit API'', ascii ''Aktif''), (''HuggingFace API'', ascii ''Aktif''),
                         (''YouTube API'', ascii ''Yap'' @ [0x131] @ ascii ''land'' @ [0x131] @ ascii ''r'' @ [0x131] @
                                           ascii ''lmam'' @ [0x131] @ [0x15F])]]
         else []) @
        (if active_tab s = ''notifications'' then [NotificationsPanel (notifications_dom s)] else [])\<rparr>"

section \<open>Properties\<close>

text \<open>The events the page can receive: a click on one of its tab buttons, or an
  action on a field or a button.\<close>

definition settings_event_ok :: "settings_event \<Rightarrow> bool" where
  "settings_event_ok e = (case e of ClickTab t \<Rightarrow> t \<in> set (map tab_id settings_tabs) | _ \<Rightarrow> True)"

lemma settings_step_tab:
  "settings_event_ok e \<Longrightarrow> active_tab s \<in> set (map tab_id settings_tabs) \<Longrightarrow>
     active_tab (settings_step e s) \<in> set (map tab_id settings_tabs)"
  by (cases e) (auto simp: settings_event_ok_def settings_tabs_def)

lemma settings_run_tab:
  "\<forall>e \<in> set es. settings_event_ok e \<Longrightarrow> active_tab s \<in> set (map tab_id settings_tabs) \<Longrightarrow>
     active_tab (fold settings_step es s) \<in> set (map tab_id settings_tabs)"
proof (induction es arbitrary: s)
  case (Cons e es)
  then show ?case
    using settings_step_tab [of e s] by simp
qed simp

lemma settings_view_one_panel:
  assumes "active_tab s \<in> set (map tab_id settings_tabs)"
  shows "length (sv_panels (settings_view s)) = 1 \<and> filter snd (sv_tab_buttons (settings_view s)) =
           [(tab_name (the (find (\<lambda>t. tab_id t = active_tab s) settings_tabs)), True)]"
  using assms by (auto simp: settings_tabs_def settings_view_def)

text \<open>Through any sequence of clicks on the tab buttons and actions on the fields,
  the settings page shows exactly one panel, and exactly one tab button, the one of
  the active tab, has the active style.\<close>

theorem settings_one_panel:
  assumes "\<forall>e \<in> set es. settings_event_ok e"
  shows "length (sv_panels (settings_view (fold settings_step es settings_init))) = 1 \<and>
         length (filter snd (sv_tab_buttons (settings_view (fold settings_step es settings_init)))) = 1"
  using settings_view_one_panel [OF settings_run_tab [OF assms]] by (simp add: settings_init_def settings_tabs_def)

lemma settings_one_panel_witness:
  "length (sv_panels (settings_view (fold settings_step [ClickTab ''api'', ClickTab ''notifications''] settings_init))) = 1"
  using settings_one_panel [of "[ClickTab ''api'', ClickTab ''notifications'']"]
  by (simp add: settings_event_ok_def settings_tabs_def)

text \<open>Nothing the page offers keeps a setting: the save buttons have no handler, and an
  edit is lost as soon as another tab is opened, the panel coming back with its
  defaults.\<close>

lemma settings_edits_lost:
  "fold settings_step [EditGeneral (AppName ''Fan Pulse''), SaveGeneral, ClickTab ''api'', ClickTab ''general''] settings_init =
     settings_init"
  by (simp add: settings_init_def)

end
