(* ===== verification/Category_Panel.thy ===== *)
theory Category_Panel
  imports Groq_Test Team_Comparison
begin

text \<open>
  The part of \<open>src/frontend/src/components/CategoryStats.jsx\<close> after its early
  returns: the detail card of each category, the bar chart's axis and tooltip texts and
  the toxicity panel. The rows are those of \<open>Ai_Screens\<close> (\<open>category_row\<close>); the
  toxicity member of the answer is kept as it came and read through \<open>rd\<close>, the number
  a field holds. \<open>None\<close> is a render that throws.
\<close>

record category_detail =
  cd_color :: "string member"
  cd_name :: ustr
  cd_percentage :: string
  cd_count :: string
  cd_sentiment :: string
  cd_keywords :: "string list"

text \<open>One card of \<open>data.categories.map(...)\<close>: the colour dot, the name, the
  percentage, the count, the average sentiment as a percentage, and the first three
  keywords (\<open>keywords && keywords.length > 0 && keywords.slice(0, 3).map(...)\<close>).\<close>

definition category_detail :: "category_row \<Rightarrow> category_detail option" where
  "category_detail c =
     (case (react_text (cat_percentage c), react_text (cat_count c),
            Option.bind (keywords_view (cat_keywords c)) (\<lambda>ks. those (map react_text (take 3 ks)))) of
        (Some p, Some n, Some kt) \<Rightarrow>
          Some \<lparr>cd_color = get_category_color (cat_name c), cd_name = cat_name c, cd_percentage = p @ ''%'',
                cd_count = n @ '' yorum'', cd_sentiment = ''Sentiment: '' @ to_fixed_1_text (cat_avg c * 100) @ ''%'',
                cd_keywords = kt\<rparr>
      | _ \<Rightarrow> None)"

text \<open>The bar chart's axis ticks and tooltip.\<close>

definition bar_tick :: "rat \<Rightarrow> string" where
  "bar_tick v = to_fixed_0 (v * 100) @ ''%''"

definition bar_tooltip :: "rat \<Rightarrow> string" where
  "bar_tooltip y = ''Ortalama Sentiment: '' @ to_fixed_1_text (y * 100) @ ''%''"

record toxicity_panel =
  tp_scanned :: string
  tp_low :: string
  tp_medium :: string
  tp_high :: string
  tp_average :: string

text \<open>\<open>data.toxicity && (...)\<close>: the four counts and
  \<open>(average_toxicity * 100).toFixed(1)\<close>, \<open>NaN\<close> when it is not a number.\<close>

definition toxicity_panel :: "(jsv \<Rightarrow> rat option) \<Rightarrow> jsv \<Rightarrow> toxicity_panel option option" where
  "toxicity_panel rd t =
     (if \<not> truthy t then Some None
      else case (react_text (opt_prop t ''total_scanned''), react_text (opt_prop t ''low_toxicity''),
                 react_text (opt_prop t ''medium_toxicity''), react_text (opt_prop t ''high_toxicity'')) of
             (Some a, Some b, Some c, Some d) \<Rightarrow>
               Some (Some \<lparr>tp_scanned = a, tp_low = b, tp_medium = c, tp_high = d,
                           tp_average = (case rd (opt_prop t ''average_toxicity'') of
                                           Some x \<Rightarrow> to_fixed_1_text (x * 100) | None \<Rightarrow> ''NaN'') @ ''%''\<rparr>)
           | _ \<Rightarrow> None)"

text \<open>The whole panel: the early returns of \<open>category_view\<close>, and for data with
  categories the charts, the cards and the toxicity panel.\<close>

definition category_screen ::
  "(jsv \<Rightarrow> rat option) \<Rightarrow> category_ui \<Rightarrow> (category_view \<times> category_detail list \<times> toxicity_panel option) option" where
  "category_screen rd st =
     (case (category_view st, cat_data st) of
        (CategoryShown ch, Some cs) \<Rightarrow>
          (case (those (map category_detail cs), toxicity_panel rd (cat_toxicity st)) of
             (Some ds, Some tp) \<Rightarrow> Some (CategoryShown ch, ds, tp)
           | _ \<Rightarrow> None)
      | (v, _) \<Rightarrow> Some (v, [], None))"

section \<open>Properties\<close>

lemma category_detail_keywords: "category_detail c = Some d \<Longrightarrow> length (cd_keywords d) \<le> 3"
  by (auto simp: category_detail_def bind_eq_Some_conv dest!: those_length split: option.splits)

text \<open>A category whose fields are texts and numbers and whose keywords are a list gets
  a card showing its percentage, its count, its average as a percentage and its first
  three keywords.\<close>

lemma category_detail_card:
  "category_detail \<lparr>cat_name = ascii ''Genel'', cat_percentage = Str ''42.5'', cat_avg = 3 / 4,
      cat_keywords = Arr [Str ''mac'', Str ''gol'', Str ''hakem'', Str ''transfer''], cat_count = Num 17\<rparr> =
   Some \<lparr>cd_color = Own ''#6B7280'', cd_name = ascii ''Genel'', cd_percentage = ''42.5%'', cd_count = ''17 yorum'',
         cd_sentiment = ''Sentiment: 75.0%'', cd_keywords = [''mac'', ''gol'', ''hakem'']\<rparr>"
  by code_simp

text \<open>The axis of the bar chart runs from 0 to 1 and reads as percentages; the tooltip
  keeps one decimal.\<close>

lemma bar_axis_texts:
  "map bar_tick [0, 1 / 5, 2 / 5, 3 / 5, 4 / 5, 1] = [''0%'', ''20%'', ''40%'', ''60%'', ''80%'', ''100%''] \<and>
   bar_tooltip (2 / 3) = ''Ortalama Sentiment: 66.7%''"
  by code_simp

text \<open>Once the data has categories, the panel renders whenever every card renders and
  the toxicity member is absent or holds texts and numbers; the cards follow the
  categories one for one.\<close>

lemma category_screen_cards:
  assumes "category_view st = CategoryShown ch" and "cat_data st = Some cs"
    and "\<forall>c \<in> set cs. category_detail c \<noteq> None" and "toxicity_panel rd (cat_toxicity st) \<noteq> None"
  shows "\<exists>ds tp. category_screen rd st = Some (CategoryShown ch, ds, tp) \<and> length ds = length cs"
  using those_map_defined [OF assms(3)] assms(1,2,4) by (auto simp: category_screen_def)

end
