(* ===== verification/Charts.thy ===== *)
theory Charts
  imports Trend_Analysis Team_Comparison
begin

text \<open>
  The chart components of \<open>src/frontend/src/components/SentimentChart.jsx\<close>: the
  generic \<open>SentimentChart\<close> (the chart type looked up in an object literal, the guard
  for missing data, the tooltip of pie and doughnut charts), and the three charts built
  on it: the sentiment distribution, the sentiment trend and the team comparison. What
  is modelled is the data each hands to Chart.js; the drawing is Chart.js's. Tooltip
  values are counts (integers); the team averages are the exact rationals of
  \<open>comparison_row\<close>.
\<close>

datatype chart_kind = LineChart | BarChart | PieChart | DoughnutChart

definition chart_components :: "(string \<times> chart_kind) list" where
  "chart_components = [(''line'', LineChart), (''bar'', BarChart), (''pie'', PieChart), (''doughnut'', DoughnutChart)]"

record chart_input =
  ci_labels :: "jsv list"
  ci_datasets :: "jsv list"

datatype chart_render = UnsupportedType string | NoChartData | RenderChart "chart_kind member" chart_input

text \<open>\<open>SentimentChart\<close>: \<open>ChartComponents[type]\<close>, then
  \<open>!data || !data.datasets || data.datasets.length === 0\<close>; \<open>None\<close> is no data object.\<close>

definition sentiment_chart :: "string \<Rightarrow> chart_input option \<Rightarrow> chart_render" where
  "sentiment_chart type data =
     (case literal_get chart_components type of
        Absent \<Rightarrow> UnsupportedType type
      | found \<Rightarrow>
          (case data of
             None \<Rightarrow> NoChartData
           | Some d \<Rightarrow> if ci_datasets d = [] then NoChartData else RenderChart found d))"

text \<open>The tooltip of a pie or doughnut slice: \<open>label: value (p%)\<close>, the share of the
  slice in the sum of the dataset (\<open>reduce\<close>), or \<open>0.0\<close> when the sum is not positive.\<close>

definition slice_percentage :: "int list \<Rightarrow> nat \<Rightarrow> string" where
  "slice_percentage vals i =
     (let total = sum_list vals in
      if 0 < total then to_fixed_1_text (of_int (vals ! i) / of_int total * 100) else ''0.0'')"

definition tooltip_label :: "string \<Rightarrow> int list \<Rightarrow> nat \<Rightarrow> string" where
  "tooltip_label label vals i =
     label @ '': '' @ int_to_dec (vals ! i) @ '' ('' @ slice_percentage vals i @ ''%)''"

section \<open>The three charts\<close>

text \<open>\<open>SentimentDistributionChart\<close>: the three counts \<open>data?.x || 0\<close>, positive,
  neutral, negative.\<close>

definition distribution_labels :: "ustr list" where
  "distribution_labels = [ascii ''Pozitif'', ascii ''N'' @ [0xF6] @ ascii ''tr'', ascii ''Negatif'']"

definition distribution_data :: "jsv \<Rightarrow> jsv list" where
  "distribution_data d =
     [js_or (opt_prop d ''positive'') (Num 0), js_or (opt_prop d ''neutral'') (Num 0), js_or (opt_prop d ''negative'') (Num 0)]"

definition distribution_colors :: "string list" where
  "distribution_colors = [''#10B981'', ''#6B7280'', ''#EF4444'']"

text \<open>The component itself: a doughnut \<open>SentimentChart\<close> of the three counts, with the
  border and hover colours of the source.\<close>

definition sentiment_distribution_chart :: "jsv \<Rightarrow> chart_render" where
  "sentiment_distribution_chart d =
     sentiment_chart ''doughnut''
       (Some \<lparr>ci_labels = [Str ''Pozitif'', Str (''N'' @ [CHR 0xF6] @ ''tr''), Str ''Negatif''],
              ci_datasets = [Obj [(''data'', Arr (distribution_data d)),
                                  (''backgroundColor'', Arr (map Str distribution_colors)),
                                  (''borderColor'', Arr [Str ''#059669'', Str ''#4B5563'', Str ''#DC2626'']),
                                  (''borderWidth'', Num 2),
                                  (''hoverBackgroundColor'', Arr [Str ''#34D399'', Str ''#9CA3AF'', Str ''#F87171''])]]\<rparr>)"

text \<open>\<open>SentimentTrendChart\<close>: no chart for a missing or empty list; otherwise three
  lines, positive, negative, neutral, of the points' counts (\<open>None\<close> when a point is
  \<open>null\<close>, the \<open>TypeError\<close> of reading its count). The date labels are not formatted.\<close>

datatype trend_chart = NoTrendData | TrendLines "jsv list" "(ustr \<times> jsv list) list"

definition trend_chart :: "jsv \<Rightarrow> trend_chart option" where
  "trend_chart d =
     (if \<not> truthy d \<or> opt_prop d ''length'' = Num 0 then Some NoTrendData
      else case (arr_map (\<lambda>x. get_prop x ''date'') d, arr_map (\<lambda>x. get_prop x ''positive'') d,
                 arr_map (\<lambda>x. get_prop x ''negative'') d, arr_map (\<lambda>x. get_prop x ''neutral'') d) of
             (Some ds, Some ps, Some ns, Some us) \<Rightarrow>
               Some (TrendLines ds [(ascii ''Pozitif'', ps), (ascii ''Negatif'', ns), (ascii ''N'' @ [0xF6] @ ascii ''tr'', us)])
           | _ \<Rightarrow> None)"

text \<open>\<open>TeamComparisonChart\<close>: one bar per team, its height the text
  \<open>(avg_sentiment * 100).toFixed(1)\<close>, filled with the team's primary colour and bordered
  with its secondary colour (\<open>getTeamColors\<close>).\<close>

record team_bars =
  tb_labels :: "ustr option list"
  tb_values :: "string list"
  tb_fill :: "string list"
  tb_border :: "string list"

definition team_comparison_bars :: "comparison_row list \<Rightarrow> team_bars option" where
  "team_comparison_bars rows =
     (if rows = [] then None
      else Some \<lparr>tb_labels = map cr_name rows, tb_values = map (\<lambda>r. to_fixed_1_text (cr_avg r * 100)) rows,
                 tb_fill = map (\<lambda>r. primary (get_team_colors (cr_name r))) rows,
                 tb_border = map (\<lambda>r. secondary (get_team_colors (cr_name r))) rows\<rparr>)"

section \<open>Properties\<close>

lemma to_fixed_1_text_nonneg:
  assumes "0 \<le> x"
  shows "\<exists>t. to_fixed_1_text x = tenths_text t \<and> of_nat t - 1 / 2 \<le> x * 10 \<and> x * 10 < of_nat t + 1 / 2"
  using round_half_bounds [of "x * 10"] assms by (auto simp: to_fixed_1_text_def)

text \<open>For counts that are not negative, a slice's tooltip shows a percentage between
  0.0 and 100.0, within a twentieth of a point of the slice's exact share.\<close>

lemma slice_percentage_bounds:
  assumes "\<forall>v \<in> set vals. 0 \<le> v" and "i < length vals" and "0 < sum_list vals"
  shows "\<exists>t \<le> 1000. slice_percentage vals i = tenths_text t \<and>
           (of_nat t - 1 / 2 :: rat) \<le> of_int (vals ! i) / of_int (sum_list vals) * 1000 \<and>
           of_int (vals ! i) / of_int (sum_list vals) * 1000 < (of_nat t + 1 / 2 :: rat)"
proof -
  let ?x = "of_int (vals ! i) / of_int (sum_list vals) * (100 :: rat)"
  have v: "0 \<le> vals ! i" using assms(1,2) by simp
  have le: "vals ! i \<le> sum_list vals" using assms(1,2) member_le_sum_list [of "vals ! i" vals] by simp
  have x0: "0 \<le> ?x" using v assms(3) by simp
  have x1: "?x \<le> 100"
  proof -
    have q: "of_int (vals ! i) / of_int (sum_list vals) \<le> (1 :: rat)" using le assms(3) by simp
    show ?thesis using mult_right_mono [OF q, of 100] by simp
  qed
  obtain t where t: "to_fixed_1_text ?x = tenths_text t" "of_nat t - 1 / 2 \<le> ?x * 10" "?x * 10 < of_nat t + 1 / 2"
    using to_fixed_1_text_nonneg [OF x0] by blast
  have "of_nat t < (1001 :: rat)" using t(2) x1 by linarith
  then have "t \<le> 1000" by simp
  moreover have "slice_percentage vals i = tenths_text t" using assms(3) t(1) by (simp add: slice_percentage_def Let_def)
  ultimately show ?thesis using t(2,3) by (auto simp: algebra_simps)
qed

text \<open>The distribution chart always draws a doughnut, whatever data it is given: the
  counts of a missing breakdown are zeros.\<close>

lemma distribution_chart_renders:
  "\<exists>ci. sentiment_distribution_chart d = RenderChart (Own DoughnutChart) ci \<and>
        ci_datasets ci \<noteq> [] \<and> length (distribution_data d) = 3"
  by (simp add: sentiment_distribution_chart_def sentiment_chart_def chart_components_def distribution_data_def
      literal_get_def)

lemma distribution_chart_no_data:
  "distribution_data Undef = [Num 0, Num 0, Num 0] \<and> distribution_data Null = [Num 0, Num 0, Num 0]"
  by code_simp

text \<open>On the team comparison screen the chart and the cards agree: each bar is filled
  with the primary colour of its team's card, in the same order.\<close>

lemma bars_match_cards:
  "team_comparison_bars rows = Some b \<Longrightarrow>
     tb_fill b = map (\<lambda>r. primary (card_colors (team_card r))) rows \<and> tb_labels b = map (\<lambda>r. card_name (team_card r)) rows"
  by (auto simp: team_comparison_bars_def team_card_def split: if_splits)

text \<open>A chart type naming a member of \<open>Object.prototype\<close> is not reported as
  unsupported: the lookup finds the inherited member and renders it.\<close>

lemma inherited_chart_type:
  "sentiment_chart ''toString'' (Some \<lparr>ci_labels = [], ci_datasets = [Null]\<rparr>) =
     RenderChart (Inherited ''toString'') \<lparr>ci_labels = [], ci_datasets = [Null]\<rparr>"
  by code_simp

end
