(* ===== verification/Chart_Options.thy ===== *)
theory Chart_Options
  imports Charts
begin

text \<open>
  The options \<open>SentimentChart\<close> hands to Chart.js
  (\<open>src/frontend/src/components/SentimentChart.jsx\<close>): the defaults, the options of
  each chart type built from them with object spread, and the merge
  \<open>{...chartOptions[type], ...options}\<close> with the caller's options. An options object is
  a tree \<open>copt\<close> whose leaves are the literals of the source as written (\<open>CVal\<close>, a letter
  outside Latin-1 written as its JavaScript escape) or
  the callbacks, named by the definition that models them (\<open>CFun\<close>). Spread is
  \<open>spread_into\<close>: the properties of the second object are assigned onto the first in
  order, a key already present keeping its place.
\<close>

datatype copt = CVal string | CFun string | CObj "(string \<times> copt) list"

fun assign_prop :: "('k \<times> 'v) list \<Rightarrow> 'k \<Rightarrow> 'v \<Rightarrow> ('k \<times> 'v) list" where
  "assign_prop [] k v = [(k, v)]"
| "assign_prop ((k', v') # ps) k v = (if k' = k then (k, v) # ps else (k', v') # assign_prop ps k v)"

definition spread_into :: "('k \<times> 'v) list \<Rightarrow> ('k \<times> 'v) list \<Rightarrow> ('k \<times> 'v) list" where
  "spread_into a b = foldl (\<lambda>acc (k, v). assign_prop acc k v) a b"

text \<open>The own enumerable properties a spread copies: those of an object literal; a
  function (an inherited member found by a lookup) has none.\<close>

fun copt_props :: "copt \<Rightarrow> (string \<times> copt) list" where
  "copt_props (CObj ps) = ps"
| "copt_props (CVal s) = []"
| "copt_props (CFun f) = []"

fun copt_path :: "copt \<Rightarrow> string list \<Rightarrow> copt option" where
  "copt_path c [] = Some c"
| "copt_path (CObj ps) (k # ks) = (case map_of ps k of Some c \<Rightarrow> copt_path c ks | None \<Rightarrow> None)"
| "copt_path c (k # ks) = None"

section \<open>The defaults\<close>

definition default_tooltip :: copt where
  "default_tooltip =
     CObj [(''backgroundColor'', CVal ''rgba(0, 0, 0, 0.8)''), (''titleFont'', CObj [(''size'', CVal ''14'')]),
           (''bodyFont'', CObj [(''size'', CVal ''12'')]), (''padding'', CVal ''12''), (''cornerRadius'', CVal ''8'')]"

definition default_plugins :: copt where
  "default_plugins =
     CObj [(''legend'', CObj [(''position'', CVal ''bottom''),
                              (''labels'', CObj [(''padding'', CVal ''20''), (''usePointStyle'', CVal ''true''),
                                                 (''font'', CObj [(''size'', CVal ''12'')])])]),
           (''tooltip'', default_tooltip)]"

definition default_options :: copt where
  "default_options =
     CObj [(''responsive'', CVal ''true''), (''maintainAspectRatio'', CVal ''false''), (''plugins'', default_plugins)]"

definition axis_scales :: copt where
  "axis_scales =
     CObj [(''x'', CObj [(''grid'', CObj [(''display'', CVal ''false'')]),
                         (''ticks'', CObj [(''font'', CObj [(''size'', CVal ''11'')])])]),
           (''y'', CObj [(''beginAtZero'', CVal ''true''), (''grid'', CObj [(''color'', CVal ''rgba(0, 0, 0, 0.1)'')]),
                         (''ticks'', CObj [(''font'', CObj [(''size'', CVal ''11'')])])])]"

text \<open>The pie and doughnut options replace the tooltip's \<open>callbacks\<close> with the slice
  label, spreading the default plugins and tooltip first.\<close>

definition slice_plugins :: copt where
  "slice_plugins =
     CObj (spread_into (copt_props default_plugins)
            [(''tooltip'', CObj (spread_into (copt_props default_tooltip)
                                  [(''callbacks'', CObj [(''label'', CFun ''tooltip_label'')])]))])"

definition chart_options :: "(string \<times> copt) list" where
  "chart_options =
     [(''line'', CObj (spread_into (copt_props default_options)
                        [(''scales'', axis_scales),
                         (''elements'', CObj [(''point'', CObj [(''radius'', CVal ''4''), (''hoverRadius'', CVal ''6'')]),
                                              (''line'', CObj [(''tension'', CVal ''0.3''), (''borderWidth'', CVal ''2'')])])])),
      (''bar'', CObj (spread_into (copt_props default_options) [(''scales'', axis_scales)])),
      (''pie'', CObj (spread_into (copt_props default_options) [(''plugins'', slice_plugins)])),
      (''doughnut'', CObj (spread_into (copt_props default_options) [(''plugins'', slice_plugins), (''cutout'', CVal ''60%'')]))]"

text \<open>\<open>finalOptions = {...chartOptions[type], ...options}\<close>.\<close>

definition final_options :: "string \<Rightarrow> copt \<Rightarrow> copt" where
  "final_options type options =
     CObj (spread_into (case literal_get chart_options type of Own c \<Rightarrow> copt_props c | _ \<Rightarrow> []) (copt_props options))"

text \<open>The options \<open>TeamComparisonChart\<close> passes with its bar chart.\<close>

definition team_chart_options :: copt where
  "team_chart_options =
     CObj [(''scales'', CObj [(''y'', CObj [(''beginAtZero'', CVal ''true''), (''max'', CVal ''100''),
                                           (''ticks'', CObj [(''callback'', CFun ''team_tick'')])])]),
           (''plugins'', CObj [(''tooltip'', CObj [(''callbacks'', CObj [(''label'', CFun ''team_tooltip'')])])])]"

section \<open>The trend screen's charts\<close>

text \<open>\<open>chartOptions\<close> of \<open>TrendAnalysis.jsx\<close>, and the options its comment line chart and
  team doughnut pass to Chart.js directly.\<close>

definition trend_chart_options :: copt where
  "trend_chart_options =
     CObj [(''responsive'', CVal ''true''),
           (''plugins'', CObj [(''legend'', CObj [(''position'', CVal ''top'')]),
                               (''tooltip'', CObj [(''mode'', CVal ''index''), (''intersect'', CVal ''false'')])]),
           (''scales'', CObj [(''x'', CObj [(''display'', CVal ''true''),
                                           (''title'', CObj [(''display'', CVal ''true''), (''text'', CVal ''Tarih'')])]),
                              (''y'', CObj [(''display'', CVal ''true''),
                                           (''title'', CObj [(''display'', CVal ''true''),
                                                             (''text'', CVal (''Yorum Say'' @ [CHR 0x5C] @ ''u0131s'' @ [CHR 0x5C] @ ''u0131''))])])]),
           (''interaction'', CObj [(''mode'', CVal ''nearest''), (''axis'', CVal ''x''), (''intersect'', CVal ''false'')])]"

definition comments_line_options :: copt where
  "comments_line_options =
     CObj (spread_into (copt_props trend_chart_options)
            [(''animation'', CObj [(''duration'', CVal ''0'')]), (''responsive'', CVal ''true''),
             (''maintainAspectRatio'', CVal ''false'')])"

definition comparison_doughnut_options :: copt where
  "comparison_doughnut_options =
     CObj [(''responsive'', CVal ''true''), (''maintainAspectRatio'', CVal ''false''),
           (''animation'', CObj [(''duration'', CVal ''0'')]),
           (''plugins'', CObj [(''legend'', CObj [(''position'', CVal ''bottom'')])])]"

section \<open>Properties\<close>

lemma map_of_assign_prop: "map_of (assign_prop ps k v) = (map_of ps)(k \<mapsto> v)"
  by (induction ps) (auto simp: fun_upd_twist)

lemma map_of_spread_into: "map_of (spread_into a b) = map_of a ++ map_of (rev b)"
proof (induction b arbitrary: a rule: rev_induct)
  case (snoc x b)
  then show ?case
    by (cases x) (auto simp: spread_into_def map_of_assign_prop map_add_def fun_eq_iff split: option.splits)
qed (simp add: spread_into_def)

text \<open>The merge is shallow: a top-level key the caller gives replaces the whole value
  the chart type has for it (the last occurrence winning), and every other key keeps
  the chart type's value; a type that is not an own member of \<open>chartOptions\<close>
  contributes nothing.\<close>

lemma final_options_shallow:
  "copt_path (final_options type options) [k] =
     (case map_of (rev (copt_props options)) k of
        Some v \<Rightarrow> Some v
      | None \<Rightarrow> (case literal_get chart_options type of Own c \<Rightarrow> map_of (copt_props c) k | _ \<Rightarrow> None))"
  by (simp add: final_options_def map_of_spread_into map_add_def split: option.splits member.splits)

text \<open>Without options of the caller, the pie and doughnut charts keep the default
  legend and tooltip style and gain the slice label callback.\<close>

lemma slice_charts_tooltip:
  "\<forall>t \<in> {''pie'', ''doughnut''}.
     copt_path (final_options t (CObj [])) [''plugins'', ''tooltip'', ''callbacks'', ''label''] = Some (CFun ''tooltip_label'') \<and>
     copt_path (final_options t (CObj [])) [''plugins'', ''tooltip'', ''backgroundColor''] = Some (CVal ''rgba(0, 0, 0, 0.8)'') \<and>
     copt_path (final_options t (CObj [])) [''plugins'', ''legend'', ''position''] = Some (CVal ''bottom'')"
  by code_simp

text \<open>The team comparison chart passes its own \<open>plugins\<close> and \<open>scales\<close>, which replace the
  defaults wholesale: its legend loses the bottom position and the point style, its
  tooltip the dark style, and its x axis the hidden grid.\<close>

lemma team_chart_loses_defaults:
  "copt_path (final_options ''bar'' (CObj [])) [''plugins'', ''legend'', ''position''] = Some (CVal ''bottom'') \<and>
   copt_path (final_options ''bar'' team_chart_options) [''plugins'', ''legend''] = None \<and>
   copt_path (final_options ''bar'' team_chart_options) [''plugins'', ''tooltip'', ''backgroundColor''] = None \<and>
   copt_path (final_options ''bar'' team_chart_options) [''scales'', ''x''] = None \<and>
   copt_path (final_options ''bar'' team_chart_options) [''plugins'', ''tooltip'', ''callbacks'', ''label''] =
     Some (CFun ''team_tooltip'')"
  by code_simp

text \<open>The comment line chart keeps every option of \<open>chartOptions\<close> (legend on top, the
  index tooltip, the axis titles) and turns animation off.\<close>

lemma comments_line_keeps_options:
  "copt_path comments_line_options [''plugins''] = copt_path trend_chart_options [''plugins''] \<and>
   copt_path comments_line_options [''scales''] = copt_path trend_chart_options [''scales''] \<and>
   copt_path comments_line_options [''animation'', ''duration''] = Some (CVal ''0'') \<and>
   copt_path comments_line_options [''maintainAspectRatio''] = Some (CVal ''false'')"
  by code_simp

end
