(* ===== verification/Enhanced_Dashboard.thy ===== *)
theory Enhanced_Dashboard
  imports Ai_Screens
begin

text \<open>
  The AI dashboard page, \<open>src/frontend/src/components/EnhancedDashboard.jsx\<close>: the team
  list it fetches with \<open>fetch\<close>, the team selector, and the four tabs, each rendering one
  of the panels of \<open>Ai_Screens\<close> with the selected team's identifier and name. The
  name "all teams" (Turkish, with a dotless i) is the constructor \<open>AllTeams\<close>.
\<close>

datatype team_label = AllTeams | TeamLabel jsv

record enhanced_ui =
  selected_tab :: nat
  ed_teams :: jsv
  current_team_id :: jsv
  current_team_name :: team_label

text \<open>The initial state and the effect on the \<open>selectedTeam\<close> property:
  \<open>selectedTeam?.id || null\<close> and \<open>selectedTeam?.name\<close> or the "all teams" label.\<close>

definition team_prop_state :: "jsv \<Rightarrow> jsv \<times> team_label" where
  "team_prop_state sel =
     (js_or (opt_prop sel ''id'') Null,
      (let n = opt_prop sel ''name'' in if truthy n then TeamLabel n else AllTeams))"

definition init_enhanced :: "jsv \<Rightarrow> enhanced_ui" where
  "init_enhanced sel =
     \<lparr>selected_tab = 0, ed_teams = Arr [], current_team_id = fst (team_prop_state sel),
      current_team_name = snd (team_prop_state sel)\<rparr>"

definition teams_fetch_request :: request where
  "teams_fetch_request = \<lparr>req_method = GET, req_url = ''http://localhost:8060/api/v1/teams'', req_body = Undef\<rparr>"

text \<open>\<open>fetchTeams\<close>: a 2xx answer sets \<open>data.teams || []\<close>; any other answer leaves the
  list; a failed request or a \<open>null\<close> body is caught and logged.\<close>

definition fetch_teams :: "backend \<Rightarrow> enhanced_ui \<Rightarrow> event list \<Rightarrow> enhanced_ui \<times> event list" where
  "fetch_teams be st tr =
     (let tr1 = tr @ [LogInfo ''Fetching teams...'', Send teams_fetch_request] in
      case be teams_fetch_request of
        Response s d \<Rightarrow>
          if 200 \<le> s \<and> s < 300 then
            (case get_prop d ''teams'' of
               Some ts \<Rightarrow> (st\<lparr>ed_teams := js_or ts (Arr [])\<rparr>,
                           tr1 @ [LogInfo ''Teams API response:'', LogInfo ''Teams array:''])
             | None \<Rightarrow> (st, tr1 @ [LogInfo ''Teams API response:'', LogError ''Failed to fetch teams:'']))
          else (st, tr1)
      | _ \<Rightarrow> (st, tr1 @ [LogError ''Failed to fetch teams:'']))"

text \<open>The value of a team's option, \<open>team._id || team.id\<close>.\<close>

definition option_value :: "jsv \<Rightarrow> jsv" where
  "option_value t = js_or (opt_prop t ''_id'') (opt_prop t ''id'')"

text \<open>\<open>teams.find(t => t._id === selectedTeamId)\<close>; \<open>None\<close> is the \<open>TypeError\<close> of a
  \<open>null\<close> team.\<close>

fun find_by_id :: "jsv \<Rightarrow> jsv list \<Rightarrow> jsv option option" where
  "find_by_id v [] = Some None"
| "find_by_id v (t # ts) =
     (case get_prop t ''_id'' of
        None \<Rightarrow> None
      | Some i \<Rightarrow> if i = v then Some (Some t) else find_by_id v ts)"

text \<open>The selector's \<open>onChange\<close> for the option value \<open>v\<close> (\<open>''\<close> is "all teams").\<close>

definition select_team :: "string \<Rightarrow> enhanced_ui \<Rightarrow> enhanced_ui option" where
  "select_team v st =
     (let sel_id = (if v = [] then Null else Str v) in
      map_option (\<lambda>found.
          st\<lparr>current_team_id := sel_id,
             current_team_name := (case found of Some t \<Rightarrow> TeamLabel (opt_prop t ''name'') | None \<Rightarrow> AllTeams)\<rparr>)
        (case ed_teams st of Arr ts \<Rightarrow> find_by_id (Str v) ts | _ \<Rightarrow> Some None))"

datatype ai_panel = CategoryPanel | SummaryPanel | InsightsPanel | TestPanel

definition tab_panels :: "ai_panel list" where
  "tab_panels = [CategoryPanel, SummaryPanel, InsightsPanel, TestPanel]"

text \<open>The panel rendered in the selected tab, with the props it receives.\<close>

definition shown_panel :: "enhanced_ui \<Rightarrow> ai_panel \<times> jsv \<times> team_label" where
  "shown_panel st = (tab_panels ! (selected_tab st mod length tab_panels), current_team_id st, current_team_name st)"

text \<open>The selector: its value \<open>currentTeamId || ''\<close>, the "all teams" option, and one
  option per team of an array (\<open>Array.isArray(teams) && teams.map(...)\<close>) with the value
  \<open>team._id || team.id\<close> and the text \<open>team.name\<close>; \<open>None\<close> is a render that throws (a
  \<open>null\<close> team, or a name that is an object).\<close>

definition team_option :: "jsv \<Rightarrow> (jsv \<times> team_label) option" where
  "team_option t =
     (case get_prop t ''name'' of
        Some n \<Rightarrow> map_option (\<lambda>_. (option_value t, TeamLabel n)) (react_text n)
      | None \<Rightarrow> None)"

definition team_selector :: "enhanced_ui \<Rightarrow> (jsv \<times> (jsv \<times> team_label) list) option" where
  "team_selector st =
     map_option (\<lambda>os. (js_or (current_team_id st) (Str []), (Str [], AllTeams) # os))
       (case ed_teams st of Arr ts \<Rightarrow> those (map team_option ts) | _ \<Rightarrow> Some [])"

text \<open>\<open>Tab.Group onChange={setSelectedIndex}\<close>: a click on the \<open>i\<close>-th tab.\<close>

definition select_ai_tab :: "nat \<Rightarrow> enhanced_ui \<Rightarrow> enhanced_ui" where
  "select_ai_tab i st = (if i < length tab_panels then st\<lparr>selected_tab := i\<rparr> else st)"

section \<open>Properties\<close>

text \<open>Selecting a team whose identifier is under \<open>_id\<close> makes the panels query that
  team under its own name.\<close>

lemma select_team_with_underscore_id:
  "ed_teams st = Arr [Obj [(''_id'', Str i), (''name'', n)]] \<Longrightarrow> i \<noteq> [] \<Longrightarrow>
     select_team i st = Some (st\<lparr>current_team_id := Str i, current_team_name := TeamLabel n\<rparr>)"
  by (simp add: select_team_def obj_get_def)

text \<open>A team that carries its identifier under \<open>id\<close> only gets an option with that
  value, but \<open>find\<close> compares \<open>_id\<close>: selecting it makes the panels query the team while
  the page is labelled "all teams".\<close>

lemma select_team_id_only:
  "ed_teams st = Arr [Obj [(''id'', Str i), (''name'', n)]] \<Longrightarrow> i \<noteq> [] \<Longrightarrow>
     option_value (Obj [(''id'', Str i), (''name'', n)]) = Str i \<and>
     select_team i st = Some (st\<lparr>current_team_id := Str i, current_team_name := AllTeams\<rparr>)"
  by (simp add: select_team_def option_value_def obj_get_def js_or_def)

definition category_stats_request :: "string \<Rightarrow> request" where
  "category_stats_request i = \<lparr>req_method = GET, req_url = ''/sentiments/categories/stats?team_id='' @ i, req_body = Undef\<rparr>"

lemma get_category_stats_sends:
  "i \<noteq> [] \<Longrightarrow> \<exists>r rest. get_category_stats be (Str i) tr =
     (r, tr @ [LogRequest GET (req_url (category_stats_request i)), Send (category_stats_request i)] @ rest)"
proof -
  assume i: "i \<noteq> []"
  let ?t = "tr @ [LogRequest GET (req_url (category_stats_request i)), Send (category_stats_request i)]"
  obtain r1 n1 where s: "settle (be (category_stats_request i)) ?t = (r1, ?t @ n1)"
    using settle_extends by blast
  show ?thesis
  proof (cases r1)
    case (Inl e)
    then show ?thesis using s i
      by (auto simp: get_category_stats_def catch_act_apply bind_act_apply api_get_def api_request_apply
                     category_stats_request_def rethrow_with_def act_simps)
  next
    case (Inr v)
    then show ?thesis using s i
      by (auto simp: get_category_stats_def catch_act_apply bind_act_apply api_get_def api_request_apply
                     category_stats_request_def rethrow_with_def type_error_def act_simps split: option.splits)
  qed
qed

text \<open>C39: With the category tab open, selecting a team listed with \<open>id\<close> only (no
  \<open>_id\<close>) makes the category panel request that team's statistics, while the page and
  the panel name "all teams".\<close>

lemma id_only_team_queried_as_all:
  assumes "ed_teams st = Arr [Obj [(''id'', Str i), (''name'', n)]]" and "i \<noteq> []" and "selected_tab st = 0"
  shows "\<exists>st'. select_team i st = Some st' \<and> shown_panel st' = (CategoryPanel, Str i, AllTeams) \<and>
           (\<exists>r rest. get_category_stats be (fst (snd (shown_panel st'))) tr =
              (r, tr @ [LogRequest GET (''/sentiments/categories/stats?team_id='' @ i),
                        Send (category_stats_request i)] @ rest))"
proof -
  have "select_team i st = Some (st\<lparr>current_team_id := Str i, current_team_name := AllTeams\<rparr>)"
    using select_team_id_only [OF assms(1,2)] by simp
  moreover have "shown_panel (st\<lparr>current_team_id := Str i, current_team_name := AllTeams\<rparr>) = (CategoryPanel, Str i, AllTeams)"
    using assms(3) by (simp add: shown_panel_def tab_panels_def)
  moreover have "\<exists>r rest. get_category_stats be (Str i) tr =
              (r, tr @ [LogRequest GET (''/sentiments/categories/stats?team_id='' @ i), Send (category_stats_request i)] @ rest)"
    using get_category_stats_sends [OF assms(2)] by (simp add: category_stats_request_def)
  ultimately show ?thesis by auto
qed

theorem id_only_team_queried_as_all_witness:
  "\<exists>st'. select_team ''t1'' ((init_enhanced Null)\<lparr>ed_teams := Arr [Obj [(''id'', Str ''t1''), (''name'', Str ''Sari'')]]\<rparr>) = Some st' \<and>
     shown_panel st' = (CategoryPanel, Str ''t1'', AllTeams) \<and>
     (\<exists>r rest. get_category_stats (\<lambda>_. NoResponse) (fst (snd (shown_panel st'))) [] =
        (r, [LogRequest GET (''/sentiments/categories/stats?team_id='' @ ''t1''),
             Send (category_stats_request ''t1'')] @ rest))"
proof -
  have t: "ed_teams ((init_enhanced Null)\<lparr>ed_teams := Arr [Obj [(''id'', Str ''t1''), (''name'', Str ''Sari'')]]\<rparr>) =
             Arr [Obj [(''id'', Str ''t1''), (''name'', Str ''Sari'')]]" by simp
  have z: "selected_tab ((init_enhanced Null)\<lparr>ed_teams := Arr [Obj [(''id'', Str ''t1''), (''name'', Str ''Sari'')]]\<rparr>) = 0"
    by (simp add: init_enhanced_def)
  show ?thesis using id_only_team_queried_as_all [OF t _ z, where be = "\<lambda>_. NoResponse" and tr = "[]"] by simp
qed

lemma fetch_teams_non_ok:
  "be teams_fetch_request = Response s d \<Longrightarrow> \<not> (200 \<le> s \<and> s < 300) \<Longrightarrow>
     fetch_teams be st tr = (st, tr @ [LogInfo ''Fetching teams...'', Send teams_fetch_request])"
  by (auto simp: fetch_teams_def Let_def)

text \<open>A list of team objects with printable names gives the selector one option per
  team after the "all teams" option, and clicking a tab shows its panel with the
  selected team.\<close>

lemma team_selector_options:
  assumes "ed_teams st = Arr ts" and "\<forall>t \<in> set ts. team_option t \<noteq> None"
  shows "\<exists>v os. team_selector st = Some (v, os) \<and> length os = Suc (length ts)"
  using those_map_defined [OF assms(2)] assms(1) by (auto simp: team_selector_def)

lemma select_ai_tab_panel:
  "i < 4 \<Longrightarrow> shown_panel (select_ai_tab i st) = (tab_panels ! i, current_team_id st, current_team_name st)"
  by (simp add: select_ai_tab_def shown_panel_def tab_panels_def)

end
