(* ===== verification/Dashboard_Charts.thy ===== *)
theory Dashboard_Charts
  imports Charts
begin

text \<open>
  The charts row of the dashboard screen, \<open>src/frontend/src/components/Dashboard.jsx\<close>:
  the sentiment distribution pie, drawn from \<open>useSentiment\<close>'s \<open>sentimentBreakdown\<close>
  through \<open>SentimentChart\<close>, and the seven-day trend lines drawn from
  \<open>stats.recent_trends\<close>. Dates are formatted by \<open>toLocaleDateString\<close>, a parameter.
\<close>

text \<open>\<open>sentimentChartData\<close>: the three counts with the fixed labels and colours.\<close>

definition dashboard_pie_labels :: "string list" where
  "dashboard_pie_labels = [''Pozitif'', ''N'' @ [CHR 0xF6] @ ''tr'', ''Negatif'']"

definition dashboard_pie_data :: "breakdown_view option \<Rightarrow> chart_input" where
  "dashboard_pie_data bv =
     \<lparr>ci_labels = map Str dashboard_pie_labels,
      ci_datasets = [Obj [(''data'', Arr (map Num (chart_counts bv))),
                          (''backgroundColor'', Arr (map Str distribution_colors)),
                          (''borderColor'', Arr [Str ''#059669'', Str ''#4B5563'', Str ''#DC2626'']),
                          (''borderWidth'', Num 2)]]\<rparr>"

text \<open>\<open>sentimentBreakdown ? <SentimentChart type="pie"/> : empty\<close>; \<open>None\<close> is the
  "no sentiment data yet" message.\<close>

definition distribution_section :: "breakdown_view option \<Rightarrow> chart_render option" where
  "distribution_section bv =
     (case bv of None \<Rightarrow> None | Some b \<Rightarrow> Some (sentiment_chart ''pie'' (Some (dashboard_pie_data bv))))"

text \<open>The tooltip of slice \<open>i\<close> of the pie, as \<open>SentimentChart\<close>'s callback prints it.\<close>

definition dashboard_pie_tooltip :: "breakdown_view \<Rightarrow> nat \<Rightarrow> string" where
  "dashboard_pie_tooltip b i = tooltip_label (dashboard_pie_labels ! i) (chart_counts (Some b)) i"

text \<open>\<open>trendsData = stats?.recent_trends || []\<close>, then
  \<open>trendsData.length > 0 ? <SentimentChart type="line"/> : "loading"\<close>. The outer \<open>None\<close>
  is a \<open>TypeError\<close> (a \<open>null\<close> point), \<open>Some None\<close> the "trend data loading" message.
  The labels are the points' dates through the formatter \<open>fmt\<close>.\<close>

definition trends_data :: "jsv \<Rightarrow> jsv" where
  "trends_data stats = js_or (opt_prop stats ''recent_trends'') (Arr [])"

definition trend_line :: "string \<Rightarrow> string \<Rightarrow> string \<Rightarrow> jsv list \<Rightarrow> jsv" where
  "trend_line label border bg pts =
     Obj [(''label'', Str label), (''data'', Arr pts), (''borderColor'', Str border), (''backgroundColor'', Str bg)]"

definition trends_section :: "(jsv \<Rightarrow> jsv) \<Rightarrow> jsv \<Rightarrow> chart_render option option" where
  "trends_section fmt stats =
     (let td = trends_data stats in
      case get_prop td ''length'' of
        None \<Rightarrow> None
      | Some l \<Rightarrow>
          if js_lt (Num 0) l then
            (case (arr_map (\<lambda>d. map_option fmt (get_prop d ''date'')) td, arr_map (\<lambda>d. get_prop d ''positive'') td,
                   arr_map (\<lambda>d. get_prop d ''negative'') td, arr_map (\<lambda>d. get_prop d ''neutral'') td) of
               (Some ls, Some ps, Some ns, Some us) \<Rightarrow>
                 Some (Some (sentiment_chart ''line''
                   (Some \<lparr>ci_labels = ls,
                          ci_datasets = [trend_line ''Pozitif'' ''#10B981'' ''rgba(16, 185, 129, 0.1)'' ps,
                                         trend_line ''Negatif'' ''#EF4444'' ''rgba(239, 68, 68, 0.1)'' ns,
                                         trend_line (''N'' @ [CHR 0xF6] @ ''tr'') ''#6B7280'' ''rgba(107, 114, 128, 0.1)'' us]\<rparr>)))
             | _ \<Rightarrow> None)
          else Some None)"

section \<open>Properties\<close>

lemma fixed1_string_nonneg: "0 \<le> t \<Longrightarrow> fixed1_string t = tenths_text (nat t)"
  by (simp add: fixed1_string_def tenths_text_def int_to_dec_def nat_div_distrib nat_mod_distrib)

lemma to_fixed_1_floor:
  assumes "0 \<le> m" and "0 < d"
  shows "to_fixed_1 m d = \<lfloor>of_int m * 10 / of_int d + 1 / (2 :: rat)\<rfloor>"
proof -
  have "(of_int (20 * m + d) / of_int (2 * d) :: rat) = of_int m * 10 / of_int d + 1 / 2"
    using assms(2) by (simp add: field_simps)
  then have "\<lfloor>of_int m * 10 / of_int d + 1 / (2 :: rat)\<rfloor> = (20 * m + d) div (2 * d)"
    by (metis floor_divide_of_int_eq)
  then show ?thesis using assms(1) by (simp add: to_fixed_1_def)
qed

lemma fixed1_matches_slice:
  assumes "0 \<le> n" and "0 < d"
  shows "fixed1_string (to_fixed_1 (n * 100) d) = to_fixed_1_text (of_int n / of_int d * 100)"
proof -
  have x: "0 \<le> (of_int n / of_int d * 100 :: rat)" using assms by simp
  have "of_int (n * 100) * 10 / of_int d = (of_int n / of_int d * 100 :: rat) * 10" by simp
  then have "to_fixed_1 (n * 100) d = \<lfloor>(of_int n / of_int d * 100 :: rat) * 10 + 1 / 2\<rfloor>"
    using to_fixed_1_floor [of "n * 100" d] assms by simp
  moreover have "0 \<le> to_fixed_1 (n * 100) d" using assms by (simp add: to_fixed_1_def pos_imp_zdiv_nonneg_iff)
  ultimately show ?thesis using x by (simp add: fixed1_string_nonneg to_fixed_1_text_def)
qed

text \<open>With the three labels only, the counts the pie is drawn from add up to the
  breakdown's total, so each slice's tooltip prints the breakdown's own count and the
  text of its rounded percentage.\<close>

lemma pie_counts_of_breakdown:
  assumes "breakdown_wf b" and "fst ` set b \<subseteq> {''POSITIVE'', ''NEGATIVE'', ''NEUTRAL''}"
      and "sentiment_breakdown (Some b) = Some v"
  shows "chart_counts (Some v) = map share_count [bv_positive v, bv_neutral v, bv_negative v] \<and>
         0 < sum_list (chart_counts (Some v)) \<and>
         map share_pct [bv_positive v, bv_neutral v, bv_negative v] =
           map (\<lambda>n. to_fixed_1 (n * 100) (sum_list (chart_counts (Some v)))) (chart_counts (Some v)) \<and>
         (\<forall>n \<in> set (chart_counts (Some v)). 0 \<le> n)"
proof -
  let ?t = "sum_list (map snd b)"
  have v: "?t \<noteq> 0" "v = \<lparr>bv_positive = share_of b ?t ''POSITIVE'', bv_negative = share_of b ?t ''NEGATIVE'',
                           bv_neutral = share_of b ?t ''NEUTRAL'', bv_total = ?t\<rparr>"
    using sentiment_breakdown_Some [OF assms(3)] by simp_all
  have tot: "?t = count_of b ''POSITIVE'' + count_of b ''NEGATIVE'' + count_of b ''NEUTRAL''"
    using three_counts_total [OF assms(1,2)] by simp
  have pos: "0 < ?t" using v(1) sum_nonneg [OF assms(1)] by simp
  show ?thesis using tot pos count_of_nonneg [OF assms(1)]
    by (simp add: v(2) chart_counts_def share_of_def algebra_simps)
qed

lemma slice_of_counts:
  assumes "\<forall>n \<in> set vals. 0 \<le> n" and "0 < sum_list vals" and "i < length vals"
  shows "slice_percentage vals i = fixed1_string (to_fixed_1 (vals ! i * 100) (sum_list vals))"
  using fixed1_matches_slice [of "vals ! i" "sum_list vals"] assms by (simp add: slice_percentage_def)

text \<open>C22: On the dashboard, for a breakdown of the three labels, the distribution
  section draws a pie through \<open>SentimentChart\<close>, and the tooltip of each slice shows the
  count and the percentage text (\<open>toFixed(1)\<close>) that \<open>useSentiment\<close>'s breakdown holds for
  that label.\<close>

theorem dashboard_pie_matches_breakdown:
  assumes "breakdown_wf b" and "fst ` set b \<subseteq> {''POSITIVE'', ''NEGATIVE'', ''NEUTRAL''}"
      and "sentiment_breakdown (Some b) = Some v" and "i < 3"
  shows "distribution_section (Some v) = Some (RenderChart (Own PieChart) (dashboard_pie_data (Some v))) \<and>
         dashboard_pie_tooltip v i =
           dashboard_pie_labels ! i @ '': '' @ int_to_dec (share_count ([bv_positive v, bv_neutral v, bv_negative v] ! i)) @
           '' ('' @ fixed1_string (share_pct ([bv_positive v, bv_neutral v, bv_negative v] ! i)) @ ''%)''"
proof -
  have c: "chart_counts (Some v) = map share_count [bv_positive v, bv_neutral v, bv_negative v]"
      and p: "0 < sum_list (chart_counts (Some v))"
      and s: "map share_pct [bv_positive v, bv_neutral v, bv_negative v] =
                map (\<lambda>n. to_fixed_1 (n * 100) (sum_list (chart_counts (Some v)))) (chart_counts (Some v))"
      and n: "\<forall>n \<in> set (chart_counts (Some v)). 0 \<le> n"
    using pie_counts_of_breakdown [OF assms(1-3)] by blast+
  have l: "i < length (chart_counts (Some v))" using c assms(4) by simp
  have i3: "i = 0 \<or> i = 1 \<or> i = 2" using assms(4) by auto
  have "share_pct ([bv_positive v, bv_neutral v, bv_negative v] ! i) =
          to_fixed_1 (chart_counts (Some v) ! i * 100) (sum_list (chart_counts (Some v)))"
    using arg_cong [OF s, of "\<lambda>xs. xs ! i"] c i3 by auto
  moreover have "share_count ([bv_positive v, bv_neutral v, bv_negative v] ! i) = chart_counts (Some v) ! i"
    using c i3 by auto
  ultimately show ?thesis
    using slice_of_counts [OF n p l]
    by (simp add: distribution_section_def sentiment_chart_def chart_components_def literal_get_def
                  dashboard_pie_data_def dashboard_pie_tooltip_def tooltip_label_def)
qed

theorem dashboard_pie_matches_breakdown_witness:
  "dashboard_pie_tooltip \<lparr>bv_positive = \<lparr>share_count = 2, share_pct = 667\<rparr>, bv_negative = \<lparr>share_count = 1, share_pct = 333\<rparr>,
                          bv_neutral = \<lparr>share_count = 0, share_pct = 0\<rparr>, bv_total = 3\<rparr> 0 = ''Pozitif: 2 (66.7%)''"
proof -
  let ?V = "\<lparr>bv_positive = \<lparr>share_count = 2, share_pct = 667\<rparr>, bv_negative = \<lparr>share_count = 1, share_pct = 333\<rparr>,
             bv_neutral = \<lparr>share_count = 0, share_pct = 0\<rparr>, bv_total = 3\<rparr>"
  have w: "breakdown_wf [(''POSITIVE'', 2), (''NEGATIVE'', 1)]" by simp
  have k: "fst ` set [(''POSITIVE'', 2), (''NEGATIVE'', (1::int))] \<subseteq> {''POSITIVE'', ''NEGATIVE'', ''NEUTRAL''}" by simp
  have b: "sentiment_breakdown (Some [(''POSITIVE'', 2), (''NEGATIVE'', 1)]) = Some ?V"
    by (simp add: sentiment_breakdown_def share_of_def to_fixed_1_def)
  have e: "dashboard_pie_tooltip ?V 0 =
             dashboard_pie_labels ! 0 @ '': '' @ int_to_dec (share_count ([bv_positive ?V, bv_neutral ?V, bv_negative ?V] ! 0)) @
             '' ('' @ fixed1_string (share_pct ([bv_positive ?V, bv_neutral ?V, bv_negative ?V] ! 0)) @ ''%)''"
    using conjunct2 [OF dashboard_pie_matches_breakdown [OF w k b zero_less_numeral]] .
  have r: "dashboard_pie_labels ! 0 @ '': '' @ int_to_dec (share_count ([bv_positive ?V, bv_neutral ?V, bv_negative ?V] ! 0)) @
             '' ('' @ fixed1_string (share_pct ([bv_positive ?V, bv_neutral ?V, bv_negative ?V] ! 0)) @ ''%)'' =
           ''Pozitif: 2 (66.7%)''"
    by code_simp
  from e r show ?thesis by (rule trans)
qed

text \<open>A fourth label splits them: the breakdown divides by every count, the pie by the
  three it draws. One positive and one mixed comment give a breakdown of 50.0% positive
  and a slice of 100.0%.\<close>

lemma dashboard_pie_other_label:
  "fixed1_string (share_pct (bv_positive (the (sentiment_breakdown (Some [(''POSITIVE'', 1), (''MIXED'', 1)]))))) = ''50.0'' \<and>
   slice_percentage (chart_counts (sentiment_breakdown (Some [(''POSITIVE'', 1), (''MIXED'', 1)]))) 0 = ''100.0''"
  by code_simp

text \<open>Without trend points the section says the trend data is loading, whether the
  statistics have not arrived, arrived without \<open>recent_trends\<close>, or arrived with an empty
  list: the message never gives way when the backend has no trends.\<close>

lemma trends_section_loading_forever:
  "trends_section fmt Undef = Some None \<and> trends_section fmt (Obj []) = Some None \<and>
   trends_section fmt (Obj [(''recent_trends'', Arr [])]) = Some None"
  by (simp add: trends_section_def trends_data_def obj_get_def js_or_def)

text \<open>With points, one line per label, each of the points' values in order.\<close>

lemma trends_section_lines:
  "trends_section fmt (Obj [(''recent_trends'', Arr [Obj [(''date'', Str d), (''positive'', Num p),
                                                         (''negative'', Num n), (''neutral'', Num u)]])]) =
     Some (Some (RenderChart (Own LineChart)
       \<lparr>ci_labels = [fmt (Str d)],
        ci_datasets = [trend_line ''Pozitif'' ''#10B981'' ''rgba(16, 185, 129, 0.1)'' [Num p],
                       trend_line ''Negatif'' ''#EF4444'' ''rgba(239, 68, 68, 0.1)'' [Num n],
                       trend_line (''N'' @ [CHR 0xF6] @ ''tr'') ''#6B7280'' ''rgba(107, 114, 128, 0.1)'' [Num u]]\<rparr>))"
  by (simp add: trends_section_def trends_data_def obj_get_def js_or_def arr_map_def sentiment_chart_def
                chart_components_def literal_get_def trend_line_def)

end
