(* ===== verification/Sentiment_Queries.thy ===== *)
theory Sentiment_Queries
  imports Sentiment_Hook Query_Cache
begin

text \<open>
  The rest of \<open>src/frontend/src/hooks/useSentiment.js\<close>: the three query hooks it
  returns (\<open>useTeamSentiment\<close>, \<open>useSentimentTrends\<close>, \<open>useTeamComparison\<close>), each a
  \<open>useQuery\<close> call given here by its key, whether it is enabled, its options for the
  cache of \<open>Query_Cache\<close> and its fetcher; the label text of
  \<open>formatSentimentLabel\<close>; and the combined loading and error flags.
\<close>

record query_spec =
  q_key :: "jsv list"
  q_enabled :: bool
  q_options :: query_options
  q_fetch :: "backend \<Rightarrow> jsv act"

definition use_team_sentiment :: "jsv \<Rightarrow> jsv \<Rightarrow> jsv \<Rightarrow> query_spec" where
  "use_team_sentiment tid start_date end_date =
     \<lparr>q_key = [Str ''team-sentiment'', tid, start_date, end_date], q_enabled = truthy tid,
      q_options = \<lparr>keep_previous = False, stale_time = 300000\<rparr>,
      q_fetch = (\<lambda>be. get_team_report be tid start_date end_date)\<rparr>"

definition use_sentiment_trends :: "jsv \<Rightarrow> query_spec" where
  "use_sentiment_trends days =
     \<lparr>q_key = [Str ''sentiment-trends'', days], q_enabled = True,
      q_options = \<lparr>keep_previous = False, stale_time = 300000\<rparr>,
      q_fetch = (\<lambda>be. get_sentiment_trends be days)\<rparr>"

definition use_team_comparison :: query_spec where
  "use_team_comparison =
     \<lparr>q_key = [Str ''team-sentiment-breakdown''], q_enabled = True,
      q_options = \<lparr>keep_previous = False, stale_time = 300000\<rparr>,
      q_fetch = get_team_sentiment_breakdown\<rparr>"

text \<open>\<open>formatSentimentLabel\<close>: the Turkish label of the class \<open>classify_label\<close> gives.\<close>

definition format_sentiment_label :: "jsv \<Rightarrow> string" where
  "format_sentiment_label v =
     (case classify_label v of
        TextPositive \<Rightarrow> ''Pozitif'' | TextNegative \<Rightarrow> ''Negatif''
      | TextNeutral \<Rightarrow> ''N'' @ [CHR 0xF6] @ ''tr'' | TextUnknown \<Rightarrow> ''Bilinmiyor'')"

text \<open>\<open>isLoading = statsLoading || summaryLoading\<close> and
  \<open>hasError = statsError || summaryError\<close>.\<close>

definition sentiment_loading :: "bool \<Rightarrow> bool \<Rightarrow> bool" where
  "sentiment_loading stats_loading summary_loading = (stats_loading \<or> summary_loading)"

definition sentiment_has_error :: "jsv \<Rightarrow> jsv \<Rightarrow> jsv" where
  "sentiment_has_error stats_error summary_error = js_or stats_error summary_error"

section \<open>Properties\<close>

text \<open>Each team and date window has its own cache entry, and a team query runs only
  for a truthy team identifier.\<close>

lemma team_sentiment_keys:
  "q_key (use_team_sentiment t s e) = q_key (use_team_sentiment t' s' e') \<longleftrightarrow> t = t' \<and> s = s' \<and> e = e'"
  by (simp add: use_team_sentiment_def)

lemma team_sentiment_enabled:
  "q_enabled (use_team_sentiment t s e) \<longleftrightarrow> t \<noteq> Undef \<and> t \<noteq> Null \<and> t \<noteq> Str [] \<and> t \<noteq> Num 0 \<and> t \<noteq> Bool False"
  by (cases t) (auto simp: use_team_sentiment_def)

text \<open>The label text follows the label in any letter case.\<close>

lemma format_sentiment_label_cases:
  "format_sentiment_label (Str ''positive'') = ''Pozitif'' \<and> format_sentiment_label (Str ''NEGATIVE'') = ''Negatif'' \<and>
   format_sentiment_label (Str ''Neutral'') = ''N'' @ [CHR 0xF6] @ ''tr'' \<and>
   format_sentiment_label (Str ''MIXED'') = ''Bilinmiyor'' \<and> format_sentiment_label Undef = ''Bilinmiyor''"
  by code_simp

end
