(* ===== verification/Dashboard_Queries.thy ===== *)
theory Dashboard_Queries
  imports Sentiment_Queries Comments_Hook Dashboard_Screen Dashboard_Charts
begin

text \<open>
  The queries and timers of \<open>src/frontend/src/components/Dashboard.jsx\<close> and the page
  they feed. The three \<open>useQuery\<close> calls are \<open>query_spec\<close>s as in
  \<open>Sentiment_Queries\<close>; the dashboard's comment statistics share the cache entry of
  \<open>useComments\<close>' query of the same key. The data query refetches every minute
  (\<open>refetchInterval\<close>) and an effect refetches it every five minutes
  (\<open>setInterval\<close>); both are given by the times, counted from mounting, at which they
  fire. The page assembles the header, the cards, the charts row, the ranked teams and
  the loading overlay from the definitions of \<open>Dashboard_Screen\<close> and
  \<open>Dashboard_Charts\<close>.
\<close>

section \<open>The queries\<close>

definition fetch_dashboard_data :: "backend \<Rightarrow> jsv act" where
  "fetch_dashboard_data be =
     catch_act (get_dashboard_data be)
       (\<lambda>e. bind_act (emit (LogError ''Error fetching dashboard data:'')) (\<lambda>_. throw_err e))"

definition dashboard_data_query :: query_spec where
  "dashboard_data_query =
     \<lparr>q_key = [Str ''dashboard-data''], q_enabled = True,
      q_options = \<lparr>keep_previous = False, stale_time = 30000\<rparr>, q_fetch = fetch_dashboard_data\<rparr>"

text \<open>A string key is the one-element key array.\<close>

definition dashboard_comment_stats_query :: query_spec where
  "dashboard_comment_stats_query =
     \<lparr>q_key = [Str ''comment-stats''], q_enabled = True,
      q_options = \<lparr>keep_previous = False, stale_time = 30000\<rparr>,
      q_fetch = (\<lambda>be. catch_act (get_comment_stats be)
                   (\<lambda>e. bind_act (emit (LogError ''Error fetching comment stats:'')) (\<lambda>_. throw_err e)))\<rparr>"

definition dashboard_team_comparison_query :: query_spec where
  "dashboard_team_comparison_query =
     \<lparr>q_key = [Str ''team-comparison''], q_enabled = True,
      q_options = \<lparr>keep_previous = False, stale_time = 300000\<rparr>,
      q_fetch = (\<lambda>be. catch_act (get_team_comparison be)
                   (\<lambda>e. bind_act (emit (LogError ''Error fetching team comparison:'')) (\<lambda>_. throw_err e)))\<rparr>"

text \<open>The comment statistics query of \<open>useComments\<close>.\<close>

definition comments_stats_query :: query_spec where
  "comments_stats_query =
     \<lparr>q_key = [Str ''comment-stats''], q_enabled = True, q_options = comment_stats_query_options,
      q_fetch = fetch_comment_stats\<rparr>"

section \<open>The timers\<close>

text \<open>The times up to \<open>t\<close> (milliseconds since mounting) at which
  \<open>refetchInterval: 60000\<close> and the effect's \<open>setInterval(..., 300000)\<close> refetch the
  dashboard data.\<close>

definition refetch_interval_ticks :: "nat \<Rightarrow> nat list" where
  "refetch_interval_ticks t = map (\<lambda>k. 60000 * k) [1..<t div 60000 + 1]"

definition auto_refresh_ticks :: "nat \<Rightarrow> nat list" where
  "auto_refresh_ticks t = map (\<lambda>k. 300000 * k) [1..<t div 300000 + 1]"

section \<open>The page\<close>

record dashboard_page =
  dp_refresh :: "bool \<times> refresh_label"
  dp_cards :: "(ustr \<times> string \<times> card_arrow \<times> string) list"
  dp_distribution :: "chart_render option"
  dp_trends :: "chart_render option"
  dp_teams :: team_list_view
  dp_overlay :: bool

text \<open>The returned tree: the refresh button, \<open>statsCards.map(...)\<close>, the distribution
  pie or its empty message, the trend lines or their loading message, the ranked teams,
  and the overlay under \<open>isLoading && (...)\<close>. \<open>None\<close> is a render that throws (a trend
  point that is \<open>null\<close>).\<close>

definition dashboard_page ::
  "(jsv \<Rightarrow> string) \<Rightarrow> (jsv \<Rightarrow> jsv) \<Rightarrow> bool \<Rightarrow> jsv \<Rightarrow> int \<Rightarrow> trend \<Rightarrow> jsv \<Rightarrow> breakdown_view option \<Rightarrow>
    jsv \<Rightarrow> bool \<Rightarrow> comparison_row list option \<Rightarrow> bool \<Rightarrow> bool \<Rightarrow> bool \<Rightarrow> dashboard_page option" where
  "dashboard_page loc fmt refreshing comment_stats score tr team_comparison breakdown stats
     teams_loading teams s_loading d_loading c_loading =
     map_option (\<lambda>trends.
       \<lparr>dp_refresh = refresh_button refreshing,
        dp_cards = map (card_view loc) (stats_cards comment_stats score tr team_comparison),
        dp_distribution = distribution_section breakdown, dp_trends = trends,
        dp_teams = team_list_view teams_loading teams,
        dp_overlay = dashboard_loading s_loading d_loading c_loading\<rparr>)
       (trends_section fmt stats)"

section \<open>Properties\<close>

text \<open>The dashboard and the comment list read the same cache entry of the comment
  statistics, fetched by the same request with the same error log, but the dashboard
  counts it stale after half the time the list does.\<close>

lemma comment_stats_shared:
  "q_key dashboard_comment_stats_query = q_key comments_stats_query \<and>
   q_fetch dashboard_comment_stats_query = q_fetch comments_stats_query \<and>
   stale_time (q_options dashboard_comment_stats_query) = 30000 \<and>
   stale_time (q_options comments_stats_query) = 60000"
  by (simp add: dashboard_comment_stats_query_def comments_stats_query_def comment_stats_query_options_def
      fetch_comment_stats_def fun_eq_iff)

text \<open>So an entry between thirty seconds and a minute old is refetched when the
  dashboard mounts and served as it is when the comment list mounts.\<close>

lemma comment_stats_staleness:
  assumes "qcache st k = Some (v, t)" and "30000 \<le> qclock st - t" and "qclock st - t < 60000"
  shows "needs_fetch (q_options dashboard_comment_stats_query) st k \<and>
         \<not> needs_fetch (q_options comments_stats_query) st k"
  using assms
  by (simp add: needs_fetch_def dashboard_comment_stats_query_def comments_stats_query_def
      comment_stats_query_options_def)

text \<open>The five-minute effect adds no refetch of its own: each of its ticks is a
  minute at which \<open>refetchInterval\<close> refetches already.\<close>

lemma auto_refresh_covered: "set (auto_refresh_ticks t) \<subseteq> set (refetch_interval_ticks t)"
proof
  fix x assume "x \<in> set (auto_refresh_ticks t)"
  then obtain k where k: "1 \<le> k" "k \<le> t div 300000" and x: "x = 300000 * k"
    by (auto simp: auto_refresh_ticks_def)
  have "t div 300000 = t div 60000 div 5" by (simp add: div_mult2_eq [symmetric])
  with k have "1 \<le> 5 * k" "5 * k \<le> t div 60000" by linarith+
  then show "x \<in> set (refetch_interval_ticks t)"
    using x by (force simp: refetch_interval_ticks_def image_iff)
qed

lemma refetch_ticks_count:
  "length (refetch_interval_ticks t) = t div 60000 \<and> length (auto_refresh_ticks t) = t div 300000"
  by (simp add: refetch_interval_ticks_def auto_refresh_ticks_def)

text \<open>Whenever the trend points render, the page renders with four cards, the overlay
  shown exactly while one of the three queries it waits for loads, and the team list
  as skeleton rows while the comparison loads.\<close>

lemma dashboard_page_renders:
  assumes "trends_section fmt stats = Some tr_view"
  shows "\<exists>p. dashboard_page loc fmt r cs sc tr tc b stats tload ts l1 l2 l3 = Some p \<and>
             length (dp_cards p) = 4 \<and> (dp_overlay p \<longleftrightarrow> l1 \<or> l2 \<or> l3) \<and>
             dp_trends p = tr_view \<and> (tload \<longrightarrow> dp_teams p = TeamListSkeleton 4)"
  using assms
  by (simp add: dashboard_page_def stats_cards_def dashboard_loading_def team_list_view_def)

end
