(* ===== verification/Comment_Page.thy ===== *)
theory Comment_Page
  imports Comment_List Query_Cache
begin

text \<open>
  The comment listing screen as the user drives it: \<open>CommentList\<close>
  (\<open>src/frontend/src/components/CommentList.jsx\<close>) over the state of \<open>useComments\<close>
  (\<open>src/frontend/src/hooks/useComments.js\<close>) and its listing query. The state is the
  form of \<open>Comment_List\<close>, the filters and selection of the hook, and the observer of
  the listing query (\<open>Query_Cache\<close>, keyed by the filter object, with the listing's
  options). The events are the form's, the select-all button of the table header, the
  check button of a displayed row, the two buttons of the bulk bar, the two pagination
  buttons, and the query's answers and failures and the passing of time. Every event
  that changes the filters switches the observer to the new key, as \<open>useQuery\<close> does on
  the next render. \<open>None\<close> is a handler that throws, or a page count that is not a
  number, which the pagination model leaves out.
\<close>

record comment_page =
  cp_form :: list_form
  cp_hook :: comments_hook
  cp_listing :: "(jsobj, jsv) qstate"

definition init_comment_page :: comment_page where
  "init_comment_page =
     \<lparr>cp_form = init_list_form, cp_hook = init_comments_hook [],
      cp_listing = \<lparr>qcache = Map.empty, qkey = init_filters [], qshown = None, qclock = 0\<rparr>\<rparr>"

datatype page_event =
    FormEvent list_event | SelectAllClick | RowClick nat | ClearSelectionClick | BulkClick
  | PagerClick page_click | ListingAnswer jsobj jsv | ListingFailure jsobj | Clock nat

text \<open>\<open>commentsData\<close>: the data the observer shows, \<open>undefined\<close> before any; and the
  rows of the table, \<open>comments.map(...)\<close> over \<open>commentsData?.comments || []\<close>.\<close>

definition comments_data :: "comment_page \<Rightarrow> jsv" where
  "comments_data p = (case qview comments_query_options (cp_listing p) of Some v \<Rightarrow> v | None \<Rightarrow> Undef)"

definition displayed :: "comment_page \<Rightarrow> jsv list" where
  "displayed p = (case comments_of (comments_data p) of Arr xs \<Rightarrow> xs | _ \<Rightarrow> [])"

definition set_selected :: "jsv list \<Rightarrow> comment_page \<Rightarrow> comment_page" where
  "set_selected sel p = p\<lparr>cp_hook := (cp_hook p)\<lparr>selected := sel\<rparr>\<rparr>"

text \<open>\<open>setFilters\<close>, and the observer taking the new key.\<close>

definition set_filters :: "jsobj \<Rightarrow> comment_page \<Rightarrow> comment_page" where
  "set_filters f p =
     p\<lparr>cp_hook := (cp_hook p)\<lparr>filters := f\<rparr>, cp_listing := qstep comments_query_options (SetKey f) (cp_listing p)\<rparr>"

definition listing_event :: "(jsobj, jsv) qevent \<Rightarrow> comment_page \<Rightarrow> comment_page" where
  "listing_event e p = p\<lparr>cp_listing := qstep comments_query_options e (cp_listing p)\<rparr>"

text \<open>One event. The header button calls \<open>selectAllComments\<close>; a row's button
  \<open>toggleCommentSelection(comment.id)\<close>; the bulk bar, shown while the selection is not
  empty, \<open>clearSelection\<close> and \<open>markSelectedAsProcessed\<close>; the pagination bar, shown for
  more than one page, \<open>setPage\<close> through \<open>click_handler\<close>.\<close>

fun page_step :: "backend \<Rightarrow> page_event \<Rightarrow> comment_page \<times> event list \<Rightarrow> (comment_page \<times> event list) option" where
  "page_step be (FormEvent e) (p, tr) =
     (case list_step e (cp_form p, filters (cp_hook p)) of
        (fm, f) \<Rightarrow> Some ((set_filters f p)\<lparr>cp_form := fm\<rparr>, tr))"
| "page_step be SelectAllClick (p, tr) =
     map_option (\<lambda>sel. (set_selected sel p, tr)) (select_all_comments (comments_data p) (selected (cp_hook p)))"
| "page_step be (RowClick i) (p, tr) =
     (if i < length (displayed p)
      then Some (set_selected (toggle_selection (opt_prop (displayed p ! i) ''id'') (selected (cp_hook p))) p, tr)
      else Some (p, tr))"
| "page_step be ClearSelectionClick (p, tr) =
     (if selected (cp_hook p) \<noteq> [] then Some (set_selected (clear_selection (selected (cp_hook p))) p, tr)
      else Some (p, tr))"
| "page_step be BulkClick (p, tr) =
     (if selected (cp_hook p) \<noteq> []
      then (case mark_selected_as_processed be (cp_hook p) tr of (h, tr') \<Rightarrow> Some (p\<lparr>cp_hook := h\<rparr>, tr'))
      else Some (p, tr))"
| "page_step be (PagerClick c) (p, tr) =
     (case total_pages (comments_data p) of
        Num tp \<Rightarrow>
          if pagination_shown tp
          then map_option (\<lambda>f. (set_filters f p, tr)) (click_handler tp c (filters (cp_hook p)))
          else Some (p, tr)
      | _ \<Rightarrow> None)"
| "page_step be (ListingAnswer f v) (p, tr) = Some (listing_event (Resolve f v) p, tr)"
| "page_step be (ListingFailure f) (p, tr) = Some (listing_event (Reject f) p, tr)"
| "page_step be (Clock d) (p, tr) = Some (listing_event (Tick d) p, tr)"

fun page_run :: "backend \<Rightarrow> page_event list \<Rightarrow> comment_page \<times> event list \<Rightarrow> (comment_page \<times> event list) option" where
  "page_run be [] s = Some s"
| "page_run be (e # es) s = Option.bind (page_step be e s) (page_run be es)"

text \<open>The screen's invariant: the form and filters satisfy \<open>list_inv\<close>, the filter
  object is well formed, and the listing query is keyed by the hook's filters.\<close>

definition page_inv :: "comment_page \<Rightarrow> bool" where
  "page_inv p =
     (list_inv (cp_form p, filters (cp_hook p)) \<and> filters_wf (filters (cp_hook p)) \<and>
      qkey (cp_listing p) = filters (cp_hook p))"

text \<open>Two pages of one comment each, for the scenario below.\<close>

definition two_pages :: "jsobj \<Rightarrow> jsv" where
  "two_pages f =
     Obj [(''comments'', Arr [Obj [(''id'', Str (if obj_get f ''page'' = Num 1 then ''c1'' else ''c2''))]]),
          (''total'', Num 2), (''total_pages'', Num 2)]"

section \<open>Properties\<close>

lemma update_filters_wf: "filters_wf (update_filters nf f)"
  unfolding update_filters_def by (rule filters_wf_spread) simp

lemma list_step_filters:
  "snd (list_step e (fm, f)) = f \<or> (\<exists>nf. snd (list_step e (fm, f)) = update_filters nf f)"
  by (cases e) (auto simp: handle_search_def handle_filter_change_def clear_all_filters_def)

lemma list_step_wf: "filters_wf f \<Longrightarrow> filters_wf (snd (list_step e (fm, f)))"
  using list_step_filters [of e fm f] update_filters_wf by auto

lemma offered_set_page:
  assumes "obj_wf f" and "offered f k vals" and "k \<noteq> ''page''"
  shows "offered (set_page v f) k vals"
  using assms by (auto simp: offered_def set_page_def obj_get_spread_append)

lemma list_inv_set_page:
  assumes "list_inv (fm, f)"
  shows "list_inv (fm, set_page v f)"
proof -
  have "obj_wf (set_page v f)" by (simp add: set_page_def)
  then show ?thesis using assms offered_set_page [of f] by (simp add: list_inv_def)
qed

lemma qkey_qstep_set: "qkey (qstep opts (SetKey k) st) = k"
  by (simp add: qstep_def qapply_def Let_def)

lemma qkey_qstep_other: "\<forall>k. e \<noteq> SetKey k \<Longrightarrow> qkey (qstep opts e st) = qkey st"
  by (cases e) (auto simp: qstep_def qapply_def Let_def)

lemma page_inv_set_filters:
  "list_inv (fm, f) \<Longrightarrow> filters_wf f \<Longrightarrow> page_inv ((set_filters f p)\<lparr>cp_form := fm\<rparr>)"
  by (simp add: page_inv_def set_filters_def qkey_qstep_set)

lemma page_inv_pager:
  assumes "page_inv p" and "click_handler tp c (filters (cp_hook p)) = Some f"
  shows "page_inv (set_filters f p)"
proof -
  from assms(2) obtain n where f: "f = set_page (Num n) (filters (cp_hook p))"
    by (auto simp: click_handler_def)
  have "list_inv (cp_form p, f)" "filters_wf f"
    using assms(1) list_inv_set_page [of "cp_form p" "filters (cp_hook p)"]
    by (simp_all add: page_inv_def f set_page_def filters_wf_spread_ext)
  then show ?thesis using page_inv_set_filters [of "cp_form p" f p] by (simp add: set_filters_def)
qed

lemma page_inv_listing: "page_inv p \<Longrightarrow> page_inv (listing_event (Resolve f v) p) \<and>
    page_inv (listing_event (Reject f) p) \<and> page_inv (listing_event (Tick d) p)"
  by (simp add: page_inv_def listing_event_def qkey_qstep_other)

lemma mark_selected_filters: "filters (fst (mark_selected_as_processed be h tr)) = filters h"
  by (simp add: mark_selected_as_processed_def bulk_processed_run_def split: prod.splits sum.splits)

lemma page_inv_step:
  assumes "page_inv p" and "page_step be e (p, tr) = Some (p', tr')"
  shows "page_inv p'"
proof (cases e)
  case (FormEvent le)
  then obtain fm f where l: "list_step le (cp_form p, filters (cp_hook p)) = (fm, f)" and
      p': "p' = (set_filters f p)\<lparr>cp_form := fm\<rparr>"
    using assms(2) by (auto split: prod.splits)
  have "list_inv (fm, f)" using list_inv_step [of "(cp_form p, filters (cp_hook p))" le] assms(1) l
    by (simp add: page_inv_def)
  moreover have "filters_wf f" using list_step_wf [of "filters (cp_hook p)" le "cp_form p"] assms(1) l
    by (simp add: page_inv_def)
  ultimately show ?thesis by (simp add: p' page_inv_set_filters)
next
  case (PagerClick c)
  then show ?thesis
    using assms page_inv_pager by (auto split: jsv.splits if_splits)
next
  case BulkClick
  then show ?thesis
    using assms mark_selected_filters [of be "cp_hook p" tr]
    by (auto simp: page_inv_def split: if_splits prod.splits)
qed (use assms page_inv_listing in \<open>auto simp: page_inv_def set_selected_def split: if_splits\<close>)

lemma page_inv_run:
  "page_inv p \<Longrightarrow> page_run be es (p, tr) = Some (p', tr') \<Longrightarrow> page_inv p'"
proof (induction es arbitrary: p tr)
  case (Cons e es)
  then obtain q trq where s: "page_step be e (p, tr) = Some (q, trq)" and
      r: "page_run be es (q, trq) = Some (p', tr')"
    by (auto simp: bind_eq_Some_conv)
  show ?case using Cons.IH [OF page_inv_step [OF Cons.prems(1) s] r] .
qed simp

lemma page_inv_init: "page_inv init_comment_page"
  using list_inv_init init_filters_wf by (simp add: page_inv_def init_comment_page_def init_comments_hook_def)

text \<open>C19: Whatever the user does on the comment listing screen (typing and submitting
  a search, picking, applying and clearing filters, selecting comments, marking them as
  processed, paging) and however the listing query answers, the listing query is keyed
  by the hook's current filter object, which keeps distinct keys and a page and filters
  by team, source and sentiment only with values the selects offer.\<close>

theorem comment_page_filters_offered:
  assumes "page_run be es (init_comment_page, []) = Some (p, tr)"
  shows "qkey (cp_listing p) = filters (cp_hook p) \<and> filters_wf (filters (cp_hook p)) \<and>
         offered (filters (cp_hook p)) ''team_id'' team_values \<and>
         offered (filters (cp_hook p)) ''source'' source_values \<and>
         offered (filters (cp_hook p)) ''sentiment'' sentiment_values"
  using page_inv_run [OF page_inv_init assms] by (simp add: page_inv_def list_inv_def)

lemma comment_page_filters_offered_witness:
  "(case page_run (\<lambda>_. NoResponse)
           [FormEvent ToggleFilterPanel, FormEvent (PickTeam ''besiktas''), FormEvent ApplyFilters]
           (init_comment_page, []) of
      Some (p, tr) \<Rightarrow> offered (filters (cp_hook p)) ''team_id'' team_values
    | None \<Rightarrow> False)"
proof -
  have "page_run (\<lambda>_. NoResponse)
          [FormEvent ToggleFilterPanel, FormEvent (PickTeam ''besiktas''), FormEvent ApplyFilters]
          (init_comment_page, []) \<noteq> None"
    by code_simp
  then obtain p tr where r: "page_run (\<lambda>_. NoResponse)
          [FormEvent ToggleFilterPanel, FormEvent (PickTeam ''besiktas''), FormEvent ApplyFilters]
          (init_comment_page, []) = Some (p, tr)"
    by fastforce
  show ?thesis using comment_page_filters_offered [OF r] unfolding r by simp
qed

text \<open>The selection is not tied to the page shown: after the first page arrives,
  selecting all, moving to the second page and its answer arriving, the selection
  still holds the first page's comment, none of whose rows is displayed, and the bulk
  button marks it as processed.\<close>

lemma selection_survives_page_change:
  "(case page_run (\<lambda>_. NoResponse)
           [ListingAnswer (init_filters []) (two_pages (init_filters [])), SelectAllClick, PagerClick NextClick,
            ListingAnswer (set_page (Num 2) (init_filters [])) (two_pages (set_page (Num 2) (init_filters []))),
            BulkClick]
           (init_comment_page, []) of
      Some (p, tr) \<Rightarrow> map (\<lambda>c. opt_prop c ''id'') (displayed p) = [Str ''c2''] \<and>
                     Send (bulk_request [Str ''c1'']) \<in> set tr
    | None \<Rightarrow> False)"
  by (simp add: init_comment_page_def init_comments_hook_def init_filters_def default_filters_def
      two_pages_def listing_event_def set_filters_def set_selected_def qstep_def qapply_def qview_def
      comments_data_def displayed_def select_all_comments_def total_pages_def click_handler_def page_num_def
      click_page_def pagination_shown_def next_disabled_def next_target_def set_page_def comments_of_def
      mark_selected_as_processed_def bulk_processed_run_apply obj_get_def effect_simps js_or_def js_simps)

end
