(* ===== verification/Ai_Summary_Page.thy ===== *)
theory Ai_Summary_Page
  imports Ai_Screens
begin

text \<open>
  The \<open>AISummary\<close> panel (\<open>src/frontend/src/components/AISummary.jsx\<close>) while a
  generation is in flight and as a whole page: \<open>generateSummary\<close> first sets
  \<open>loading\<close> and clears \<open>error\<close>, awaits the service, and settles as
  \<open>Ai_Screens.generate_summary\<close> gives; the header holds the collect button and the
  generate button, disabled and relabelled while loading, and the team line. The page
  lists the buttons that call \<open>generateSummary\<close>: the header's, the error panel's
  retry button and the empty state's button.
\<close>

text \<open>\<open>setLoading(true); setError(null)\<close> before the service is awaited; the summary shown
  before stays.\<close>

definition summary_start :: "ai_summary_ui \<Rightarrow> ai_summary_ui" where
  "summary_start st = st\<lparr>sum_loading := True, sum_error := None\<rparr>"

datatype generate_label = GeneratingLabel | GenerateLabel

record summary_header =
  sh_generate_disabled :: bool
  sh_generate_label :: generate_label
  sh_team :: string

text \<open>The header and the team line: \<open>disabled={loading}\<close>,
  the busy label while loading and the idle label otherwise, and \<open>{teamName}\<close>, which throws for an
  object.\<close>

definition summary_header :: "jsv \<Rightarrow> ai_summary_ui \<Rightarrow> summary_header option" where
  "summary_header tname st =
     map_option (\<lambda>t. \<lparr>sh_generate_disabled = sum_loading st,
                      sh_generate_label = (if sum_loading st then GeneratingLabel else GenerateLabel),
                      sh_team = t\<rparr>)
       (react_text tname)"

text \<open>The buttons of the page whose \<open>onClick\<close> is \<open>generateSummary\<close> and that can be
  pressed: the header's unless it is disabled, the retry button of the error panel and
  the button of the empty state, neither of which is ever disabled.\<close>

definition enabled_generate_buttons :: "ai_summary_ui \<Rightarrow> nat" where
  "enabled_generate_buttons st =
     (if sum_loading st then 0 else 1) +
     length (filter (\<lambda>p. case p of SummaryErrorPanel m \<Rightarrow> True | SummaryEmptyPanel \<Rightarrow> True | _ \<Rightarrow> False)
                    (summary_panels st))"

section \<open>Properties\<close>

text \<open>While a generation is in flight no button of the page can start another: the
  header's is disabled, and the error and empty panels, which carry the other two,
  are not shown. The loading panel is shown, above the previous summary when there was
  one.\<close>

lemma generation_in_flight:
  "enabled_generate_buttons (summary_start st) = 0 \<and>
   summary_panels (summary_start st) =
     SummaryLoadingPanel #
       (if truthy (sum_summary st) then [SummaryContent (sum_summary st) (topic_count (sum_summary st))] else [])"
  by (simp add: enabled_generate_buttons_def summary_panels_def summary_start_def)

text \<open>Once the call settles, whatever its outcome, the page offers the header's
  button again.\<close>

lemma generation_settled_enabled:
  "0 < enabled_generate_buttons (fst (generate_summary be tid now (summary_start st) tr))"
  by (simp add: enabled_generate_buttons_def generate_summary_def split: prod.splits sum.splits)

lemma summary_header_loading:
  "react_text tname = Some t \<Longrightarrow>
     summary_header tname (summary_start st) =
       Some \<lparr>sh_generate_disabled = True, sh_generate_label = GeneratingLabel, sh_team = t\<rparr>"
  by (simp add: summary_header_def summary_start_def)

end
