(* ===== verification/Spec2Isabelle.thy ===== *)
theory Spec2Isabelle
  imports Comments_Hook Sentiment_Hook Sentiment_Metrics Dashboard_Service Team_Logos Team_Service Groq_Service Query_Cache Comment_List Screens Realtime_Monitor Seed_Data Team_Comparison Dashboard_Screen Trend_Analysis Trend_Screen Trend_Page Ai_Screens Groq_Test Analyzer_Page App_Shell Settings_Page Category_Panel Charts Chart_Options Enhanced_Dashboard Dashboard_Charts Sentiment_Queries Dashboard_Queries Comment_Page Ai_Summary_Page
begin

text \<open>
  A shallow embedding of the fan-sentiment dashboard client (\<open>src/frontend/src\<close>): a
  React front end whose logic is an HTTP gateway client, stateless resource functions
  per backend resource, and two view-model hooks that combine cached queries, local
  state and mutations. The backend, the browser and the libraries are outside the
  repository; they appear as parameters or as models of their documented behaviour.

  \<^bold>\<open>Theories and what they model.\<close>
  \<^item> \<open>Prelude\<close>: the shared list vocabulary (joining and splitting on a separator,
    substring search \<open>str_includes\<close> with its characterisation \<open>str_includes_iff\<close>) and
    the code-unit strings \<open>ustr\<close> used where text leaves Latin-1.
  \<^item> \<open>Js_Values\<close>: JavaScript values \<open>jsv\<close> (objects as association lists in property
    order), truthiness and \<open>||\<close>, object spread (\<open>obj_assign\<close>), property access
    (\<open>get_prop\<close>, \<open>None\<close> being the \<open>TypeError\<close> of \<open>null.x\<close>), \<open>String(v)\<close>,
    \<open>trim\<close>, \<open>toLowerCase\<close>, the spread of \<open>{...v}\<close>, and lookups in object literals that
    also find \<open>Object.prototype\<close> members, JavaScript's \<open>+\<close> (\<open>js_add\<close>) and what
    JSX prints for a value (\<open>react_text\<close>, \<open>None\<close> for an object). Numbers are integers, except where scores
    are fractions (\<open>rat\<close> in \<open>Sentiment_Metrics\<close> and \<open>Groq_Service\<close>).
  \<^item> \<open>Url_Params\<close>: \<open>URLSearchParams\<close> serialisation with a parser, and the round trip
    \<open>url_parse_serialize\<close>.
  \<^item> \<open>Effects\<close>: the effect trace. A computation \<open>'a act\<close> maps the trace of events so
    far (console lines, toasts, requests handed to the network, cache invalidations)
    to an error (\<open>Inl\<close>, a rejected promise) or a value, with the longer trace. The
    backend is a parameter \<open>backend\<close> answering each request with an outcome.
  \<^item> \<open>Gateway\<close> (\<open>services/api.js\<close>): the axios instance, its request and response
    interceptors and \<open>apiClient\<close>; \<open>api_request\<close> logs, sends and \<open>settle\<close>s.
  \<^item> \<open>Comment_Service\<close>, \<open>Sentiment_Service\<close>, \<open>Dashboard_Service\<close>,
    \<open>Team_Service\<close>, \<open>Groq_Service\<close> (\<open>services/*.js\<close>): one definition per exported
    function, composed from the gateway calls the source makes; parallel requests
    (\<open>Promise.all\<close>) send every request before handling any answer (\<open>send_all\<close>,
    \<open>team_results\<close>) and handle the answers in list order.
  \<^item> \<open>Comments_Hook\<close> (\<open>hooks/useComments.js\<close>): the filter state and the selection
    as a record, the filter setters as a \<open>filter_op\<close> step function, the mutations with
    their \<open>onSuccess\<close>/\<open>onError\<close> handlers over the trace.
  \<^item> \<open>Sentiment_Hook\<close> and \<open>Sentiment_Metrics\<close> (\<open>hooks/useSentiment.js\<close>): the
    analysis history, the guarded actions, and the derived breakdown, score and trend
    with exact rounding (\<open>toFixed(1)\<close> and \<open>Math.round\<close> on the exact quotient).
  \<^item> \<open>Sentiment_Queries\<close> (\<open>hooks/useSentiment.js\<close>): the three query hooks as
    \<open>query_spec\<close> records (key, enabled flag, cache options, fetcher), the label text of
    \<open>formatSentimentLabel\<close> and the combined loading and error flags.
  \<^item> \<open>Team_Logos\<close> (\<open>utils/teamLogos.jsx\<close>): the name normalisation and the team
    heuristic over UTF-16 code units, and the \<open>TeamLogo\<close> component (\<open>team_logo\<close>).
  \<^item> \<open>Query_Cache\<close>: React Query's keyed cache seen by one observer, as a step function
    and the reachability relation \<open>qreach\<close>; the hooks' query options are the mapped part.
  \<^item> \<open>Comment_List\<close> (\<open>components/CommentList.jsx\<close>): the form state, the handlers
    that call \<open>updateFilters\<close>, the header count, the statistics cards (whose last card
    sums the breakdown with JavaScript's \<open>+\<close>, \<open>js_add\<close>), the bulk bar and how a bulk
    update removes it, the pagination buttons and the per-row decisions; the search and
    filter form as a run of events (\<open>list_step\<close>), through which the listing filters
    only by values the selects offer (\<open>listing_filters_offered\<close>).
  \<^item> \<open>Comment_Page\<close>: \<open>CommentList\<close> over \<open>useComments\<close> as one step function
    \<open>page_step\<close> (the form's events, select-all, the row buttons, the bulk bar and the
    pagination, and the listing query's answers, failures and ageing) over the form,
    the filters, the selection and the query's observer of \<open>Query_Cache\<close>; its
    invariant \<open>page_inv\<close> (the query keyed by the current filters, which stay well
    formed and offered) holds along every run (\<open>comment_page_filters_offered\<close>), and
    the selection outlives a page change (\<open>selection_survives_page_change\<close>).
  \<^item> \<open>Screens\<close> (\<open>App.jsx\<close>, \<open>components/Layout.jsx\<close>,
    \<open>components/SentimentAnalyzer.jsx\<close>): the route table, the navigation and its
    active-link test, and the two analysis handlers.
  \<^item> \<open>App_Shell\<close>: \<open>App\<close> inside \<open>Layout\<close> as a step function over the path and the
    sidebar flag (menu, backdrop, close, the links of both sidebars, a typed path); a
    link of the navigation renders its screen, highlights only itself and titles the
    page (\<open>mobile_link_shows_screen\<close>).
  \<^item> \<open>Settings_Page\<close> (\<open>components/Settings.jsx\<close>): the tab state, the values of the
    uncontrolled fields of the mounted panel (reset when a panel mounts again) and the
    panels; through any clicks the page shows exactly one panel and one active tab
    button (\<open>settings_one_panel\<close>).
  \<^item> \<open>Analyzer_Page\<close>: what \<open>components/SentimentAnalyzer.jsx\<close> renders, the result
    card and one card per history entry of \<open>useSentiment\<close>.
  \<^item> \<open>Realtime_Monitor\<close> (\<open>components/RealtimeMonitor.jsx\<close>): the polling query's
    handlers, the connection flag and the figure cards.
  \<^item> \<open>Team_Comparison\<close> (\<open>components/TeamComparison.jsx\<close>): the period selector,
    the query it keys, and each team card's colours, percentage and trend class.
  \<^item> \<open>Dashboard_Screen\<close> (\<open>components/Dashboard.jsx\<close>): \<open>handleRefresh\<close> as a
    sequence of four guarded steps over the trace, the two collection calls made with
    \<open>fetch\<close>, the statistics cards as data and as rendered, the refresh button and the
    ranked team list.
  \<^item> \<open>Trend_Analysis\<close> (\<open>components/TrendAnalysis.jsx\<close>): \<open>loadTrendData\<close> (two
    parallel requests), \<open>downloadReport\<close>, the chart builders and the insight texts.
    On answers of the documented shape (\<open>trend_payload_ok\<close>, \<open>insights_ok\<close>) the
    charts and insight cards are built without a \<open>TypeError\<close> (\<open>trend_views_total\<close>).
  \<^item> \<open>Trend_Screen\<close>: the same screen as a state machine \<open>trend_step\<close> over a record
    \<open>trend_screen\<close> whose events are period selection, the 30-second timer, the refresh
    button, the completion of a pending load, the tab buttons and the report
    downloads. Its reachable states are the inductive \<open>trend_reach\<close>, with the
    invariant \<open>trend_inv\<close> proved by rule induction. An abstract specification
    \<open>spec_op\<close> over \<open>trend_view\<close> (the period and the answer shown) is refined by the
    screen whenever loads do not overlap (\<open>conc_ops_refine\<close>: \<open>trend_abs\<close> commutes
    with the steps); every run that answers the loads in flight settles
    (\<open>trend_loads_settle\<close>, by induction over the answers, tracking the multiset of
    the identifiers in flight); at most one report is generated at a time
    (\<open>report_generation_exclusive\<close>). The period selector, the buttons and the tabs
    exist only when the page is not loading (\<open>controls_shown\<close>).
  \<^item> \<open>Trend_Page\<close>: what the screen renders from its state (the skeleton, the header,
    the summary cards, the tabs with the reports tab's buttons, and the debug view).
  \<^item> \<open>Json_Text\<close>: \<open>JSON.stringify(v, null, 2)\<close> as the debug view uses it, with a
    reference JSON reader; the round trip \<open>json_roundtrip\<close> is proved by induction over
    the value, with the reader's fuel bounded by the length of the text.
  \<^item> \<open>Ai_Screens\<close> (\<open>components/AISummary.jsx\<close>, \<open>TrendInsights.jsx\<close>,
    \<open>CategoryStats.jsx\<close>, \<open>GroqTest.jsx\<close>): each panel's state record, its handlers
    around the calls of \<open>Groq_Service\<close>, and what it renders from the answer.
  \<^item> \<open>Ai_Summary_Page\<close> (\<open>components/AISummary.jsx\<close>): the state while a summary
    is generated, the header's generate button and team line, and the buttons that can
    start a generation (\<open>generation_in_flight\<close>: none while one is in flight).
  \<^item> \<open>Category_Panel\<close> (\<open>components/CategoryStats.jsx\<close>): the detail card of each
    category (at most three keywords), the bar chart's axis and tooltip texts, the
    toxicity panel, and the whole panel after its early returns.
  \<^item> \<open>Groq_Test\<close> (\<open>components/GroqTest.jsx\<close>): the rendered test page (counter,
    button, error panel, result cells; \<open>react_text\<close> is what JSX prints for a value)
    and the page as a run of edits and test runs, through which it never shows an error
    together with a result nor stays on the loading panel
    (\<open>groq_test_error_excludes_result\<close>).
  \<^item> \<open>Charts\<close> (\<open>components/SentimentChart.jsx\<close>): the chart type lookup, the
    missing-data guard, the pie tooltip percentage, the distribution doughnut
    (\<open>sentiment_distribution_chart\<close>), and the data of the distribution,
    trend and team comparison charts.
  \<^item> \<open>Chart_Options\<close>: the options objects of \<open>SentimentChart\<close> and of the trend
    screen's charts as trees of literals
    and named callbacks, built with object spread (\<open>spread_into\<close>, whose lookup is
    proved to be map override), and the shallow merge with the caller's options
    (\<open>final_options_shallow\<close>).
  \<^item> \<open>Enhanced_Dashboard\<close> (\<open>components/EnhancedDashboard.jsx\<close>): the team list it
    fetches, the team selector with its options, the tab selection, and the panel each
    tab renders with its props.
  \<^item> \<open>Dashboard_Charts\<close> (\<open>components/Dashboard.jsx\<close> with \<open>SentimentChart.jsx\<close>):
    the dashboard's distribution pie, built from \<open>useSentiment\<close>'s breakdown and drawn
    through \<open>SentimentChart\<close>, and its seven-day trend lines.
  \<^item> \<open>Dashboard_Queries\<close> (\<open>components/Dashboard.jsx\<close>): the dashboard's three
    queries as \<open>query_spec\<close>s, the comment statistics entry it shares with
    \<open>useComments\<close> (\<open>comment_stats_shared\<close>, \<open>comment_stats_staleness\<close>), the ticks
    of \<open>refetchInterval\<close> and of the five-minute effect (\<open>auto_refresh_covered\<close>: the
    effect adds no refetch), and the whole page assembled from its sections.
  \<^item> \<open>Seed_Data\<close> (\<open>src/scripts/init-mongo.js\<close>): the database initialisation as a
    sequence of operations on a modelled database that fail on an existing collection
    or a duplicate key, and the seeded teams checked against the front end's heuristics.
  \<^item> This theory: the properties that relate two components.

  \<^bold>\<open>What the lemmas show.\<close> Filter updates return to page 1 and keep the filter
  object well formed under any sequence of setters; the selection toggles and resets as
  specified; bulk processing, analysis and batch actions validate before any request and
  handle success and failure as specified; the history keeps the ten newest entries; the
  derived percentages and scores stay in range and round correctly, and the hook's score
  agrees with the dashboard's on three-label breakdowns (\<open>overall_score_matches_dashboard\<close>);
  the gateway notifies by status and rethrows; polling and team reads tolerate failures;
  the top-teams ranking is a stable descending sort cut at the limit; the listing never
  goes blank under \<open>keepPreviousData\<close>. The trend screen refines its specification
  when loads do not overlap and shows a stale answer when they do
  (\<open>stale_answer_shown\<close>); a failed trend load sends both requests, keeps the data and
  ends with the error toast; the dashboard refresh reports success whatever the backend
  answers; chart lines, tooltips and cards agree with the payload, and the dashboard
  pie's tooltips show the breakdown's own percentages for the three labels
  (\<open>dashboard_pie_matches_breakdown\<close>). Lemmas named after a
  finding (\<open>process_unprocessed_saves_nothing\<close>, \<open>export_csv_always_rejects\<close>,
  \<open>http_failure_null_body\<close>, \<open>format_number_thousand_k\<close>,
  \<open>tottenham_is_trabzonspor\<close>, \<open>overall_score_other_label_differs\<close>,
  \<open>loading_cleared_early\<close>, \<open>weekly_change_negative_zero\<close>,
  \<open>collect_comments_500_success\<close>, \<open>inherited_chart_type\<close>,
  \<open>id_only_team_queried_as_all\<close>, \<open>init_mongo_once\<close>,
  \<open>dashboard_pie_other_label\<close>, \<open>trends_section_loading_forever\<close>,
  \<open>team_without_points_breaks_chart\<close>, \<open>timer_ticks_accumulate\<close>,
  \<open>refresh_spinner_unreachable\<close>, \<open>team_row_missing_change\<close>,
  \<open>analysed_card_concatenates_strings\<close>, \<open>success_without_results_blank\<close>,
  \<open>keywords_string_breaks_panel\<close>, \<open>analysis_without_result_breaks_page\<close>,
  \<open>settings_edits_lost\<close>, \<open>team_chart_loses_defaults\<close>,
  \<open>auto_refresh_covered\<close>, \<open>selection_survives_page_change\<close>) record where the code
  departs from what it means or from the specification.

  \<^bold>\<open>Bounds and choices.\<close> No definition of the program uses fuel: every loop of the
  source is a structural recursion over a finite list, and every function terminates
  (the JSON printer by a measure on the size of the value); the 30-second timer and the pending loads of the trend screen are events of a step
  relation rather than a loop. Only the reference JSON reader runs with fuel, one more
  than the length of its input, which is enough for every printed value
  (\<open>json_at_length\<close>: a value's size is at most the length of its text). Rounding is
  computed on the exact rational quotient;
  the double that JavaScript divides first is not modelled, which can only matter for a
  value lying exactly on a rounding tie. Parallel answers are handled in request order;
  any other completion order changes only the order of the notifications in the trace.
  Dates from the clock are parameters.

  \<^bold>\<open>Not modelled.\<close> The markup, styling and icons of the components, the drawing
  of the charts (Chart.js), date formatting (\<open>Intl.DateTimeFormat\<close>,
  \<open>toLocaleString\<close>), the static page \<open>components/TestPage.jsx\<close> (markup only),
  the build tooling, the browser's
  routing library and React's rendering; the React Query scheduler (retries, window-focus
  refetching) is represented only by the cache events it would cause and the refetch
  intervals only by the times at which they fire, and MongoDB only by the behaviour the seeding script relies on.
\<close>

section \<open>Two computations of the overall score\<close>

text \<open>C21: \<open>useSentiment\<close>'s \<open>overallSentimentScore\<close> (over \<open>sentimentBreakdown\<close>) and
  \<open>dashboardService.calculateSentimentScore\<close> agree on every breakdown of the three
  labels, and both answer 50 when there is none.\<close>

theorem overall_score_matches_dashboard:
  assumes "breakdown_wf b" and "fst ` set b \<subseteq> {''POSITIVE'', ''NEGATIVE'', ''NEUTRAL''}"
  shows "overall_sentiment_score (sentiment_breakdown (Some b)) = calculate_sentiment_score (Some b) \<and>
         overall_sentiment_score (sentiment_breakdown None) = calculate_sentiment_score None"
proof -
  have tot: "sum_list (map snd b) =
      count_of b ''POSITIVE'' + count_of b ''NEGATIVE'' + count_of b ''NEUTRAL''"
    using three_counts_total [OF assms] by simp
  have none: "overall_sentiment_score (sentiment_breakdown None) = calculate_sentiment_score None"
    by (simp add: sentiment_breakdown_def overall_sentiment_score_def calculate_sentiment_score_def)
  show ?thesis
  proof (cases "sum_list (map snd b) = 0")
    case True
    then show ?thesis using tot
      by (simp add: sentiment_breakdown_def overall_sentiment_score_def calculate_sentiment_score_def Let_def)
  next
    case False
    then obtain v where v: "sentiment_breakdown (Some b) = Some v"
      by (simp add: sentiment_breakdown_def Let_def)
    show ?thesis using overall_score_Some [OF v] False tot none
      by (simp add: v calculate_sentiment_score_def Let_def)
  qed
qed

theorem overall_score_matches_dashboard_witness:
  "overall_sentiment_score (sentiment_breakdown (Some [(''POSITIVE'', 3), (''NEGATIVE'', 1)])) = 75 \<and>
   calculate_sentiment_score (Some [(''POSITIVE'', 3), (''NEGATIVE'', 1)]) = 75"
proof -
  have "breakdown_wf [(''POSITIVE'', 3), (''NEGATIVE'', 1)]" by simp
  moreover have "fst ` set [(''POSITIVE'', 3), (''NEGATIVE'', (1::int))] \<subseteq> {''POSITIVE'', ''NEGATIVE'', ''NEUTRAL''}"
    by simp
  moreover have "calculate_sentiment_score (Some [(''POSITIVE'', 3), (''NEGATIVE'', 1)]) = 75"
    by (simp add: calculate_sentiment_score_def math_round_def)
  ultimately show ?thesis using overall_score_matches_dashboard by metis
qed

text \<open>A fourth label splits them: \<open>useSentiment\<close> divides by the sum of every count,
  \<open>calculateSentimentScore\<close> by the sum of the three it reads.\<close>

lemma overall_score_other_label_differs:
  "overall_sentiment_score (sentiment_breakdown (Some [(''POSITIVE'', 1), (''MIXED'', 1)])) = 50 \<and>
   calculate_sentiment_score (Some [(''POSITIVE'', 1), (''MIXED'', 1)]) = 100"
  by (simp add: sentiment_breakdown_def overall_sentiment_score_def share_of_def math_round_def
      calculate_sentiment_score_def)

end
